(* ===== verification/Go_Prelude.thy ===== *)
theory Go_Prelude
  imports Main "HOL-Library.Word" "HOL-Library.Monad_Syntax" "HOL-Library.Finite_Map"
    "HOL-Library.List_Lexorder" "HOL-Library.Char_ord" "HOL-Library.Sublist"
begin

text \<open>
  The prelude of the development: how Go values are written in HOL, the third-party
  functions the provider calls (as parameters, with the documented behaviour it relies on
  as named predicates), the types shared by all controllers, and the two interfaces that
  every resource client implements (\<open>late_initializer\<close> and \<open>desired_state\<close>).

  Go values.
  \<^item> A pointer that may be nil is an \<open>option\<close>; a pointer is always read through a check or
    a dereference, and pointer identity plays no role in the modelled code.
  \<^item> A slice is \<open>'a slice\<close>, that is \<open>'a list option\<close>, with \<open>None\<close> for the nil slice: the code
    tells a nil slice from an empty one (\<open>in.Bindings == nil\<close>). A map is an optional
    finite map in the same way. A slice of pointers is an \<open>'a option slice\<close>.
  \<^item> \<open>int64\<close> is a 64-bit word, read as a signed number by \<open>sint\<close>; \<open>[]byte\<close> and \<open>string\<close> are
    both \<open>string\<close> (a list of bytes).
  \<^item> A function whose body may dereference a nil pointer returns an \<open>option\<close>: \<open>None\<close> means
    that it panics. Such functions are composed by \<open>do\<close> blocks of the option monad.
  \<^item> A method that assigns fields through a pointer takes the object and returns the new
    one. \<open>DeepCopy\<close> is the identity on values.
\<close>

section \<open>Simp collections\<close>

named_theorems late_init_simps \<open>what the late-initialisation helpers keep and when they settle\<close>
named_theorems keeps_defs \<open>definitions of the predicates ``every set field is kept''\<close>

section \<open>Go values\<close>

type_synonym int64 = "64 word"
type_synonym 'a slice = "'a list option"
type_synonym strmap = "(string, string) fmap option"
type_synonym bytes = string

definition elems :: "'a slice \<Rightarrow> 'a list" where
  "elems s = (case s of None \<Rightarrow> [] | Some xs \<Rightarrow> xs)"

definition len :: "'a slice \<Rightarrow> nat" where
  "len s = length (elems s)"

definition append_slice :: "'a slice \<Rightarrow> 'a \<Rightarrow> 'a slice" where
  "append_slice s x = Some (elems s @ [x])"

definition map_empty :: "(string, 'v) fmap option \<Rightarrow> bool" where
  \<comment> \<open>\<open>len(m) == 0\<close>, which holds of the nil map and of an empty one\<close>
  "map_empty m = (case m of None \<Rightarrow> True | Some f \<Rightarrow> f = fmempty)"

lemma elems_simps [simp]: "elems None = []" "elems (Some xs) = xs"
  by (simp_all add: elems_def)

lemma len_simps [simp]: "len None = 0" "len (Some xs) = length xs"
  by (simp_all add: len_def)

lemma len_eq_0: "len s = 0 \<longleftrightarrow> elems s = []"
  by (simp add: len_def)

lemma elems_append_slice [simp]: "elems (append_slice s x) = elems s @ [x]"
  by (simp add: append_slice_def)

lemma map_empty_simps [simp]: "map_empty None" "map_empty (Some f) \<longleftrightarrow> f = fmempty"
  by (simp_all add: map_empty_def)

text \<open>A loop that builds a slice element by element, and whose body may panic.\<close>

fun mapP :: "('a \<Rightarrow> 'b option) \<Rightarrow> 'a list \<Rightarrow> 'b list option" where
  "mapP f [] = Some []"
| "mapP f (x # xs) = do { y \<leftarrow> f x; ys \<leftarrow> mapP f xs; Some (y # ys) }"

lemma mapP_Some_iff: "mapP f xs = Some ys \<longleftrightarrow> list_all2 (\<lambda>x y. f x = Some y) xs ys"
proof (induction xs arbitrary: ys)
  case Nil
  then show ?case by auto
next
  case (Cons x xs)
  then show ?case by (cases ys) (auto simp: bind_eq_Some_conv)
qed

lemma mapP_Some_map: "(\<And>x. x \<in> set xs \<Longrightarrow> f x = Some (g x)) \<Longrightarrow> mapP f xs = Some (map g xs)"
  by (induction xs) auto

lemma mapP_None_iff: "mapP f xs = None \<longleftrightarrow> (\<exists>x\<in>set xs. f x = None)"
  by (induction xs) (auto simp: Option.bind_eq_None_conv)

lemma mapP_length: "mapP f xs = Some ys \<Longrightarrow> length ys = length xs"
  by (simp add: mapP_Some_iff list_all2_lengthD)

text \<open>String functions of Go's standard library that the provider uses.\<close>

definition HasPrefix :: "string \<Rightarrow> string \<Rightarrow> bool" where
  "HasPrefix s p = prefix p s"

definition TrimPrefix :: "string \<Rightarrow> string \<Rightarrow> string" where
  "TrimPrefix s p = (if HasPrefix s p then drop (length p) s else s)"

fun Join :: "string list \<Rightarrow> string \<Rightarrow> string" where
  "Join [] sep = []"
| "Join [s] sep = s"
| "Join (s # t # ts) sep = s @ sep @ Join (t # ts) sep"

text \<open>\<open>strings.ReplaceAll s old new\<close> for a non-empty \<open>old\<close>: the non-overlapping occurrences of
  \<open>old\<close>, found from the left.\<close>

function ReplaceAll :: "string \<Rightarrow> string \<Rightarrow> string \<Rightarrow> string" where
  "ReplaceAll s old new =
     (if s = [] then []
      else if old \<noteq> [] \<and> prefix old s then new @ ReplaceAll (drop (length old) s) old new
      else hd s # ReplaceAll (tl s) old new)"
  by pat_completeness auto
termination
  by (relation "measure (\<lambda>(s, _, _). length s)") auto

declare ReplaceAll.simps [simp del]

text \<open>\<open>strings.ToLower\<close> on the ASCII letters.\<close>

definition ToLower :: "string \<Rightarrow> string" where
  "ToLower s = map (\<lambda>c. if CHR ''A'' \<le> c \<and> c \<le> CHR ''Z'' then char_of (of_char c + 32 :: nat) else c) s"

text \<open>\<open>path.Base\<close>: trailing slashes are removed, then everything up to the last slash; the
  empty path gives ``.'' and a path of slashes only gives ``/''.\<close>

definition path_Base :: "string \<Rightarrow> string" where
  "path_Base p =
     (if p = [] then ''.''
      else let t = rev (dropWhile (\<lambda>c. c = CHR ''/'') (rev p));
               b = rev (takeWhile (\<lambda>c. c \<noteq> CHR ''/'') (rev t))
           in if b = [] then ''/'' else b)"

lemma TrimPrefix_append [simp]: "TrimPrefix (p @ s) p = s"
  by (simp add: TrimPrefix_def HasPrefix_def)

lemma ReplaceAll_no_match:
  "\<not> sublist old s \<Longrightarrow> ReplaceAll s old new = s"
proof (induction s)
  case Nil
  then show ?case by (simp add: ReplaceAll.simps)
next
  case (Cons c s)
  then have "\<not> sublist old s" and "\<not> prefix old (c # s)"
    by (auto simp: sublist_Cons_right)
  with Cons.IH show ?case by (simp add: ReplaceAll.simps [of "c # s"])
qed

section \<open>Third-party packages\<close>

text \<open>
  The packages the provider imports are parameters. \<open>'e\<close> is the type of non-nil error values;
  an \<open>error\<close> result is an \<open>'e option\<close>.
  \<^item> \<open>errors_New\<close>, \<open>errors_Wrap\<close>: \<^verbatim>\<open>github.com/pkg/errors\<close>; \<open>Wrap\<close> returns nil for a nil error.
  \<^item> \<open>resource_Ignore\<close>: \<^verbatim>\<open>crossplane-runtime/pkg/resource.Ignore\<close>, nil for an error that
    satisfies the predicate, the error itself otherwise.
  \<^item> \<open>googleapi_Code\<close>: the type assertion \<open>err.(*googleapi.Error)\<close> with the \<open>Code\<close> field of
    the result; \<open>None\<close> when the assertion fails. \<open>grpc_Code\<close> likewise for the
    \<open>GRPCStatus\<close> interface.
\<close>

record 'e runtime =
  errors_New :: "string \<Rightarrow> 'e"
  errors_Wrap :: "'e option \<Rightarrow> string \<Rightarrow> 'e option"
  resource_Ignore :: "('e option \<Rightarrow> bool) \<Rightarrow> 'e option \<Rightarrow> 'e option"
  googleapi_Code :: "'e \<Rightarrow> int option"
  grpc_Code :: "'e \<Rightarrow> nat option"

definition wrap_ok :: "'e runtime \<Rightarrow> bool" where
  "wrap_ok L \<longleftrightarrow> (\<forall>e m. errors_Wrap L e m = None \<longleftrightarrow> e = None)"

definition ignore_ok :: "'e runtime \<Rightarrow> bool" where
  "ignore_ok L \<longleftrightarrow> (\<forall>p e. resource_Ignore L p e = (if p e then None else e))"

text \<open>
  \<^verbatim>\<open>google/go-cmp\<close>. Every call \<open>cmp.Equal(x, y, opts...)\<close> is a parameter of its own, since its
  meaning depends on the options. Documented: equality of the two values after the options
  have been applied. \<open>cmp_modulo n eq\<close> says so for options that compare the values up to the
  normal form \<open>n\<close>; without options the comparison is exact (\<open>cmp_exact\<close>).
\<close>

type_synonym 'a comparer = "'a \<Rightarrow> 'a \<Rightarrow> bool"

definition cmp_modulo :: "('a \<Rightarrow> 'n) \<Rightarrow> 'a comparer \<Rightarrow> bool" where
  "cmp_modulo n eq \<longleftrightarrow> (\<forall>x y. eq x y \<longleftrightarrow> n x = n y)"

definition cmp_exact :: "'a comparer \<Rightarrow> bool" where
  "cmp_exact eq \<longleftrightarrow> (\<forall>x y. eq x y \<longleftrightarrow> x = y)"

definition cmp_refl :: "'a comparer \<Rightarrow> bool" where
  "cmp_refl eq \<longleftrightarrow> (\<forall>x. eq x x)"

text \<open>
  Where the options are too rich for a normal form, two weaker facts are enough:
  \<open>cmp_respects n eq\<close>, the values that agree on \<open>n\<close> compare equal, and \<open>cmp_sound n eq\<close>, the
  values that compare equal agree on \<open>n\<close>.
\<close>

definition cmp_respects :: "('a \<Rightarrow> 'n) \<Rightarrow> 'a comparer \<Rightarrow> bool" where
  "cmp_respects n eq \<longleftrightarrow> (\<forall>x y. n x = n y \<longrightarrow> eq x y)"

definition cmp_sound :: "('a \<Rightarrow> 'n) \<Rightarrow> 'a comparer \<Rightarrow> bool" where
  "cmp_sound n eq \<longleftrightarrow> (\<forall>x y. eq x y \<longrightarrow> n x = n y)"

text \<open>
  \<^verbatim>\<open>mitchellh/copystructure\<close>: \<open>Copy\<close> returns an error or an interface value, whose type
  assertion to the expected pointer type succeeds (\<open>Some\<close>) or not (\<open>None\<close>). Documented: a
  deep copy of the argument.
\<close>

type_synonym ('a, 'e) copier = "'a \<Rightarrow> 'e + 'a option"

definition copy_ok :: "('a, 'e) copier \<Rightarrow> bool" where
  "copy_ok c \<longleftrightarrow> (\<forall>x. c x = Inr (Some x))"

lemmas third_party_defs =
  wrap_ok_def ignore_ok_def cmp_modulo_def cmp_exact_def cmp_refl_def cmp_respects_def
  cmp_sound_def copy_ok_def

lemma wrap_okD [simp]: "wrap_ok L \<Longrightarrow> errors_Wrap L e m = None \<longleftrightarrow> e = None"
  by (simp add: wrap_ok_def)

lemma wrap_okD_ex [simp]: "wrap_ok L \<Longrightarrow> \<exists>y. errors_Wrap L (Some e) m = Some y"
  by (metis option.exhaust option.simps(3) wrap_ok_def)

lemma ignore_okD [simp]: "ignore_ok L \<Longrightarrow> resource_Ignore L p e = (if p e then None else e)"
  by (simp add: ignore_ok_def)

lemma cmp_moduloD: "cmp_modulo n eq \<Longrightarrow> eq x y \<longleftrightarrow> n x = n y"
  by (simp add: cmp_modulo_def)

lemma cmp_exactD: "cmp_exact eq \<Longrightarrow> eq x y \<longleftrightarrow> x = y"
  by (simp add: cmp_exact_def)

lemma cmp_reflD: "cmp_refl eq \<Longrightarrow> eq x x"
  by (simp add: cmp_refl_def)

lemma copy_okD: "copy_ok c \<Longrightarrow> c x = Inr (Some x)"
  by (simp add: copy_ok_def)

lemma cmp_modulo_refl: "cmp_modulo n eq \<Longrightarrow> cmp_refl eq"
  by (simp add: cmp_modulo_def cmp_refl_def)

text \<open>A concrete instance of the packages, used where a witness evaluates a definition.\<close>

datatype sample_error = New string | Wrapped sample_error string | ApiError int | GrpcError nat

definition sample_runtime :: "sample_error runtime" where
  "sample_runtime = \<lparr>
     errors_New = New,
     errors_Wrap = (\<lambda>e m. map_option (\<lambda>x. Wrapped x m) e),
     resource_Ignore = (\<lambda>p e. if p e then None else e),
     googleapi_Code = (\<lambda>e. case e of ApiError c \<Rightarrow> Some c | _ \<Rightarrow> None),
     grpc_Code = (\<lambda>e. case e of GrpcError c \<Rightarrow> Some c | _ \<Rightarrow> None)\<rparr>"

lemma sample_runtime_ok: "wrap_ok sample_runtime" "ignore_ok sample_runtime"
  by (simp_all add: third_party_defs sample_runtime_def)

section \<open>Managed resources\<close>

text \<open>
  A reference to another custom resource is its name; a selector matches labels and, if it
  says so, the controller reference.
\<close>

type_synonym Reference = string

record Selector =
  MatchLabels :: strmap
  MatchControllerRef :: "bool option"

text \<open>
  The conditions of \<^verbatim>\<open>crossplane-runtime\<close>. \<open>SetConditions\<close> is kept as the list of the
  conditions that have been set, oldest first: the effect of a call on the stored conditions
  is the business of that package.
\<close>

datatype condition = Available | Creating | Deleting | Unavailable

text \<open>
  A custom resource: its metadata as \<open>meta.GetExternalName\<close>, \<open>meta.WasDeleted\<close> and the
  provider references read it, \<open>Spec.ForProvider\<close>, \<open>Status.AtProvider\<close> and the conditions.
\<close>

record ('p, 'o) managed =
  ExternalName :: string
  WasDeleted :: bool
  ProviderConfigReference :: "string option"
  ProviderReference :: "string option"
  Conditions :: "condition list"
  ForProvider :: 'p
  AtProvider :: 'o

definition SetConditions :: "condition \<Rightarrow> ('p, 'o) managed \<Rightarrow> ('p, 'o) managed" where
  "SetConditions c cr = cr\<lparr>Conditions := Conditions cr @ [c]\<rparr>"

lemma SetConditions_simps [simp]:
  "ExternalName (SetConditions c cr) = ExternalName cr"
  "WasDeleted (SetConditions c cr) = WasDeleted cr"
  "ForProvider (SetConditions c cr) = ForProvider cr"
  "AtProvider (SetConditions c cr) = AtProvider cr"
  "Conditions (SetConditions c cr) = Conditions cr @ [c]"
  by (simp_all add: SetConditions_def)

type_synonym ConnectionDetails = "(string, bytes) fmap option"

text \<open>The keys of a connection secret that \<^verbatim>\<open>crossplane-runtime\<close> defines.\<close>

definition ResourceCredentialsSecretUserKey :: string where
  "ResourceCredentialsSecretUserKey = ''username''"
definition ResourceCredentialsSecretPasswordKey :: string where
  "ResourceCredentialsSecretPasswordKey = ''password''"
definition ResourceCredentialsSecretEndpointKey :: string where
  "ResourceCredentialsSecretEndpointKey = ''endpoint''"
definition ResourceCredentialsSecretPortKey :: string where
  "ResourceCredentialsSecretPortKey = ''port''"
definition ResourceCredentialsSecretCAKey :: string where
  "ResourceCredentialsSecretCAKey = ''clusterCA''"
definition ResourceCredentialsSecretClientCertKey :: string where
  "ResourceCredentialsSecretClientCertKey = ''clientCert''"
definition ResourceCredentialsSecretClientKeyKey :: string where
  "ResourceCredentialsSecretClientKeyKey = ''clientKey''"
definition ResourceCredentialsSecretKubeconfigKey :: string where
  "ResourceCredentialsSecretKubeconfigKey = ''kubeconfig''"

lemmas secret_key_defs =
  ResourceCredentialsSecretUserKey_def
  ResourceCredentialsSecretPasswordKey_def
  ResourceCredentialsSecretEndpointKey_def
  ResourceCredentialsSecretPortKey_def
  ResourceCredentialsSecretCAKey_def
  ResourceCredentialsSecretClientCertKey_def
  ResourceCredentialsSecretClientKeyKey_def
  ResourceCredentialsSecretKubeconfigKey_def

record ExternalObservation =
  ResourceExists :: bool
  ResourceUpToDate :: bool
  ResourceLateInitialized :: bool
  ObservedDetails :: ConnectionDetails

definition ExternalObservation0 :: ExternalObservation where
  "ExternalObservation0 = \<lparr>ResourceExists = False, ResourceUpToDate = False,
     ResourceLateInitialized = False, ObservedDetails = None\<rparr>"

record ExternalCreation =
  ExternalNameAssigned :: bool
  CreatedDetails :: ConnectionDetails

definition ExternalCreation0 :: ExternalCreation where
  "ExternalCreation0 = \<lparr>ExternalNameAssigned = False, CreatedDetails = None\<rparr>"

record ExternalUpdate =
  UpdatedDetails :: ConnectionDetails

definition ExternalUpdate0 :: ExternalUpdate where
  "ExternalUpdate0 = \<lparr>UpdatedDetails = None\<rparr>"

text \<open>
  A handler gets the managed resource as the type assertion \<open>mg.(*T)\<close> returns it (\<open>None\<close> when
  the assertion fails) and the outside world \<open>'w\<close> (GCP and the Kubernetes API server). It
  returns the new world, the resource as it was left, the result and the error.
  A call of a GCP service returns an error or the response; \<open>kube.Update\<close> also overwrites the
  object it is given with the server's answer.
\<close>

type_synonym ('w, 'c, 'r, 'e) outcome = "'w \<times> 'c option \<times> 'r \<times> 'e option"
type_synonym ('w, 'a, 'e) call = "'w \<Rightarrow> 'w \<times> ('e + 'a)"
type_synonym ('w, 'c, 'e) kube_update = "'c \<Rightarrow> 'w \<Rightarrow> 'w \<times> 'c \<times> 'e option"

text \<open>
  What the handlers rely on when they write a custom resource back: the answer of the server
  is the object that was sent, with its name and spec.
\<close>

definition kube_echo :: "('w, ('p, 'o) managed, 'e) kube_update \<Rightarrow> bool" where
  "kube_echo upd \<longleftrightarrow> (\<forall>c w w' c'. upd c w = (w', c', None) \<longrightarrow>
     ForProvider c' = ForProvider c \<and> ExternalName c' = ExternalName c)"

definition call_error :: "'w \<times> ('e + 'a) \<Rightarrow> 'e option" where
  "call_error r = (case snd r of Inl e \<Rightarrow> Some e | Inr _ \<Rightarrow> None)"

lemma call_error_simps [simp]: "call_error (w, Inl e) = Some e" "call_error (w, Inr a) = None"
  by (simp_all add: call_error_def)

lemma call_error_None: "call_error r = None \<longleftrightarrow> (\<exists>a. r = (fst r, Inr a))"
  by (cases r) (auto simp: call_error_def split: sum.splits)

lemma call_error_None_unit: "call_error r = None \<Longrightarrow> r = (fst r, Inr ())"
  by (simp add: call_error_None)

text \<open>
  Inversion of a handler's result: an equation between a case distinction and a value becomes
  the disjunction of the branches that give the value.
\<close>

lemma prod_case_conv: "(case p of (a, b) \<Rightarrow> f a b) = z \<longleftrightarrow> (\<exists>a b. p = (a, b) \<and> f a b = z)"
  by (cases p) simp

lemma sum_case_conv: "(case s of Inl e \<Rightarrow> f e | Inr a \<Rightarrow> g a) = z \<longleftrightarrow>
    (\<exists>e. s = Inl e \<and> f e = z) \<or> (\<exists>a. s = Inr a \<and> g a = z)"
  by (cases s) simp_all

lemma option_case_conv: "(case p of None \<Rightarrow> f | Some a \<Rightarrow> g a) = z \<longleftrightarrow>
    (p = None \<and> f = z) \<or> (\<exists>a. p = Some a \<and> g a = z)"
  by (cases p) simp_all

lemma if_conv: "(if b then x else y) = z \<longleftrightarrow> (b \<and> x = z) \<or> (\<not> b \<and> y = z)"
  by simp

lemmas outcome_convs =
  prod_case_conv sum_case_conv option_case_conv if_conv bind_eq_Some_conv Let_def

section \<open>Interfaces of the resource clients\<close>

text \<open>
  Late initialisation. \<open>init s x\<close> fills unset fields of the spec \<open>s\<close> from the observed
  external resource \<open>x\<close> and may panic. A controller calls it on every observation and writes
  the custom resource back whenever the spec has changed, so it has to settle: repeated on
  its own result it changes nothing.
\<close>

locale settling_initializer =
  fixes init :: "'s \<Rightarrow> 'x \<Rightarrow> 's option"
  assumes settles: "init s x = Some s' \<Longrightarrow> init s' x = Some s'"
begin

fun observe_times :: "nat \<Rightarrow> 's \<Rightarrow> 'x \<Rightarrow> ('s \<times> nat) option" where
  \<comment> \<open>the spec after \<open>n\<close> observations of the same resource, and how many of them changed it\<close>
  "observe_times 0 s x = Some (s, 0)"
| "observe_times (Suc n) s x = do {
     s' \<leftarrow> init s x;
     (t, k) \<leftarrow> observe_times n s' x;
     Some (t, if s' = s then k else Suc k) }"

lemma observe_settled: "init s x = Some s \<Longrightarrow> observe_times n s x = Some (s, 0)"
  by (induction n) auto

lemma observe_once:
  assumes "init s x = Some s'"
  shows "observe_times (Suc n) s x = Some (s', if s' = s then 0 else 1)"
  using observe_settled [OF settles [OF assms]] assms by simp

lemma at_most_one_change: "observe_times n s x = Some (t, k) \<Longrightarrow> k \<le> 1"
proof (cases n)
  case 0
  then show "observe_times n s x = Some (t, k) \<Longrightarrow> k \<le> 1" by simp
next
  case (Suc m)
  assume obs: "observe_times n s x = Some (t, k)"
  with Suc obtain s' where s': "init s x = Some s'"
    by (auto simp: bind_eq_Some_conv)
  from obs observe_once [OF s', of m] Suc show "k \<le> 1"
    by (auto split: if_splits)
qed

end

text \<open>A late initialiser proper also keeps every field the user has set (\<open>keeps\<close>).\<close>

locale late_initializer = settling_initializer init
  for init :: "'s \<Rightarrow> 'x \<Rightarrow> 's option" +
  fixes keeps :: "'s \<Rightarrow> 's \<Rightarrow> bool"
  assumes keeps_refl: "keeps s s"
    and keeps_set: "init s x = Some s' \<Longrightarrow> keeps s s'"
begin

lemma observe_times_keeps: "0 < n \<Longrightarrow> observe_times n s x = Some (t, k) \<Longrightarrow> keeps s t"
proof (cases n)
  case (Suc m)
  assume obs: "observe_times n s x = Some (t, k)"
  with Suc obtain s' where s': "init s x = Some s'"
    by (auto simp: bind_eq_Some_conv)
  from obs observe_once [OF s', of m] Suc have "t = s'" by simp
  with s' show "keeps s t" by (simp add: keeps_set)
qed simp

end

text \<open>
  The desired state. \<open>gen p x\<close> writes the parameters \<open>p\<close> over the external resource \<open>x\<close>
  (possibly panicking). A resource is compared with \<open>gen p x\<close>; writing twice is writing
  once, so a resource to which the parameters have been applied compares equal.
\<close>

locale desired_state =
  fixes gen :: "'p \<Rightarrow> 'x \<Rightarrow> 'x option"
  assumes gen_idem: "gen p x = Some y \<Longrightarrow> gen p y = Some y"
begin

definition matches :: "'x comparer \<Rightarrow> 'p \<Rightarrow> 'x \<Rightarrow> bool option" where
  "matches eq p x = map_option (\<lambda>d. eq d x) (gen p x)"

lemma applied_matches:
  "cmp_refl eq \<Longrightarrow> gen p x = Some y \<Longrightarrow> matches eq p y = Some True"
  by (simp add: matches_def gen_idem cmp_refl_def)

lemma matches_exact: "cmp_exact eq \<Longrightarrow> matches eq p x = Some True \<longleftrightarrow> gen p x = Some x"
  by (auto simp: matches_def cmp_exact_def)

end

end
