(* ===== verification/Gcp_Client.thy ===== *)
theory Gcp_Client
  imports Go_Prelude
begin

text \<open>
  \<^verbatim>\<open>pkg/clients/gcp.go\<close> and \<^verbatim>\<open>pkg/util/googleapi/googleapi.go\<close>: authentication, the tests on Google
  API errors, the pointer and late-initialisation helpers that every client uses, and the
  comparison of compute URLs. The predicates \<open>keeps_\<dots>\<close> say that a value the user has set is
  still there; they are the building blocks of the \<open>keeps\<close> relation of each resource.
\<close>

section \<open>Authentication\<close>

record SecretKeySelector =
  SecretName :: string
  SecretNamespace :: string
  SecretKey :: string

record ProviderSpec =
  CredentialsSecretRef :: SecretKeySelector
  ProviderProjectID :: string

record ('src, 'sel) ProviderConfigSpec =
  CredentialsSource :: 'src
  CommonCredentialSelectors :: 'sel
  ConfigProjectID :: string

datatype ClientOption = WithCredentialsJSON bytes

text \<open>The Kubernetes client and the \<^verbatim>\<open>crossplane-runtime\<close> helpers that the functions call.\<close>

record ('w, 'c, 'src, 'sel, 'e) auth_api =
  Get_Provider :: "string \<Rightarrow> ('w, ProviderSpec, 'e) call"
  Get_Secret :: "string \<Rightarrow> string \<Rightarrow> ('w, (string, bytes) fmap, 'e) call"
  Get_ProviderConfig :: "string \<Rightarrow> ('w, ('src, 'sel) ProviderConfigSpec, 'e) call"
  UsageTracker_Track :: "'c \<Rightarrow> 'w \<Rightarrow> 'w \<times> 'e option"
  CommonCredentialExtractor :: "'src \<Rightarrow> 'sel \<Rightarrow> ('w, bytes, 'e) call"

definition UseProvider ::
  "('w, ('p, 'o) managed, 'src, 'sel, 'e) auth_api \<Rightarrow> ('p, 'o) managed \<Rightarrow> 'w
    \<Rightarrow> ('w \<times> string \<times> ClientOption option \<times> 'e option) option" where
  "UseProvider c mg w = do {
     name \<leftarrow> ProviderReference mg;
     Some (case Get_Provider c name w of
       (w1, Inl err) \<Rightarrow> (w1, '''', None, Some err)
     | (w1, Inr p) \<Rightarrow>
         (let ref = CredentialsSecretRef p in
          case Get_Secret c (SecretName ref) (SecretNamespace ref) w1 of
            (w2, Inl err) \<Rightarrow> (w2, '''', None, Some err)
          | (w2, Inr data) \<Rightarrow>
              (w2, ProviderProjectID p,
               Some (WithCredentialsJSON (case fmlookup data (SecretKey ref) of
                       None \<Rightarrow> [] | Some b \<Rightarrow> b)), None))) }"

definition UseProviderConfig ::
  "'e runtime \<Rightarrow> ('w, ('p, 'o) managed, 'src, 'sel, 'e) auth_api \<Rightarrow> ('p, 'o) managed \<Rightarrow> 'w
    \<Rightarrow> ('w \<times> string \<times> ClientOption option \<times> 'e option) option" where
  "UseProviderConfig L c mg w =
     (case UsageTracker_Track c mg w of
        (w1, Some err) \<Rightarrow> Some (w1, '''', None, Some err)
      | (w1, None) \<Rightarrow> do {
          name \<leftarrow> ProviderConfigReference mg;
          Some (case Get_ProviderConfig c name w1 of
            (w2, Inl err) \<Rightarrow> (w2, '''', None, Some err)
          | (w2, Inr pc) \<Rightarrow>
             (case CommonCredentialExtractor c (CredentialsSource pc) (CommonCredentialSelectors pc) w2 of
                (w3, Inl err) \<Rightarrow> (w3, '''', None, errors_Wrap L (Some err) ''cannot get credentials'')
              | (w3, Inr data) \<Rightarrow> (w3, ConfigProjectID pc, Some (WithCredentialsJSON data), None))) })"

definition GetAuthInfo ::
  "'e runtime \<Rightarrow> ('w, ('p, 'o) managed, 'src, 'sel, 'e) auth_api \<Rightarrow> ('p, 'o) managed \<Rightarrow> 'w
    \<Rightarrow> ('w \<times> string \<times> ClientOption option \<times> 'e option) option" where
  "GetAuthInfo L c mg w =
     (if ProviderConfigReference mg \<noteq> None then UseProviderConfig L c mg w
      else if ProviderReference mg \<noteq> None then UseProvider c mg w
      else Some (w, '''', None,
                 Some (errors_New L ''neither providerConfigRef nor providerRef is given'')))"

text \<open>
  The \<open>Connect\<close> methods of the controllers: authentication, then the constructor of the API
  service. \<open>newService\<close> is that constructor with the struct literal of the external client
  around it, which gets the project id.
\<close>

definition connect_service ::
  "'e runtime \<Rightarrow> ('w, ('p, 'o) managed, 'src, 'sel, 'e) auth_api \<Rightarrow> string
    \<Rightarrow> (string \<Rightarrow> ClientOption option \<Rightarrow> ('w, 'x, 'e) call) \<Rightarrow> ('p, 'o) managed \<Rightarrow> 'w
    \<Rightarrow> ('w \<times> 'x option \<times> 'e option) option" where
  "connect_service L c errNewClient newService mg w = do {
     (w1, projectID, opts, err) \<leftarrow> GetAuthInfo L c mg w;
     (case err of
        Some e \<Rightarrow> Some (w1, None, Some e)
      | None \<Rightarrow> (case newService projectID opts w1 of
            (w2, Inl e) \<Rightarrow> Some (w2, None, errors_Wrap L (Some e) errNewClient)
          | (w2, Inr s) \<Rightarrow> Some (w2, Some s, None))) }"

section \<open>Google API errors\<close>

definition IsErrorNotFoundGRPC :: "'e runtime \<Rightarrow> 'e option \<Rightarrow> bool" where
  \<comment> \<open>\<open>codes.NotFound\<close> is 5\<close>
  "IsErrorNotFoundGRPC L err =
     (case err of None \<Rightarrow> False | Some e \<Rightarrow> grpc_Code L e = Some 5)"

definition IsErrorNotFound :: "'e runtime \<Rightarrow> 'e option \<Rightarrow> bool" where
  "IsErrorNotFound L err =
     (case err of None \<Rightarrow> False | Some e \<Rightarrow> googleapi_Code L e = Some 404)"

definition IsErrorAlreadyExists :: "'e runtime \<Rightarrow> 'e option \<Rightarrow> bool" where
  "IsErrorAlreadyExists L err =
     (case err of None \<Rightarrow> False | Some e \<Rightarrow> googleapi_Code L e = Some 409)"

definition IsErrorBadRequest :: "'e runtime \<Rightarrow> 'e option \<Rightarrow> bool" where
  "IsErrorBadRequest L err =
     (case err of None \<Rightarrow> False | Some e \<Rightarrow> googleapi_Code L e = Some 400)"

definition util_IsErrorNotFound :: "'e runtime \<Rightarrow> 'e option \<Rightarrow> bool" where
  \<comment> \<open>the copy in \<^verbatim>\<open>pkg/util/googleapi\<close>: no nil test, a nil error fails the type assertion\<close>
  "util_IsErrorNotFound L err =
     (case Option.bind err (googleapi_Code L) of None \<Rightarrow> False | Some c \<Rightarrow> c = 404)"

lemma IsErrorNotFound_None [simp]: "\<not> IsErrorNotFound L None"
  by (simp add: IsErrorNotFound_def)

lemma IsErrorAlreadyExists_None [simp]: "\<not> IsErrorAlreadyExists L None"
  by (simp add: IsErrorAlreadyExists_def)

lemma util_IsErrorNotFound_eq: "util_IsErrorNotFound L err = IsErrorNotFound L err"
  by (auto simp: util_IsErrorNotFound_def IsErrorNotFound_def split: option.splits)

lemma not_found_not_conflict: "IsErrorNotFound L e \<Longrightarrow> \<not> IsErrorAlreadyExists L e"
  by (auto simp: IsErrorNotFound_def IsErrorAlreadyExists_def split: option.splits)

section \<open>Pointer helpers\<close>

definition StringValue :: "string option \<Rightarrow> string" where
  "StringValue v = (case v of None \<Rightarrow> '''' | Some s \<Rightarrow> s)"

definition Int64Value :: "int64 option \<Rightarrow> int64" where
  "Int64Value v = (case v of None \<Rightarrow> 0 | Some n \<Rightarrow> n)"

definition BoolValue :: "bool option \<Rightarrow> bool" where
  "BoolValue v = (case v of None \<Rightarrow> False | Some b \<Rightarrow> b)"

definition StringPtr :: "string \<Rightarrow> string option" where
  "StringPtr p = Some p"

definition Int64Ptr :: "int64 \<Rightarrow> int64 option" where
  "Int64Ptr p = Some p"

definition BoolPtr :: "bool \<Rightarrow> bool option" where
  "BoolPtr p = Some p"

lemma value_simps [simp]:
  "StringValue None = ''''" "StringValue (Some s) = s"
  "Int64Value None = 0" "Int64Value (Some n) = n"
  "BoolValue None = False" "BoolValue (Some b) = b"
  by (simp_all add: StringValue_def Int64Value_def BoolValue_def)

lemma value_ptr [simp]:
  "StringValue (StringPtr s) = s" "Int64Value (Int64Ptr n) = n" "BoolValue (BoolPtr b) = b"
  by (simp_all add: StringPtr_def Int64Ptr_def BoolPtr_def)

section \<open>Late initialisation of single fields\<close>

definition LateInitializeString :: "string option \<Rightarrow> string \<Rightarrow> string option" where
  "LateInitializeString s from = (if s \<noteq> None \<or> from = '''' then s else Some from)"

definition LateInitializeInt64 :: "int64 option \<Rightarrow> int64 \<Rightarrow> int64 option" where
  "LateInitializeInt64 i from = (if i \<noteq> None \<or> from = 0 then i else Some from)"

definition LateInitializeBool :: "bool option \<Rightarrow> bool \<Rightarrow> bool option" where
  "LateInitializeBool b from = (if b \<noteq> None \<or> \<not> from then b else Some from)"

definition LateInitializeStringSlice :: "string slice \<Rightarrow> string slice \<Rightarrow> string slice" where
  "LateInitializeStringSlice s from = (if len s \<noteq> 0 \<or> len from = 0 then s else from)"

definition LateInitializeStringMap :: "strmap \<Rightarrow> strmap \<Rightarrow> strmap" where
  "LateInitializeStringMap s from = (if \<not> map_empty s \<or> map_empty from then s else from)"

text \<open>A field the user has set is kept: a pointer that is not nil, a non-empty string, slice or
  map, a non-zero number. A nested struct behind a pointer is kept field by field.\<close>

definition keeps_ptr :: "'a option \<Rightarrow> 'a option \<Rightarrow> bool" where
  [keeps_defs]: "keeps_ptr a b \<longleftrightarrow> a = None \<or> b = a"

definition keeps_str :: "string \<Rightarrow> string \<Rightarrow> bool" where
  [keeps_defs]: "keeps_str a b \<longleftrightarrow> a = '''' \<or> b = a"

definition keeps_int :: "int64 \<Rightarrow> int64 \<Rightarrow> bool" where
  [keeps_defs]: "keeps_int a b \<longleftrightarrow> a = 0 \<or> b = a"

definition keeps_slice :: "'a slice \<Rightarrow> 'a slice \<Rightarrow> bool" where
  [keeps_defs]: "keeps_slice a b \<longleftrightarrow> len a = 0 \<or> b = a"

definition keeps_map :: "(string, 'v) fmap option \<Rightarrow> (string, 'v) fmap option \<Rightarrow> bool" where
  [keeps_defs]: "keeps_map a b \<longleftrightarrow> map_empty a \<or> b = a"

definition keeps_struct :: "('a \<Rightarrow> 'a \<Rightarrow> bool) \<Rightarrow> 'a option \<Rightarrow> 'a option \<Rightarrow> bool" where
  [keeps_defs]: "keeps_struct k a b \<longleftrightarrow> (\<forall>x. a = Some x \<longrightarrow> (\<exists>y. b = Some y \<and> k x y))"

lemma keeps_refls [simp]:
  "keeps_ptr a a" "keeps_str s s" "keeps_int i i" "keeps_slice l l" "keeps_map m m"
  by (simp_all add: keeps_defs)

lemma keeps_struct_simps [simp]:
  "keeps_struct k None b" "keeps_struct k (Some x) None = False"
  "keeps_struct k (Some x) (Some y) = k x y"
  by (simp_all add: keeps_defs)

lemma keeps_struct_refl: "(\<And>x. k x x) \<Longrightarrow> keeps_struct k a a"
  by (simp add: keeps_defs)

lemma keeps_LateInitialize [simp, late_init_simps]:
  "keeps_ptr s (LateInitializeString s t)"
  "keeps_ptr i (LateInitializeInt64 i j)"
  "keeps_ptr b (LateInitializeBool b c)"
  "keeps_slice l (LateInitializeStringSlice l m)"
  "keeps_map f (LateInitializeStringMap f g)"
  by (simp_all add: keeps_defs LateInitializeString_def LateInitializeInt64_def LateInitializeBool_def
      LateInitializeStringSlice_def LateInitializeStringMap_def)

lemma LateInitialize_idem [simp, late_init_simps]:
  "LateInitializeString (LateInitializeString s t) t = LateInitializeString s t"
  "LateInitializeInt64 (LateInitializeInt64 i j) j = LateInitializeInt64 i j"
  "LateInitializeBool (LateInitializeBool b c) c = LateInitializeBool b c"
  "LateInitializeStringSlice (LateInitializeStringSlice l m) m = LateInitializeStringSlice l m"
  "LateInitializeStringMap (LateInitializeStringMap f g) g = LateInitializeStringMap f g"
  by (simp_all add: LateInitializeString_def LateInitializeInt64_def LateInitializeBool_def
      LateInitializeStringSlice_def LateInitializeStringMap_def)

text \<open>The inline form for a plain string field, \<open>if spec.F == "" { spec.F = in.F }\<close>.\<close>

definition late_str :: "string \<Rightarrow> string \<Rightarrow> string" where
  "late_str s t = (if s = '''' then t else s)"

lemma late_str_simps [simp]:
  "late_str (late_str s t) t = late_str s t" "keeps_str s (late_str s t)" "late_str '''' t = t"
  by (simp_all add: late_str_def keeps_str_def)

text \<open>The inline form for a pointer, \<open>if spec.F == nil { spec.F = in.F }\<close>; with a copy of a struct,
  \<open>if in.F != nil && spec.F == nil { spec.F = &T{\<dots>} }\<close>.\<close>

definition late_ptr :: "'a option \<Rightarrow> 'a option \<Rightarrow> 'a option" where
  "late_ptr s t = (if s = None then t else s)"

lemma late_ptr_simps [simp]:
  "late_ptr (late_ptr s t) t = late_ptr s t" "keeps_ptr s (late_ptr s t)" "late_ptr None t = t"
  by (simp_all add: late_ptr_def keeps_ptr_def)

text \<open>Reading a late-initialised field back gives the observed value if the user had not set
  it: the step that makes an adopted resource compare equal.\<close>

lemma value_LateInitialize_None [simp, late_init_simps]:
  "StringValue (LateInitializeString None t) = t"
  "Int64Value (LateInitializeInt64 None j) = j"
  "BoolValue (LateInitializeBool None c) = c"
  by (simp_all add: LateInitializeString_def LateInitializeInt64_def LateInitializeBool_def)

lemma value_LateInitialize_Some [simp]:
  "LateInitializeString (Some s) t = Some s"
  "LateInitializeInt64 (Some i) j = Some i"
  "LateInitializeBool (Some b) c = Some b"
  by (simp_all add: LateInitializeString_def LateInitializeInt64_def LateInitializeBool_def)

lemma late_own_values [simp]:
  "LateInitializeBool b (BoolValue b) = b" "LateInitializeInt64 i (Int64Value i) = i"
  "LateInitializeString s (StringValue s) = s"
  by (simp_all add: LateInitializeBool_def LateInitializeInt64_def LateInitializeString_def)
    (cases b; simp; fail | cases i; simp; fail | cases s; simp; fail)+

lemma late_zero [simp]:
  "LateInitializeString s '''' = s" "LateInitializeInt64 i 0 = i" "LateInitializeBool b False = b"
  "LateInitializeStringSlice l None = l" "LateInitializeStringMap m None = m"
  by (simp_all add: LateInitializeBool_def LateInitializeInt64_def LateInitializeString_def
      LateInitializeStringSlice_def LateInitializeStringMap_def)

section \<open>Idioms of the translation functions\<close>

text \<open>\<open>if in.F != nil { if db.F == nil { db.F = &T{} }; \<dots> }\<close>: the block \<open>f\<close> runs on the existing
  struct or on an empty one.\<close>

definition gen_block :: "'b \<Rightarrow> ('a \<Rightarrow> 'b \<Rightarrow> 'b) \<Rightarrow> 'a option \<Rightarrow> 'b option \<Rightarrow> 'b option" where
  "gen_block zero f in' db = (case in' of None \<Rightarrow> db
     | Some a \<Rightarrow> Some (f a (case db of None \<Rightarrow> zero | Some b \<Rightarrow> b)))"

text \<open>\<open>if len(xs) > 0 { db.F = make(\<dots>) }; for i, val := range xs { db.F[i] = \<dots> }\<close>\<close>

definition gen_slice :: "('a option \<Rightarrow> 'b option option) \<Rightarrow> 'a option slice \<Rightarrow> 'b option slice
    \<Rightarrow> 'b option slice option" where
  "gen_slice f in' db = (if len in' > 0 then map_option Some (mapP f (elems in')) else Some db)"

text \<open>\<open>if in.F != nil { if spec.F == nil { spec.F = &T{} }; \<dots> }\<close>\<close>

definition late_block :: "'a \<Rightarrow> ('a \<Rightarrow> 'b \<Rightarrow> 'a) \<Rightarrow> 'a option \<Rightarrow> 'b option \<Rightarrow> 'a option" where
  "late_block zero f spec in' = (case in' of None \<Rightarrow> spec
     | Some b \<Rightarrow> Some (f (case spec of None \<Rightarrow> zero | Some a \<Rightarrow> a) b))"

text \<open>\<open>if len(in.F) != 0 && len(spec.F) == 0 { spec.F = make(\<dots>); for i, val := range in.F \<dots> }\<close>\<close>

definition late_slice :: "('b option \<Rightarrow> 'a option option) \<Rightarrow> 'a option slice \<Rightarrow> 'b option slice
    \<Rightarrow> 'a option slice option" where
  "late_slice f spec in' = (if len in' \<noteq> 0 \<and> len spec = 0 then map_option Some (mapP f (elems in')) else Some spec)"

lemma late_block_settles:
  assumes "\<And>s b. f (f s b) b = f s b"
  shows "late_block z f (late_block z f s x) x = late_block z f s x"
  using assms by (simp add: late_block_def split: option.split)

lemma late_block_keeps:
  assumes "\<And>s b. k s (f s b)" and "\<And>s. k s s"
  shows "keeps_struct k s (late_block z f s x)"
  using assms by (cases s) (simp_all add: late_block_def split: option.split)

lemma late_slice_settles:
  "late_slice f s x = Some s' \<Longrightarrow> late_slice f s' x = Some s'"
  by (auto simp: late_slice_def len_def dest: mapP_length split: if_splits)

lemma late_slice_keeps: "late_slice f s x = Some s' \<Longrightarrow> keeps_slice s s'"
  by (auto simp: late_slice_def keeps_slice_def split: if_splits)

lemma gen_block_adopt:
  assumes "\<And>b. g (f z b) b = b"
  shows "gen_block z' g (late_block z f None x) x = x"
  using assms by (simp add: gen_block_def late_block_def split: option.split)

lemma gen_block_idem:
  assumes "\<And>a b. g a (g a b) = g a b"
  shows "gen_block z g a (gen_block z g a b) = gen_block z g a b"
  using assms by (simp add: gen_block_def split: option.split)

lemma gen_slice_idem: "gen_slice f a b = Some c \<Longrightarrow> gen_slice f a c = Some c"
  by (auto simp: gen_slice_def split: if_splits)

text \<open>An element that late initialisation copies into the spec and generation copies back.\<close>

lemma mapP_round_trip:
  assumes "\<And>x y. x \<in> set xs \<Longrightarrow> f x = Some y \<Longrightarrow> g y = Some x"
  shows "mapP f xs = Some ys \<Longrightarrow> mapP g ys = Some xs"
  using assms
proof (induction xs arbitrary: ys)
  case (Cons x xs)
  then obtain y zs where y: "f x = Some y" and zs: "mapP f xs = Some zs" "ys = y # zs"
    by (auto simp: bind_eq_Some_conv)
  have "g y = Some x" by (rule Cons.prems(2) [OF _ y]) simp
  moreover have "mapP g zs = Some xs" by (rule Cons.IH [OF zs(1) Cons.prems(2)]) simp_all
  ultimately show ?case using zs(2) by simp
qed simp

lemma gen_slice_adopt:
  assumes "\<And>x y. x \<in> set (elems xs) \<Longrightarrow> f x = Some y \<Longrightarrow> g y = Some x"
    and "late_slice f None xs = Some ys"
  shows "gen_slice g ys xs = Some xs"
proof (cases "len xs = 0")
  case True
  with assms(2) show ?thesis by (auto simp: late_slice_def gen_slice_def)
next
  case False
  with assms(2) obtain zs where zs: "mapP f (elems xs) = Some zs" "ys = Some zs"
    by (auto simp: late_slice_def)
  obtain us where us: "xs = Some us" using False by (cases xs) auto
  have "mapP g zs = Some us"
    using mapP_round_trip [of us f g zs] assms(1) zs(1) us by simp
  moreover have "zs \<noteq> []" using mapP_length [OF zs(1)] False us by auto
  ultimately show ?thesis using zs(2) us by (simp add: gen_slice_def)
qed

text \<open>The same loop with a guard, \<open>for i, val := range xs { if val != nil { db.F[i] = \<dots> } }\<close>: a nil
  element stays nil.\<close>

definition gen_elems :: "('a \<Rightarrow> 'b) \<Rightarrow> 'a option slice \<Rightarrow> 'b option slice \<Rightarrow> 'b option slice" where
  "gen_elems f in' db = (if len in' > 0 then Some (map (map_option f) (elems in')) else db)"

text \<open>The body of the loop of late initialisation, which dereferences the element.\<close>

definition deref_elem :: "('b \<Rightarrow> 'a) \<Rightarrow> 'b option \<Rightarrow> 'a option option" where
  "deref_elem f p = map_option (\<lambda>b. Some (f b)) p"

text \<open>\<open>for _, val := range xs { if val != nil { o.F = append(o.F, \<dots>) } }\<close>\<close>

definition copy_elems :: "('a \<Rightarrow> 'b) \<Rightarrow> 'a option slice \<Rightarrow> 'b option slice" where
  "copy_elems f xs = (case List.map_filter id (elems xs) of [] \<Rightarrow> None | ys \<Rightarrow> Some (map (Some \<circ> f) ys))"

lemma gen_elems_idem [simp]: "gen_elems f a (gen_elems f a b) = gen_elems f a b"
  by (simp add: gen_elems_def)

lemma mapP_deref: "mapP (deref_elem f) xs = Some ys \<Longrightarrow> (\<And>b. g (f b) = b) \<Longrightarrow> map (map_option g) ys = xs"
  by (induction xs arbitrary: ys) (auto simp: bind_eq_Some_conv deref_elem_def)

lemma gen_elems_adopt:
  assumes "late_slice (deref_elem f) None xs = Some ys" and "\<And>b. g (f b) = b"
  shows "gen_elems g ys xs = xs"
  using assms mapP_length [of "deref_elem f" "elems xs"] mapP_deref [of f "elems xs" _ g]
  by (cases xs) (auto simp: late_slice_def gen_elems_def split: if_splits)

lemma late_slice_None_iff:
  "late_slice (deref_elem f) s x = None \<longleftrightarrow> len s = 0 \<and> None \<in> set (elems x)"
  by (cases x) (auto simp: late_slice_def mapP_None_iff deref_elem_def)

text \<open>Nil and empty slices and maps, as \<open>cmpopts.EquateEmpty\<close> identifies them.\<close>

definition nil_slice :: "'a slice \<Rightarrow> 'a slice" where
  "nil_slice s = (if len s = 0 then None else s)"

definition nil_map :: "(string, 'v) fmap option \<Rightarrow> (string, 'v) fmap option" where
  "nil_map m = (if map_empty m then None else m)"

lemma nil_late [simp]:
  "nil_slice (LateInitializeStringSlice None s) = nil_slice s"
  "nil_map (LateInitializeStringMap None m) = nil_map m"
  by (simp_all add: nil_slice_def nil_map_def LateInitializeStringSlice_def LateInitializeStringMap_def)

section \<open>Field masks\<close>

text \<open>The paths of a field mask, as a Google API reads it: the parts between the commas.\<close>

fun mask_paths :: "string \<Rightarrow> string list" where
  "mask_paths [] = [[]]"
| "mask_paths (c # cs) = (case mask_paths cs of
       [] \<Rightarrow> []
     | p # ps \<Rightarrow> if c = CHR '','' then [] # p # ps else (c # p) # ps)"

lemma mask_paths_nonempty: "mask_paths s \<noteq> []"
  by (induction s) (auto split: list.splits)

lemma mask_paths_append:
  "CHR '','' \<notin> set p \<Longrightarrow> mask_paths (p @ s) = (p @ hd (mask_paths s)) # tl (mask_paths s)"
  by (induction p) (use mask_paths_nonempty in \<open>auto split: list.splits\<close>)

lemma mask_paths_Join:
  "\<forall>p\<in>set ps. CHR '','' \<notin> set p \<Longrightarrow> mask_paths (Join ps '','') = (if ps = [] then [[]] else ps)"
proof (induction ps "'',''" rule: Join.induct)
  case (2 p)
  then show ?case using mask_paths_append [of p "[]"] by simp
next
  case (3 p q ps)
  then have "mask_paths (Join (q # ps) '','') = q # ps" by simp
  then show ?case using 3 mask_paths_append [of p "'','' @ Join (q # ps) '',''"] by simp
qed simp

section \<open>Compute URLs\<close>

definition ComputeURIPrefix :: string where
  "ComputeURIPrefix = ''https://www.googleapis.com/compute/v1/''"

definition EquateComputeURLs :: "string \<Rightarrow> string \<Rightarrow> bool" where
  "EquateComputeURLs a b =
     (if a = b then True
      else if \<not> HasPrefix a ComputeURIPrefix \<and> \<not> HasPrefix b ComputeURIPrefix then a = b
      else let ta = TrimPrefix a ComputeURIPrefix;
               tb = TrimPrefix b ComputeURIPrefix
           in if ta = tb then True else path_Base ta = path_Base tb)"

lemma path_Base_last_segment:
  assumes "n \<noteq> []" and "CHR ''/'' \<notin> set n"
  shows "path_Base (d @ CHR ''/'' # n) = n"
proof -
  have nz: "dropWhile (\<lambda>c. c = CHR ''/'') (rev n @ CHR ''/'' # rev d) = rev n @ CHR ''/'' # rev d"
    using assms by (cases "rev n") (auto dest: arg_cong [where f = set])
  have "takeWhile (\<lambda>c. c \<noteq> CHR ''/'') (rev n @ CHR ''/'' # rev d) = rev n"
    using assms by (subst takeWhile_append2) auto
  with nz assms show ?thesis by (simp add: path_Base_def Let_def)
qed

lemma path_Base_unqualified:
  assumes "n \<noteq> []" and "CHR ''/'' \<notin> set n"
  shows "path_Base n = n"
proof -
  have nz: "dropWhile (\<lambda>c. c = CHR ''/'') (rev n) = rev n"
    using assms by (cases "rev n") (auto dest: arg_cong [where f = set])
  have tw: "takeWhile (\<lambda>c. c \<noteq> CHR ''/'') (rev n) = rev n"
    using assms by (auto simp: takeWhile_eq_all_conv)
  show ?thesis using assms(1) by (simp add: path_Base_def Let_def nz tw)
qed

lemma EquateComputeURLs_refl [simp]: "EquateComputeURLs a a"
  by (simp add: EquateComputeURLs_def)

lemma EquateComputeURLs_sym: "EquateComputeURLs a b = EquateComputeURLs b a"
  by (auto simp: EquateComputeURLs_def Let_def)

lemma HasPrefix_append [simp]: "HasPrefix (p @ s) p"
  by (simp add: HasPrefix_def)

lemma EquateComputeURLs_full_partial [simp]:
  "\<not> HasPrefix u ComputeURIPrefix \<Longrightarrow> EquateComputeURLs (ComputeURIPrefix @ u) u"
  by (simp add: EquateComputeURLs_def Let_def TrimPrefix_def [of u])

text \<open>Sample values for witnesses.\<close>

definition sample_auth_api :: "(unit, (unit, unit) managed, unit, unit, sample_error) auth_api" where
  "sample_auth_api = \<lparr>
     Get_Provider = (\<lambda>n w. (w, Inl (ApiError 404))),
     Get_Secret = (\<lambda>n s w. (w, Inl (ApiError 404))),
     Get_ProviderConfig = (\<lambda>n w. (w, Inr \<lparr>CredentialsSource = (), CommonCredentialSelectors = (),
                                           ConfigProjectID = ''p''\<rparr>)),
     UsageTracker_Track = (\<lambda>mg w. (w, None)),
     CommonCredentialExtractor = (\<lambda>s l w. (w, Inl (ApiError 403)))\<rparr>"

definition sample_managed :: "'p \<Rightarrow> 'o \<Rightarrow> ('p, 'o) managed" where
  "sample_managed p o' = \<lparr>ExternalName = ''name'', WasDeleted = False,
     ProviderConfigReference = Some ''cfg'', ProviderReference = None, Conditions = [],
     ForProvider = p, AtProvider = o'\<rparr>"

section \<open>Properties\<close>

text \<open>C39: authentication never dereferences a missing reference, whatever the custom resource
  carries: \<open>GetAuthInfo\<close> returns. It returns client options exactly when it returns no error,
  and when neither reference is given the result is an error and no call has been made.\<close>

theorem GetAuthInfo_total:
  assumes "wrap_ok L"
  shows "\<exists>w' project opts err. GetAuthInfo L c mg w = Some (w', project, opts, err)
    \<and> (opts = None \<longleftrightarrow> err \<noteq> None)
    \<and> (ProviderConfigReference mg = None \<and> ProviderReference mg = None \<longrightarrow>
         w' = w \<and> err = Some (errors_New L ''neither providerConfigRef nor providerRef is given''))"
proof (cases "ProviderConfigReference mg")
  case None
  then show ?thesis
    by (cases "ProviderReference mg")
      (auto simp: GetAuthInfo_def UseProvider_def Let_def split: prod.splits sum.splits)
next
  case (Some name)
  with assms show ?thesis
    by (auto simp: GetAuthInfo_def UseProviderConfig_def split: prod.splits sum.splits option.splits)
qed

text \<open>Witness of C39: a resource with a provider configuration whose credentials cannot be
  read.\<close>

lemma GetAuthInfo_total_witness:
  "\<exists>w' project opts err.
     GetAuthInfo sample_runtime sample_auth_api (sample_managed () ()) () = Some (w', project, opts, err)
     \<and> (opts = None \<longleftrightarrow> err \<noteq> None)
     \<and> (ProviderConfigReference (sample_managed () ()) = None \<and> ProviderReference (sample_managed () ()) = None \<longrightarrow>
          w' = () \<and> err = Some (errors_New sample_runtime ''neither providerConfigRef nor providerRef is given''))"
  by (rule GetAuthInfo_total [OF sample_runtime_ok(1)])



text \<open>The comparison of compute URLs is reflexive and symmetric but not transitive: the
  qualified URL of a network is equated with its bare name and with a partial URL of another
  project, which are not equated with each other.\<close>

theorem EquateComputeURLs_not_transitive:
  "EquateComputeURLs a a \<and> EquateComputeURLs a b = EquateComputeURLs b a
   \<and> EquateComputeURLs ''projects/a/global/networks/n''
        (ComputeURIPrefix @ ''projects/b/global/networks/n'')
   \<and> EquateComputeURLs (ComputeURIPrefix @ ''projects/b/global/networks/n'') ''n''
   \<and> \<not> EquateComputeURLs ''projects/a/global/networks/n'' ''n''"
proof -
  have "EquateComputeURLs ''projects/a/global/networks/n''
          (ComputeURIPrefix @ ''projects/b/global/networks/n'')"
    by code_simp
  moreover have "EquateComputeURLs (ComputeURIPrefix @ ''projects/b/global/networks/n'') ''n''"
    by code_simp
  moreover have "\<not> EquateComputeURLs ''projects/a/global/networks/n'' ''n''"
    by code_simp
  ultimately show ?thesis
    using EquateComputeURLs_refl EquateComputeURLs_sym by metis
qed

end
