(* ===== verification/Kms.thy ===== *)
theory Kms
  imports Gcp_Client
begin

text \<open>
  Cloud KMS key rings and crypto keys: \<^verbatim>\<open>apis/kms/v1alpha1/keyring_types.go\<close> and \<^verbatim>\<open>cryptokey_types.go\<close>, the
  clients \<^verbatim>\<open>pkg/clients/keyring\<close> and \<^verbatim>\<open>pkg/clients/cryptokey\<close>, and the controllers
  \<^verbatim>\<open>pkg/controller/kms/keyring.go\<close> and \<^verbatim>\<open>cryptokey.go\<close>. Neither resource can be deleted: a deleted custom
  resource is observed as missing without a call.
\<close>

section \<open>Data\<close>

record KeyRingParameters =
  krp_Location :: string

record KeyRingObservation =
  kro_CreateTime :: string
  kro_Name :: string

type_synonym KeyRing = "(KeyRingParameters, KeyRingObservation) managed"

record CryptoKeyVersionTemplate =
  vt_Algorithm :: "string option"
  vt_ProtectionLevel :: "string option"

record CryptoKeyParameters =
  ckp_KeyRing :: "string option"
  ckp_KeyRingRef :: "Reference option"
  ckp_KeyRingSelector :: "Selector option"
  ckp_Labels :: strmap
  ckp_Purpose :: string
  ckp_RotationPeriod :: "string option"
  ckp_NextRotationTime :: "string option"
  ckp_VersionTemplate :: "CryptoKeyVersionTemplate option"

record ExternalProtectionLevelOptions =
  eplo_ExternalKeyUri :: string

record KeyOperationAttestation =
  koa_Content :: string
  koa_Format :: string

record CryptoKeyVersion =
  ckv_Algorithm :: string
  ckv_Attestation :: "KeyOperationAttestation option"
  ckv_CreateTime :: string
  ckv_DestroyEventTime :: string
  ckv_DestroyTime :: string
  ckv_ExternalProtectionLevelOptions :: "ExternalProtectionLevelOptions option"
  ckv_GenerateTime :: string
  ckv_ImportFailureReason :: string
  ckv_ImportJob :: string
  ckv_ImportTime :: string
  ckv_Name :: string
  ckv_ProtectionLevel :: string
  ckv_State :: string

record CryptoKeyObservation =
  cko_CreateTime :: string
  cko_Name :: string
  cko_NextRotationTime :: string
  cko_Primary :: "CryptoKeyVersion option"

type_synonym CryptoKey = "(CryptoKeyParameters, CryptoKeyObservation) managed"

text \<open>\<^verbatim>\<open>cloudkms.KeyRing\<close> and \<^verbatim>\<open>cloudkms.CryptoKey\<close>\<close>

record kms_KeyRing =
  kkr_CreateTime :: string
  kkr_Name :: string

record kms_VersionTemplate =
  kvt_Algorithm :: string
  kvt_ProtectionLevel :: string

record kms_Attestation =
  kat_Content :: string
  kat_Format :: string

record kms_CryptoKeyVersion =
  kcv_Algorithm :: string
  kcv_Attestation :: "kms_Attestation option"
  kcv_CreateTime :: string
  kcv_DestroyEventTime :: string
  kcv_DestroyTime :: string
  kcv_ExternalKeyUri :: "string option" \<comment> \<open>\<open>ExternalProtectionLevelOptions\<close>, its only field\<close>
  kcv_GenerateTime :: string
  kcv_ImportFailureReason :: string
  kcv_ImportJob :: string
  kcv_ImportTime :: string
  kcv_Name :: string
  kcv_ProtectionLevel :: string
  kcv_State :: string

record kms_CryptoKey =
  kck_CreateTime :: string
  kck_Labels :: strmap
  kck_Name :: string
  kck_NextRotationTime :: string
  kck_Primary :: "kms_CryptoKeyVersion option"
  kck_Purpose :: string
  kck_RotationPeriod :: string
  kck_VersionTemplate :: "kms_VersionTemplate option"

definition kms_CryptoKey0 :: kms_CryptoKey where
  "kms_CryptoKey0 = \<lparr>kck_CreateTime = '''', kck_Labels = None, kck_Name = '''', kck_NextRotationTime = '''',
     kck_Primary = None, kck_Purpose = '''', kck_RotationPeriod = '''', kck_VersionTemplate = None\<rparr>"

section \<open>Clients\<close>

definition keyring_GenerateObservation :: "kms_KeyRing \<Rightarrow> KeyRingObservation" where
  "keyring_GenerateObservation in' = \<lparr>kro_CreateTime = kkr_CreateTime in', kro_Name = kkr_Name in'\<rparr>"

definition cryptokey_errCheckUpToDate :: string where
  "cryptokey_errCheckUpToDate = ''unable to determine if external resource is up to date''"

definition kms_VersionTemplate0 :: kms_VersionTemplate where
  "kms_VersionTemplate0 = \<lparr>kvt_Algorithm = '''', kvt_ProtectionLevel = ''''\<rparr>"

definition CryptoKeyVersionTemplate0 :: CryptoKeyVersionTemplate where
  "CryptoKeyVersionTemplate0 = \<lparr>vt_Algorithm = None, vt_ProtectionLevel = None\<rparr>"

definition gen_template :: "CryptoKeyVersionTemplate \<Rightarrow> kms_VersionTemplate \<Rightarrow> kms_VersionTemplate" where
  "gen_template in' ck = ck\<lparr>kvt_Algorithm := StringValue (vt_Algorithm in'),
     kvt_ProtectionLevel := StringValue (vt_ProtectionLevel in')\<rparr>"

definition GenerateCryptoKeyInstance :: "CryptoKeyParameters \<Rightarrow> kms_CryptoKey \<Rightarrow> kms_CryptoKey" where
  "GenerateCryptoKeyInstance in' ck = ck\<lparr>
     kck_Labels := ckp_Labels in',
     kck_Purpose := ckp_Purpose in',
     kck_RotationPeriod := StringValue (ckp_RotationPeriod in'),
     kck_NextRotationTime := StringValue (ckp_NextRotationTime in'),
     kck_VersionTemplate := gen_block kms_VersionTemplate0 gen_template
       (ckp_VersionTemplate in') (kck_VersionTemplate ck)\<rparr>"

definition primary_version :: "kms_CryptoKeyVersion \<Rightarrow> CryptoKeyVersion" where
  "primary_version p = \<lparr>
     ckv_Algorithm = kcv_Algorithm p,
     ckv_Attestation = (case kcv_Attestation p of None \<Rightarrow> None
       | Some a \<Rightarrow> Some \<lparr>koa_Content = kat_Content a, koa_Format = kat_Format a\<rparr>),
     ckv_CreateTime = kcv_CreateTime p,
     ckv_DestroyEventTime = kcv_DestroyEventTime p,
     ckv_DestroyTime = kcv_DestroyTime p,
     ckv_ExternalProtectionLevelOptions = (case kcv_ExternalKeyUri p of None \<Rightarrow> None
       | Some u \<Rightarrow> Some \<lparr>eplo_ExternalKeyUri = u\<rparr>),
     ckv_GenerateTime = kcv_GenerateTime p,
     ckv_ImportFailureReason = kcv_ImportFailureReason p,
     ckv_ImportJob = kcv_ImportJob p,
     ckv_ImportTime = kcv_ImportTime p,
     ckv_Name = kcv_Name p,
     ckv_ProtectionLevel = kcv_ProtectionLevel p,
     ckv_State = kcv_State p\<rparr>"

definition cryptokey_GenerateObservation :: "kms_CryptoKey \<Rightarrow> CryptoKeyObservation" where
  "cryptokey_GenerateObservation in' = \<lparr>
     cko_CreateTime = kck_CreateTime in', cko_Name = kck_Name in',
     cko_NextRotationTime = kck_NextRotationTime in',
     cko_Primary = (case kck_Primary in' of None \<Rightarrow> None | Some p \<Rightarrow> Some (primary_version p))\<rparr>"

definition late_template :: "CryptoKeyVersionTemplate \<Rightarrow> kms_VersionTemplate \<Rightarrow> CryptoKeyVersionTemplate" where
  "late_template spec in' = spec\<lparr>
     vt_ProtectionLevel := LateInitializeString (vt_ProtectionLevel spec) (kvt_ProtectionLevel in'),
     vt_Algorithm := LateInitializeString (vt_Algorithm spec) (kvt_Algorithm in')\<rparr>"

definition cryptokey_LateInitializeSpec :: "CryptoKeyParameters \<Rightarrow> kms_CryptoKey \<Rightarrow> CryptoKeyParameters" where
  \<comment> \<open>the labels are assigned, whatever the spec has\<close>
  "cryptokey_LateInitializeSpec spec in' = spec\<lparr>
     ckp_Labels := kck_Labels in',
     ckp_RotationPeriod := LateInitializeString (ckp_RotationPeriod spec) (kck_RotationPeriod in'),
     ckp_NextRotationTime := LateInitializeString (ckp_NextRotationTime spec) (kck_NextRotationTime in'),
     ckp_VersionTemplate := late_block CryptoKeyVersionTemplate0 late_template
       (ckp_VersionTemplate spec) (kck_VersionTemplate in')\<rparr>"

text \<open>
  The comparisons: labels with \<open>EquateEmpty\<close>, strings, and version templates without their
  bookkeeping fields. If the templates differ, the fields of both are read: a missing template
  panics.
\<close>

record key_comparers =
  kc_labels :: "strmap comparer"
  kc_string :: "string comparer"
  kc_template :: "kms_VersionTemplate option comparer"

definition mask_unless :: "bool \<Rightarrow> string \<Rightarrow> string list \<Rightarrow> string list" where
  \<comment> \<open>\<open>if !equal { um = append(um, path) }\<close>\<close>
  "mask_unless b path um = (if \<not> b then um @ [path] else um)"

definition cryptokey_IsUpToDate ::
  "'e runtime \<Rightarrow> (kms_CryptoKey, 'e) copier \<Rightarrow> key_comparers \<Rightarrow> CryptoKeyParameters \<Rightarrow> kms_CryptoKey
    \<Rightarrow> (bool \<times> string \<times> 'e option) option" where
  "cryptokey_IsUpToDate L copy eq in' observed =
     (case copy observed of
        Inl err \<Rightarrow> Some (True, '''', errors_Wrap L (Some err) cryptokey_errCheckUpToDate)
      | Inr None \<Rightarrow> Some (True, '''', Some (errors_New L cryptokey_errCheckUpToDate))
      | Inr (Some desired) \<Rightarrow> do {
          let desired = GenerateCryptoKeyInstance in' desired;
          let um = mask_unless (kc_labels eq (kck_Labels desired) (kck_Labels observed)) ''labels'' [];
          let um = mask_unless (kc_string eq (kck_Purpose desired) (kck_Purpose observed)) ''purpose'' um;
          let um = mask_unless (kc_string eq (kck_RotationPeriod desired) (kck_RotationPeriod observed))
                     ''rotationPeriod'' um;
          let um = mask_unless (kc_string eq (kck_NextRotationTime desired) (kck_NextRotationTime observed))
                     ''nextRotationTime'' um;
          um \<leftarrow> (if \<not> kc_template eq (kck_VersionTemplate desired) (kck_VersionTemplate observed)
                then do {
                  d \<leftarrow> kck_VersionTemplate desired; ob \<leftarrow> kck_VersionTemplate observed;
                  let um = mask_unless (kc_string eq (kvt_Algorithm d) (kvt_Algorithm ob))
                             ''versionTemplate.algorithm'' um;
                  Some (mask_unless (kc_string eq (kvt_ProtectionLevel d) (kvt_ProtectionLevel ob))
                         ''versionTemplate.protectionLevel'' um) }
                else Some um);
          if um \<noteq> [] then Some (False, Join um '','', None) else Some (True, '''', None) })"

section \<open>Key ring controller\<close>

definition kms_errNewClient :: string where
  "kms_errNewClient = ''cannot create new GCP KMS API client''"
definition errNotKeyRing :: string where
  "errNotKeyRing = ''managed resource is not a GCP KeyRing''"
definition kms_errGet :: string where
  "kms_errGet = ''cannot get GCP object via KMS API''"
definition kms_errCreate :: string where
  "kms_errCreate = ''cannot create GCP object via KMS API''"
definition kms_errUpdate :: string where
  "kms_errUpdate = ''cannot update GCP object via KMS API''"

record RelativeResourceNamerKeyRing =
  krn_projectName :: string
  krn_location :: string

definition NewRelativeResourceNamerKeyRing :: "string \<Rightarrow> string \<Rightarrow> RelativeResourceNamerKeyRing" where
  "NewRelativeResourceNamerKeyRing projectName location = \<lparr>krn_projectName = projectName, krn_location = location\<rparr>"

definition keyring_ProjectRRN :: "RelativeResourceNamerKeyRing \<Rightarrow> string" where
  "keyring_ProjectRRN rrn = ''projects/'' @ krn_projectName rrn"

definition LocationRRN :: "RelativeResourceNamerKeyRing \<Rightarrow> string" where
  "LocationRRN rrn = keyring_ProjectRRN rrn @ ''/locations/'' @ krn_location rrn"

definition keyring_ResourceName :: "RelativeResourceNamerKeyRing \<Rightarrow> KeyRing \<Rightarrow> string" where
  "keyring_ResourceName rrn kr = LocationRRN rrn @ ''/keyRings/'' @ ExternalName kr"

record ('w, 'e) keyRingExternal =
  kr_runtime :: "'e runtime"
  kr_rrn :: RelativeResourceNamerKeyRing
  KeyRings_Get :: "string \<Rightarrow> ('w, kms_KeyRing, 'e) call"
  KeyRings_Create :: "string \<Rightarrow> kms_KeyRing \<Rightarrow> string \<Rightarrow> ('w, unit, 'e) call"

definition keyRing_Connect ::
  "'e runtime \<Rightarrow> ('w, KeyRing, 'src, 'sel, 'e) auth_api
    \<Rightarrow> (ClientOption option \<Rightarrow> ('w, ('w, 'e) keyRingExternal, 'e) call)
    \<Rightarrow> KeyRing option \<Rightarrow> 'w \<Rightarrow> ('w \<times> ('w, 'e) keyRingExternal option \<times> 'e option) option" where
  "keyRing_Connect L c newService mg w =
     (case mg of
        None \<Rightarrow> Some (w, None, Some (errors_New L errNotKeyRing))
      | Some cr \<Rightarrow> connect_service L c kms_errNewClient
          (\<lambda>projectID opts w. case newService opts w of
             (w1, Inl err) \<Rightarrow> (w1, Inl err)
           | (w1, Inr s) \<Rightarrow> (w1, Inr (s\<lparr>kr_rrn :=
               NewRelativeResourceNamerKeyRing projectID (krp_Location (ForProvider cr))\<rparr>))) cr w)"

definition keyRing_Observe ::
  "('w, 'e) keyRingExternal \<Rightarrow> KeyRing option \<Rightarrow> 'w \<Rightarrow> ('w, KeyRing, ExternalObservation, 'e) outcome" where
  "keyRing_Observe e mg w =
     (let L = kr_runtime e in
      case mg of
        None \<Rightarrow> (w, None, ExternalObservation0, Some (errors_New L errNotKeyRing))
      | Some cr \<Rightarrow>
          if WasDeleted cr then (w, Some cr, ExternalObservation0, None)
          else (case KeyRings_Get e (keyring_ResourceName (kr_rrn e) cr) w of
              (w1, Inl err) \<Rightarrow>
                if IsErrorNotFound L (Some err)
                then (w1, Some cr, ExternalObservation0\<lparr>ResourceExists := False\<rparr>, None)
                else (w1, Some cr, ExternalObservation0, errors_Wrap L (Some err) kms_errGet)
            | (w1, Inr instance') \<Rightarrow>
                let cr = (SetConditions Available cr)\<lparr>AtProvider := keyring_GenerateObservation instance'\<rparr>
                in (w1, Some cr, ExternalObservation0\<lparr>ResourceExists := True, ResourceUpToDate := True,
                      ObservedDetails := Some fmempty\<rparr>, None)))"

definition keyRing_Create ::
  "('w, 'e) keyRingExternal \<Rightarrow> KeyRing option \<Rightarrow> 'w \<Rightarrow> ('w, KeyRing, ExternalCreation, 'e) outcome" where
  "keyRing_Create e mg w =
     (let L = kr_runtime e in
      case mg of
        None \<Rightarrow> (w, None, ExternalCreation0, Some (errors_New L errNotKeyRing))
      | Some cr \<Rightarrow>
          let cr = SetConditions Creating cr in
          (case KeyRings_Create e (LocationRRN (kr_rrn e)) \<lparr>kkr_CreateTime = '''', kkr_Name = ''''\<rparr>
                  (ExternalName cr) w of
             (w1, Inl err) \<Rightarrow> (w1, Some cr, ExternalCreation0, errors_Wrap L (Some err) kms_errCreate)
           | (w1, Inr _) \<Rightarrow> (w1, Some cr, ExternalCreation0, None)))"

definition keyRing_Update ::
  "('w, 'e) keyRingExternal \<Rightarrow> KeyRing option \<Rightarrow> 'w \<Rightarrow> ('w, KeyRing, ExternalUpdate, 'e) outcome" where
  "keyRing_Update e mg w = (w, mg, ExternalUpdate0, None)"

definition keyRing_Delete ::
  "('w, 'e) keyRingExternal \<Rightarrow> KeyRing option \<Rightarrow> 'w \<Rightarrow> ('w, KeyRing, unit, 'e) outcome" where
  "keyRing_Delete e mg w = (w, mg, (), None)"

section \<open>Crypto key controller\<close>

definition errNotCryptoKey :: string where
  "errNotCryptoKey = ''managed resource is not a GCP CryptoKey''"
definition kms_errCheckUpToDate :: string where
  "kms_errCheckUpToDate = ''cannot determine if CryptoKey instance is up to date''"

definition cryptoKeyRRN :: "CryptoKey \<Rightarrow> string" where
  "cryptoKeyRRN cr = StringValue (ckp_KeyRing (ForProvider cr)) @ ''/cryptoKeys/'' @ ExternalName cr"

record ('w, 'e) cryptoKeyExternal =
  ck_runtime :: "'e runtime"
  ck_copy :: "(kms_CryptoKey, 'e) copier"
  ck_cmp :: key_comparers
  ck_spec_cmp :: "CryptoKeyParameters comparer"
  CryptoKeys_Get :: "string \<Rightarrow> ('w, kms_CryptoKey, 'e) call"
  CryptoKeys_Create :: "string \<Rightarrow> kms_CryptoKey \<Rightarrow> string \<Rightarrow> ('w, unit, 'e) call"
  CryptoKeys_Patch :: "string \<Rightarrow> kms_CryptoKey \<Rightarrow> string \<Rightarrow> ('w, unit, 'e) call"

definition cryptoKey_Connect ::
  "'e runtime \<Rightarrow> ('w, CryptoKey, 'src, 'sel, 'e) auth_api
    \<Rightarrow> (ClientOption option \<Rightarrow> ('w, ('w, 'e) cryptoKeyExternal, 'e) call)
    \<Rightarrow> CryptoKey \<Rightarrow> 'w \<Rightarrow> ('w \<times> ('w, 'e) cryptoKeyExternal option \<times> 'e option) option" where
  "cryptoKey_Connect L c newService mg w = connect_service L c kms_errNewClient (\<lambda>_. newService) mg w"

definition cryptoKey_Observe ::
  "('w, 'e) cryptoKeyExternal \<Rightarrow> CryptoKey option \<Rightarrow> 'w
    \<Rightarrow> ('w, CryptoKey, ExternalObservation, 'e) outcome option" where
  "cryptoKey_Observe e mg w =
     (let L = ck_runtime e in
      case mg of
        None \<Rightarrow> Some (w, None, ExternalObservation0, Some (errors_New L errNotCryptoKey))
      | Some cr \<Rightarrow>
          if WasDeleted cr then Some (w, Some cr, ExternalObservation0, None)
          else (case CryptoKeys_Get e (cryptoKeyRRN cr) w of
              (w1, Inl err) \<Rightarrow> Some (w1, Some cr, ExternalObservation0,
                 errors_Wrap L (resource_Ignore L (IsErrorNotFound L) (Some err)) kms_errGet)
            | (w1, Inr instance') \<Rightarrow> do {
                let currentSpec = ForProvider cr;
                let cr = cr\<lparr>ForProvider := cryptokey_LateInitializeSpec (ForProvider cr) instance'\<rparr>;
                let lateInitialized = (\<not> ck_spec_cmp e currentSpec (ForProvider cr));
                let cr = SetConditions Available (cr\<lparr>AtProvider := cryptokey_GenerateObservation instance'\<rparr>);
                (upToDate, _, err) \<leftarrow> cryptokey_IsUpToDate L (ck_copy e) (ck_cmp e) (ForProvider cr) instance';
                if err \<noteq> None
                then Some (w1, Some cr, ExternalObservation0, errors_Wrap L err kms_errCheckUpToDate)
                else Some (w1, Some cr, ExternalObservation0\<lparr>ResourceExists := True,
                       ResourceLateInitialized := lateInitialized, ResourceUpToDate := upToDate\<rparr>, None) }))"

definition cryptoKey_Create ::
  "('w, 'e) cryptoKeyExternal \<Rightarrow> CryptoKey option \<Rightarrow> 'w \<Rightarrow> ('w, CryptoKey, ExternalCreation, 'e) outcome" where
  "cryptoKey_Create e mg w =
     (let L = ck_runtime e in
      case mg of
        None \<Rightarrow> (w, None, ExternalCreation0, Some (errors_New L errNotCryptoKey))
      | Some cr \<Rightarrow>
          let cr = SetConditions Creating cr;
              instance' = GenerateCryptoKeyInstance (ForProvider cr) kms_CryptoKey0 in
          (case CryptoKeys_Create e (StringValue (ckp_KeyRing (ForProvider cr))) instance' (ExternalName cr) w of
             (w1, Inl err) \<Rightarrow> (w1, Some cr, ExternalCreation0, errors_Wrap L (Some err) kms_errCreate)
           | (w1, Inr _) \<Rightarrow> (w1, Some cr, ExternalCreation0, None)))"

definition cryptoKey_Update ::
  "('w, 'e) cryptoKeyExternal \<Rightarrow> CryptoKey option \<Rightarrow> 'w
    \<Rightarrow> ('w, CryptoKey, ExternalUpdate, 'e) outcome option" where
  "cryptoKey_Update e mg w =
     (let L = ck_runtime e in
      case mg of
        None \<Rightarrow> Some (w, None, ExternalUpdate0, Some (errors_New L errNotCryptoKey))
      | Some cr \<Rightarrow>
         (case CryptoKeys_Get e (cryptoKeyRRN cr) w of
            (w1, Inl err) \<Rightarrow> Some (w1, Some cr, ExternalUpdate0, errors_Wrap L (Some err) kms_errGet)
          | (w1, Inr instance') \<Rightarrow> do {
              (u, um, err) \<leftarrow> cryptokey_IsUpToDate L (ck_copy e) (ck_cmp e) (ForProvider cr) instance';
              if err \<noteq> None
              then Some (w1, Some cr, ExternalUpdate0, errors_Wrap L err kms_errCheckUpToDate)
              else if u then Some (w1, Some cr, ExternalUpdate0, None)
              else (case CryptoKeys_Patch e (cryptoKeyRRN cr)
                          (GenerateCryptoKeyInstance (ForProvider cr) instance') um w1 of
                  (w2, Inl err) \<Rightarrow> Some (w2, Some cr, ExternalUpdate0, errors_Wrap L (Some err) kms_errUpdate)
                | (w2, Inr _) \<Rightarrow> Some (w2, Some cr, ExternalUpdate0, None)) }))"

definition cryptoKey_Delete ::
  "('w, 'e) cryptoKeyExternal \<Rightarrow> CryptoKey option \<Rightarrow> 'w \<Rightarrow> ('w, CryptoKey, unit, 'e) outcome" where
  "cryptoKey_Delete e mg w = (w, mg, (), None)"

end
