(* ===== verification/Iam_Policy.thy ===== *)
theory Iam_Policy
  imports Gcp_Client
begin

text \<open>
  IAM policies: the policy types of \<^verbatim>\<open>apis/iam/v1alpha1/policy.go\<close>, the policies of the
  Google APIs they are translated to, and the three clients
  \<^verbatim>\<open>pkg/clients/bucketpolicy\<close>, \<^verbatim>\<open>cryptokeypolicy\<close> and \<^verbatim>\<open>serviceaccountpolicy\<close>. The
  binding of a single member of a bucket policy is refined to a set of pairs of a role and a
  member.
\<close>

section \<open>Policies of the custom resources\<close>

record Expr =
  expr_Description :: "string option"
  expr_Expression :: string
  expr_Location :: "string option"
  expr_Title :: "string option"

record Binding =
  binding_Condition :: "Expr option"
  binding_Members :: "string slice"
  binding_ServiceAccountMemberRefs :: "Reference slice"
  binding_ServiceAccountMemberSelector :: "Selector option"
  binding_Role :: string

record AuditLogConfig =
  alc_ExemptedMembers :: "string slice"
  alc_LogType :: string

record AuditConfig =
  ac_AuditLogConfigs :: "AuditLogConfig option slice"
  ac_Service :: string

record Policy =
  policy_AuditConfigs :: "AuditConfig option slice"
  policy_Bindings :: "Binding option slice"

record BucketPolicyParameters =
  bpp_Bucket :: "string option"
  bpp_BucketRef :: "Reference option"
  bpp_BucketSelector :: "Selector option"
  bpp_Policy :: Policy

record BucketPolicyMemberParameters =
  bpm_Bucket :: "string option"
  bpm_BucketRef :: "Reference option"
  bpm_BucketSelector :: "Selector option"
  bpm_Role :: string
  bpm_Member :: "string option"
  bpm_ServiceAccountMemberRef :: "Reference option"
  bpm_ServiceAccountMemberSelector :: "Selector option"

record CryptoKeyPolicyParameters =
  ckp_CryptoKey :: "string option"
  ckp_CryptoKeyRef :: "Reference option"
  ckp_CryptoKeySelector :: "Selector option"
  ckp_Policy :: Policy

record ServiceAccountReferer =
  sar_ServiceAccount :: "string option"
  sar_ServiceAccountRef :: "Reference option"
  sar_ServiceAccountSelector :: "Selector option"

record ServiceAccountPolicyParameters =
  sap_ServiceAccountReferer :: ServiceAccountReferer
  sap_Policy :: Policy

definition PolicyVersion :: int64 where
  "PolicyVersion = 3"

section \<open>Policies of the Google APIs\<close>

text \<open>
  \<^verbatim>\<open>storage.Policy\<close>, and \<^verbatim>\<open>cloudkms.Policy\<close> and \<^verbatim>\<open>iam.Policy\<close>, which also have audit
  configurations; the fields that the clients and the comparison touch.
\<close>

record api_Expr =
  aexpr_Description :: string
  aexpr_Expression :: string
  aexpr_Location :: string
  aexpr_Title :: string

record api_Binding =
  ab_Condition :: "api_Expr option"
  ab_Members :: "string slice"
  ab_Role :: string

record api_AuditLogConfig =
  aalc_ExemptedMembers :: "string slice"
  aalc_LogType :: string

record api_AuditConfig =
  aac_AuditLogConfigs :: "api_AuditLogConfig option slice"
  aac_Service :: string

record api_Policy =
  ap_Bindings :: "api_Binding option slice"
  ap_Etag :: string
  ap_Version :: int64

record api_AuditedPolicy = api_Policy +
  ap_AuditConfigs :: "api_AuditConfig option slice"

definition storage_Policy0 :: api_Policy where
  "storage_Policy0 = \<lparr>ap_Bindings = None, ap_Etag = '''', ap_Version = 0\<rparr>"

definition iam_Policy0 :: api_AuditedPolicy where
  "iam_Policy0 = \<lparr>ap_Bindings = None, ap_Etag = '''', ap_Version = 0, ap_AuditConfigs = None\<rparr>"

section \<open>Generation\<close>

text \<open>The body of the loop over the bindings, common to the three clients; a nil element
  panics.\<close>

definition api_binding :: "Binding option \<Rightarrow> api_Binding option option" where
  "api_binding v = do {
     v \<leftarrow> v;
     Some (Some \<lparr>
       ab_Condition = (case binding_Condition v of None \<Rightarrow> None
         | Some c \<Rightarrow> Some \<lparr>
             aexpr_Description = StringValue (expr_Description c),
             aexpr_Expression = expr_Expression c,
             aexpr_Location = StringValue (expr_Location c),
             aexpr_Title = StringValue (expr_Title c)\<rparr>),
       ab_Members = Some (elems (binding_Members v)),
       ab_Role = binding_Role v\<rparr>) }"

definition api_audit_log_config :: "AuditLogConfig option \<Rightarrow> api_AuditLogConfig option option" where
  "api_audit_log_config av = do {
     av \<leftarrow> av;
     Some (Some \<lparr>aalc_ExemptedMembers = Some (elems (alc_ExemptedMembers av)),
                 aalc_LogType = alc_LogType av\<rparr>) }"

definition api_audit_config :: "AuditConfig option \<Rightarrow> api_AuditConfig option option" where
  "api_audit_config v = do {
     v \<leftarrow> v;
     logs \<leftarrow> mapP api_audit_log_config (elems (ac_AuditLogConfigs v));
     Some (Some \<lparr>aac_AuditLogConfigs = Some logs, aac_Service = ac_Service v\<rparr>) }"

definition GenerateBucketPolicyInstance ::
  "BucketPolicyParameters \<Rightarrow> api_Policy \<Rightarrow> api_Policy option" where
  "GenerateBucketPolicyInstance in' ck = do {
     bs \<leftarrow> mapP api_binding (elems (policy_Bindings (bpp_Policy in')));
     Some (ck\<lparr>ap_Bindings := Some bs, ap_Version := PolicyVersion\<rparr>) }"

definition GenerateCryptoKeyPolicyInstance ::
  "CryptoKeyPolicyParameters \<Rightarrow> api_AuditedPolicy \<Rightarrow> api_AuditedPolicy option" where
  "GenerateCryptoKeyPolicyInstance in' ck = do {
     bs \<leftarrow> mapP api_binding (elems (policy_Bindings (ckp_Policy in')));
     acs \<leftarrow> mapP api_audit_config (elems (policy_AuditConfigs (ckp_Policy in')));
     Some (ck\<lparr>ap_Bindings := Some bs, ap_AuditConfigs := Some acs, ap_Version := PolicyVersion\<rparr>) }"

definition GenerateServiceAccountPolicyInstance ::
  "ServiceAccountPolicyParameters \<Rightarrow> api_AuditedPolicy \<Rightarrow> api_AuditedPolicy option" where
  "GenerateServiceAccountPolicyInstance in' p = do {
     bs \<leftarrow> mapP api_binding (elems (policy_Bindings (sap_Policy in')));
     acs \<leftarrow> mapP api_audit_config (elems (policy_AuditConfigs (sap_Policy in')));
     Some (p\<lparr>ap_Bindings := Some bs, ap_AuditConfigs := Some acs, ap_Version := PolicyVersion\<rparr>) }"

section \<open>Comparison\<close>

definition policy_errCheckUpToDate :: string where
  "policy_errCheckUpToDate = ''unable to determine if external resource is up to date''"

text \<open>\<open>ArePoliciesSame\<close> is one call of \<open>cmp.Equal\<close>, the parameter \<open>same\<close>.\<close>

definition bucketpolicy_IsUpToDate ::
  "'e runtime \<Rightarrow> (api_Policy, 'e) copier \<Rightarrow> api_Policy comparer
    \<Rightarrow> BucketPolicyParameters \<Rightarrow> api_Policy \<Rightarrow> (bool \<times> 'e option) option" where
  "bucketpolicy_IsUpToDate L copy same in' observed =
     (case copy observed of
        Inl err \<Rightarrow> Some (True, errors_Wrap L (Some err) policy_errCheckUpToDate)
      | Inr None \<Rightarrow> Some (True, Some (errors_New L policy_errCheckUpToDate))
      | Inr (Some desired) \<Rightarrow> do {
          desired \<leftarrow> GenerateBucketPolicyInstance in' desired;
          Some (same desired observed, None) })"

definition cryptokeypolicy_IsUpToDate ::
  "'e runtime \<Rightarrow> (api_AuditedPolicy, 'e) copier \<Rightarrow> api_AuditedPolicy comparer
    \<Rightarrow> CryptoKeyPolicyParameters \<Rightarrow> api_AuditedPolicy \<Rightarrow> (bool \<times> 'e option) option" where
  "cryptokeypolicy_IsUpToDate L copy same in' observed =
     (case copy observed of
        Inl err \<Rightarrow> Some (True, errors_Wrap L (Some err) policy_errCheckUpToDate)
      | Inr None \<Rightarrow> Some (True, Some (errors_New L policy_errCheckUpToDate))
      | Inr (Some desired) \<Rightarrow> do {
          desired \<leftarrow> GenerateCryptoKeyPolicyInstance in' desired;
          Some (same desired observed, None) })"

definition serviceaccountpolicy_IsUpToDate ::
  "'e runtime \<Rightarrow> (api_AuditedPolicy, 'e) copier \<Rightarrow> api_AuditedPolicy comparer
    \<Rightarrow> ServiceAccountPolicyParameters \<Rightarrow> api_AuditedPolicy \<Rightarrow> (bool \<times> 'e option) option" where
  "serviceaccountpolicy_IsUpToDate L copy same in' observed =
     (case copy observed of
        Inl err \<Rightarrow> Some (True, errors_Wrap L (Some err) policy_errCheckUpToDate)
      | Inr None \<Rightarrow> Some (True, Some (errors_New L policy_errCheckUpToDate))
      | Inr (Some desired) \<Rightarrow> do {
          desired \<leftarrow> GenerateServiceAccountPolicyInstance in' desired;
          Some (same desired observed, None) })"

definition bucketpolicy_IsEmpty :: "api_Policy \<Rightarrow> bool" where
  "bucketpolicy_IsEmpty in' = (ap_Bindings in' = None)"

definition cryptokeypolicy_IsEmpty :: "api_AuditedPolicy \<Rightarrow> bool" where
  "cryptokeypolicy_IsEmpty in' = (ap_Bindings in' = None \<and> ap_AuditConfigs in' = None)"

definition serviceaccountpolicy_IsEmpty :: "api_AuditedPolicy \<Rightarrow> bool" where
  "serviceaccountpolicy_IsEmpty in' = (ap_Bindings in' = None \<and> ap_AuditConfigs in' = None)"

section \<open>Binding and unbinding a member\<close>

text \<open>
  The loop over \<open>ck.Bindings\<close>. The second component is the value of an early \<open>return\<close>, \<open>None\<close>
  when the loop runs to its end; the bindings are returned as the loop leaves them.
\<close>

fun bind_loop :: "string \<Rightarrow> string \<Rightarrow> api_Binding option list
    \<Rightarrow> (api_Binding option list \<times> bool option) option" where
  "bind_loop role member [] = Some ([], None)"
| "bind_loop role member (p # ps) = do {
     b \<leftarrow> p;
     if ab_Role b = role then
       if member \<in> set (elems (ab_Members b)) then Some (p # ps, Some False)
       else Some (Some (b\<lparr>ab_Members := append_slice (ab_Members b) member\<rparr>) # ps, Some True)
     else do {
       (ps', r) \<leftarrow> bind_loop role member ps;
       Some (p # ps', r) } }"

definition BindRoleToMember ::
  "BucketPolicyMemberParameters \<Rightarrow> api_Policy \<Rightarrow> (api_Policy \<times> bool) option" where
  "BindRoleToMember in' ck = do {
     let ck = ck\<lparr>ap_Version := PolicyVersion\<rparr>;
     (bs, r) \<leftarrow> bind_loop (bpm_Role in') (StringValue (bpm_Member in')) (elems (ap_Bindings ck));
     (case r of
        Some changed \<Rightarrow> Some (ck\<lparr>ap_Bindings := Some bs\<rparr>, changed)
      | None \<Rightarrow> Some (ck\<lparr>ap_Bindings := append_slice (ap_Bindings ck)
                  (Some \<lparr>ab_Condition = None, ab_Members = Some [StringValue (bpm_Member in')],
                         ab_Role = bpm_Role in'\<rparr>)\<rparr>, True)) }"

fun unbind_loop :: "string \<Rightarrow> string \<Rightarrow> api_Binding option list
    \<Rightarrow> (api_Binding option list \<times> bool) option" where
  "unbind_loop role member [] = Some ([], False)"
| "unbind_loop role member (p # ps) = do {
     b \<leftarrow> p;
     if ab_Role b = role then
       \<comment> \<open>the first index of the member is removed, if there is one\<close>
       if member \<in> set (elems (ab_Members b))
       then Some (Some (b\<lparr>ab_Members := Some (remove1 member (elems (ab_Members b)))\<rparr>) # ps, True)
       else Some (p # ps, False)
     else do {
       (ps', r) \<leftarrow> unbind_loop role member ps;
       Some (p # ps', r) } }"

definition UnbindRoleFromMember ::
  "BucketPolicyMemberParameters \<Rightarrow> api_Policy \<Rightarrow> (api_Policy \<times> bool) option" where
  "UnbindRoleFromMember in' ck = do {
     (bs, changed) \<leftarrow> unbind_loop (bpm_Role in') (StringValue (bpm_Member in')) (elems (ap_Bindings ck));
     Some (ck\<lparr>ap_Bindings := map_option (\<lambda>_. bs) (ap_Bindings ck)\<rparr>, changed) }"

section \<open>A policy as a set of grants\<close>

definition grants_of :: "api_Binding option list \<Rightarrow> (string \<times> string) set" where
  "grants_of bs = (\<Union>p\<in>set bs. case p of None \<Rightarrow> {} | Some b \<Rightarrow> Pair (ab_Role b) ` set (elems (ab_Members b)))"

definition grants :: "api_Policy \<Rightarrow> (string \<times> string) set" where
  "grants p = grants_of (elems (ap_Bindings p))"

fun roles_of :: "api_Binding option list \<Rightarrow> string set" where
  "roles_of [] = {}"
| "roles_of (p # ps) = insert (ab_Role (the p)) (roles_of ps)"

fun wf_bindings :: "api_Binding option list \<Rightarrow> bool" where
  \<comment> \<open>no nil element, at most one binding per role, no member twice in a binding\<close>
  "wf_bindings [] = True"
| "wf_bindings (None # ps) = False"
| "wf_bindings (Some b # ps) = (distinct (elems (ab_Members b))
     \<and> ab_Role b \<notin> roles_of ps \<and> wf_bindings ps)"

definition wf_policy :: "api_Policy \<Rightarrow> bool" where
  "wf_policy p = wf_bindings (elems (ap_Bindings p))"

lemma grants_of_simps [simp]:
  "grants_of [] = {}"
  "grants_of (None # ps) = grants_of ps"
  "grants_of (Some b # ps) = Pair (ab_Role b) ` set (elems (ab_Members b)) \<union> grants_of ps"
  by (simp_all add: grants_of_def)

lemma grants_of_append [simp]: "grants_of (ps @ qs) = grants_of ps \<union> grants_of qs"
  by (simp add: grants_of_def)

lemma grants_of_role: "(r, m) \<in> grants_of ps \<Longrightarrow> r \<in> roles_of ps"
proof (induction ps)
  case (Cons p ps)
  then show ?case by (cases p) auto
qed simp

lemma wf_no_nil: "wf_bindings ps \<Longrightarrow> None \<notin> set ps"
  by (induction ps rule: wf_bindings.induct) auto

lemma roles_of_append [simp]: "roles_of (ps @ qs) = roles_of ps \<union> roles_of qs"
  by (induction ps) auto

lemma wf_append_new:
  "wf_bindings ps \<Longrightarrow> ab_Role b \<notin> roles_of ps \<Longrightarrow> distinct (elems (ab_Members b))
    \<Longrightarrow> wf_bindings (ps @ [Some b])"
  by (induction ps rule: wf_bindings.induct) auto

text \<open>What the loop of \<open>BindRoleToMember\<close> does, by its result.\<close>

lemma bind_loop_returns: "None \<notin> set ps \<Longrightarrow> \<exists>qs r. bind_loop role m ps = Some (qs, r)"
proof (induction ps)
  case (Cons p ps)
  then show ?case by (cases p) auto
qed simp

lemma bind_loop_roles:
  "bind_loop role m ps = Some (qs, r) \<Longrightarrow> roles_of qs = roles_of ps"
  by (induction ps arbitrary: qs r) (auto simp: bind_eq_Some_conv split: if_splits)

lemma bind_loop_exhausted:
  "bind_loop role m ps = Some (qs, None) \<Longrightarrow> qs = ps \<and> role \<notin> roles_of ps"
  by (induction ps arbitrary: qs) (auto simp: bind_eq_Some_conv split: if_splits)

lemma bind_loop_unchanged:
  "bind_loop role m ps = Some (qs, Some False) \<Longrightarrow> qs = ps \<and> (role, m) \<in> grants_of ps"
  by (induction ps arbitrary: qs) (auto simp: bind_eq_Some_conv split: if_splits)

lemma bind_loop_added:
  "bind_loop role m ps = Some (qs, Some True) \<Longrightarrow>
     grants_of qs = insert (role, m) (grants_of ps)
     \<and> (wf_bindings ps \<longrightarrow> wf_bindings qs \<and> (role, m) \<notin> grants_of ps)"
proof (induction ps arbitrary: qs)
  case (Cons p ps)
  then obtain b where p: "p = Some b" by (cases p) auto
  show ?case
  proof (cases "ab_Role b = role")
    case True
    with Cons.prems p show ?thesis
      by (auto split: if_splits dest: grants_of_role)
  next
    case False
    with Cons.prems p obtain qs' where qs: "qs = p # qs'" "bind_loop role m ps = Some (qs', Some True)"
      by (auto simp: bind_eq_Some_conv)
    from Cons.IH [OF qs(2)] bind_loop_roles [OF qs(2)] False p qs(1) show ?thesis by auto
  qed
qed simp

lemma bind_refines:
  assumes "None \<notin> set (elems (ap_Bindings ck))"
  shows "\<exists>ck' changed. BindRoleToMember in' ck = Some (ck', changed)
    \<and> grants ck' = insert (bpm_Role in', StringValue (bpm_Member in')) (grants ck)
    \<and> ap_Etag ck' = ap_Etag ck
    \<and> (\<not> changed \<longrightarrow> elems (ap_Bindings ck') = elems (ap_Bindings ck))
    \<and> (wf_policy ck \<longrightarrow> wf_policy ck'
         \<and> (changed \<longleftrightarrow> (bpm_Role in', StringValue (bpm_Member in')) \<notin> grants ck))"
proof -
  let ?r = "bpm_Role in'" and ?m = "StringValue (bpm_Member in')" and ?ps = "elems (ap_Bindings ck)"
  obtain qs r where l: "bind_loop ?r ?m ?ps = Some (qs, r)"
    using bind_loop_returns [OF assms] by blast
  consider (new) "r = None" | (old) "r = Some False" | (added) "r = Some True" by (cases r) auto
  then show ?thesis
  proof cases
    case new
    let ?b = "\<lparr>ab_Condition = None, ab_Members = Some [?m], ab_Role = ?r\<rparr>"
    let ?ck = "ck\<lparr>ap_Version := PolicyVersion, ap_Bindings := append_slice (ap_Bindings ck) (Some ?b)\<rparr>"
    have "BindRoleToMember in' ck = Some (?ck, True)"
      using l new by (simp add: BindRoleToMember_def)
    moreover have fresh: "?r \<notin> roles_of ?ps"
      using bind_loop_exhausted l new by blast
    then have "(?r, ?m) \<notin> grants ck"
      unfolding grants_def using grants_of_role by blast
    moreover have "wf_policy ck \<longrightarrow> wf_policy ?ck"
      using fresh by (simp add: wf_policy_def wf_append_new)
    ultimately show ?thesis by (simp add: grants_def ex_bool_eq)
  next
    case old
    have "BindRoleToMember in' ck = Some (ck\<lparr>ap_Version := PolicyVersion, ap_Bindings := Some ?ps\<rparr>, False)"
      using l old bind_loop_unchanged [of ?r ?m ?ps qs] by (simp add: BindRoleToMember_def)
    moreover have "(?r, ?m) \<in> grants ck"
      using bind_loop_unchanged l old unfolding grants_def by blast
    ultimately show ?thesis by (simp add: grants_def wf_policy_def insert_absorb ex_bool_eq)
  next
    case added
    have "BindRoleToMember in' ck = Some (ck\<lparr>ap_Version := PolicyVersion, ap_Bindings := Some qs\<rparr>, True)"
      using l added by (simp add: BindRoleToMember_def)
    moreover note bind_loop_added [OF l [unfolded added]]
    ultimately show ?thesis by (simp add: grants_def wf_policy_def ex_bool_eq)
  qed
qed

lemma unbind_loop_returns: "None \<notin> set ps \<Longrightarrow> \<exists>qs c. unbind_loop role m ps = Some (qs, c)"
proof (induction ps)
  case (Cons p ps)
  then show ?case by (cases p) auto
qed auto

lemma unbind_loop_Cons:
  "unbind_loop role m (Some b # ps) = Some (qs, c) \<Longrightarrow>
     (ab_Role b = role \<and> m \<in> set (elems (ab_Members b)) \<and> c
        \<and> qs = Some (b\<lparr>ab_Members := Some (remove1 m (elems (ab_Members b)))\<rparr>) # ps)
   \<or> (ab_Role b = role \<and> m \<notin> set (elems (ab_Members b)) \<and> \<not> c \<and> qs = Some b # ps)
   \<or> (ab_Role b \<noteq> role \<and> (\<exists>qs'. qs = Some b # qs' \<and> unbind_loop role m ps = Some (qs', c)))"
  by (cases "unbind_loop role m ps") (auto split: if_splits)

lemma unbind_loop_nil: "unbind_loop role m (None # ps) = None"
  by simp

declare unbind_loop.simps(2) [simp del]

lemma unbind_loop_invariants:
  "unbind_loop role m ps = Some (qs, c) \<Longrightarrow>
     roles_of qs = roles_of ps \<and> (wf_bindings ps \<longrightarrow> wf_bindings qs
       \<and> grants_of qs = grants_of ps - {(role, m)} \<and> (c \<longleftrightarrow> (role, m) \<in> grants_of ps))"
proof (induction ps arbitrary: qs c)
  case (Cons p ps)
  obtain b where p: "p = Some b"
    using Cons.prems by (cases p) (simp_all add: unbind_loop_nil)
  from unbind_loop_Cons [OF Cons.prems [unfolded p]] show ?case
  proof (elim disjE conjE exE)
    assume "ab_Role b = role" "m \<in> set (elems (ab_Members b))" "c"
      "qs = Some (b\<lparr>ab_Members := Some (remove1 m (elems (ab_Members b)))\<rparr>) # ps"
    then show ?thesis using p grants_of_role [of role m ps]
      by (simp add: image_set_diff distinct_remove1) blast
  next
    assume "ab_Role b = role" "m \<notin> set (elems (ab_Members b))" "\<not> c" "qs = Some b # ps"
    then show ?thesis using p grants_of_role [of role m ps] by auto
  next
    fix qs' assume "ab_Role b \<noteq> role" "qs = Some b # qs'" "unbind_loop role m ps = Some (qs', c)"
    then show ?thesis using p Cons.IH [of qs' c] by auto
  qed
qed simp

lemma unbind_refines:
  assumes "wf_policy ck"
  shows "\<exists>ck' changed. UnbindRoleFromMember in' ck = Some (ck', changed)
    \<and> grants ck' = grants ck - {(bpm_Role in', StringValue (bpm_Member in'))}
    \<and> wf_policy ck' \<and> ap_Etag ck' = ap_Etag ck
    \<and> (changed \<longleftrightarrow> (bpm_Role in', StringValue (bpm_Member in')) \<in> grants ck)"
proof -
  let ?ps = "elems (ap_Bindings ck)"
  have wf: "wf_bindings ?ps" using assms by (simp add: wf_policy_def)
  then obtain qs c where l: "unbind_loop (bpm_Role in') (StringValue (bpm_Member in')) ?ps = Some (qs, c)"
    using unbind_loop_returns wf_no_nil by metis
  let ?ck = "ck\<lparr>ap_Bindings := map_option (\<lambda>_. qs) (ap_Bindings ck)\<rparr>"
  have "elems (ap_Bindings ?ck) = qs"
    using l by (cases "ap_Bindings ck") auto
  moreover have "UnbindRoleFromMember in' ck = Some (?ck, c)"
    using l by (simp add: UnbindRoleFromMember_def)
  ultimately show ?thesis
    using unbind_loop_invariants [OF l] wf
    by (intro exI [of _ ?ck] exI [of _ c]) (simp add: grants_def wf_policy_def)
qed

section \<open>The interface of a table of grants\<close>

text \<open>
  A table with operations to bind and unbind a pair, seen as a set. Any sequence of
  operations, in whatever order the controllers of different members issue them, leaves the
  set that the same sequence of set operations leaves.
\<close>

datatype 'k table_op = Bind 'k | Unbind 'k

fun set_op :: "'g set \<Rightarrow> 'g table_op \<Rightarrow> 'g set" where
  "set_op S (Bind g) = insert g S"
| "set_op S (Unbind g) = S - {g}"

locale grant_table =
  fixes bind :: "'k \<Rightarrow> 't \<Rightarrow> ('t \<times> bool) option"
    and unbind :: "'k \<Rightarrow> 't \<Rightarrow> ('t \<times> bool) option"
    and inv :: "'t \<Rightarrow> bool"
    and abs :: "'t \<Rightarrow> 'g set"
    and key :: "'k \<Rightarrow> 'g"
  assumes bind_law: "inv t \<Longrightarrow> \<exists>t' c. bind k t = Some (t', c) \<and> inv t'
      \<and> abs t' = insert (key k) (abs t) \<and> (c \<longleftrightarrow> key k \<notin> abs t)"
    and unbind_law: "inv t \<Longrightarrow> \<exists>t' c. unbind k t = Some (t', c) \<and> inv t'
      \<and> abs t' = abs t - {key k} \<and> (c \<longleftrightarrow> key k \<in> abs t)"
begin

fun run :: "'k table_op list \<Rightarrow> 't \<Rightarrow> 't option" where
  "run [] t = Some t"
| "run (Bind k # ops) t = do { (t', c) \<leftarrow> bind k t; run ops t' }"
| "run (Unbind k # ops) t = do { (t', c) \<leftarrow> unbind k t; run ops t' }"

lemma run_refines:
  "inv t \<Longrightarrow> \<exists>t'. run ops t = Some t' \<and> inv t'
     \<and> abs t' = foldl set_op (abs t) (map (map_table_op key) ops)"
proof (induction ops arbitrary: t)
  case (Cons oper ops)
  show ?case
  proof (cases oper)
    case (Bind k)
    obtain t' c where "bind k t = Some (t', c)" "inv t'" "abs t' = insert (key k) (abs t)"
      using bind_law [OF Cons.prems] by blast
    with Cons.IH [of t'] Bind show ?thesis by auto
  next
    case (Unbind k)
    obtain t' c where "unbind k t = Some (t', c)" "inv t'" "abs t' = abs t - {key k}"
      using unbind_law [OF Cons.prems] by blast
    with Cons.IH [of t'] Unbind show ?thesis by auto
  qed
qed simp

lemma bind_unbind:
  assumes "inv t" and "key k \<notin> abs t"
  shows "\<exists>t1 t2. bind k t = Some (t1, True) \<and> unbind k t1 = Some (t2, True) \<and> abs t2 = abs t"
proof -
  obtain t1 c where 1: "bind k t = Some (t1, c)" "inv t1" "abs t1 = insert (key k) (abs t)" "c"
    using bind_law [OF assms(1)] assms(2) by metis
  obtain t2 d where "unbind k t1 = Some (t2, d)" "abs t2 = abs t1 - {key k}" "d \<longleftrightarrow> key k \<in> abs t1"
    using unbind_law [OF 1(2)] by metis
  with 1 assms(2) show ?thesis by auto
qed

end

interpretation bucket_grants: grant_table BindRoleToMember UnbindRoleFromMember wf_policy grants
  "\<lambda>in'. (bpm_Role in', StringValue (bpm_Member in'))"
proof
  fix t :: api_Policy and k
  assume wf: "wf_policy t"
  then have "None \<notin> set (elems (ap_Bindings t))"
    by (simp add: wf_policy_def wf_no_nil)
  from bind_refines [OF this, of k] wf
  show "\<exists>t' c. BindRoleToMember k t = Some (t', c) \<and> wf_policy t'
      \<and> grants t' = insert (bpm_Role k, StringValue (bpm_Member k)) (grants t)
      \<and> (c \<longleftrightarrow> (bpm_Role k, StringValue (bpm_Member k)) \<notin> grants t)"
    by blast
  from unbind_refines [OF wf, of k]
  show "\<exists>t' c. UnbindRoleFromMember k t = Some (t', c) \<and> wf_policy t'
      \<and> grants t' = grants t - {(bpm_Role k, StringValue (bpm_Member k))}
      \<and> (c \<longleftrightarrow> (bpm_Role k, StringValue (bpm_Member k)) \<in> grants t)"
    by blast
qed

section \<open>The interface of a policy client\<close>

text \<open>
  \<open>gen p x\<close> overwrites the content of the policy \<open>x\<close> (its bindings and audit configurations)
  and leaves the rest (the etag) alone; what it writes depends on the parameters only. The
  version field is not part of the comparison. So once a policy with the generated content is
  stored, whatever etag the server gives it, it compares equal.
\<close>

locale policy_client =
  fixes gen :: "'p \<Rightarrow> 'x \<Rightarrow> 'x option"
    and content :: "'x \<Rightarrow> 'v"
    and rest :: "'x \<Rightarrow> 'r"
  assumes gen_content: "gen p x = Some y \<Longrightarrow> gen p x' = Some y' \<Longrightarrow> content y = content y'"
    and gen_rest: "gen p x = Some y \<Longrightarrow> rest y = rest x"
    and gen_defined: "gen p x = None \<longleftrightarrow> gen p x' = None"
begin

lemma stored_matches:
  assumes "cmp_respects (\<lambda>x. (content x, rest x)) same"
    and "gen p x = Some y" and "content q = content y"
  shows "\<exists>d. gen p q = Some d \<and> same d q"
proof -
  obtain d where d: "gen p q = Some d"
    using gen_defined [of p x q] assms(2) by (cases "gen p q") simp_all
  have "content d = content q"
    using gen_content [OF d assms(2)] assms(3) by simp
  moreover have "rest d = rest q"
    by (rule gen_rest [OF d])
  ultimately have "same d q"
    using assms(1) by (simp add: cmp_respects_def)
  with d show ?thesis by blast
qed

end

text \<open>The content of a policy: nil and empty slices are the same (\<open>cmpopts.EquateEmpty\<close>).\<close>

definition binding_view :: "api_Binding \<Rightarrow> api_Expr option \<times> string list \<times> string" where
  "binding_view b = (ab_Condition b, elems (ab_Members b), ab_Role b)"

definition audit_view :: "api_AuditConfig \<Rightarrow> (string list \<times> string) option list \<times> string" where
  "audit_view a = (map (map_option (\<lambda>l. (elems (aalc_ExemptedMembers l), aalc_LogType l)))
                     (elems (aac_AuditLogConfigs a)), aac_Service a)"

definition bindings_content :: "'a api_Policy_scheme \<Rightarrow> (api_Expr option \<times> string list \<times> string) option list" where
  "bindings_content p = map (map_option binding_view) (elems (ap_Bindings p))"

definition audited_content :: "api_AuditedPolicy \<Rightarrow> (api_Expr option \<times> string list \<times> string) option list
    \<times> ((string list \<times> string) option list \<times> string) option list" where
  "audited_content p = (bindings_content p, map (map_option audit_view) (elems (ap_AuditConfigs p)))"

interpretation bucket_policy: policy_client GenerateBucketPolicyInstance bindings_content ap_Etag
  by unfold_locales
    (auto simp: GenerateBucketPolicyInstance_def bindings_content_def bind_eq_Some_conv
      Option.bind_eq_None_conv)

interpretation crypto_key_policy: policy_client GenerateCryptoKeyPolicyInstance audited_content ap_Etag
  by unfold_locales
    (auto simp: GenerateCryptoKeyPolicyInstance_def audited_content_def bindings_content_def
      bind_eq_Some_conv Option.bind_eq_None_conv)

interpretation service_account_policy: policy_client GenerateServiceAccountPolicyInstance audited_content ap_Etag
  by unfold_locales
    (auto simp: GenerateServiceAccountPolicyInstance_def audited_content_def bindings_content_def
      bind_eq_Some_conv Option.bind_eq_None_conv)

text \<open>The grants of the parameters, and that generation writes exactly those.\<close>

fun spec_grants_of :: "Binding option list \<Rightarrow> (string \<times> string) set" where
  "spec_grants_of [] = {}"
| "spec_grants_of (None # bs) = spec_grants_of bs"
| "spec_grants_of (Some b # bs) = Pair (binding_Role b) ` set (elems (binding_Members b)) \<union> spec_grants_of bs"

definition spec_grants :: "Policy \<Rightarrow> (string \<times> string) set" where
  "spec_grants p = spec_grants_of (elems (policy_Bindings p))"

lemma api_binding_grants: "mapP api_binding bs = Some cs \<Longrightarrow> grants_of cs = spec_grants_of bs"
proof (induction bs arbitrary: cs rule: spec_grants_of.induct)
  case (3 b bs)
  then obtain ds where "mapP api_binding bs = Some ds" "cs = the (api_binding (Some b)) # ds"
    by (auto simp: bind_eq_Some_conv)
  with 3(1) [of ds] show ?case by (simp add: api_binding_def [of "Some b"])
qed (simp_all add: api_binding_def)

lemma generated_grants:
  "GenerateBucketPolicyInstance in' ck = Some ck' \<Longrightarrow> grants ck' = spec_grants (bpp_Policy in')"
  using api_binding_grants
  by (auto simp: GenerateBucketPolicyInstance_def bind_eq_Some_conv grants_def spec_grants_def)

end
