(* ===== verification/Go_Encoding.thy ===== *)
theory Go_Encoding
  imports Go_Prelude
begin

text \<open>
  Textual encodings of Go's standard library that the provider uses: \<open>strconv.Itoa\<close>,
  \<open>base64.StdEncoding.DecodeString\<close>, \<open>time.Parse\<close> with the layout \<open>time.RFC3339\<close>, and the path that
  \<open>url.Parse\<close> finds in a resource name. The encoder of base64 is defined too, since the Google APIs deliver their data in that form, and decoding is
  proved to be its inverse.
\<close>

section \<open>Decimal numbers\<close>

definition digit_char :: "nat \<Rightarrow> char" where
  "digit_char d = char_of (48 + d)"

definition is_digit :: "char \<Rightarrow> bool" where
  "is_digit c \<longleftrightarrow> 48 \<le> (of_char c :: nat) \<and> (of_char c :: nat) < 58"

definition digit_val :: "char \<Rightarrow> nat" where
  "digit_val c = of_char c - 48"

function decimal :: "nat \<Rightarrow> string" where
  "decimal n = (if n < 10 then [digit_char n] else decimal (n div 10) @ [digit_char (n mod 10)])"
  by pat_completeness auto
termination
  by (relation "measure id") auto

declare decimal.simps [simp del]

definition Itoa :: "int \<Rightarrow> string" where
  "Itoa i = (if i < 0 then ''-'' @ decimal (nat (- i)) else decimal (nat i))"

definition digits_val :: "string \<Rightarrow> nat" where
  "digits_val = foldl (\<lambda>n c. 10 * n + digit_val c) 0"

text \<open>The package-private \<open>atoi\<close> of \<^verbatim>\<open>time\<close>: an optional sign and digits only.\<close>

definition time_atoi :: "string \<Rightarrow> int option" where
  "time_atoi s =
     (let neg = (s \<noteq> [] \<and> hd s = CHR ''-'');
          ds = (if s \<noteq> [] \<and> (hd s = CHR ''-'' \<or> hd s = CHR ''+'') then tl s else s)
      in if list_all is_digit ds then Some (if neg then - int (digits_val ds) else int (digits_val ds))
         else None)"

lemma digit_char_val: "d < 10 \<Longrightarrow> digit_val (digit_char d) = d" "d < 10 \<Longrightarrow> is_digit (digit_char d)"
  by (simp_all add: digit_val_def digit_char_def is_digit_def)

lemma decimal_digits: "list_all is_digit (decimal n)" "decimal n \<noteq> []"
proof (induction n rule: decimal.induct)
  case (1 n)
  show "list_all is_digit (decimal n)" "decimal n \<noteq> []"
    using 1 by (subst decimal.simps; simp add: digit_char_val)+
qed

lemma digits_val_decimal [simp]: "digits_val (decimal n) = n"
proof (induction n rule: decimal.induct)
  case (1 n)
  then show ?case
    by (subst decimal.simps) (auto simp: digits_val_def digit_char_val)
qed

lemma time_atoi_Itoa: "time_atoi (Itoa i) = Some i"
proof (cases "i < 0")
  case True
  then show ?thesis
    by (simp add: Itoa_def time_atoi_def Let_def decimal_digits)
next
  case False
  obtain c cs where c: "decimal (nat i) = c # cs" using decimal_digits(2) by (cases "decimal (nat i)") auto
  have "is_digit c" using decimal_digits(1) [of "nat i"] c by simp
  then have "c \<noteq> CHR ''-''" "c \<noteq> CHR ''+''" by (auto simp: is_digit_def)
  with False c show ?thesis
    using decimal_digits(1) [of "nat i"] digits_val_decimal [of "nat i"]
    by (simp add: Itoa_def time_atoi_def Let_def)
qed

section \<open>Base64\<close>

definition base64_alphabet :: string where
  "base64_alphabet = ''ABCDEFGHIJKLMNOPQRSTUVWXYZabcdefghijklmnopqrstuvwxyz0123456789+/''"

fun index_from :: "nat \<Rightarrow> 'a list \<Rightarrow> 'a \<Rightarrow> nat option" where
  "index_from i [] c = None"
| "index_from i (x # xs) c = (if x = c then Some i else index_from (Suc i) xs c)"

definition sextet :: "char \<Rightarrow> nat option" where
  "sextet c = index_from 0 base64_alphabet c"

definition base64_char :: "nat \<Rightarrow> char" where
  "base64_char n = base64_alphabet ! n"

definition byte :: "nat \<Rightarrow> char" where
  "byte n = char_of n"

text \<open>
  The decoder: line breaks are skipped, four characters give three bytes, and padding is only
  accepted in the last two places of the last group, after which nothing may follow. Bits that
  padding leaves over are dropped, since the encoding is not strict.
\<close>

fun base64_groups :: "string \<Rightarrow> bytes option" where
  "base64_groups [] = Some []"
| "base64_groups [a, b, c, d] = do {
     x \<leftarrow> sextet a; y \<leftarrow> sextet b;
     if c = CHR ''='' then (if d = CHR ''='' then Some [byte (x * 4 + y div 16)] else None)
     else do {
       z \<leftarrow> sextet c;
       if d = CHR ''='' then Some [byte (x * 4 + y div 16), byte (y mod 16 * 16 + z div 4)]
       else do { u \<leftarrow> sextet d;
         Some [byte (x * 4 + y div 16), byte (y mod 16 * 16 + z div 4), byte (z mod 4 * 64 + u)] } } }"
| "base64_groups (a # b # c # d # rest) = do {
     x \<leftarrow> sextet a; y \<leftarrow> sextet b; z \<leftarrow> sextet c; u \<leftarrow> sextet d;
     bs \<leftarrow> base64_groups rest;
     Some (byte (x * 4 + y div 16) # byte (y mod 16 * 16 + z div 4) # byte (z mod 4 * 64 + u) # bs) }"
| "base64_groups _ = None"

definition DecodeString :: "string \<Rightarrow> bytes option" where
  "DecodeString s = base64_groups (filter (\<lambda>c. c \<noteq> CHR 0x0A \<and> c \<noteq> CHR 0x0D) s)"

fun EncodeToString :: "bytes \<Rightarrow> string" where
  "EncodeToString [] = []"
| "EncodeToString [a] = (let x = of_char a in
     [base64_char (x div 4), base64_char (x mod 4 * 16), CHR ''='', CHR ''=''])"
| "EncodeToString [a, b] = (let x = of_char a; y = of_char b in
     [base64_char (x div 4), base64_char (x mod 4 * 16 + y div 16), base64_char (y mod 16 * 4), CHR ''=''])"
| "EncodeToString (a # b # c # bs) = (let x = of_char a; y = of_char b; z = of_char c in
     base64_char (x div 4) # base64_char (x mod 4 * 16 + y div 16)
       # base64_char (y mod 16 * 4 + z div 64) # base64_char (z mod 64) # EncodeToString bs)"

lemma sextets: "list_all (\<lambda>n. sextet (base64_char n) = Some n) [0..<64]"
  by code_simp

lemma sextet_base64_char [simp]: "n < 64 \<Longrightarrow> sextet (base64_char n) = Some n"
  using sextets by (simp add: list_all_iff)

lemma base64_chars: "list_all (\<lambda>n. base64_char n \<noteq> CHR ''='' \<and> base64_char n \<noteq> CHR 0x0A \<and> base64_char n \<noteq> CHR 0x0D) [0..<64]"
  by code_simp

lemma base64_char_plain [simp]:
  "n < 64 \<Longrightarrow> base64_char n \<noteq> CHR ''=''" "n < 64 \<Longrightarrow> base64_char n \<noteq> CHR 0x0A"
  "n < 64 \<Longrightarrow> base64_char n \<noteq> CHR 0x0D"
  using base64_chars by (simp_all add: list_all_iff)

lemma byte_of_char [simp]: "byte (of_char c) = c"
  by (simp add: byte_def)

lemma of_char_less_256: "(of_char c :: nat) < 256"
  by (metis of_char_mod_256 mod_less_divisor zero_less_numeral)

lemma base64_bits:
  fixes x y z :: nat
  assumes "x < 256" "y < 256" "z < 256"
  shows "x div 4 < 64" "x mod 4 * 16 + y div 16 < 64" "y mod 16 * 4 + z div 64 < 64" "z mod 64 < 64"
    "x mod 4 * 16 < 64" "y mod 16 * 4 < 64"
    "x div 4 * 4 + (x mod 4 * 16 + y div 16) div 16 = x"
    "(x mod 4 * 16 + y div 16) mod 16 * 16 + (y mod 16 * 4 + z div 64) div 4 = y"
    "(y mod 16 * 4 + z div 64) mod 4 * 64 + z mod 64 = z"
    "x div 4 * 4 + (x mod 4 * 16) div 16 = x"
    "(x mod 4 * 16 + y div 16) mod 16 * 16 + (y mod 16 * 4) div 4 = y"
proof -
  have q: "y div 16 < 16" "z div 64 < 4" using assms by simp_all
  have r: "x mod 4 < 4" "y mod 16 < 16" "z mod 64 < 64" by simp_all
  show "x div 4 < 64" using assms by simp
  show "x mod 4 * 16 + y div 16 < 64" "y mod 16 * 4 + z div 64 < 64" "z mod 64 < 64"
    "x mod 4 * 16 < 64" "y mod 16 * 4 < 64"
    using q r by linarith+
  have "(x mod 4 * 16 + y div 16) div 16 = x mod 4" "(x mod 4 * 16 + y div 16) mod 16 = y div 16"
    "(y mod 16 * 4 + z div 64) div 4 = y mod 16" "(y mod 16 * 4 + z div 64) mod 4 = z div 64"
    "x mod 4 * 16 div 16 = x mod 4" "y mod 16 * 4 div 4 = y mod 16"
    using q by simp_all
  then show "x div 4 * 4 + (x mod 4 * 16 + y div 16) div 16 = x"
    "(x mod 4 * 16 + y div 16) mod 16 * 16 + (y mod 16 * 4 + z div 64) div 4 = y"
    "(y mod 16 * 4 + z div 64) mod 4 * 64 + z mod 64 = z"
    "x div 4 * 4 + (x mod 4 * 16) div 16 = x"
    "(x mod 4 * 16 + y div 16) mod 16 * 16 + (y mod 16 * 4) div 4 = y"
    by (simp_all only: div_mult_mod_eq)
qed

lemma base64_groups_Cons4:
  assumes "rest \<noteq> []"
  shows "base64_groups (a # b # c # d # rest) = do {
     x \<leftarrow> sextet a; y \<leftarrow> sextet b; z \<leftarrow> sextet c; u \<leftarrow> sextet d;
     bs \<leftarrow> base64_groups rest;
     Some (byte (x * 4 + y div 16) # byte (y mod 16 * 16 + z div 4) # byte (z mod 4 * 64 + u) # bs) }"
  using assms by (cases rest) simp_all

lemma base64_groups_Encode: "base64_groups (EncodeToString bs) = Some bs"
proof (induction bs rule: EncodeToString.induct)
  case (4 a b c bs)
  note bits = base64_bits [OF of_char_less_256 [of a] of_char_less_256 [of b] of_char_less_256 [of c]]
  show ?case
  proof (cases "EncodeToString bs = []")
    case True
    then have "bs = []" by (cases bs rule: EncodeToString.cases) (simp_all add: Let_def)
    then show ?thesis using bits by (simp add: Let_def)
  next
    case False
    then show ?thesis using bits 4 by (simp add: Let_def base64_groups_Cons4)
  qed
next
  case (2 a)
  then show ?case using base64_bits [OF of_char_less_256 [of a], of 0 0] by (simp add: Let_def)
next
  case (3 a b)
  then show ?case
    using base64_bits [OF of_char_less_256 [of a] of_char_less_256 [of b], of 0] by (simp add: Let_def)
qed simp

lemmas char_bits = base64_bits (1-6) [OF of_char_less_256 of_char_less_256 of_char_less_256]

lemma Encode_no_line_breaks: "filter (\<lambda>c. c \<noteq> CHR 0x0A \<and> c \<noteq> CHR 0x0D) (EncodeToString bs) = EncodeToString bs"
  by (induction bs rule: EncodeToString.induct) (simp_all add: Let_def char_bits)

lemma DecodeString_Encode [simp]: "DecodeString (EncodeToString bs) = Some bs"
  by (simp add: DecodeString_def Encode_no_line_breaks base64_groups_Encode)

section \<open>Instants\<close>

text \<open>A \<open>time.Time\<close> is the number of nanoseconds since the zero time, the first instant of the year
  1 in UTC; the location is dropped, since the provider only copies and compares instants.\<close>

type_synonym Time = int

definition leap_year :: "int \<Rightarrow> bool" where
  "leap_year y \<longleftrightarrow> 4 dvd y \<and> (\<not> 100 dvd y \<or> 400 dvd y)"

definition days_in :: "nat \<Rightarrow> int \<Rightarrow> nat" where
  "days_in m y = (if m = 2 \<and> leap_year y then 29
     else [31, 28, 31, 30, 31, 30, 31, 31, 30, 31, 30, 31] ! (m - 1))"

definition days_since_zero :: "int \<Rightarrow> nat \<Rightarrow> nat \<Rightarrow> int" where
  "days_since_zero y m d = 365 * (y - 1) + (y - 1) div 4 - (y - 1) div 100 + (y - 1) div 400
     + int (sum_list (map (\<lambda>k. days_in k y) [1..<m])) + int d - 1"

text \<open>The parsers consume a prefix of the value. \<open>getnum\<close> reads two digits, or one if the width is not
  fixed; a fraction of a second is accepted although the layout has none.\<close>

definition skip :: "char \<Rightarrow> string \<Rightarrow> string option" where
  "skip c v = (case v of [] \<Rightarrow> None | x # xs \<Rightarrow> if x = c then Some xs else None)"

fun getnum :: "bool \<Rightarrow> string \<Rightarrow> (nat \<times> string) option" where
  "getnum fixed [] = None"
| "getnum fixed [a] = (if is_digit a \<and> \<not> fixed then Some (digit_val a, []) else None)"
| "getnum fixed (a # b # v) =
     (if \<not> is_digit a then None
      else if \<not> is_digit b then (if fixed then None else Some (digit_val a, b # v))
      else Some (digit_val a * 10 + digit_val b, v))"

definition getyear :: "string \<Rightarrow> (nat \<times> string) option" where
  "getyear v = (if length v \<ge> 4 \<and> list_all is_digit (take 4 v)
     then Some (digits_val (take 4 v), drop 4 v) else None)"

definition getfraction :: "string \<Rightarrow> (nat \<times> string) option" where
  "getfraction v =
     (if length v \<ge> 2 \<and> hd v = CHR ''.'' \<and> is_digit (v ! 1)
      then let ds = takeWhile is_digit (tl v); ns = digits_val ds in
           if ns \<ge> 10 ^ 9 then None else Some (ns * 10 ^ (9 - length ds), drop (length ds) (tl v))
      else Some (0, v))"

definition getzone :: "string \<Rightarrow> (int \<times> string) option" where
  \<comment> \<open>\<open>Z\<close>, or a sign and \<open>hh:mm\<close>; the offset in seconds\<close>
  "getzone v =
     (if v \<noteq> [] \<and> hd v = CHR ''Z'' then Some (0, tl v)
      else if length v < 6 \<or> v ! 3 \<noteq> CHR '':'' then None
      else do {
        h \<leftarrow> time_atoi (take 2 (drop 1 v)); m \<leftarrow> time_atoi (take 2 (drop 4 v));
        if hd v = CHR ''+'' then Some ((h * 60 + m) * 60, drop 6 v)
        else if hd v = CHR ''-'' then Some (- ((h * 60 + m) * 60), drop 6 v)
        else None })"

definition guard_in :: "bool \<Rightarrow> unit option" where
  "guard_in b = (if b then Some () else None)"

definition Parse_RFC3339 :: "string \<Rightarrow> Time option" where
  "Parse_RFC3339 v = do {
     (y, v) \<leftarrow> getyear v; v \<leftarrow> skip (CHR ''-'') v;
     (mo, v) \<leftarrow> getnum True v; guard_in (1 \<le> mo \<and> mo \<le> 12); v \<leftarrow> skip (CHR ''-'') v;
     (d, v) \<leftarrow> getnum True v; v \<leftarrow> skip (CHR ''T'') v;
     (h, v) \<leftarrow> getnum False v; guard_in (h < 24); v \<leftarrow> skip (CHR '':'') v;
     (mi, v) \<leftarrow> getnum True v; guard_in (mi < 60); v \<leftarrow> skip (CHR '':'') v;
     (s, v) \<leftarrow> getnum True v; guard_in (s < 60);
     (ns, v) \<leftarrow> getfraction v;
     (off, v) \<leftarrow> getzone v;
     guard_in (v = [] \<and> 1 \<le> d \<and> d \<le> days_in mo (int y));
     Some ((((days_since_zero (int y) mo d * 24 + int h) * 60 + int mi) * 60 + int s - off) * 10 ^ 9 + int ns) }"

lemma Parse_RFC3339_zero: "Parse_RFC3339 ''0001-01-01T00:00:00Z'' = Some 0"
  by code_simp

lemma Parse_RFC3339_epoch: "Parse_RFC3339 ''1970-01-01T01:00:00+01:00'' = Some (62135596800 * 10 ^ 9)"
  by (simp add: Parse_RFC3339_def getyear_def digits_val_def digit_val_def is_digit_def skip_def getfraction_def getzone_def time_atoi_def Let_def guard_in_def days_in_def days_since_zero_def numeral_2_eq_2 numeral_3_eq_3 eval_nat_numeral)

lemma Parse_RFC3339_no_leap_day: "Parse_RFC3339 ''2021-02-29T12:30:45Z'' = None"
  by code_simp

section \<open>Paths of URLs\<close>

text \<open>
  \<open>url.Parse\<close>, as far as the \<open>Path\<close> of its result goes; \<open>None\<close> stands for an error. The check of an
  authority, which only a value that starts with two slashes or has a scheme can have, is the
  argument \<open>authority_ok\<close>.
\<close>

definition hex_val :: "char \<Rightarrow> nat option" where
  "hex_val c = (let n = of_char c :: nat in
     if 48 \<le> n \<and> n \<le> 57 then Some (n - 48)
     else if 97 \<le> n \<and> n \<le> 102 then Some (n - 87)
     else if 65 \<le> n \<and> n \<le> 70 then Some (n - 55) else None)"

fun path_unescape :: "string \<Rightarrow> string option" where
  "path_unescape [] = Some []"
| "path_unescape (c # cs) =
     (if c = CHR ''%'' then
        (case cs of a # b # rest \<Rightarrow> do {
            x \<leftarrow> hex_val a; y \<leftarrow> hex_val b; t \<leftarrow> path_unescape rest; Some (char_of (16 * x + y) # t) }
         | _ \<Rightarrow> None)
      else do { t \<leftarrow> path_unescape cs; Some (c # t) })"

definition is_letter :: "char \<Rightarrow> bool" where
  "is_letter c \<longleftrightarrow> (CHR ''a'' \<le> c \<and> c \<le> CHR ''z'') \<or> (CHR ''A'' \<le> c \<and> c \<le> CHR ''Z'')"

fun scheme_loop :: "string \<Rightarrow> string \<Rightarrow> string \<Rightarrow> (string \<times> string) option" where
  \<comment> \<open>\<open>getscheme\<close>: the whole value, what has been read of it, what is left\<close>
  "scheme_loop raw before [] = Some ([], raw)"
| "scheme_loop raw before (c # cs) =
     (if is_letter c then scheme_loop raw (before @ [c]) cs
      else if is_digit c \<or> c \<in> {CHR ''+'', CHR ''-'', CHR ''.''} then
        (if before = [] then Some ([], raw) else scheme_loop raw (before @ [c]) cs)
      else if c = CHR '':'' then (if before = [] then None else Some (before, cs))
      else Some ([], raw))"

definition before_char :: "char \<Rightarrow> string \<Rightarrow> string" where
  "before_char c s = takeWhile (\<lambda>x. x \<noteq> c) s"

definition from_char :: "char \<Rightarrow> string \<Rightarrow> string" where
  "from_char c s = dropWhile (\<lambda>x. x \<noteq> c) s"

definition url_Path :: "(string \<Rightarrow> bool) \<Rightarrow> string \<Rightarrow> string option" where
  "url_Path authority_ok rawurl = do {
     let u = before_char (CHR ''#'') rawurl;
     let frag = tl (from_char (CHR ''#'') rawurl);
     guard_in (list_all (\<lambda>c. 32 \<le> (of_char c :: nat) \<and> (of_char c :: nat) \<noteq> 127) u);
     p \<leftarrow> (if u = ''*'' then Some ''*'' else do {
        (scheme, rest) \<leftarrow> scheme_loop u [] u;
        let rest = before_char (CHR ''?'') rest;
        if scheme \<noteq> [] \<and> \<not> prefix ''/'' rest then Some []
        else do {
          guard_in (prefix ''/'' rest \<or> CHR '':'' \<notin> set (before_char (CHR ''/'') rest));
          if prefix ''//'' rest \<and> (scheme \<noteq> [] \<or> \<not> prefix ''///'' rest) then do {
            guard_in (authority_ok (before_char (CHR ''/'') (drop 2 rest)));
            path_unescape (from_char (CHR ''/'') (drop 2 rest)) }
          else path_unescape rest } });
     path_unescape frag;
     Some p }"

definition plain_char :: "char \<Rightarrow> bool" where
  "plain_char c \<longleftrightarrow> is_letter c \<or> is_digit c \<or> c \<in> {CHR ''-'', CHR ''_'', CHR ''.'', CHR ''@'', CHR ''/''}"

lemma plain_char_unreserved:
  assumes "plain_char c"
  shows "32 \<le> (of_char c :: nat)" "(of_char c :: nat) \<noteq> 127" "c \<noteq> CHR ''%''" "c \<noteq> CHR ''#''" "c \<noteq> CHR ''?''" "c \<noteq> CHR '':''"
proof -
  have "is_letter c \<or> is_digit c \<Longrightarrow> 48 \<le> (of_char c :: nat) \<and> (of_char c :: nat) < 123 \<and> (of_char c :: nat) \<noteq> 58
      \<and> (of_char c :: nat) \<noteq> 63"
    by (auto simp: is_letter_def is_digit_def less_eq_char_def)
  with assms show "32 \<le> (of_char c :: nat)" "(of_char c :: nat) \<noteq> 127" "c \<noteq> CHR ''%''" "c \<noteq> CHR ''#''" "c \<noteq> CHR ''?''" "c \<noteq> CHR '':''"
    by (auto simp: plain_char_def)
qed

lemma path_unescape_plain: "list_all plain_char s \<Longrightarrow> path_unescape s = Some s"
  by (induction s) (auto dest: plain_char_unreserved)

lemma scheme_loop_plain: "list_all plain_char cs \<Longrightarrow> scheme_loop raw before cs = Some ([], raw)"
  by (induction cs arbitrary: before) (auto dest: plain_char_unreserved)

lemma plain_before_char:
  assumes "list_all plain_char s" and "\<not> plain_char c"
  shows "before_char c s = s" "from_char c s = []"
  using assms by (auto simp: before_char_def from_char_def list_all_iff takeWhile_eq_all_conv dropWhile_eq_Nil_conv)

lemma url_Path_plain:
  assumes "list_all plain_char s" and "\<not> prefix ''//'' s"
  shows "url_Path a s = Some s"
proof -
  have np: "\<not> plain_char (CHR ''#'')" "\<not> plain_char (CHR ''?'')" by code_simp+
  have ctl: "list_all (\<lambda>c. 32 \<le> (of_char c :: nat) \<and> (of_char c :: nat) \<noteq> 127) s"
    using assms(1) by (auto simp: list_all_iff plain_char_unreserved)
  have col: "CHR '':'' \<notin> set (before_char (CHR ''/'') s)"
    using assms(1) by (auto simp: list_all_iff before_char_def dest!: set_takeWhileD plain_char_unreserved(6))
  have star: "s \<noteq> ''*''" using assms(1) by (auto simp: plain_char_def is_letter_def is_digit_def less_eq_char_def)
  show ?thesis
    using assms(2) star ctl col
    by (simp add: url_Path_def plain_before_char [OF assms(1)] np scheme_loop_plain [OF assms(1)]
        path_unescape_plain [OF assms(1)] guard_in_def)
qed

end
