(* ===== verification/Iam_Accounts.thy ===== *)
theory Iam_Accounts
  imports Iam_Policy Go_Encoding
begin

text \<open>
  IAM service accounts and their keys: \<^verbatim>\<open>apis/iam/v1alpha1/serviceaccount_types.go\<close> and
  \<^verbatim>\<open>serviceaccountkey_types.go\<close>, the client \<^verbatim>\<open>pkg/clients/serviceaccountkey\<close>, and the controllers
  \<^verbatim>\<open>pkg/controller/iam/serviceaccount.go\<close> and \<^verbatim>\<open>serviceaccountkey.go\<close>.
\<close>

section \<open>Data\<close>

record ServiceAccountParameters =
  sap_DisplayName :: "string option"
  sap_Description :: "string option"

record ServiceAccountObservation =
  sao_Name :: string
  sao_ProjectID :: string
  sao_UniqueID :: string
  sao_Email :: string
  sao_Oauth2ClientID :: string
  sao_Disabled :: bool

type_synonym ServiceAccount = "(ServiceAccountParameters, ServiceAccountObservation) managed"

record ServiceAccountKeyParameters =
  skp_KeyAlgorithm :: "string option"
  skp_PrivateKeyType :: "string option"
  skp_PublicKeyType :: "string option"
  skp_ServiceAccountReferer :: ServiceAccountReferer

record ServiceAccountKeyObservation =
  sko_Name :: string
  sko_KeyID :: string
  sko_PrivateKeyType :: string
  sko_KeyAlgorithm :: string
  sko_ValidAfterTime :: string
  sko_ValidBeforeTime :: string
  sko_KeyOrigin :: string
  sko_KeyType :: string

type_synonym ServiceAccountKey = "(ServiceAccountKeyParameters, ServiceAccountKeyObservation) managed"

text \<open>\<^verbatim>\<open>iam.ServiceAccount\<close>, \<^verbatim>\<open>iam.ServiceAccountKey\<close> and the requests\<close>

record iam_ServiceAccount =
  isa_Description :: string
  isa_Disabled :: bool
  isa_DisplayName :: string
  isa_Email :: string
  isa_Name :: string
  isa_Oauth2ClientId :: string
  isa_UniqueId :: string

definition iam_ServiceAccount0 :: iam_ServiceAccount where
  "iam_ServiceAccount0 = \<lparr>isa_Description = '''', isa_Disabled = False, isa_DisplayName = '''', isa_Email = '''',
     isa_Name = '''', isa_Oauth2ClientId = '''', isa_UniqueId = ''''\<rparr>"

record iam_CreateServiceAccountRequest =
  csar_AccountId :: string
  csar_ServiceAccount :: iam_ServiceAccount

record iam_PatchServiceAccountRequest =
  psar_ServiceAccount :: iam_ServiceAccount
  psar_UpdateMask :: string

record iam_ServiceAccountKey =
  isk_Name :: string
  isk_PrivateKeyType :: string
  isk_PrivateKeyData :: string
  isk_PublicKeyData :: string
  isk_KeyAlgorithm :: string
  isk_ValidAfterTime :: string
  isk_ValidBeforeTime :: string
  isk_KeyOrigin :: string
  isk_KeyType :: string

record iam_CreateServiceAccountKeyRequest =
  cskr_KeyAlgorithm :: string
  cskr_PrivateKeyType :: string

section \<open>Service account controller\<close>

definition iam_errNewClient :: string where
  "iam_errNewClient = ''cannot create new GCP IAM API client''"
definition errNotServiceAccount :: string where
  "errNotServiceAccount = ''managed resource is not a GCP ServiceAccount''"
definition iam_errGet :: string where
  "iam_errGet = ''cannot get GCP ServiceAccount object via IAM API''"
definition iam_errCreate :: string where
  "iam_errCreate = ''cannot create GCP ServiceAccount object via IAM API''"
definition iam_errUpdate :: string where
  "iam_errUpdate = ''cannot update GCP ServiceAccount object via IAM API''"
definition iam_errDelete :: string where
  "iam_errDelete = ''cannot delete GCP ServiceAccount object via IAM API''"

record RelativeResourceNamer =
  rrn_projectName :: string

definition NewRelativeResourceNamer :: "string \<Rightarrow> RelativeResourceNamer" where
  "NewRelativeResourceNamer projectName = \<lparr>rrn_projectName = projectName\<rparr>"

definition rrn_ProjectName :: "RelativeResourceNamer \<Rightarrow> string" where
  "rrn_ProjectName rrn = ''projects/'' @ rrn_projectName rrn"

definition rrn_ResourceName :: "RelativeResourceNamer \<Rightarrow> ServiceAccount \<Rightarrow> string" where
  "rrn_ResourceName rrn sa = ''projects/'' @ rrn_projectName rrn @ ''/serviceAccounts/'' @ ExternalName sa
     @ ''@'' @ rrn_projectName rrn @ ''.iam.gserviceaccount.com''"

definition serviceAccount_isUpToDate :: "ServiceAccountParameters \<Rightarrow> iam_ServiceAccount \<Rightarrow> bool" where
  "serviceAccount_isUpToDate in' observed =
     (if (case sap_DisplayName in' of None \<Rightarrow> False | Some d \<Rightarrow> d \<noteq> isa_DisplayName observed) then False
      else if (case sap_Description in' of None \<Rightarrow> False | Some d \<Rightarrow> d \<noteq> isa_Description observed) then False
      else True)"

definition populateCRFromProvider :: "ServiceAccount \<Rightarrow> iam_ServiceAccount \<Rightarrow> ServiceAccount" where
  "populateCRFromProvider cr fromProvider = cr\<lparr>AtProvider := (AtProvider cr)\<lparr>
     sao_UniqueID := isa_UniqueId fromProvider, sao_Email := isa_Email fromProvider,
     sao_Oauth2ClientID := isa_Oauth2ClientId fromProvider, sao_Disabled := isa_Disabled fromProvider,
     sao_Name := isa_Name fromProvider\<rparr>\<rparr>"

definition populateProviderFromCR :: "iam_ServiceAccount \<Rightarrow> ServiceAccount \<Rightarrow> iam_ServiceAccount" where
  "populateProviderFromCR forProvider cr = forProvider\<lparr>
     isa_DisplayName := StringValue (sap_DisplayName (ForProvider cr)),
     isa_Description := StringValue (sap_Description (ForProvider cr))\<rparr>"

record ('w, 'e) serviceAccountExternal =
  sa_runtime :: "'e runtime"
  sa_rrn :: RelativeResourceNamer
  ServiceAccounts_Get :: "string \<Rightarrow> ('w, iam_ServiceAccount, 'e) call"
  ServiceAccounts_Create :: "string \<Rightarrow> iam_CreateServiceAccountRequest \<Rightarrow> ('w, iam_ServiceAccount, 'e) call"
  ServiceAccounts_Patch :: "string \<Rightarrow> iam_PatchServiceAccountRequest \<Rightarrow> ('w, unit, 'e) call"
  ServiceAccounts_Delete :: "string \<Rightarrow> ('w, unit, 'e) call"

definition serviceAccount_Connect ::
  "'e runtime \<Rightarrow> ('w, ServiceAccount, 'src, 'sel, 'e) auth_api
    \<Rightarrow> (ClientOption option \<Rightarrow> ('w, ('w, 'e) serviceAccountExternal, 'e) call)
    \<Rightarrow> ServiceAccount \<Rightarrow> 'w \<Rightarrow> ('w \<times> ('w, 'e) serviceAccountExternal option \<times> 'e option) option" where
  "serviceAccount_Connect L c newService mg w = do {
     (w1, projectID, opts, err) \<leftarrow> GetAuthInfo L c mg w;
     if err \<noteq> None then Some (w1, None, err)
     else (case newService opts w1 of
         (w2, Inl err) \<Rightarrow> Some (w2, None, errors_Wrap L (Some err) iam_errNewClient)
       | (w2, Inr s) \<Rightarrow> Some (w2, Some (s\<lparr>sa_rrn := NewRelativeResourceNamer projectID\<rparr>),
                              errors_Wrap L None iam_errNewClient)) }"

definition serviceAccount_Observe ::
  "('w, 'e) serviceAccountExternal \<Rightarrow> ServiceAccount option \<Rightarrow> 'w
    \<Rightarrow> ('w, ServiceAccount, ExternalObservation, 'e) outcome" where
  "serviceAccount_Observe e mg w =
     (let L = sa_runtime e in
      case mg of
        None \<Rightarrow> (w, None, ExternalObservation0, Some (errors_New L errNotServiceAccount))
      | Some cr \<Rightarrow>
         (case ServiceAccounts_Get e (rrn_ResourceName (sa_rrn e) cr) w of
            (w1, Inl err) \<Rightarrow>
              if IsErrorNotFound L (Some err)
              then (w1, Some cr, ExternalObservation0\<lparr>ResourceExists := False\<rparr>, None)
              else (w1, Some cr, ExternalObservation0, errors_Wrap L (Some err) iam_errGet)
          | (w1, Inr fromProvider) \<Rightarrow>
              let cr = populateCRFromProvider cr fromProvider;
                  cr = (if isa_Email fromProvider \<noteq> '''' then SetConditions Available cr else cr)
              in (w1, Some cr, ExternalObservation0\<lparr>ResourceExists := True,
                    ResourceUpToDate := serviceAccount_isUpToDate (ForProvider cr) fromProvider,
                    ObservedDetails := Some fmempty\<rparr>, None)))"

definition serviceAccount_Create ::
  "('w, 'e) serviceAccountExternal \<Rightarrow> ServiceAccount option \<Rightarrow> 'w
    \<Rightarrow> ('w, ServiceAccount, ExternalCreation, 'e) outcome" where
  "serviceAccount_Create e mg w =
     (let L = sa_runtime e in
      case mg of
        None \<Rightarrow> (w, None, ExternalCreation0, Some (errors_New L errNotServiceAccount))
      | Some cr \<Rightarrow>
          let csar = \<lparr>csar_AccountId = ExternalName cr,
                csar_ServiceAccount = iam_ServiceAccount0\<lparr>
                  isa_DisplayName := StringValue (sap_DisplayName (ForProvider cr)),
                  isa_Description := StringValue (sap_Description (ForProvider cr))\<rparr>\<rparr> in
          (case ServiceAccounts_Create e (rrn_ProjectName (sa_rrn e)) csar w of
             (w1, Inl err) \<Rightarrow> (w1, Some cr, ExternalCreation0, errors_Wrap L (Some err) iam_errCreate)
           | (w1, Inr fromProvider) \<Rightarrow>
               (w1, Some (populateCRFromProvider cr fromProvider), ExternalCreation0,
                errors_Wrap L None iam_errCreate)))"

definition serviceAccount_Update ::
  "('w, 'e) serviceAccountExternal \<Rightarrow> ServiceAccount option \<Rightarrow> 'w
    \<Rightarrow> ('w, ServiceAccount, ExternalUpdate, 'e) outcome" where
  "serviceAccount_Update e mg w =
     (let L = sa_runtime e in
      case mg of
        None \<Rightarrow> (w, None, ExternalUpdate0, Some (errors_New L errNotServiceAccount))
      | Some cr \<Rightarrow>
          let sa = populateProviderFromCR iam_ServiceAccount0 cr;
              psar = \<lparr>psar_ServiceAccount = sa, psar_UpdateMask = ''description,displayName''\<rparr>;
              r = ServiceAccounts_Patch e (rrn_ResourceName (sa_rrn e) cr) psar w
          in (fst r, Some cr, ExternalUpdate0, errors_Wrap L (call_error r) iam_errUpdate))"

definition serviceAccount_Delete ::
  "('w, 'e) serviceAccountExternal \<Rightarrow> ServiceAccount option \<Rightarrow> 'w \<Rightarrow> ('w, ServiceAccount, unit, 'e) outcome" where
  "serviceAccount_Delete e mg w =
     (let L = sa_runtime e in
      case mg of
        None \<Rightarrow> (w, None, (), Some (errors_New L errNotServiceAccount))
      | Some cr \<Rightarrow>
          let r = ServiceAccounts_Delete e (rrn_ResourceName (sa_rrn e) cr) w in
          if IsErrorNotFound L (call_error r) then (fst r, Some cr, (), None)
          else (fst r, Some cr, (), errors_Wrap L (call_error r) iam_errDelete))"

section \<open>Service account key client\<close>

text \<open>
  \<open>external\<close> of the key controller, with the errors of \<open>url.Parse\<close> and \<open>base64\<close> and the formatted error
  for an invalid reference. The second argument of \<open>Get\<close> is the public key type that the call is
  given, if any.
\<close>

record ('w, 'e) serviceAccountKeyExternal =
  sk_runtime :: "'e runtime"
  sk_url_error :: "string \<Rightarrow> 'e"
  sk_authority_ok :: "string \<Rightarrow> bool"
  sk_base64_error :: "string \<Rightarrow> 'e"
  sk_errInvalidServiceAccountRef :: "ServiceAccountReferer \<Rightarrow> 'e"
  Keys_Get :: "string \<Rightarrow> string option \<Rightarrow> ('w, iam_ServiceAccountKey, 'e) call"
  Keys_Create :: "string \<Rightarrow> iam_CreateServiceAccountKeyRequest \<Rightarrow> ('w, iam_ServiceAccountKey, 'e) call"
  Keys_Delete :: "string \<Rightarrow> ('w, unit, 'e) call"

definition ParseKeyIDFromRrn :: "('w, 'e) serviceAccountKeyExternal \<Rightarrow> string \<Rightarrow> 'e + string" where
  "ParseKeyIDFromRrn s rrn = (case url_Path (sk_authority_ok s) rrn of
       None \<Rightarrow> Inl (sk_url_error s rrn)
     | Some p \<Rightarrow> Inr (path_Base p))"

definition PopulateSaKey ::
  "('w, 'e) serviceAccountKeyExternal \<Rightarrow> ServiceAccountKey \<Rightarrow> iam_ServiceAccountKey \<Rightarrow> 'e + ServiceAccountKey" where
  "PopulateSaKey s cr fromProvider = (case ParseKeyIDFromRrn s (isk_Name fromProvider) of
       Inl err \<Rightarrow> Inl err
     | Inr keyID \<Rightarrow> Inr (cr\<lparr>AtProvider := \<lparr>
         sko_Name = isk_Name fromProvider, sko_KeyID = keyID,
         sko_PrivateKeyType = isk_PrivateKeyType fromProvider, sko_KeyAlgorithm = isk_KeyAlgorithm fromProvider,
         sko_ValidAfterTime = isk_ValidAfterTime fromProvider, sko_ValidBeforeTime = isk_ValidBeforeTime fromProvider,
         sko_KeyOrigin = isk_KeyOrigin fromProvider, sko_KeyType = isk_KeyType fromProvider\<rparr>\<rparr>))"

section \<open>Service account key controller\<close>

definition errNotServiceAccountKey :: string where
  "errNotServiceAccountKey = ''managed resource is not a GCP ServiceAccountKey''"
definition errGetServiceAccountKey :: string where
  "errGetServiceAccountKey = ''cannot get GCP ServiceAccountKey object via IAM API''"
definition errCreateServiceAccountKey :: string where
  "errCreateServiceAccountKey = ''cannot create GCP ServiceAccountKey object via IAM API''"
definition errDeleteServiceAccountKey :: string where
  "errDeleteServiceAccountKey = ''cannot delete GCP ServiceAccountKey object via IAM API''"
definition errNoExternalName :: string where
  "errNoExternalName = ''empty external name''"
definition keyPrivateKeyType :: string where
  "keyPrivateKeyType = ''privateKeyType''"
definition keyPrivateKeyData :: string where
  "keyPrivateKeyData = ''privateKey''"
definition keyPublicKeyType :: string where
  "keyPublicKeyType = ''publicKeyType''"
definition keyPublicKeyData :: string where
  "keyPublicKeyData = ''publicKey''"

definition referencedServiceAccountPath ::
  "('w, 'e) serviceAccountKeyExternal \<Rightarrow> ServiceAccountKey \<Rightarrow> 'e + string" where
  "referencedServiceAccountPath s saKey =
     (let ref = skp_ServiceAccountReferer (ForProvider saKey) in
      if StringValue (sar_ServiceAccount ref) = '''' then Inl (sk_errInvalidServiceAccountRef s ref)
      else Inr (StringValue (sar_ServiceAccount ref)))"

definition sakey_resourcePath :: "('w, 'e) serviceAccountKeyExternal \<Rightarrow> ServiceAccountKey \<Rightarrow> 'e + string" where
  "sakey_resourcePath s saKey =
     (case referencedServiceAccountPath s saKey of
        Inl err \<Rightarrow> Inl err
      | Inr saPath \<Rightarrow>
          if ExternalName saKey = '''' then Inl (errors_New (sk_runtime s) errNoExternalName)
          else Inr (saPath @ ''/keys/'' @ ExternalName saKey))"

text \<open>The two blocks of \<open>getConnectionDetails\<close>; on an error the callers drop the partial result.\<close>

definition sakey_getConnectionDetails ::
  "('w, 'e) serviceAccountKeyExternal \<Rightarrow> string option \<Rightarrow> iam_ServiceAccountKey \<Rightarrow> 'e + (string, bytes) fmap" where
  "sakey_getConnectionDetails s publicKeyType fromProvider =
     (let public = (if isk_PublicKeyData fromProvider \<noteq> '''' then
             (case DecodeString (isk_PublicKeyData fromProvider) of
                None \<Rightarrow> Inl (sk_base64_error s (isk_PublicKeyData fromProvider))
              | Some d \<Rightarrow>
                  let result = fmupd keyPublicKeyData d fmempty in
                  Inr (case publicKeyType of None \<Rightarrow> result | Some t \<Rightarrow> fmupd keyPublicKeyType t result))
           else Inr fmempty)
      in case public of
           Inl err \<Rightarrow> Inl err
         | Inr result \<Rightarrow>
             if isk_PrivateKeyData fromProvider \<noteq> '''' then
               (case DecodeString (isk_PrivateKeyData fromProvider) of
                  None \<Rightarrow> Inl (sk_base64_error s (isk_PrivateKeyData fromProvider))
                | Some d \<Rightarrow> Inr (fmupd keyPrivateKeyType (isk_PrivateKeyType fromProvider)
                              (fmupd keyPrivateKeyData d result)))
             else Inr result)"

definition serviceAccountKey_Connect ::
  "'e runtime \<Rightarrow> ('w, ServiceAccountKey, 'src, 'sel, 'e) auth_api
    \<Rightarrow> (ClientOption option \<Rightarrow> ('w, ('w, 'e) serviceAccountKeyExternal, 'e) call)
    \<Rightarrow> ServiceAccountKey \<Rightarrow> 'w \<Rightarrow> ('w \<times> ('w, 'e) serviceAccountKeyExternal option \<times> 'e option) option" where
  "serviceAccountKey_Connect L c newService mg w = do {
     (w1, _, opts, err) \<leftarrow> GetAuthInfo L c mg w;
     if err \<noteq> None then Some (w1, None, err)
     else (case newService opts w1 of
         (w2, Inl err) \<Rightarrow> Some (w2, None, errors_Wrap L (Some err) iam_errNewClient)
       | (w2, Inr s) \<Rightarrow> Some (w2, Some s, errors_Wrap L None iam_errNewClient)) }"

definition serviceAccountKey_Observe ::
  "('w, 'e) serviceAccountKeyExternal \<Rightarrow> ServiceAccountKey option \<Rightarrow> 'w
    \<Rightarrow> ('w, ServiceAccountKey, ExternalObservation, 'e) outcome" where
  "serviceAccountKey_Observe s mg w =
     (let L = sk_runtime s in
      case mg of
        None \<Rightarrow> (w, None, ExternalObservation0, Some (errors_New L errNotServiceAccountKey))
      | Some cr \<Rightarrow>
         if ExternalName cr = '''' then (w, Some cr, ExternalObservation0\<lparr>ResourceExists := False\<rparr>, None)
         else (case sakey_resourcePath s cr of
            Inl err \<Rightarrow> (w, Some cr, ExternalObservation0, errors_Wrap L (Some err) errGetServiceAccountKey)
          | Inr rrn \<Rightarrow>
             let kt = (case skp_PublicKeyType (ForProvider cr) of None \<Rightarrow> None
                       | Some t \<Rightarrow> if t \<noteq> '''' then Some t else None) in
             (case Keys_Get s rrn kt w of
                (w1, Inl err) \<Rightarrow> (w1, Some cr, ExternalObservation0,
                   errors_Wrap L (resource_Ignore L (IsErrorNotFound L) (Some err)) errGetServiceAccountKey)
              | (w1, Inr fromProvider) \<Rightarrow>
                 (case PopulateSaKey s cr fromProvider of
                    Inl err \<Rightarrow> (w1, Some cr, ExternalObservation0, errors_Wrap L (Some err) errGetServiceAccountKey)
                  | Inr cr \<Rightarrow>
                     let cr = SetConditions Available cr in
                     (case sakey_getConnectionDetails s (skp_PublicKeyType (ForProvider cr)) fromProvider of
                        Inl err \<Rightarrow> (w1, Some cr, ExternalObservation0,
                                    errors_Wrap L (Some err) errGetServiceAccountKey)
                      | Inr conn \<Rightarrow> (w1, Some cr, ExternalObservation0\<lparr>ResourceExists := True,
                                     ResourceUpToDate := True, ObservedDetails := Some conn\<rparr>, None))))))"

definition serviceAccountKey_Create ::
  "('w, 'e) serviceAccountKeyExternal \<Rightarrow> ServiceAccountKey option \<Rightarrow> 'w
    \<Rightarrow> ('w, ServiceAccountKey, ExternalCreation, 'e) outcome" where
  "serviceAccountKey_Create s mg w =
     (let L = sk_runtime s; wrap = (\<lambda>err. errors_Wrap L (Some err) errCreateServiceAccountKey) in
      case mg of
        None \<Rightarrow> (w, None, ExternalCreation0, Some (errors_New L errNotServiceAccountKey))
      | Some cr \<Rightarrow>
         let cr = SetConditions Creating cr in
         (case referencedServiceAccountPath s cr of
            Inl err \<Rightarrow> (w, Some cr, ExternalCreation0, wrap err)
          | Inr saPath \<Rightarrow>
             (case Keys_Create s saPath
                     \<lparr>cskr_KeyAlgorithm = StringValue (skp_KeyAlgorithm (ForProvider cr)),
                      cskr_PrivateKeyType = StringValue (skp_PrivateKeyType (ForProvider cr))\<rparr> w of
                (w1, Inl err) \<Rightarrow> (w1, Some cr, ExternalCreation0, wrap err)
              | (w1, Inr fromProvider) \<Rightarrow>
                 (case sakey_getConnectionDetails s (skp_PublicKeyType (ForProvider cr)) fromProvider of
                    Inl err \<Rightarrow> (w1, Some cr, ExternalCreation0, wrap err)
                  | Inr conn \<Rightarrow>
                     (case ParseKeyIDFromRrn s (isk_Name fromProvider) of
                        Inl err \<Rightarrow> (w1, Some cr, ExternalCreation0, wrap err)
                      | Inr keyID \<Rightarrow> (w1, Some (cr\<lparr>ExternalName := keyID\<rparr>),
                          \<lparr>ExternalNameAssigned = True, CreatedDetails = Some conn\<rparr>, None))))))"

definition serviceAccountKey_Update ::
  "('w, 'e) serviceAccountKeyExternal \<Rightarrow> ServiceAccountKey option \<Rightarrow> 'w
    \<Rightarrow> ('w, ServiceAccountKey, ExternalUpdate, 'e) outcome" where
  "serviceAccountKey_Update s mg w = (w, mg, ExternalUpdate0, None)"

definition serviceAccountKey_Delete ::
  "('w, 'e) serviceAccountKeyExternal \<Rightarrow> ServiceAccountKey option \<Rightarrow> 'w
    \<Rightarrow> ('w, ServiceAccountKey, unit, 'e) outcome" where
  "serviceAccountKey_Delete s mg w =
     (let L = sk_runtime s in
      case mg of
        None \<Rightarrow> (w, None, (), Some (errors_New L errNotServiceAccountKey))
      | Some cr \<Rightarrow>
         (case sakey_resourcePath s cr of
            Inl err \<Rightarrow> (w, Some cr, (), errors_Wrap L (Some err) errDeleteServiceAccountKey)
          | Inr rrn \<Rightarrow>
             let r = Keys_Delete s rrn w in
             (fst r, Some cr, (),
              errors_Wrap L (resource_Ignore L (IsErrorNotFound L) (call_error r)) errDeleteServiceAccountKey)))"

section \<open>Names and details\<close>

lemma path_Base_key_name:
  assumes "key \<noteq> []" and "CHR ''/'' \<notin> set key"
  shows "path_Base (path @ ''/keys/'' @ key) = key"
  using path_Base_last_segment [OF assms, of "path @ ''/keys''"] by simp

lemma ParseKeyID_key_name:
  assumes "list_all plain_char (path @ ''/keys/'' @ key)" and "\<not> prefix ''//'' (path @ ''/keys/'' @ key)"
    and "key \<noteq> []" and "CHR ''/'' \<notin> set key"
  shows "ParseKeyIDFromRrn s (path @ ''/keys/'' @ key) = Inr key"
  using url_Path_plain [OF assms(1,2)] path_Base_key_name [OF assms(3,4)]
  by (simp add: ParseKeyIDFromRrn_def)

lemma Encode_empty: "EncodeToString bs = '''' \<longleftrightarrow> bs = []"
  by (cases bs rule: EncodeToString.cases) (simp_all add: Let_def)

lemma sakey_details_encoded:
  assumes "isk_PublicKeyData k = EncodeToString pub" and "isk_PrivateKeyData k = EncodeToString priv"
  shows "\<exists>d. sakey_getConnectionDetails s t k = Inr d
    \<and> fmlookup d keyPublicKeyData = (if pub = [] then None else Some pub)
    \<and> fmlookup d keyPrivateKeyData = (if priv = [] then None else Some priv)"
  using assms
  by (cases "pub = []"; cases "priv = []"; cases t)
    (simp_all add: sakey_getConnectionDetails_def Encode_empty Let_def keyPublicKeyData_def keyPrivateKeyData_def
      keyPublicKeyType_def keyPrivateKeyType_def)

text \<open>The documented effect of a patch of a service account.\<close>

definition apply_sa_patch :: "iam_PatchServiceAccountRequest \<Rightarrow> iam_ServiceAccount \<Rightarrow> iam_ServiceAccount" where
  "apply_sa_patch u x =
     (let has = (\<lambda>p. p \<in> set (mask_paths (psar_UpdateMask u))) in x\<lparr>
        isa_Description := (if has ''description'' then isa_Description (psar_ServiceAccount u) else isa_Description x),
        isa_DisplayName := (if has ''displayName'' then isa_DisplayName (psar_ServiceAccount u) else isa_DisplayName x)\<rparr>)"

definition sa_patch_ok :: "('w, 'e) serviceAccountExternal \<Rightarrow> bool" where
  "sa_patch_ok e \<longleftrightarrow> (\<forall>n u w w0 w1 x. ServiceAccounts_Get e n w = (w0, Inr x) \<and> ServiceAccounts_Patch e n u w = (w1, Inr ())
     \<longrightarrow> (\<exists>w2. ServiceAccounts_Get e n w1 = (w2, Inr (apply_sa_patch u x))))"

text \<open>An IAM service whose state is one account, and one that hands out a key.\<close>

definition sample_serviceAccountExternal :: "(iam_ServiceAccount, sample_error) serviceAccountExternal" where
  "sample_serviceAccountExternal = \<lparr>sa_runtime = sample_runtime, sa_rrn = \<lparr>rrn_projectName = ''p''\<rparr>,
     ServiceAccounts_Get = (\<lambda>n w. (w, Inr w)), ServiceAccounts_Create = (\<lambda>p c w. (w, Inr w)),
     ServiceAccounts_Patch = (\<lambda>n u w. (apply_sa_patch u w, Inr ())), ServiceAccounts_Delete = (\<lambda>n w. (w, Inr ()))\<rparr>"

definition sample_account_cr :: ServiceAccount where
  "sample_account_cr = sample_managed \<lparr>sap_DisplayName = Some ''new'', sap_Description = None\<rparr>
     \<lparr>sao_Name = '''', sao_ProjectID = '''', sao_UniqueID = '''', sao_Email = '''', sao_Oauth2ClientID = '''',
      sao_Disabled = False\<rparr>"

definition sample_key_response :: iam_ServiceAccountKey where
  "sample_key_response = \<lparr>isk_Name = ''projects/p/serviceAccounts/a@p.iam/keys/k1'', isk_PrivateKeyType = ''JSON'',
     isk_PrivateKeyData = EncodeToString ''secret'', isk_PublicKeyData = EncodeToString [],
     isk_KeyAlgorithm = '''', isk_ValidAfterTime = '''', isk_ValidBeforeTime = '''', isk_KeyOrigin = '''', isk_KeyType = ''''\<rparr>"

definition sample_serviceAccountKeyExternal :: "(unit, sample_error) serviceAccountKeyExternal" where
  "sample_serviceAccountKeyExternal = \<lparr>sk_runtime = sample_runtime, sk_url_error = New, sk_authority_ok = (\<lambda>_. True),
     sk_base64_error = New, sk_errInvalidServiceAccountRef = (\<lambda>_. New ''ref''),
     Keys_Get = (\<lambda>n t w. (w, Inr sample_key_response)), Keys_Create = (\<lambda>p r w. (w, Inr sample_key_response)),
     Keys_Delete = (\<lambda>n w. (w, Inr ()))\<rparr>"

definition sample_account_key_cr :: ServiceAccountKey where
  "sample_account_key_cr = (sample_managed \<lparr>skp_KeyAlgorithm = None, skp_PrivateKeyType = None, skp_PublicKeyType = None,
       skp_ServiceAccountReferer = \<lparr>sar_ServiceAccount = Some ''projects/p/serviceAccounts/a@p.iam'',
         sar_ServiceAccountRef = None, sar_ServiceAccountSelector = None\<rparr>\<rparr>
     \<lparr>sko_Name = '''', sko_KeyID = '''', sko_PrivateKeyType = '''', sko_KeyAlgorithm = '''', sko_ValidAfterTime = '''',
      sko_ValidBeforeTime = '''', sko_KeyOrigin = '''', sko_KeyType = ''''\<rparr>)\<lparr>ExternalName := ''''\<rparr>"

section \<open>Properties\<close>

text \<open>C29: a created service account key is not lost. When the API has created a key below the
  account of the spec, \<open>Create\<close> succeeds, publishes exactly the key material that the API encoded,
  and stores the key's identifier as the external name, so that every later call of the resource
  addresses the key by the name that the API gave it.\<close>

theorem sakey_create_addressable:
  assumes "path = StringValue (sar_ServiceAccount (skp_ServiceAccountReferer (ForProvider cr)))" and "path \<noteq> ''''"
    and "Keys_Create s path \<lparr>cskr_KeyAlgorithm = StringValue (skp_KeyAlgorithm (ForProvider cr)),
      cskr_PrivateKeyType = StringValue (skp_PrivateKeyType (ForProvider cr))\<rparr> w = (w1, Inr k)"
    and "isk_Name k = path @ ''/keys/'' @ key" and "list_all plain_char (isk_Name k)"
    and "\<not> prefix ''//'' (isk_Name k)" and "key \<noteq> []" and "CHR ''/'' \<notin> set key"
    and "isk_PublicKeyData k = EncodeToString pub" and "isk_PrivateKeyData k = EncodeToString priv"
  shows "\<exists>cr2 conn. serviceAccountKey_Create s (Some cr) w
      = (w1, Some cr2, \<lparr>ExternalNameAssigned = True, CreatedDetails = Some conn\<rparr>, None)
    \<and> fmlookup conn keyPrivateKeyData = (if priv = [] then None else Some priv)
    \<and> fmlookup conn keyPublicKeyData = (if pub = [] then None else Some pub)
    \<and> sakey_resourcePath s cr2 = Inr (isk_Name k)"
proof -
  obtain d where d: "sakey_getConnectionDetails s (skp_PublicKeyType (ForProvider cr)) k = Inr d"
    "fmlookup d keyPublicKeyData = (if pub = [] then None else Some pub)"
    "fmlookup d keyPrivateKeyData = (if priv = [] then None else Some priv)"
    using sakey_details_encoded [OF assms(9,10)] by blast
  have id: "ParseKeyIDFromRrn s (isk_Name k) = Inr key"
    using ParseKeyID_key_name [of path key s] assms(4-8) by simp
  have ref: "referencedServiceAccountPath s (SetConditions Creating cr) = Inr path"
    using assms(1,2) by (simp add: referencedServiceAccountPath_def Let_def)
  have "serviceAccountKey_Create s (Some cr) w = (w1, Some ((SetConditions Creating cr)\<lparr>ExternalName := key\<rparr>),
      \<lparr>ExternalNameAssigned = True, CreatedDetails = Some d\<rparr>, None)"
    using assms(3) d(1) id ref by (simp add: serviceAccountKey_Create_def Let_def)
  moreover have "sakey_resourcePath s ((SetConditions Creating cr)\<lparr>ExternalName := key\<rparr>) = Inr (isk_Name k)"
    using assms(1,2,4,7) by (simp add: sakey_resourcePath_def referencedServiceAccountPath_def Let_def)
  ultimately show ?thesis using d(2,3) by blast
qed

text \<open>Witness of C29: a key of the account \<open>a\<close>.\<close>

lemma sakey_create_addressable_witness:
  "\<exists>cr2 conn. serviceAccountKey_Create sample_serviceAccountKeyExternal (Some sample_account_key_cr) ()
      = ((), Some cr2, \<lparr>ExternalNameAssigned = True, CreatedDetails = Some conn\<rparr>, None)
    \<and> fmlookup conn keyPrivateKeyData = Some ''secret''
    \<and> sakey_resourcePath sample_serviceAccountKeyExternal cr2 = Inr ''projects/p/serviceAccounts/a@p.iam/keys/k1''"
proof -
  have plain: "list_all plain_char (isk_Name sample_key_response)" "\<not> prefix ''//'' (isk_Name sample_key_response)"
    by code_simp+
  show ?thesis
    using sakey_create_addressable [of "''projects/p/serviceAccounts/a@p.iam''" sample_account_key_cr
        sample_serviceAccountKeyExternal "()" "()" sample_key_response "''k1''" "[]" "''secret''"] plain
    by (auto simp: sample_account_key_cr_def sample_managed_def sample_serviceAccountKeyExternal_def sample_key_response_def)
qed

text \<open>C31: an update of a service account converges, and it erases what the spec leaves open. After a
  successful \<open>Update\<close> the account has the display name and the description of the spec, the empty
  string for a field that is not set, although the comparison ignores such a field; nothing else
  of the account has changed, and the next \<open>Observe\<close> reports it as up to date.\<close>

theorem serviceAccount_update_effect:
  assumes "wrap_ok (sa_runtime e)" and "sa_patch_ok e"
    and "ServiceAccounts_Get e (rrn_ResourceName (sa_rrn e) cr) w = (w0, Inr x)"
    and "serviceAccount_Update e (Some cr) w = (w1, cr1, r, None)"
  shows "\<exists>w2 cr2 ob. ServiceAccounts_Get e (rrn_ResourceName (sa_rrn e) cr) w1
      = (w2, Inr (x\<lparr>isa_Description := StringValue (sap_Description (ForProvider cr)),
                   isa_DisplayName := StringValue (sap_DisplayName (ForProvider cr))\<rparr>))
    \<and> serviceAccount_Observe e cr1 w1 = (w2, cr2, ob, None) \<and> ResourceExists ob \<and> ResourceUpToDate ob"
proof -
  let ?n = "rrn_ResourceName (sa_rrn e) cr"
  let ?u = "\<lparr>psar_ServiceAccount = populateProviderFromCR iam_ServiceAccount0 cr, psar_UpdateMask = ''description,displayName''\<rparr>"
  have "fst (ServiceAccounts_Patch e ?n ?u w) = w1" "call_error (ServiceAccounts_Patch e ?n ?u w) = None"
    and cr1: "cr1 = Some cr"
    using assms(1,4) by (simp_all add: serviceAccount_Update_def Let_def)
  then have "ServiceAccounts_Patch e ?n ?u w = (w1, Inr ())" using call_error_None_unit by metis
  then obtain w2 where "ServiceAccounts_Get e ?n w1 = (w2, Inr (apply_sa_patch ?u x))"
    using assms(2,3) unfolding sa_patch_ok_def by blast
  moreover have "apply_sa_patch ?u x = x\<lparr>isa_Description := StringValue (sap_Description (ForProvider cr)),
      isa_DisplayName := StringValue (sap_DisplayName (ForProvider cr))\<rparr>"
    by (simp add: apply_sa_patch_def Let_def populateProviderFromCR_def)
  ultimately show ?thesis
    using cr1
    by (simp add: serviceAccount_Observe_def Let_def serviceAccount_isUpToDate_def populateCRFromProvider_def
        split: option.split)
qed

text \<open>Witness of C31: a new display name erases the description, which the spec does not mention.\<close>

lemma serviceAccount_update_effect_witness:
  "\<exists>w1 cr1 r w2. serviceAccount_Update sample_serviceAccountExternal (Some sample_account_cr)
        (iam_ServiceAccount0\<lparr>isa_Description := ''old''\<rparr>) = (w1, cr1, r, None)
    \<and> ServiceAccounts_Get sample_serviceAccountExternal (rrn_ResourceName \<lparr>rrn_projectName = ''p''\<rparr> sample_account_cr) w1
        = (w2, Inr (iam_ServiceAccount0\<lparr>isa_DisplayName := ''new''\<rparr>))"
proof -
  let ?x = "iam_ServiceAccount0\<lparr>isa_Description := ''old''\<rparr>"
  obtain w1 cr1 r where up: "serviceAccount_Update sample_serviceAccountExternal (Some sample_account_cr) ?x = (w1, cr1, r, None)"
    by (simp add: serviceAccount_Update_def sample_serviceAccountExternal_def sample_runtime_def Let_def)
  have "sa_patch_ok sample_serviceAccountExternal"
    by (simp add: sa_patch_ok_def sample_serviceAccountExternal_def)
  from serviceAccount_update_effect [OF _ this _ up, of ?x ?x] up show ?thesis
    by (auto simp: sample_serviceAccountExternal_def sample_runtime_ok sample_account_cr_def sample_managed_def
        iam_ServiceAccount0_def)
qed

end
