(* ===== verification/Policy_Controllers.thy ===== *)
theory Policy_Controllers
  imports Kms Iam_Accounts
begin

text \<open>
  The controllers of IAM policies: \<^verbatim>\<open>pkg/controller/storage/bucketpolicy.go\<close>,
  \<^verbatim>\<open>storage/bucketpolicymember.go\<close>, \<^verbatim>\<open>kms/cryptokeypolicy.go\<close> and
  \<^verbatim>\<open>iam/serviceaccountpolicy.go\<close>. What a policy controller promises (after a successful create or
  update the next observation is up to date) is proved once, in the locale
  \<open>policy_controller\<close>, and holds of the three controllers by interpretation.
\<close>

text \<open>
  The external clients: the IAM calls of the API service, and the library functions that the
  handlers reach. \<open>GetIamPolicy\<close> stands for the call with the requested policy version 3;
  \<open>SetIamPolicy\<close> takes the policy, which the KMS and IAM services wrap into a request.
\<close>

record ('w, 'x, 'e) policyExternal =
  pe_runtime :: "'e runtime"
  pe_copy :: "('x, 'e) copier"
  pe_same :: "'x comparer"
  GetIamPolicy :: "string \<Rightarrow> ('w, 'x, 'e) call"
  SetIamPolicy :: "string \<Rightarrow> 'x \<Rightarrow> ('w, 'x, 'e) call"

record BucketPolicyObservation =
  bpo_Version :: int64

type_synonym BucketPolicy = "(BucketPolicyParameters, BucketPolicyObservation) managed"
type_synonym BucketPolicyMember = "(BucketPolicyMemberParameters, unit) managed"
type_synonym CryptoKeyPolicy = "(CryptoKeyPolicyParameters, unit) managed"
type_synonym ServiceAccountPolicy = "(ServiceAccountPolicyParameters, unit) managed"

section \<open>BucketPolicy\<close>

definition errNotBucketPolicy :: string where
  "errNotBucketPolicy = ''managed resource is not a GCP BucketPolicy''"

definition bucketPolicy_errCheckUpToDate :: string where
  "bucketPolicy_errCheckUpToDate = ''cannot determine if BucketPolicy instance is up to date''"

definition bucketPolicy_errGetPolicy :: string where
  "bucketPolicy_errGetPolicy = ''cannot get GCP BucketPolicy object via Storage API''"

definition bucketPolicy_errSetPolicy :: string where
  "bucketPolicy_errSetPolicy = ''cannot set GCP BucketPolicy object via Storage API''"

definition bucketPolicy_Observe ::
  "('w, api_Policy, 'e) policyExternal \<Rightarrow> BucketPolicy option \<Rightarrow> 'w
    \<Rightarrow> ('w, BucketPolicy, ExternalObservation, 'e) outcome option" where
  "bucketPolicy_Observe e mg w =
     (let L = pe_runtime e in
      case mg of
        None \<Rightarrow> Some (w, None, ExternalObservation0, Some (errors_New L errNotBucketPolicy))
      | Some cr \<Rightarrow>
         (case GetIamPolicy e (StringValue (bpp_Bucket (ForProvider cr))) w of
            (w1, Inl err) \<Rightarrow> Some (w1, Some cr, ExternalObservation0,
               errors_Wrap L (resource_Ignore L (IsErrorNotFound L) (Some err)) bucketPolicy_errGetPolicy)
          | (w1, Inr instance') \<Rightarrow>
              if bucketpolicy_IsEmpty instance' then Some (w1, Some cr, ExternalObservation0, None)
              else do {
                (upToDate, err) \<leftarrow> bucketpolicy_IsUpToDate L (pe_copy e) (pe_same e) (ForProvider cr) instance';
                if err \<noteq> None
                then Some (w1, Some cr, ExternalObservation0, errors_Wrap L err bucketPolicy_errCheckUpToDate)
                else if \<not> upToDate
                then Some (w1, Some cr, ExternalObservation0\<lparr>ResourceExists := True\<rparr>, None)
                else Some (w1, Some (SetConditions Available cr),
                  ExternalObservation0\<lparr>ResourceExists := True, ResourceUpToDate := True\<rparr>, None) }))"

definition bucketPolicy_Create ::
  "('w, api_Policy, 'e) policyExternal \<Rightarrow> BucketPolicy option \<Rightarrow> 'w
    \<Rightarrow> ('w, BucketPolicy, ExternalCreation, 'e) outcome option" where
  "bucketPolicy_Create e mg w =
     (let L = pe_runtime e in
      case mg of
        None \<Rightarrow> Some (w, None, ExternalCreation0, Some (errors_New L errNotBucketPolicy))
      | Some cr \<Rightarrow> do {
          let cr = SetConditions Creating cr;
          instance' \<leftarrow> GenerateBucketPolicyInstance (ForProvider cr) storage_Policy0;
          (case SetIamPolicy e (StringValue (bpp_Bucket (ForProvider cr))) instance' w of
             (w1, Inl err) \<Rightarrow> Some (w1, Some cr, ExternalCreation0,
                errors_Wrap L (Some err) bucketPolicy_errSetPolicy)
           | (w1, Inr _) \<Rightarrow> Some (w1, Some cr, ExternalCreation0, None)) })"

definition bucketPolicy_Update ::
  "('w, api_Policy, 'e) policyExternal \<Rightarrow> BucketPolicy option \<Rightarrow> 'w
    \<Rightarrow> ('w, BucketPolicy, ExternalUpdate, 'e) outcome option" where
  "bucketPolicy_Update e mg w =
     (let L = pe_runtime e in
      case mg of
        None \<Rightarrow> Some (w, None, ExternalUpdate0, Some (errors_New L errNotBucketPolicy))
      | Some cr \<Rightarrow>
         (case GetIamPolicy e (StringValue (bpp_Bucket (ForProvider cr))) w of
            (w1, Inl err) \<Rightarrow> Some (w1, Some cr, ExternalUpdate0,
               errors_Wrap L (Some err) bucketPolicy_errGetPolicy)
          | (w1, Inr instance') \<Rightarrow> do {
              (u, err) \<leftarrow> bucketpolicy_IsUpToDate L (pe_copy e) (pe_same e) (ForProvider cr) instance';
              if err \<noteq> None
              then Some (w1, Some cr, ExternalUpdate0, errors_Wrap L err bucketPolicy_errCheckUpToDate)
              else if u then Some (w1, Some cr, ExternalUpdate0, None)
              else do {
                instance' \<leftarrow> GenerateBucketPolicyInstance (ForProvider cr) instance';
                (case SetIamPolicy e (StringValue (bpp_Bucket (ForProvider cr))) instance' w1 of
                   (w2, Inl err) \<Rightarrow> Some (w2, Some cr, ExternalUpdate0,
                      errors_Wrap L (Some err) bucketPolicy_errSetPolicy)
                 | (w2, Inr _) \<Rightarrow> Some (w2, Some cr, ExternalUpdate0, None)) } }))"

definition bucketPolicy_Delete ::
  "('w, api_Policy, 'e) policyExternal \<Rightarrow> BucketPolicy option \<Rightarrow> 'w
    \<Rightarrow> ('w, BucketPolicy, unit, 'e) outcome option" where
  "bucketPolicy_Delete e mg w =
     (let L = pe_runtime e in
      case mg of
        None \<Rightarrow> Some (w, None, (), Some (errors_New L errNotBucketPolicy))
      | Some cr \<Rightarrow>
         (case SetIamPolicy e (StringValue (bpp_Bucket (ForProvider cr))) storage_Policy0 w of
            (w1, Inl err) \<Rightarrow> Some (w1, Some cr, (), errors_Wrap L (Some err) bucketPolicy_errSetPolicy)
          | (w1, Inr _) \<Rightarrow> Some (w1, Some cr, (), None)))"

section \<open>CryptoKeyPolicy\<close>

definition errNotCryptoKeyPolicy :: string where
  "errNotCryptoKeyPolicy = ''managed resource is not a GCP CryptoKeyPolicy''"

definition cryptoKeyPolicy_errGetPolicy :: string where
  "cryptoKeyPolicy_errGetPolicy = ''cannot get policy of CryptoKey''"

definition cryptoKeyPolicy_errSetPolicy :: string where
  "cryptoKeyPolicy_errSetPolicy = ''cannot set policy of CryptoKey''"

definition cryptoKeyPolicy_Observe ::
  "('w, api_AuditedPolicy, 'e) policyExternal \<Rightarrow> CryptoKeyPolicy option \<Rightarrow> 'w
    \<Rightarrow> ('w, CryptoKeyPolicy, ExternalObservation, 'e) outcome option" where
  "cryptoKeyPolicy_Observe e mg w =
     (let L = pe_runtime e in
      case mg of
        None \<Rightarrow> Some (w, None, ExternalObservation0, Some (errors_New L errNotCryptoKeyPolicy))
      | Some cr \<Rightarrow>
         (case GetIamPolicy e (StringValue (ckp_CryptoKey (ForProvider cr))) w of
            (w1, Inl err) \<Rightarrow> Some (w1, Some cr, ExternalObservation0,
               errors_Wrap L (resource_Ignore L (IsErrorNotFound L) (Some err)) cryptoKeyPolicy_errGetPolicy)
          | (w1, Inr instance') \<Rightarrow>
              if cryptokeypolicy_IsEmpty instance' then Some (w1, Some cr, ExternalObservation0, None)
              else do {
                (upToDate, err) \<leftarrow> cryptokeypolicy_IsUpToDate L (pe_copy e) (pe_same e) (ForProvider cr) instance';
                if err \<noteq> None
                then Some (w1, Some cr, ExternalObservation0, errors_Wrap L err kms_errCheckUpToDate)
                else if \<not> upToDate
                then Some (w1, Some cr, ExternalObservation0\<lparr>ResourceExists := True\<rparr>, None)
                else Some (w1, Some (SetConditions Available cr),
                  ExternalObservation0\<lparr>ResourceExists := True, ResourceUpToDate := True\<rparr>, None) }))"

definition cryptoKeyPolicy_Create ::
  "('w, api_AuditedPolicy, 'e) policyExternal \<Rightarrow> CryptoKeyPolicy option \<Rightarrow> 'w
    \<Rightarrow> ('w, CryptoKeyPolicy, ExternalCreation, 'e) outcome option" where
  "cryptoKeyPolicy_Create e mg w =
     (let L = pe_runtime e in
      case mg of
        None \<Rightarrow> Some (w, None, ExternalCreation0, Some (errors_New L errNotCryptoKeyPolicy))
      | Some cr \<Rightarrow> do {
          let cr = SetConditions Creating cr;
          instance' \<leftarrow> GenerateCryptoKeyPolicyInstance (ForProvider cr) iam_Policy0;
          (case SetIamPolicy e (StringValue (ckp_CryptoKey (ForProvider cr))) instance' w of
             (w1, Inl err) \<Rightarrow> Some (w1, Some cr, ExternalCreation0,
                errors_Wrap L (Some err) cryptoKeyPolicy_errSetPolicy)
           | (w1, Inr _) \<Rightarrow> Some (w1, Some cr, ExternalCreation0, None)) })"

definition cryptoKeyPolicy_Update ::
  "('w, api_AuditedPolicy, 'e) policyExternal \<Rightarrow> CryptoKeyPolicy option \<Rightarrow> 'w
    \<Rightarrow> ('w, CryptoKeyPolicy, ExternalUpdate, 'e) outcome option" where
  "cryptoKeyPolicy_Update e mg w =
     (let L = pe_runtime e in
      case mg of
        None \<Rightarrow> Some (w, None, ExternalUpdate0, Some (errors_New L errNotCryptoKeyPolicy))
      | Some cr \<Rightarrow>
         (case GetIamPolicy e (StringValue (ckp_CryptoKey (ForProvider cr))) w of
            (w1, Inl err) \<Rightarrow> Some (w1, Some cr, ExternalUpdate0,
               errors_Wrap L (Some err) cryptoKeyPolicy_errGetPolicy)
          | (w1, Inr instance') \<Rightarrow> do {
              (u, err) \<leftarrow> cryptokeypolicy_IsUpToDate L (pe_copy e) (pe_same e) (ForProvider cr) instance';
              if err \<noteq> None
              then Some (w1, Some cr, ExternalUpdate0, errors_Wrap L err kms_errCheckUpToDate)
              else if u then Some (w1, Some cr, ExternalUpdate0, None)
              else do {
                instance' \<leftarrow> GenerateCryptoKeyPolicyInstance (ForProvider cr) instance';
                (case SetIamPolicy e (StringValue (ckp_CryptoKey (ForProvider cr))) instance' w1 of
                   (w2, Inl err) \<Rightarrow> Some (w2, Some cr, ExternalUpdate0,
                      errors_Wrap L (Some err) cryptoKeyPolicy_errSetPolicy)
                 | (w2, Inr _) \<Rightarrow> Some (w2, Some cr, ExternalUpdate0, None)) } }))"

definition cryptoKeyPolicy_Delete ::
  "('w, api_AuditedPolicy, 'e) policyExternal \<Rightarrow> CryptoKeyPolicy option \<Rightarrow> 'w
    \<Rightarrow> ('w, CryptoKeyPolicy, unit, 'e) outcome option" where
  "cryptoKeyPolicy_Delete e mg w =
     (let L = pe_runtime e in
      case mg of
        None \<Rightarrow> Some (w, None, (), Some (errors_New L errNotCryptoKeyPolicy))
      | Some cr \<Rightarrow>
         (case SetIamPolicy e (StringValue (ckp_CryptoKey (ForProvider cr))) iam_Policy0 w of
            (w1, Inl err) \<Rightarrow> Some (w1, Some cr, (), errors_Wrap L (Some err) cryptoKeyPolicy_errSetPolicy)
          | (w1, Inr _) \<Rightarrow> Some (w1, Some cr, (), None)))"

section \<open>ServiceAccountPolicy\<close>

definition errNotServiceAccountPolicy :: string where
  "errNotServiceAccountPolicy = ''managed resource is not a GCP ServiceAccountPolicy''"

definition serviceAccountPolicy_errCheckUpToDate :: string where
  "serviceAccountPolicy_errCheckUpToDate = ''cannot determine if ServiceAccountPolicy instance is up to date''"

definition serviceAccountPolicy_errGetPolicy :: string where
  "serviceAccountPolicy_errGetPolicy = ''cannot get policy of CryptoKey''"

definition serviceAccountPolicy_errSetPolicy :: string where
  "serviceAccountPolicy_errSetPolicy = ''cannot set policy of CryptoKey''"

definition serviceAccountPolicy_Observe ::
  "('w, api_AuditedPolicy, 'e) policyExternal \<Rightarrow> ServiceAccountPolicy option \<Rightarrow> 'w
    \<Rightarrow> ('w, ServiceAccountPolicy, ExternalObservation, 'e) outcome option" where
  "serviceAccountPolicy_Observe e mg w =
     (let L = pe_runtime e in
      case mg of
        None \<Rightarrow> Some (w, None, ExternalObservation0, Some (errors_New L errNotServiceAccountPolicy))
      | Some cr \<Rightarrow>
         (case GetIamPolicy e (StringValue (sar_ServiceAccount (sap_ServiceAccountReferer (ForProvider cr)))) w of
            (w1, Inl err) \<Rightarrow> Some (w1, Some cr, ExternalObservation0,
               errors_Wrap L (resource_Ignore L (IsErrorNotFound L) (Some err)) serviceAccountPolicy_errGetPolicy)
          | (w1, Inr instance') \<Rightarrow>
              if serviceaccountpolicy_IsEmpty instance' then Some (w1, Some cr, ExternalObservation0, None)
              else do {
                (upToDate, err) \<leftarrow> serviceaccountpolicy_IsUpToDate L (pe_copy e) (pe_same e) (ForProvider cr) instance';
                if err \<noteq> None
                then Some (w1, Some cr, ExternalObservation0, errors_Wrap L err serviceAccountPolicy_errCheckUpToDate)
                else if \<not> upToDate
                then Some (w1, Some cr, ExternalObservation0\<lparr>ResourceExists := True\<rparr>, None)
                else Some (w1, Some (SetConditions Available cr),
                  ExternalObservation0\<lparr>ResourceExists := True, ResourceUpToDate := True\<rparr>, None) }))"

definition serviceAccountPolicy_Create ::
  "('w, api_AuditedPolicy, 'e) policyExternal \<Rightarrow> ServiceAccountPolicy option \<Rightarrow> 'w
    \<Rightarrow> ('w, ServiceAccountPolicy, ExternalCreation, 'e) outcome option" where
  "serviceAccountPolicy_Create e mg w =
     (let L = pe_runtime e in
      case mg of
        None \<Rightarrow> Some (w, None, ExternalCreation0, Some (errors_New L errNotServiceAccountPolicy))
      | Some cr \<Rightarrow> do {
          let cr = SetConditions Creating cr;
          instance' \<leftarrow> GenerateServiceAccountPolicyInstance (ForProvider cr) iam_Policy0;
          (case SetIamPolicy e (StringValue (sar_ServiceAccount (sap_ServiceAccountReferer (ForProvider cr)))) instance' w of
             (w1, Inl err) \<Rightarrow> Some (w1, Some cr, ExternalCreation0,
                errors_Wrap L (Some err) serviceAccountPolicy_errSetPolicy)
           | (w1, Inr _) \<Rightarrow> Some (w1, Some cr, ExternalCreation0, None)) })"

definition serviceAccountPolicy_Update ::
  "('w, api_AuditedPolicy, 'e) policyExternal \<Rightarrow> ServiceAccountPolicy option \<Rightarrow> 'w
    \<Rightarrow> ('w, ServiceAccountPolicy, ExternalUpdate, 'e) outcome option" where
  "serviceAccountPolicy_Update e mg w =
     (let L = pe_runtime e in
      case mg of
        None \<Rightarrow> Some (w, None, ExternalUpdate0, Some (errors_New L errNotServiceAccountPolicy))
      | Some cr \<Rightarrow>
         (case GetIamPolicy e (StringValue (sar_ServiceAccount (sap_ServiceAccountReferer (ForProvider cr)))) w of
            (w1, Inl err) \<Rightarrow> Some (w1, Some cr, ExternalUpdate0,
               errors_Wrap L (Some err) serviceAccountPolicy_errGetPolicy)
          | (w1, Inr instance') \<Rightarrow> do {
              (u, err) \<leftarrow> serviceaccountpolicy_IsUpToDate L (pe_copy e) (pe_same e) (ForProvider cr) instance';
              if err \<noteq> None
              then Some (w1, Some cr, ExternalUpdate0, errors_Wrap L err serviceAccountPolicy_errCheckUpToDate)
              else if u then Some (w1, Some cr, ExternalUpdate0, None)
              else do {
                instance' \<leftarrow> GenerateServiceAccountPolicyInstance (ForProvider cr) instance';
                (case SetIamPolicy e (StringValue (sar_ServiceAccount (sap_ServiceAccountReferer (ForProvider cr)))) instance' w1 of
                   (w2, Inl err) \<Rightarrow> Some (w2, Some cr, ExternalUpdate0,
                      errors_Wrap L (Some err) serviceAccountPolicy_errSetPolicy)
                 | (w2, Inr _) \<Rightarrow> Some (w2, Some cr, ExternalUpdate0, None)) } }))"

definition serviceAccountPolicy_Delete ::
  "('w, api_AuditedPolicy, 'e) policyExternal \<Rightarrow> ServiceAccountPolicy option \<Rightarrow> 'w
    \<Rightarrow> ('w, ServiceAccountPolicy, unit, 'e) outcome option" where
  "serviceAccountPolicy_Delete e mg w =
     (let L = pe_runtime e in
      case mg of
        None \<Rightarrow> Some (w, None, (), Some (errors_New L errNotServiceAccountPolicy))
      | Some cr \<Rightarrow>
         (case SetIamPolicy e (StringValue (sar_ServiceAccount (sap_ServiceAccountReferer (ForProvider cr)))) iam_Policy0 w of
            (w1, Inl err) \<Rightarrow> Some (w1, Some cr, (), errors_Wrap L (Some err) serviceAccountPolicy_errSetPolicy)
          | (w1, Inr _) \<Rightarrow> Some (w1, Some cr, (), None)))"

section \<open>BucketPolicyMember\<close>

definition errNotBucketPolicyMember :: string where
  "errNotBucketPolicyMember = ''managed resource is not a GCP BucketPolicyMember''"

definition bucketPolicyMember_Observe ::
  "('w, api_Policy, 'e) policyExternal \<Rightarrow> BucketPolicyMember option \<Rightarrow> 'w
    \<Rightarrow> ('w, BucketPolicyMember, ExternalObservation, 'e) outcome option" where
  "bucketPolicyMember_Observe e mg w =
     (let L = pe_runtime e in
      case mg of
        None \<Rightarrow> Some (w, None, ExternalObservation0, Some (errors_New L errNotBucketPolicyMember))
      | Some cr \<Rightarrow>
         (case GetIamPolicy e (StringValue (bpm_Bucket (ForProvider cr))) w of
            (w1, Inl err) \<Rightarrow> Some (w1, Some cr, ExternalObservation0,
               errors_Wrap L (Some err) bucketPolicy_errGetPolicy)
          | (w1, Inr instance') \<Rightarrow> do {
              (instance', changed) \<leftarrow> BindRoleToMember (ForProvider cr) instance';
              if \<not> changed
              then Some (w1, Some (SetConditions Available cr),
                ExternalObservation0\<lparr>ResourceExists := True, ResourceUpToDate := True\<rparr>, None)
              else Some (w1, Some cr, ExternalObservation0, None) }))"

definition bucketPolicyMember_Create ::
  "('w, api_Policy, 'e) policyExternal \<Rightarrow> BucketPolicyMember option \<Rightarrow> 'w
    \<Rightarrow> ('w, BucketPolicyMember, ExternalCreation, 'e) outcome option" where
  "bucketPolicyMember_Create e mg w =
     (let L = pe_runtime e in
      case mg of
        None \<Rightarrow> Some (w, None, ExternalCreation0, Some (errors_New L errNotBucketPolicyMember))
      | Some cr \<Rightarrow>
         (case GetIamPolicy e (StringValue (bpm_Bucket (ForProvider cr))) w of
            (w1, Inl err) \<Rightarrow> Some (w1, Some cr, ExternalCreation0,
               errors_Wrap L (Some err) bucketPolicy_errGetPolicy)
          | (w1, Inr instance') \<Rightarrow> do {
              (instance', changed) \<leftarrow> BindRoleToMember (ForProvider cr) instance';
              if \<not> changed then Some (w1, Some cr, ExternalCreation0, None)
              else (case SetIamPolicy e (StringValue (bpm_Bucket (ForProvider cr))) instance' w1 of
                 (w2, Inl err) \<Rightarrow> Some (w2, Some cr, ExternalCreation0,
                    errors_Wrap L (Some err) bucketPolicy_errSetPolicy)
               | (w2, Inr _) \<Rightarrow> Some (w2, Some cr, ExternalCreation0, None)) }))"

definition bucketPolicyMember_Update ::
  "('w, api_Policy, 'e) policyExternal \<Rightarrow> BucketPolicyMember option \<Rightarrow> 'w
    \<Rightarrow> ('w, BucketPolicyMember, ExternalUpdate, 'e) outcome option" where
  "bucketPolicyMember_Update e mg w = do {
     (w1, cr, _, err) \<leftarrow> bucketPolicyMember_Create e mg w;
     Some (w1, cr, ExternalUpdate0, err) }"

definition bucketPolicyMember_Delete ::
  "('w, api_Policy, 'e) policyExternal \<Rightarrow> BucketPolicyMember option \<Rightarrow> 'w
    \<Rightarrow> ('w, BucketPolicyMember, unit, 'e) outcome option" where
  "bucketPolicyMember_Delete e mg w =
     (let L = pe_runtime e in
      case mg of
        None \<Rightarrow> Some (w, None, (), Some (errors_New L errNotBucketPolicyMember))
      | Some cr \<Rightarrow>
         (case GetIamPolicy e (StringValue (bpm_Bucket (ForProvider cr))) w of
            (w1, Inl err) \<Rightarrow> Some (w1, Some cr, (), errors_Wrap L (Some err) bucketPolicy_errGetPolicy)
          | (w1, Inr instance') \<Rightarrow> do {
              (instance', changed) \<leftarrow> UnbindRoleFromMember (ForProvider cr) instance';
              if \<not> changed then Some (w1, Some cr, (), None)
              else (case SetIamPolicy e (StringValue (bpm_Bucket (ForProvider cr))) instance' w1 of
                 (w2, Inl err) \<Rightarrow> Some (w2, Some cr, (), errors_Wrap L (Some err) bucketPolicy_errSetPolicy)
               | (w2, Inr _) \<Rightarrow> Some (w2, Some cr, (), None)) }))"

section \<open>Connecting\<close>

definition storage_errNewClient :: string where
  "storage_errNewClient = ''cannot create new GCP storage client''"

definition bucketPolicy_Connect ::
  "'e runtime \<Rightarrow> ('w, BucketPolicy, 'src, 'sel, 'e) auth_api
    \<Rightarrow> (ClientOption option \<Rightarrow> ('w, ('w, api_Policy, 'e) policyExternal, 'e) call)
    \<Rightarrow> BucketPolicy \<Rightarrow> 'w \<Rightarrow> ('w \<times> ('w, api_Policy, 'e) policyExternal option \<times> 'e option) option" where
  "bucketPolicy_Connect L c newService mg w =
     connect_service L c storage_errNewClient (\<lambda>_. newService) mg w"

definition bucketPolicyMember_Connect ::
  "'e runtime \<Rightarrow> ('w, BucketPolicyMember, 'src, 'sel, 'e) auth_api
    \<Rightarrow> (ClientOption option \<Rightarrow> ('w, ('w, api_Policy, 'e) policyExternal, 'e) call)
    \<Rightarrow> BucketPolicyMember \<Rightarrow> 'w \<Rightarrow> ('w \<times> ('w, api_Policy, 'e) policyExternal option \<times> 'e option) option" where
  "bucketPolicyMember_Connect L c newService mg w =
     connect_service L c storage_errNewClient (\<lambda>_. newService) mg w"

definition cryptoKeyPolicy_Connect ::
  "'e runtime \<Rightarrow> ('w, CryptoKeyPolicy, 'src, 'sel, 'e) auth_api
    \<Rightarrow> (ClientOption option \<Rightarrow> ('w, ('w, api_AuditedPolicy, 'e) policyExternal, 'e) call)
    \<Rightarrow> CryptoKeyPolicy \<Rightarrow> 'w \<Rightarrow> ('w \<times> ('w, api_AuditedPolicy, 'e) policyExternal option \<times> 'e option) option" where
  "cryptoKeyPolicy_Connect L c newService mg w =
     connect_service L c kms_errNewClient (\<lambda>_. newService) mg w"

definition serviceAccountPolicy_Connect ::
  "'e runtime \<Rightarrow> ('w, ServiceAccountPolicy, 'src, 'sel, 'e) auth_api
    \<Rightarrow> (ClientOption option \<Rightarrow> ('w, ('w, api_AuditedPolicy, 'e) policyExternal, 'e) call)
    \<Rightarrow> ServiceAccountPolicy \<Rightarrow> 'w \<Rightarrow> ('w \<times> ('w, api_AuditedPolicy, 'e) policyExternal option \<times> 'e option) option" where
  "serviceAccountPolicy_Connect L c newService mg w =
     connect_service L c iam_errNewClient (\<lambda>_. newService) mg w"

section \<open>What a policy controller promises\<close>

text \<open>
  The law of the IAM service that convergence relies on: a policy that has been set is the one
  that is read next, up to etag, version and empty slices.
\<close>

definition policy_store_ok :: "('x \<Rightarrow> 'v) \<Rightarrow> ('w, 'x, 'e) policyExternal \<Rightarrow> bool" where
  "policy_store_ok content e \<longleftrightarrow> (\<forall>r p w w1 a. SetIamPolicy e r p w = (w1, Inr a) \<longrightarrow>
     (\<exists>w2 q. GetIamPolicy e r w1 = (w2, Inr q) \<and> content q = content p))"

definition up_to_date :: ExternalObservation where
  "up_to_date = ExternalObservation0\<lparr>ResourceExists := True, ResourceUpToDate := True\<rparr>"

locale policy_controller = policy_client gen content rest
  for gen :: "'p \<Rightarrow> 'x \<Rightarrow> 'x option" and content :: "'x \<Rightarrow> 'v" and rest :: "'x \<Rightarrow> 'r" +
  fixes res :: "'p \<Rightarrow> string"
    and empty :: "'x \<Rightarrow> bool"
    and zero :: 'x
    and observe :: "('w, 'x, 'e) policyExternal \<Rightarrow> ('p, 'o) managed option \<Rightarrow> 'w
          \<Rightarrow> ('w, ('p, 'o) managed, ExternalObservation, 'e) outcome option"
    and create :: "('w, 'x, 'e) policyExternal \<Rightarrow> ('p, 'o) managed option \<Rightarrow> 'w
          \<Rightarrow> ('w, ('p, 'o) managed, ExternalCreation, 'e) outcome option"
    and update :: "('w, 'x, 'e) policyExternal \<Rightarrow> ('p, 'o) managed option \<Rightarrow> 'w
          \<Rightarrow> ('w, ('p, 'o) managed, ExternalUpdate, 'e) outcome option"
  assumes empty_content: "empty x \<Longrightarrow> content x = content zero"
    and observe_law: "copy_ok (pe_copy e) \<Longrightarrow> GetIamPolicy e (res (ForProvider cr)) w = (w1, Inr q) \<Longrightarrow>
        \<not> empty q \<Longrightarrow> gen (ForProvider cr) q = Some d \<Longrightarrow>
        observe e (Some cr) w = Some (w1,
          if pe_same e d q then Some (SetConditions Available cr) else Some cr,
          if pe_same e d q then up_to_date else ExternalObservation0\<lparr>ResourceExists := True\<rparr>, None)"
    and create_law: "wrap_ok (pe_runtime e) \<Longrightarrow> create e (Some cr) w = Some (w1, cr1, r, None) \<Longrightarrow>
        cr1 = Some (SetConditions Creating cr) \<and>
        (\<exists>y a. gen (ForProvider cr) zero = Some y \<and> SetIamPolicy e (res (ForProvider cr)) y w = (w1, Inr a))"
    and update_law: "wrap_ok (pe_runtime e) \<Longrightarrow> copy_ok (pe_copy e) \<Longrightarrow>
        update e (Some cr) w = Some (w2, cr2, u, None) \<Longrightarrow>
        cr2 = Some cr \<and>
        ((\<exists>q d. GetIamPolicy e (res (ForProvider cr)) w = (w2, Inr q) \<and> gen (ForProvider cr) q = Some d
            \<and> pe_same e d q)
         \<or> (\<exists>q d w1 a. GetIamPolicy e (res (ForProvider cr)) w = (w1, Inr q) \<and> gen (ForProvider cr) q = Some d
            \<and> \<not> pe_same e d q \<and> SetIamPolicy e (res (ForProvider cr)) d w1 = (w2, Inr a)))"
begin

lemma stored_then_observe:
  assumes "copy_ok (pe_copy e)" and "cmp_respects (\<lambda>x. (content x, rest x)) (pe_same e)"
    and "policy_store_ok content e"
    and set: "SetIamPolicy e (res (ForProvider cr)) y w = (w1, Inr a)"
    and gen: "gen (ForProvider cr) x = Some y" and "content y \<noteq> content zero"
  shows "\<exists>w2. observe e (Some cr) w1 = Some (w2, Some (SetConditions Available cr), up_to_date, None)"
proof -
  obtain w2 q where q: "GetIamPolicy e (res (ForProvider cr)) w1 = (w2, Inr q)" "content q = content y"
    using assms(3) set unfolding policy_store_ok_def by blast
  with assms(6) have "\<not> empty q" using empty_content by metis
  moreover obtain d where "gen (ForProvider cr) q = Some d" "pe_same e d q"
    using stored_matches [OF assms(2) gen q(2)] by blast
  ultimately show ?thesis using observe_law [OF assms(1) q(1)] by simp
qed

lemma create_then_observe:
  assumes "wrap_ok (pe_runtime e)" and "copy_ok (pe_copy e)"
    and "cmp_respects (\<lambda>x. (content x, rest x)) (pe_same e)" and "policy_store_ok content e"
    and "create e (Some cr) w = Some (w1, cr1, r, None)"
    and "gen (ForProvider cr) zero = Some y" and "content y \<noteq> content zero"
  shows "\<exists>w2 cr2. observe e cr1 w1 = Some (w2, cr2, up_to_date, None)"
proof -
  obtain a where cr1: "cr1 = Some (SetConditions Creating cr)"
      and set: "SetIamPolicy e (res (ForProvider cr)) y w = (w1, Inr a)"
    using create_law [OF assms(1,5)] assms(6) by auto
  show ?thesis
    using stored_then_observe [of e "SetConditions Creating cr" y w w1 a zero] assms set cr1 by auto
qed

lemma update_then_observe:
  assumes "wrap_ok (pe_runtime e)" and "copy_ok (pe_copy e)"
    and "cmp_respects (\<lambda>x. (content x, rest x)) (pe_same e)" and "policy_store_ok content e"
    and "update e (Some cr) w = Some (w2, cr2, u, None)"
    and "GetIamPolicy e (res (ForProvider cr)) w = (w1, Inr q)" and "gen (ForProvider cr) q = Some d"
    and "\<not> pe_same e d q" and "content d \<noteq> content zero"
  shows "\<exists>w3 cr3. observe e cr2 w2 = Some (w3, cr3, up_to_date, None)"
proof -
  obtain a where cr2: "cr2 = Some cr" and set: "SetIamPolicy e (res (ForProvider cr)) d w1 = (w2, Inr a)"
    using update_law [OF assms(1,2,5)] assms(6,7,8) by auto
  show ?thesis
    using stored_then_observe [OF assms(2,3,4) set assms(7,9)] cr2 by blast
qed

end

lemmas policy_handler_defs =
  bucketPolicy_Observe_def bucketPolicy_Create_def bucketPolicy_Update_def
  cryptoKeyPolicy_Observe_def cryptoKeyPolicy_Create_def cryptoKeyPolicy_Update_def
  serviceAccountPolicy_Observe_def serviceAccountPolicy_Create_def serviceAccountPolicy_Update_def
  bucketpolicy_IsUpToDate_def cryptokeypolicy_IsUpToDate_def serviceaccountpolicy_IsUpToDate_def

lemmas policy_empty_defs =
  bucketpolicy_IsEmpty_def cryptokeypolicy_IsEmpty_def serviceaccountpolicy_IsEmpty_def
  bindings_content_def audited_content_def storage_Policy0_def iam_Policy0_def

interpretation bucket_policy_ctrl: policy_controller GenerateBucketPolicyInstance bindings_content ap_Etag
  "\<lambda>p. StringValue (bpp_Bucket p)" bucketpolicy_IsEmpty storage_Policy0
  bucketPolicy_Observe bucketPolicy_Create bucketPolicy_Update
  by unfold_locales
    (auto simp: policy_handler_defs policy_empty_defs copy_ok_def up_to_date_def outcome_convs
      split: if_splits)

interpretation crypto_key_policy_ctrl: policy_controller GenerateCryptoKeyPolicyInstance audited_content ap_Etag
  "\<lambda>p. StringValue (ckp_CryptoKey p)" cryptokeypolicy_IsEmpty iam_Policy0
  cryptoKeyPolicy_Observe cryptoKeyPolicy_Create cryptoKeyPolicy_Update
  by unfold_locales
    (auto simp: policy_handler_defs policy_empty_defs copy_ok_def up_to_date_def outcome_convs
      split: if_splits)

interpretation service_account_policy_ctrl: policy_controller GenerateServiceAccountPolicyInstance
  audited_content ap_Etag "\<lambda>p. StringValue (sar_ServiceAccount (sap_ServiceAccountReferer p))"
  serviceaccountpolicy_IsEmpty iam_Policy0
  serviceAccountPolicy_Observe serviceAccountPolicy_Create serviceAccountPolicy_Update
  by unfold_locales
    (auto simp: policy_handler_defs policy_empty_defs copy_ok_def up_to_date_def outcome_convs
      split: if_splits)

section \<open>Members: binding through the service\<close>

lemma bindings_content_nil:
  "bindings_content p = bindings_content q \<Longrightarrow>
     None \<in> set (elems (ap_Bindings p)) \<longleftrightarrow> None \<in> set (elems (ap_Bindings q))"
  unfolding bindings_content_def by (metis (no_types, lifting) image_iff list.set_map option.map_disc_iff)

lemma grants_of_view:
  "map (map_option binding_view) ps = map (map_option binding_view) qs \<Longrightarrow>
     grants_of ps = grants_of qs \<and> roles_of ps = roles_of qs \<and> wf_bindings ps = wf_bindings qs"
  if "None \<notin> set ps"
  using that
proof (induction ps arbitrary: qs)
  case (Cons p ps)
  then obtain q qs' where qs: "qs = q # qs'" by (cases qs) auto
  from Cons.prems(1,2) qs obtain b c where "p = Some b" "q = Some c" "binding_view b = binding_view c"
    by (cases p; cases q) auto
  moreover have "map (map_option binding_view) ps = map (map_option binding_view) qs'"
    using Cons.prems(1) qs by simp
  ultimately show ?case
    using Cons.IH [of qs'] Cons.prems(2) qs by (simp add: binding_view_def [of b] binding_view_def [of c])
qed simp

lemma same_content_grants:
  assumes "bindings_content p = bindings_content q" and "wf_policy q"
  shows "grants p = grants q \<and> wf_policy p"
  using grants_of_view [of "elems (ap_Bindings q)" "elems (ap_Bindings p)"] assms wf_no_nil
  unfolding bindings_content_def grants_def wf_policy_def by metis

text \<open>What an observation of a member says of a well-formed policy.\<close>

lemma member_Observe_iff:
  assumes "GetIamPolicy e (StringValue (bpm_Bucket (ForProvider cr))) w = (w1, Inr q)" and "wf_policy q"
  shows "\<exists>cr1. bucketPolicyMember_Observe e (Some cr) w = Some (w1, cr1,
    if (bpm_Role (ForProvider cr), StringValue (bpm_Member (ForProvider cr))) \<in> grants q
    then up_to_date else ExternalObservation0, None)"
proof -
  obtain t c where "BindRoleToMember (ForProvider cr) q = Some (t, c)"
      "c \<longleftrightarrow> (bpm_Role (ForProvider cr), StringValue (bpm_Member (ForProvider cr))) \<notin> grants q"
    using bucket_grants.bind_law [OF assms(2)] by blast
  with assms(1) show ?thesis
    by (auto simp: bucketPolicyMember_Observe_def up_to_date_def)
qed

section \<open>Sample services for the witnesses\<close>

text \<open>A service that stores one policy per resource and compares policies as the options of
  \<open>ArePoliciesSame\<close> do for sorted bindings.\<close>

definition sample_policy_service :: "('x \<Rightarrow> 'v) \<Rightarrow> ('x \<Rightarrow> string) \<Rightarrow> (string \<Rightarrow> 'x, 'x, sample_error) policyExternal" where
  "sample_policy_service content etag = \<lparr>
     pe_runtime = sample_runtime,
     pe_copy = (\<lambda>x. Inr (Some x)),
     pe_same = (\<lambda>x y. content x = content y \<and> etag x = etag y),
     GetIamPolicy = (\<lambda>r w. (w, Inr (w r))),
     SetIamPolicy = (\<lambda>r p w. (w(r := p), Inr p))\<rparr>"

lemma sample_policy_service_ok:
  "wrap_ok (pe_runtime (sample_policy_service content etag))"
  "ignore_ok (pe_runtime (sample_policy_service content etag))"
  "copy_ok (pe_copy (sample_policy_service content etag))"
  "cmp_respects (\<lambda>x. (content x, etag x)) (pe_same (sample_policy_service content etag))"
  "policy_store_ok content (sample_policy_service content etag)"
  by (simp_all add: sample_policy_service_def sample_runtime_ok copy_ok_def cmp_respects_def
      policy_store_ok_def)

definition sample_binding :: Binding where
  "sample_binding = \<lparr>binding_Condition = None, binding_Members = Some [''user:a''],
     binding_ServiceAccountMemberRefs = None, binding_ServiceAccountMemberSelector = None,
     binding_Role = ''roles/viewer''\<rparr>"

definition sample_spec_policy :: Policy where
  "sample_spec_policy = \<lparr>policy_AuditConfigs = None, policy_Bindings = Some [Some sample_binding]\<rparr>"

definition sample_bucket_policy :: BucketPolicy where
  "sample_bucket_policy = sample_managed
     \<lparr>bpp_Bucket = Some ''b'', bpp_BucketRef = None, bpp_BucketSelector = None,
      bpp_Policy = sample_spec_policy\<rparr> \<lparr>bpo_Version = 0\<rparr>"

definition sample_crypto_key_policy :: CryptoKeyPolicy where
  "sample_crypto_key_policy = sample_managed
     \<lparr>ckp_CryptoKey = Some ''k'', ckp_CryptoKeyRef = None, ckp_CryptoKeySelector = None,
      ckp_Policy = sample_spec_policy\<rparr> ()"

definition sample_member :: BucketPolicyMember where
  "sample_member = sample_managed
     \<lparr>bpm_Bucket = Some ''b'', bpm_BucketRef = None, bpm_BucketSelector = None,
      bpm_Role = ''roles/viewer'', bpm_Member = Some ''user:a'',
      bpm_ServiceAccountMemberRef = None, bpm_ServiceAccountMemberSelector = None\<rparr> ()"

lemmas sample_policy_defs =
  sample_policy_service_def sample_binding_def sample_spec_policy_def sample_bucket_policy_def
  sample_crypto_key_policy_def sample_member_def sample_managed_def sample_runtime_def

section \<open>Properties\<close>

text \<open>C6: a bucket policy converges. If \<open>Create\<close> succeeds for a policy with at least one
  binding, then the next \<open>Observe\<close> reports that the resource exists and is up to date, for any
  service that returns the bindings that were set, and whatever etag it gives them.\<close>

theorem bucketPolicy_create_converges:
  assumes "wrap_ok (pe_runtime e)" and "copy_ok (pe_copy e)"
    and "cmp_respects (\<lambda>x. (bindings_content x, ap_Etag x)) (pe_same e)"
    and "policy_store_ok bindings_content e"
    and "bucketPolicy_Create e (Some cr) w = Some (w1, cr1, r, None)"
    and "GenerateBucketPolicyInstance (ForProvider cr) storage_Policy0 = Some y"
    and "bindings_content y \<noteq> []"
  shows "\<exists>w2 cr2. bucketPolicy_Observe e cr1 w1 = Some (w2, cr2, up_to_date, None)"
  using bucket_policy_ctrl.create_then_observe [OF assms(1-6)] assms(7)
  by (simp add: bindings_content_def storage_Policy0_def)

text \<open>Witness of C6: one binding of one member.\<close>

lemma bucketPolicy_create_converges_witness:
  "\<exists>w1 cr1 r w2 cr2.
     bucketPolicy_Create (sample_policy_service bindings_content ap_Etag) (Some sample_bucket_policy)
       (\<lambda>_. storage_Policy0) = Some (w1, cr1, r, None)
   \<and> bucketPolicy_Observe (sample_policy_service bindings_content ap_Etag) cr1 w1
       = Some (w2, cr2, up_to_date, None)"
proof -
  let ?e = "sample_policy_service bindings_content ap_Etag"
  obtain y where y: "GenerateBucketPolicyInstance (ForProvider sample_bucket_policy) storage_Policy0 = Some y"
      "bindings_content y \<noteq> []"
    by (simp add: GenerateBucketPolicyInstance_def sample_policy_defs api_binding_def bindings_content_def)
  obtain w1 cr1 r where c: "bucketPolicy_Create ?e (Some sample_bucket_policy) (\<lambda>_. storage_Policy0)
      = Some (w1, cr1, r, None)"
    using y(1) by (simp add: bucketPolicy_Create_def sample_policy_defs SetConditions_def)
  show ?thesis
    using bucketPolicy_create_converges [OF sample_policy_service_ok(1,3,4,5) c y] c by blast
qed



text \<open>C14: a bucket policy that is reported up to date grants exactly what the custom resource
  asks for: every pair of a role and a member of the spec, and no other.\<close>

theorem bucketPolicy_up_to_date_sound:
  assumes "copy_ok (pe_copy e)" and "cmp_sound grants (pe_same e)"
    and "GetIamPolicy e (StringValue (bpp_Bucket (ForProvider cr))) w = (w1, Inr q)"
    and "bucketPolicy_Observe e (Some cr) w = Some (w1, cr1, ob, None)" and "ResourceUpToDate ob"
  shows "grants q = spec_grants (bpp_Policy (ForProvider cr))"
proof -
  obtain d where d: "GenerateBucketPolicyInstance (ForProvider cr) q = Some d" "pe_same e d q"
    using assms
    by (auto simp: bucketPolicy_Observe_def bucketpolicy_IsUpToDate_def copy_ok_def
        ExternalObservation0_def outcome_convs split: if_splits)
  then have "grants d = grants q" using assms(2) by (simp add: cmp_sound_def)
  with generated_grants [OF d(1)] show ?thesis by simp
qed

text \<open>Witness of C14: the policy that the sample resource asks for is stored.\<close>

lemma bucketPolicy_up_to_date_sound_witness:
  "grants (the (GenerateBucketPolicyInstance (ForProvider sample_bucket_policy) storage_Policy0))
     = spec_grants sample_spec_policy"
proof -
  let ?e = "(sample_policy_service bindings_content ap_Etag)\<lparr>pe_same := (=)\<rparr>"
  let ?q = "the (GenerateBucketPolicyInstance (ForProvider sample_bucket_policy) storage_Policy0)"
  have "bucketPolicy_Observe ?e (Some sample_bucket_policy) (\<lambda>_. ?q)
      = Some (\<lambda>_. ?q, Some (SetConditions Available sample_bucket_policy), up_to_date, None)"
    by (simp add: bucketPolicy_Observe_def bucketpolicy_IsUpToDate_def bucketpolicy_IsEmpty_def
        GenerateBucketPolicyInstance_def sample_policy_defs api_binding_def up_to_date_def)
  from bucketPolicy_up_to_date_sound [OF _ _ _ this] show ?thesis
    by (simp add: sample_policy_service_def copy_ok_def cmp_sound_def up_to_date_def
        sample_bucket_policy_def sample_managed_def)
qed

text \<open>C1: the members of a bucket policy as a set. Any interleaving of the bind and unbind
  operations of any number of \<open>BucketPolicyMember\<close> resources, applied to a policy with one
  binding per role, never panics, keeps that shape, and leaves exactly the grants that the
  same insertions and deletions leave in a set.\<close>

theorem member_operations_refine_set:
  assumes "wf_policy p"
  shows "\<exists>p'. bucket_grants.run ops p = Some p' \<and> wf_policy p'
    \<and> grants p' = foldl set_op (grants p)
        (map (map_table_op (\<lambda>in'. (bpm_Role in', StringValue (bpm_Member in')))) ops)"
  by (rule bucket_grants.run_refines [OF assms])

text \<open>Witness of C1: from the empty policy.\<close>

lemma member_operations_refine_set_witness:
  "\<exists>p'. bucket_grants.run [Bind (ForProvider sample_member), Unbind (ForProvider sample_member)]
       storage_Policy0 = Some p' \<and> wf_policy p' \<and> grants p' = {}"
  using member_operations_refine_set [of storage_Policy0
      "[Bind (ForProvider sample_member), Unbind (ForProvider sample_member)]"]
  by (simp add: storage_Policy0_def wf_policy_def grants_def)

text \<open>C13: a member converges. After a successful \<open>Create\<close> of a member the next observation of the
  same member finds it; after a successful \<open>Delete\<close> it does not.\<close>

theorem bucketPolicyMember_converges:
  assumes "wrap_ok (pe_runtime e)" and "policy_store_ok bindings_content e"
    and "GetIamPolicy e (StringValue (bpm_Bucket (ForProvider cr))) w = (w, Inr q)" and "wf_policy q"
  shows "(bucketPolicyMember_Create e (Some cr) w = Some (w1, cr1, r, None) \<longrightarrow>
            (\<exists>w2 cr2. bucketPolicyMember_Observe e (Some cr) w1 = Some (w2, cr2, up_to_date, None)))
       \<and> (bucketPolicyMember_Delete e (Some cr) w = Some (w1, cr1, (), None) \<longrightarrow>
            (\<exists>w2 cr2. bucketPolicyMember_Observe e (Some cr) w1 = Some (w2, cr2, ExternalObservation0, None)))"
proof -
  let ?g = "(bpm_Role (ForProvider cr), StringValue (bpm_Member (ForProvider cr)))"
  obtain t c where b: "BindRoleToMember (ForProvider cr) q = Some (t, c)" "wf_policy t"
      "grants t = insert ?g (grants q)" "c \<longleftrightarrow> ?g \<notin> grants q"
    using bucket_grants.bind_law [OF assms(4)] by blast
  obtain u d where u: "UnbindRoleFromMember (ForProvider cr) q = Some (u, d)" "wf_policy u"
      "grants u = grants q - {?g}" "d \<longleftrightarrow> ?g \<in> grants q"
    using bucket_grants.unbind_law [OF assms(4)] by blast
  have stored: "\<exists>w2 cr2. bucketPolicyMember_Observe e (Some cr) w1 = Some (w2, cr2,
      if ?g \<in> grants p then up_to_date else ExternalObservation0, None)"
    if set: "SetIamPolicy e (StringValue (bpm_Bucket (ForProvider cr))) p w = (w1, Inr a)" and p: "wf_policy p" for p a
  proof -
    from assms(2) set obtain w2 p' where g: "GetIamPolicy e (StringValue (bpm_Bucket (ForProvider cr))) w1 = (w2, Inr p')"
        "bindings_content p' = bindings_content p"
      unfolding policy_store_ok_def by blast
    from member_Observe_iff [OF g(1)] same_content_grants [OF g(2) p] show ?thesis by auto
  qed
  show ?thesis
    using stored [of t] stored [of u] member_Observe_iff [OF assms(3,4)] b u assms(1,3)
    by (auto simp: bucketPolicyMember_Create_def bucketPolicyMember_Delete_def outcome_convs split: if_splits)
qed

text \<open>Witness of C13: the sample member is created in an empty policy.\<close>

lemma bucketPolicyMember_converges_witness:
  "\<exists>w1 cr1 r w2 cr2.
     bucketPolicyMember_Create (sample_policy_service bindings_content ap_Etag) (Some sample_member)
       (\<lambda>_. storage_Policy0) = Some (w1, cr1, r, None)
   \<and> bucketPolicyMember_Observe (sample_policy_service bindings_content ap_Etag) (Some sample_member) w1
       = Some (w2, cr2, up_to_date, None)"
proof -
  let ?e = "sample_policy_service bindings_content ap_Etag"
  obtain w1 cr1 r where c: "bucketPolicyMember_Create ?e (Some sample_member) (\<lambda>_. storage_Policy0)
      = Some (w1, cr1, r, None)"
    by (simp add: bucketPolicyMember_Create_def BindRoleToMember_def storage_Policy0_def
        sample_policy_defs)
  show ?thesis
    using bucketPolicyMember_converges [of ?e sample_member "\<lambda>_. storage_Policy0" storage_Policy0 w1 cr1 r] c
      sample_policy_service_ok(1,5) [of bindings_content ap_Etag]
    by (auto simp: sample_policy_service_def storage_Policy0_def wf_policy_def)
qed



end
