(* ===== verification/Policy_Concurrency.thy ===== *)
theory Policy_Concurrency
  imports Policy_Controllers
begin

text \<open>
  Several \<open>BucketPolicyMember\<close> resources may share a bucket. Their controllers run at the same time and each of them
  reads the policy of the bucket, changes it and writes it back (\<^verbatim>\<open>pkg/controller/storage/bucketpolicymember.go\<close>), so
  anything may happen to the policy between the read and the write. This theory has the step
  relation of such a system, with the handlers as they are, and shows that no grant is lost: the policy carries an etag,
  the handlers send it back, and the service refuses a write whose etag is out of date.
\<close>

section \<open>The bucket over time\<close>

text \<open>The policy of a bucket and the etags that it has had.\<close>

record bucket_state =
  b_policy :: api_Policy
  b_seen :: "string set"

text \<open>
  One run of a handler makes at most one \<open>Get\<close> and one \<open>Set\<close>. Its world is a pair: the state \<open>r\<close> of the bucket when the
  \<open>Get\<close> is answered and the state \<open>s\<close> when the \<open>Set\<close> is. What the service documents: a read that succeeds gives the
  policy with its etag; a write is accepted if it has no etag or the current one, and then the policy, with
  the content that was sent, gets a new etag; a refused write changes nothing.
\<close>

definition etag_service :: "(bucket_state \<times> bucket_state, api_Policy, 'e) policyExternal \<Rightarrow> bool" where
  "etag_service e \<longleftrightarrow>
     (\<forall>b r s w a. GetIamPolicy e b (r, s) = (w, a) \<longrightarrow> w = (r, s) \<and> (\<forall>q. a = Inr q \<longrightarrow> q = b_policy r))
   \<and> (\<forall>b p r s w err. SetIamPolicy e b p (r, s) = (w, Inl err) \<longrightarrow> w = (r, s))
   \<and> (\<forall>b p r s w a. SetIamPolicy e b p (r, s) = (w, Inr a) \<longrightarrow>
        (ap_Etag p = '''' \<or> ap_Etag p = ap_Etag (b_policy s))
      \<and> (\<exists>q. bindings_content q = bindings_content p \<and> ap_Etag q \<notin> b_seen s \<and> ap_Etag q \<noteq> ''''
            \<and> w = (r, \<lparr>b_policy = q, b_seen = insert (ap_Etag q) (b_seen s)\<rparr>)))"

definition fresh_bucket :: "bucket_state \<Rightarrow> bool" where
  "fresh_bucket b \<longleftrightarrow> wf_policy (b_policy b) \<and> ap_Etag (b_policy b) \<noteq> '''' \<and> ap_Etag (b_policy b) \<in> b_seen b"

text \<open>What has been written so far: the changes of members, and policies that other clients have put in place.\<close>

datatype event = Member "BucketPolicyMemberParameters table_op" | Foreign api_Policy

definition grant_key :: "BucketPolicyMemberParameters \<Rightarrow> string \<times> string" where
  "grant_key in' = (bpm_Role in', StringValue (bpm_Member in'))"

fun apply_event :: "(string \<times> string) set \<Rightarrow> event \<Rightarrow> (string \<times> string) set" where
  "apply_event S (Member opr) = set_op S (map_table_op grant_key opr)"
| "apply_event S (Foreign p) = grants p"

text \<open>
  The states that the bucket goes through, newest first, with the events that changed it. In a step a handler runs to its end: its
  \<open>Get\<close> was answered in any earlier state \<open>r\<close>, its \<open>Set\<close>, if it makes one, is answered now; it may succeed or fail. Or another
  client replaces the policy.
\<close>

inductive history :: "(bucket_state \<times> bucket_state, api_Policy, 'e) policyExternal \<Rightarrow> bucket_state \<Rightarrow> event list \<Rightarrow> bucket_state list \<Rightarrow> bool"
  for e :: "(bucket_state \<times> bucket_state, api_Policy, 'e) policyExternal" and b0 :: bucket_state where
  start: "history e b0 [] [b0]"
| create: "history e b0 es (s # H) \<Longrightarrow> r \<in> set (s # H) \<Longrightarrow>
    bucketPolicyMember_Create e (Some cr) (r, s) = Some ((r', s'), cr', res, err) \<Longrightarrow>
    history e b0 (if s' = s then es else es @ [Member (Bind (ForProvider cr))]) (s' # s # H)"
| update: "history e b0 es (s # H) \<Longrightarrow> r \<in> set (s # H) \<Longrightarrow>
    bucketPolicyMember_Update e (Some cr) (r, s) = Some ((r', s'), cr', upd, err) \<Longrightarrow>
    history e b0 (if s' = s then es else es @ [Member (Bind (ForProvider cr))]) (s' # s # H)"
| delete: "history e b0 es (s # H) \<Longrightarrow> r \<in> set (s # H) \<Longrightarrow>
    bucketPolicyMember_Delete e (Some cr) (r, s) = Some ((r', s'), cr', u, err) \<Longrightarrow>
    history e b0 (if s' = s then es else es @ [Member (Unbind (ForProvider cr))]) (s' # s # H)"
| foreign: "history e b0 es (s # H) \<Longrightarrow> wf_policy p \<Longrightarrow> ap_Etag p \<notin> b_seen s \<Longrightarrow> ap_Etag p \<noteq> '''' \<Longrightarrow>
    history e b0 (es @ [Foreign p]) (\<lparr>b_policy = p, b_seen = insert (ap_Etag p) (b_seen s)\<rparr> # s # H)"

inductive_cases history_NilE: "history e b0 es []"

section \<open>The handlers with a stale read\<close>

lemma Bind_etag: "BindRoleToMember k p = Some (q, c) \<Longrightarrow> ap_Etag q = ap_Etag p"
  by (cases "bind_loop (bpm_Role k) (StringValue (bpm_Member k)) (elems (ap_Bindings p))")
    (auto simp: BindRoleToMember_def Let_def split: option.splits)

lemma Unbind_etag: "UnbindRoleFromMember k p = Some (q, c) \<Longrightarrow> ap_Etag q = ap_Etag p"
  by (cases "unbind_loop (bpm_Role k) (StringValue (bpm_Member k)) (elems (ap_Bindings p))")
    (auto simp: UnbindRoleFromMember_def)

text \<open>A handler that reads in state \<open>r\<close> and writes in state \<open>s\<close> either leaves the bucket alone, or the etags of the two
  states agree and it stores the grants it has computed from \<open>r\<close>.\<close>

definition member_stored :: "((string \<times> string) set \<Rightarrow> (string \<times> string) set) \<Rightarrow> bucket_state \<Rightarrow> bucket_state \<Rightarrow> bucket_state \<Rightarrow> bool" where
  "member_stored f r s s' \<longleftrightarrow> ap_Etag (b_policy r) = ap_Etag (b_policy s) \<and> wf_policy (b_policy s')
     \<and> grants (b_policy s') = f (grants (b_policy r)) \<and> ap_Etag (b_policy s') \<notin> b_seen s \<and> ap_Etag (b_policy s') \<noteq> ''''
     \<and> b_seen s' = insert (ap_Etag (b_policy s')) (b_seen s)"

lemma stored_effect:
  assumes "etag_service e" and "SetIamPolicy e b p (r, s) = ((r', s'), Inr a)" and "wf_policy p"
    and "grants p = f (grants (b_policy r))" and "ap_Etag p = ap_Etag (b_policy r)" and "ap_Etag (b_policy r) \<noteq> ''''"
  shows "member_stored f r s s'"
proof -
  from assms(1,2) have "ap_Etag p = '''' \<or> ap_Etag p = ap_Etag (b_policy s)" and "\<exists>q. bindings_content q = bindings_content p
      \<and> ap_Etag q \<notin> b_seen s \<and> ap_Etag q \<noteq> '''' \<and> (r', s') = (r, \<lparr>b_policy = q, b_seen = insert (ap_Etag q) (b_seen s)\<rparr>)"
    unfolding etag_service_def by blast+
  then show ?thesis using same_content_grants [OF _ assms(3)] assms(4-6) by (auto simp: member_stored_def)
qed

text \<open>The part that \<open>Create\<close> and \<open>Delete\<close> share: a read, a change, and a write if there was a change.\<close>

definition read_modify_write :: "('w, api_Policy, 'e) policyExternal \<Rightarrow> string \<Rightarrow> (api_Policy \<Rightarrow> (api_Policy \<times> bool) option)
    \<Rightarrow> 'w \<Rightarrow> ('w \<times> 'e option) option" where
  "read_modify_write e b f w = (case GetIamPolicy e b w of
     (w1, Inl err) \<Rightarrow> Some (w1, errors_Wrap (pe_runtime e) (Some err) bucketPolicy_errGetPolicy)
   | (w1, Inr p) \<Rightarrow> do {
       (p, changed) \<leftarrow> f p;
       if \<not> changed then Some (w1, None)
       else (case SetIamPolicy e b p w1 of
          (w2, Inl err) \<Rightarrow> Some (w2, errors_Wrap (pe_runtime e) (Some err) bucketPolicy_errSetPolicy)
        | (w2, Inr _) \<Rightarrow> Some (w2, None)) })"

lemma Create_rmw:
  "bucketPolicyMember_Create e (Some cr) w = map_option (\<lambda>(w', err). (w', Some cr, ExternalCreation0, err))
     (read_modify_write e (StringValue (bpm_Bucket (ForProvider cr))) (BindRoleToMember (ForProvider cr)) w)"
  by (cases "GetIamPolicy e (StringValue (bpm_Bucket (ForProvider cr))) w"; cases "snd (GetIamPolicy e (StringValue (bpm_Bucket (ForProvider cr))) w)")
    (auto simp: bucketPolicyMember_Create_def read_modify_write_def Let_def split: prod.split sum.split option.split Option.bind_split)

lemma Delete_rmw:
  "bucketPolicyMember_Delete e (Some cr) w = map_option (\<lambda>(w', err). (w', Some cr, (), err))
     (read_modify_write e (StringValue (bpm_Bucket (ForProvider cr))) (UnbindRoleFromMember (ForProvider cr)) w)"
  by (cases "GetIamPolicy e (StringValue (bpm_Bucket (ForProvider cr))) w"; cases "snd (GetIamPolicy e (StringValue (bpm_Bucket (ForProvider cr))) w)")
    (auto simp: bucketPolicyMember_Delete_def read_modify_write_def Let_def split: prod.split sum.split option.split Option.bind_split)

lemma rmw_effect:
  assumes ok: "etag_service e" "wrap_ok (pe_runtime e)" and r: "fresh_bucket r"
    and f: "f (b_policy r) = Some (t, c)" "wf_policy t" "grants t = g (grants (b_policy r))" "ap_Etag t = ap_Etag (b_policy r)"
    and run: "read_modify_write e b f (r, s) = Some ((r', s'), err)"
  shows "s' = s \<and> (err = None \<longrightarrow> \<not> c) \<or> member_stored g r s s'"
proof -
  obtain w a where get: "GetIamPolicy e b (r, s) = (w, a)" by fastforce
  with ok(1) have w: "w = (r, s)" "\<forall>q. a = Inr q \<longrightarrow> q = b_policy r" unfolding etag_service_def by blast+
  obtain r2 s2 a2 where set: "SetIamPolicy e b t (r, s) = ((r2, s2), a2)" by (metis prod.exhaust)
  have etag: "ap_Etag (b_policy r) \<noteq> ''''" using r by (simp add: fresh_bucket_def)
  have refused: "(r2, s2) = (r, s)" if "a2 = Inl x" for x using ok(1) set unfolding that etag_service_def by blast
  have stored: "member_stored g r s s2" if "a2 = Inr x" for x
    by (rule stored_effect [where f = g, OF ok(1) set [unfolded that] f(2-4) etag])
  show ?thesis
  proof (cases "\<exists>q. a = Inr q \<and> c")
    case False
    then show ?thesis using run get w f(1) ok(2) by (cases a) (auto simp: read_modify_write_def)
  next
    case True
    then have "a = Inr (b_policy r)" "c" using w(2) by blast+
    with run get w(1) f(1) set have "case a2 of Inl x \<Rightarrow> (r', s') = (r2, s2) \<and> err \<noteq> None | Inr x \<Rightarrow> s' = s2"
      using ok(2) by (cases a2) (auto simp: read_modify_write_def)
    then show ?thesis using refused stored by (cases a2) auto
  qed
qed

lemma Create_effect:
  assumes ok: "etag_service e" "wrap_ok (pe_runtime e)" and r: "fresh_bucket r"
    and run: "bucketPolicyMember_Create e (Some cr) (r, s) = Some ((r', s'), cr', res, err)"
  shows "s' = s \<and> (err = None \<longrightarrow> grant_key (ForProvider cr) \<in> grants (b_policy r))
    \<or> member_stored (insert (grant_key (ForProvider cr))) r s s'"
proof -
  obtain t c where b: "BindRoleToMember (ForProvider cr) (b_policy r) = Some (t, c)" "wf_policy t"
      "grants t = insert (grant_key (ForProvider cr)) (grants (b_policy r))" "c \<longleftrightarrow> grant_key (ForProvider cr) \<notin> grants (b_policy r)"
    using bucket_grants.bind_law [of "b_policy r" "ForProvider cr"] r by (auto simp: fresh_bucket_def grant_key_def)
  from run have "read_modify_write e (StringValue (bpm_Bucket (ForProvider cr))) (BindRoleToMember (ForProvider cr)) (r, s) = Some ((r', s'), err)"
    by (auto simp: Create_rmw)
  from rmw_effect [where f = "BindRoleToMember (ForProvider cr)" and g = "insert (grant_key (ForProvider cr))",
      OF ok r b(1-3) Bind_etag [OF b(1)] this] b(4) show ?thesis by blast
qed

lemma Delete_effect:
  assumes ok: "etag_service e" "wrap_ok (pe_runtime e)" and r: "fresh_bucket r"
    and run: "bucketPolicyMember_Delete e (Some cr) (r, s) = Some ((r', s'), cr', u, err)"
  shows "s' = s \<and> (err = None \<longrightarrow> grant_key (ForProvider cr) \<notin> grants (b_policy r))
    \<or> member_stored (\<lambda>G. G - {grant_key (ForProvider cr)}) r s s'"
proof -
  obtain t c where b: "UnbindRoleFromMember (ForProvider cr) (b_policy r) = Some (t, c)" "wf_policy t"
      "grants t = grants (b_policy r) - {grant_key (ForProvider cr)}" "c \<longleftrightarrow> grant_key (ForProvider cr) \<in> grants (b_policy r)"
    using bucket_grants.unbind_law [of "b_policy r" "ForProvider cr"] r by (auto simp: fresh_bucket_def grant_key_def)
  from run have "read_modify_write e (StringValue (bpm_Bucket (ForProvider cr))) (UnbindRoleFromMember (ForProvider cr)) (r, s) = Some ((r', s'), err)"
    by (auto simp: Delete_rmw)
  from rmw_effect [where f = "UnbindRoleFromMember (ForProvider cr)" and g = "\<lambda>G. G - {grant_key (ForProvider cr)}",
      OF ok r b(1-3) Unbind_etag [OF b(1)] this] b(4) show ?thesis by blast
qed

section \<open>Invariant\<close>

text \<open>An etag stands for one policy: a state of the past with the current etag has the current policy.\<close>

definition coherent :: "bucket_state \<Rightarrow> event list \<Rightarrow> bucket_state list \<Rightarrow> bool" where
  "coherent b0 es H \<longleftrightarrow> H \<noteq> [] \<and> (let s = hd H in
     (\<forall>a\<in>set H. fresh_bucket a \<and> b_seen a \<subseteq> b_seen s
        \<and> (ap_Etag (b_policy a) = ap_Etag (b_policy s) \<longrightarrow> b_policy a = b_policy s))
   \<and> grants (b_policy s) = foldl apply_event (grants (b_policy b0)) es)"

lemma coherent_stay: "coherent b0 es (s # H) \<Longrightarrow> coherent b0 es (s # s # H)"
  by (simp add: coherent_def)

lemma coherent_write:
  assumes "coherent b0 es (s # H)" and "wf_policy (b_policy s')" and "ap_Etag (b_policy s') \<notin> b_seen s" "ap_Etag (b_policy s') \<noteq> ''''"
    and "b_seen s' = insert (ap_Etag (b_policy s')) (b_seen s)" and "grants (b_policy s') = apply_event (grants (b_policy s)) ev"
  shows "coherent b0 (es @ [ev]) (s' # s # H)"
proof -
  have "ap_Etag (b_policy a) \<in> b_seen s" if "a \<in> set (s # H)" for a
    using assms(1) that by (auto simp: coherent_def fresh_bucket_def)
  then have "ap_Etag (b_policy a) \<noteq> ap_Etag (b_policy s')" if "a \<in> set (s # H)" for a using that assms(3) by metis
  with assms show ?thesis by (auto simp: coherent_def fresh_bucket_def)
qed

lemma coherent_member:
  assumes co: "coherent b0 es (s # H)" and r: "r \<in> set (s # H)"
    and eff: "s' = s \<or> member_stored (\<lambda>G. set_op G (map_table_op grant_key opr)) r s s'"
  shows "coherent b0 (if s' = s then es else es @ [Member opr]) (s' # s # H)"
proof (cases "s' = s")
  case True
  with co show ?thesis by (simp add: coherent_stay)
next
  case False
  with eff have st: "member_stored (\<lambda>G. set_op G (map_table_op grant_key opr)) r s s'" by blast
  then have "ap_Etag (b_policy r) = ap_Etag (b_policy s)" by (simp add: member_stored_def)
  with co r have "b_policy r = b_policy s" by (auto simp: coherent_def)
  with st coherent_write [OF co, of s' "Member opr"] False show ?thesis by (simp add: member_stored_def)
qed

lemma history_coherent:
  assumes "etag_service e" "wrap_ok (pe_runtime e)" "fresh_bucket b0"
  shows "history e b0 es H \<Longrightarrow> coherent b0 es H"
proof (induction rule: history.induct)
  case start
  show ?case using assms(3) by (simp add: coherent_def)
next
  case (create es s H r cr r' s' cr' res err)
  then have "fresh_bucket r" by (auto simp: coherent_def)
  from coherent_member [OF create.IH create(2), where opr = "Bind (ForProvider cr)" and s' = s']
    Create_effect [OF assms(1,2) this create(3)] show ?case by auto
next
  case (update es s H r cr r' s' cr' upd err)
  then have "fresh_bucket r" by (auto simp: coherent_def)
  from update(3) obtain res cr2 where "bucketPolicyMember_Create e (Some cr) (r, s) = Some ((r', s'), cr2, res, err)"
    by (auto simp: bucketPolicyMember_Update_def bind_eq_Some_conv)
  from coherent_member [OF update.IH update(2), where opr = "Bind (ForProvider cr)" and s' = s']
    Create_effect [OF assms(1,2) \<open>fresh_bucket r\<close> this] show ?case by auto
next
  case (delete es s H r cr r' s' cr' u err)
  then have "fresh_bucket r" by (auto simp: coherent_def)
  from coherent_member [OF delete.IH delete(2), where opr = "Unbind (ForProvider cr)" and s' = s']
    Delete_effect [OF assms(1,2) this delete(3)] show ?case by auto
next
  case (foreign es s H p)
  then show ?case by (intro coherent_write) simp_all
qed

lemma rmw_total:
  assumes "etag_service e" "fresh_bucket r" "f (b_policy r) = Some (t, c)"
  shows "read_modify_write e b f (r, s) \<noteq> None"
proof -
  obtain w a where get: "GetIamPolicy e b (r, s) = (w, a)" by fastforce
  with assms(1) have "w = (r, s) \<and> (\<forall>q. a = Inr q \<longrightarrow> q = b_policy r)" unfolding etag_service_def by blast
  with get assms(3) show ?thesis by (cases a) (auto simp: read_modify_write_def split: prod.split sum.split)
qed

lemma members_total:
  assumes "etag_service e" "fresh_bucket r"
  shows "bucketPolicyMember_Create e (Some cr) (r, s) \<noteq> None" "bucketPolicyMember_Delete e (Some cr) (r, s) \<noteq> None"
proof -
  have wf: "wf_policy (b_policy r)" using assms(2) by (simp add: fresh_bucket_def)
  from bucket_grants.bind_law [OF wf, of "ForProvider cr"] bucket_grants.unbind_law [OF wf, of "ForProvider cr"]
  obtain t c u d where "BindRoleToMember (ForProvider cr) (b_policy r) = Some (t, c)"
    "UnbindRoleFromMember (ForProvider cr) (b_policy r) = Some (u, d)" by blast
  from rmw_total [where f = "BindRoleToMember (ForProvider cr)", OF assms this(1)]
    rmw_total [where f = "UnbindRoleFromMember (ForProvider cr)", OF assms this(2)]
  show "bucketPolicyMember_Create e (Some cr) (r, s) \<noteq> None" "bucketPolicyMember_Delete e (Some cr) (r, s) \<noteq> None"
    by (simp_all add: Create_rmw Delete_rmw)
qed

text \<open>A service that extends the current etag by one character.\<close>

definition sample_etag_service :: "(bucket_state \<times> bucket_state, api_Policy, sample_error) policyExternal" where
  "sample_etag_service = \<lparr>pe_runtime = sample_runtime, pe_copy = (\<lambda>x. Inr (Some x)), pe_same = (=),
     GetIamPolicy = (\<lambda>_ (r, s). ((r, s), Inr (b_policy r))),
     SetIamPolicy = (\<lambda>_ p (r, s). let t = ap_Etag (b_policy s) @ ''x'' in
       if (ap_Etag p = '''' \<or> ap_Etag p = ap_Etag (b_policy s)) \<and> t \<notin> b_seen s
       then ((r, \<lparr>b_policy = p\<lparr>ap_Etag := t\<rparr>, b_seen = insert t (b_seen s)\<rparr>), Inr (p\<lparr>ap_Etag := t\<rparr>))
       else ((r, s), Inl (ApiError 412)))\<rparr>"

lemma sample_etag_service_ok: "etag_service sample_etag_service" "wrap_ok (pe_runtime sample_etag_service)"
  by (auto simp: etag_service_def sample_etag_service_def sample_runtime_ok bindings_content_def Let_def split: if_splits)

definition sample_bucket :: bucket_state where
  "sample_bucket = \<lparr>b_policy = storage_Policy0\<lparr>ap_Etag := ''e''\<rparr>, b_seen = {''e''}\<rparr>"

definition other_member :: BucketPolicyMember where
  "other_member = sample_member\<lparr>ForProvider := (ForProvider sample_member)\<lparr>bpm_Member := Some ''user:b''\<rparr>\<rparr>"

section \<open>Properties\<close>

text \<open>C2: concurrent members lose no grant. In any interleaving of the handlers of any number of
  \<open>BucketPolicyMember\<close> resources on a bucket, with other clients that replace the policy, where each handler may have read the
  policy at any earlier moment, the policy keeps its shape and its grants are those that the writes give when they are done one
  after the other. From any such state no handler panics. A \<open>Create\<close> that succeeds adds its own grant to the current ones and
  nothing else, or it writes nothing because it has read a policy with the grant; correspondingly for \<open>Delete\<close>.\<close>

theorem concurrent_members_lose_no_grant:
  assumes ok: "etag_service e" "wrap_ok (pe_runtime e)" "fresh_bucket b0" and run: "history e b0 es (s # H)"
  shows "wf_policy (b_policy s) \<and> grants (b_policy s) = foldl apply_event (grants (b_policy b0)) es
    \<and> (\<forall>r\<in>set (s # H). \<forall>cr. bucketPolicyMember_Create e (Some cr) (r, s) \<noteq> None \<and> bucketPolicyMember_Delete e (Some cr) (r, s) \<noteq> None)
    \<and> (\<forall>r\<in>set (s # H). \<forall>cr r' s' cr' res. bucketPolicyMember_Create e (Some cr) (r, s) = Some ((r', s'), cr', res, None) \<longrightarrow>
         grants (b_policy s') = insert (grant_key (ForProvider cr)) (grants (b_policy s))
         \<or> s' = s \<and> grant_key (ForProvider cr) \<in> grants (b_policy r))
    \<and> (\<forall>r\<in>set (s # H). \<forall>cr r' s' cr'. bucketPolicyMember_Delete e (Some cr) (r, s) = Some ((r', s'), cr', (), None) \<longrightarrow>
         grants (b_policy s') = grants (b_policy s) - {grant_key (ForProvider cr)}
         \<or> s' = s \<and> grant_key (ForProvider cr) \<notin> grants (b_policy r))"
proof -
  have co: "coherent b0 es (s # H)" by (rule history_coherent [OF ok run])
  then have fresh: "\<And>r. r \<in> set (s # H) \<Longrightarrow> fresh_bucket r" and
    same: "\<And>r. r \<in> set (s # H) \<Longrightarrow> ap_Etag (b_policy r) = ap_Etag (b_policy s) \<Longrightarrow> b_policy r = b_policy s"
    by (auto simp: coherent_def)
  have now: "grants (b_policy s') = f (grants (b_policy s))" if "r \<in> set (s # H)" "member_stored f r s s'" for r s' f
    using same [OF that(1)] that(2) by (simp add: member_stored_def)
  have adds: "grants (b_policy s') = insert (grant_key (ForProvider cr)) (grants (b_policy s))
      \<or> s' = s \<and> grant_key (ForProvider cr) \<in> grants (b_policy r)"
    if "r \<in> set (s # H)" "bucketPolicyMember_Create e (Some cr) (r, s) = Some ((r', s'), cr', res, None)" for r cr r' s' cr' res
    using Create_effect [OF ok(1,2) fresh [OF that(1)] that(2)] now [OF that(1), of "insert (grant_key (ForProvider cr))" s'] by blast
  have removes: "grants (b_policy s') = grants (b_policy s) - {grant_key (ForProvider cr)}
      \<or> s' = s \<and> grant_key (ForProvider cr) \<notin> grants (b_policy r)"
    if "r \<in> set (s # H)" "bucketPolicyMember_Delete e (Some cr) (r, s) = Some ((r', s'), cr', (), None)" for r cr r' s' cr'
    using Delete_effect [OF ok(1,2) fresh [OF that(1)] that(2)] now [OF that(1), of "\<lambda>G. G - {grant_key (ForProvider cr)}" s'] by blast
  have "wf_policy (b_policy s)" "grants (b_policy s) = foldl apply_event (grants (b_policy b0)) es"
    using co by (simp_all add: coherent_def fresh_bucket_def)
  then show ?thesis
    by (intro conjI ballI allI impI members_total [OF ok(1) fresh] adds removes)
qed

text \<open>Witness of C2: two members read the empty policy. The write of the first succeeds, that of the second is refused; the second
  tries again, and both grants are there.\<close>

theorem concurrent_members_lose_no_grant_witness:
  "\<exists>s H. history sample_etag_service sample_bucket
      [Member (Bind (ForProvider sample_member)), Member (Bind (ForProvider other_member))] (s # H)
    \<and> length H = 3 \<and> grants (b_policy s) = {(''roles/viewer'', ''user:a''), (''roles/viewer'', ''user:b'')}"
proof -
  let ?e = sample_etag_service and ?b = sample_bucket
  note defs = bucketPolicyMember_Create_def sample_etag_service_def sample_bucket_def sample_policy_defs other_member_def
    BindRoleToMember_def storage_Policy0_def Let_def append_slice_def elems_def
  have h0: "history ?e ?b [] [?b]" by (rule history.start)
  let ?p = "\<lambda>ms t. \<lparr>ap_Bindings = Some [Some \<lparr>ab_Condition = None, ab_Members = Some ms, ab_Role = ''roles/viewer''\<rparr>],
      ap_Etag = t, ap_Version = PolicyVersion\<rparr>"
  let ?s1 = "\<lparr>b_policy = ?p [''user:a''] ''ex'', b_seen = {''ex'', ''e''}\<rparr>"
  let ?s3 = "\<lparr>b_policy = ?p [''user:a'', ''user:b''] ''exx'', b_seen = {''exx'', ''ex'', ''e''}\<rparr>"
  have s1: "bucketPolicyMember_Create ?e (Some sample_member) (?b, ?b) = Some ((?b, ?s1), Some sample_member, ExternalCreation0, None)" "?s1 \<noteq> ?b"
    by (simp_all add: defs)
  have s2: "bucketPolicyMember_Create ?e (Some other_member) (?b, ?s1)
      = Some ((?b, ?s1), Some other_member, ExternalCreation0, Some (Wrapped (ApiError 412) bucketPolicy_errSetPolicy))"
    by (simp add: defs)
  have s3: "bucketPolicyMember_Create ?e (Some other_member) (?s1, ?s1) = Some ((?s1, ?s3), Some other_member, ExternalCreation0, None)" "?s3 \<noteq> ?s1"
    by (simp_all add: defs)
  have h1: "history ?e ?b [Member (Bind (ForProvider sample_member))] [?s1, ?b]" using history.create [OF h0 _ s1(1)] s1(2) by simp
  have h2: "history ?e ?b [Member (Bind (ForProvider sample_member))] [?s1, ?s1, ?b]" using history.create [OF h1 _ s2] by simp
  have h3: "history ?e ?b [Member (Bind (ForProvider sample_member)), Member (Bind (ForProvider other_member))] [?s3, ?s1, ?s1, ?b]"
    using history.create [OF h2 _ s3(1)] s3(2) by simp
  have "fresh_bucket ?b" by (simp add: fresh_bucket_def sample_bucket_def storage_Policy0_def wf_policy_def)
  from concurrent_members_lose_no_grant [OF sample_etag_service_ok this h3]
  have "grants (b_policy ?s3) = {(''roles/viewer'', ''user:a''), (''roles/viewer'', ''user:b'')}"
    by (auto simp: sample_bucket_def storage_Policy0_def grants_def grant_key_def other_member_def sample_member_def sample_managed_def)
  with h3 show ?thesis by (intro exI [of _ ?s3] exI [of _ "[?s1, ?s1, ?b]"]) simp
qed

end
