(* ===== verification/Compute_Network.thy ===== *)
theory Compute_Network
  imports Gcp_Client
begin

text \<open>
  VPC networks: \<^verbatim>\<open>apis/compute/v1beta1/network_types.go\<close>, the client
  \<^verbatim>\<open>pkg/clients/network/network.go\<close> and the controller \<^verbatim>\<open>pkg/controller/compute/network.go\<close>.
\<close>

section \<open>Data\<close>

record NetworkRoutingConfig =
  nrc_RoutingMode :: string

record NetworkParameters =
  np_AutoCreateSubnetworks :: "bool option"
  np_Description :: "string option"
  np_RoutingConfig :: "NetworkRoutingConfig option"

record NetworkPeering =
  npe_AutoCreateRoutes :: bool
  npe_ExchangeSubnetRoutes :: bool
  npe_Name :: string
  npe_Network :: string
  npe_State :: string
  npe_StateDetails :: string

record NetworkObservation =
  no_CreationTimestamp :: string
  no_GatewayIPv4 :: string
  no_ID :: "64 word"
  no_Peerings :: "NetworkPeering option slice"
  no_SelfLink :: string
  no_Subnetworks :: "string slice"

type_synonym Network = "(NetworkParameters, NetworkObservation) managed"

text \<open>\<^verbatim>\<open>compute.Network\<close>: the fields that the client reads or writes.\<close>

record compute_NetworkRoutingConfig =
  cnrc_RoutingMode :: string

record compute_NetworkPeering =
  cnpe_AutoCreateRoutes :: bool
  cnpe_ExchangeSubnetRoutes :: bool
  cnpe_Name :: string
  cnpe_Network :: string
  cnpe_State :: string
  cnpe_StateDetails :: string

record compute_Network =
  cn_Name :: string
  cn_Description :: string
  cn_AutoCreateSubnetworks :: bool
  cn_RoutingConfig :: "compute_NetworkRoutingConfig option"
  cn_CreationTimestamp :: string
  cn_GatewayIPv4 :: string
  cn_Id :: "64 word"
  cn_SelfLink :: string
  cn_Subnetworks :: "string slice"
  cn_Peerings :: "compute_NetworkPeering option slice"
  cn_ForceSendFields :: "string slice"

definition compute_Network0 :: compute_Network where
  "compute_Network0 = \<lparr>cn_Name = '''', cn_Description = '''', cn_AutoCreateSubnetworks = False,
     cn_RoutingConfig = None, cn_CreationTimestamp = '''', cn_GatewayIPv4 = '''', cn_Id = 0,
     cn_SelfLink = '''', cn_Subnetworks = None, cn_Peerings = None, cn_ForceSendFields = None\<rparr>"

section \<open>Client\<close>

definition network_errCheckUpToDate :: string where
  "network_errCheckUpToDate = ''unable to determine if external resource is up to date''"

definition GenerateNetwork :: "string \<Rightarrow> NetworkParameters \<Rightarrow> compute_Network \<Rightarrow> compute_Network" where
  "GenerateNetwork name in' network =
     (let n = network\<lparr>cn_Name := name, cn_Description := StringValue (np_Description in')\<rparr>;
          n = (case np_AutoCreateSubnetworks in' of
                 None \<Rightarrow> n
               | Some b \<Rightarrow>
                   let n = n\<lparr>cn_AutoCreateSubnetworks := b\<rparr> in
                   if \<not> cn_AutoCreateSubnetworks n
                   then n\<lparr>cn_ForceSendFields := Some [''AutoCreateSubnetworks'']\<rparr> else n)
      in case np_RoutingConfig in' of
           None \<Rightarrow> n
         | Some rc \<Rightarrow>
             n\<lparr>cn_RoutingConfig := Some (case cn_RoutingConfig n of
                  None \<Rightarrow> \<lparr>cnrc_RoutingMode = nrc_RoutingMode rc\<rparr>
                | Some old \<Rightarrow> old\<lparr>cnrc_RoutingMode := nrc_RoutingMode rc\<rparr>)\<rparr>)"

definition network_peering :: "compute_NetworkPeering option \<Rightarrow> NetworkPeering option option" where
  "network_peering p = do {
     p \<leftarrow> p;
     Some (Some \<lparr>npe_AutoCreateRoutes = cnpe_AutoCreateRoutes p,
       npe_ExchangeSubnetRoutes = cnpe_ExchangeSubnetRoutes p,
       npe_Name = cnpe_Name p, npe_Network = cnpe_Network p,
       npe_State = cnpe_State p, npe_StateDetails = cnpe_StateDetails p\<rparr>) }"

definition GenerateNetworkObservation :: "compute_Network \<Rightarrow> NetworkObservation option" where
  "GenerateNetworkObservation in' = do {
     ps \<leftarrow> mapP network_peering (elems (cn_Peerings in'));
     Some \<lparr>no_CreationTimestamp = cn_CreationTimestamp in',
       no_GatewayIPv4 = cn_GatewayIPv4 in', no_ID = cn_Id in',
       no_Peerings = (if ps = [] then None else Some ps),
       no_SelfLink = cn_SelfLink in', no_Subnetworks = cn_Subnetworks in'\<rparr> }"

definition network_LateInitializeSpec :: "NetworkParameters \<Rightarrow> compute_Network \<Rightarrow> NetworkParameters" where
  "network_LateInitializeSpec spec in' =
     (let spec = spec\<lparr>np_AutoCreateSubnetworks :=
            LateInitializeBool (np_AutoCreateSubnetworks spec) (cn_AutoCreateSubnetworks in')\<rparr>;
          spec = (case cn_RoutingConfig in' of
                    None \<Rightarrow> spec
                  | Some rc \<Rightarrow> if np_RoutingConfig spec = None
                      then spec\<lparr>np_RoutingConfig := Some \<lparr>nrc_RoutingMode = cnrc_RoutingMode rc\<rparr>\<rparr>
                      else spec)
      in spec\<lparr>np_Description := LateInitializeString (np_Description spec) (cn_Description in')\<rparr>)"

definition network_IsUpToDate ::
  "'e runtime \<Rightarrow> (compute_Network, 'e) copier \<Rightarrow> compute_Network comparer
    \<Rightarrow> string \<Rightarrow> NetworkParameters \<Rightarrow> compute_Network \<Rightarrow> bool \<times> bool \<times> 'e option" where
  "network_IsUpToDate L copy eq name in' observed =
     (case copy observed of
        Inl err \<Rightarrow> (True, False, errors_Wrap L (Some err) network_errCheckUpToDate)
      | Inr None \<Rightarrow> (True, False, Some (errors_New L network_errCheckUpToDate))
      | Inr (Some desired) \<Rightarrow>
          let desired = GenerateNetwork name in' desired in
          if \<not> cn_AutoCreateSubnetworks desired \<and> cn_AutoCreateSubnetworks observed
          then (False, True, None)
          else (eq desired observed, False, None))"

section \<open>Controller\<close>

definition compute_errNewClient :: string where
  "compute_errNewClient = ''cannot create new Compute Service''"
definition errNotNetwork :: string where
  "errNotNetwork = ''managed resource is not a Network resource''"
definition errGetNetwork :: string where
  "errGetNetwork = ''cannot get GCP network''"
definition errManagedNetworkUpdate :: string where
  "errManagedNetworkUpdate = ''unable to update Network managed resource''"
definition errNetworkUpdateFailed :: string where
  "errNetworkUpdateFailed = ''update of Network resource has failed''"
definition errNetworkCreateFailed :: string where
  "errNetworkCreateFailed = ''creation of Network resource has failed''"
definition errNetworkDeleteFailed :: string where
  "errNetworkDeleteFailed = ''deletion of Network resource has failed''"
definition errCheckNetworkUpToDate :: string where
  "errCheckNetworkUpToDate = ''cannot determine if GCP Network is up to date''"
definition errCheckSubnetworkUpToDate :: string where
  "errCheckSubnetworkUpToDate = ''cannot determine if GCP Subnetwork is up to date''"

text \<open>
  \<open>networkExternal\<close>: the project, the calls of the compute service and of the Kubernetes
  client, and the library functions that the handlers reach. \<open>net_cmp\<close> is the comparison of two
  networks with \<open>EquateEmpty\<close> and without \<open>ForceSendFields\<close>, \<open>net_spec_cmp\<close> the comparison of two
  specs without options.
\<close>

record ('w, 'e) networkExternal =
  net_runtime :: "'e runtime"
  net_copy :: "(compute_Network, 'e) copier"
  net_cmp :: "compute_Network comparer"
  net_spec_cmp :: "NetworkParameters comparer"
  net_kube_Update :: "('w, Network, 'e) kube_update"
  net_projectID :: string
  Networks_Get :: "string \<Rightarrow> string \<Rightarrow> ('w, compute_Network, 'e) call"
  Networks_Insert :: "string \<Rightarrow> compute_Network \<Rightarrow> ('w, unit, 'e) call"
  Networks_SwitchToCustomMode :: "string \<Rightarrow> string \<Rightarrow> ('w, unit, 'e) call"
  Networks_Patch :: "string \<Rightarrow> string \<Rightarrow> compute_Network \<Rightarrow> ('w, unit, 'e) call"
  Networks_Delete :: "string \<Rightarrow> string \<Rightarrow> ('w, unit, 'e) call"

definition network_Connect ::
  "'e runtime \<Rightarrow> ('w, Network, 'src, 'sel, 'e) auth_api
    \<Rightarrow> (string \<Rightarrow> ClientOption option \<Rightarrow> ('w, ('w, 'e) networkExternal, 'e) call)
    \<Rightarrow> Network \<Rightarrow> 'w \<Rightarrow> ('w \<times> ('w, 'e) networkExternal option \<times> 'e option) option" where
  "network_Connect L c newService mg w = connect_service L c compute_errNewClient newService mg w"

definition network_Observe ::
  "('w, 'e) networkExternal \<Rightarrow> Network option \<Rightarrow> 'w
    \<Rightarrow> ('w, Network, ExternalObservation, 'e) outcome option" where
  "network_Observe c mg w =
     (let L = net_runtime c in
      case mg of
        None \<Rightarrow> Some (w, None, ExternalObservation0, Some (errors_New L errNotNetwork))
      | Some cr \<Rightarrow>
         (case Networks_Get c (net_projectID c) (ExternalName cr) w of
            (w1, Inl err) \<Rightarrow> Some (w1, Some cr, ExternalObservation0,
               errors_Wrap L (resource_Ignore L (IsErrorNotFound L) (Some err)) errGetNetwork)
          | (w1, Inr observed) \<Rightarrow>
              let currentSpec = ForProvider cr;
                  cr = cr\<lparr>ForProvider := network_LateInitializeSpec (ForProvider cr) observed\<rparr>;
                  (w2, cr, err) = (if \<not> net_spec_cmp c currentSpec (ForProvider cr)
                                   then net_kube_Update c cr w1 else (w1, cr, None))
              in if err \<noteq> None
                 then Some (w2, Some cr, ExternalObservation0, errors_Wrap L err errManagedNetworkUpdate)
                 else do {
                   at \<leftarrow> GenerateNetworkObservation observed;
                   let cr = SetConditions Available (cr\<lparr>AtProvider := at\<rparr>);
                   let (u, _, err) = network_IsUpToDate L (net_copy c) (net_cmp c) (ExternalName cr)
                                       (ForProvider cr) observed;
                   if err \<noteq> None
                   then Some (w2, Some cr, ExternalObservation0, errors_Wrap L err errCheckNetworkUpToDate)
                   else Some (w2, Some cr,
                     ExternalObservation0\<lparr>ResourceExists := True, ResourceUpToDate := u\<rparr>, None) }))"

definition network_Create ::
  "('w, 'e) networkExternal \<Rightarrow> Network option \<Rightarrow> 'w \<Rightarrow> ('w, Network, ExternalCreation, 'e) outcome" where
  "network_Create c mg w =
     (let L = net_runtime c in
      case mg of
        None \<Rightarrow> (w, None, ExternalCreation0, Some (errors_New L errNotNetwork))
      | Some cr \<Rightarrow>
          let cr = SetConditions Creating cr;
              net = GenerateNetwork (ExternalName cr) (ForProvider cr) compute_Network0;
              r = Networks_Insert c (net_projectID c) net w
          in (fst r, Some cr, ExternalCreation0, errors_Wrap L (call_error r) errNetworkCreateFailed))"

definition network_Update ::
  "('w, 'e) networkExternal \<Rightarrow> Network option \<Rightarrow> 'w \<Rightarrow> ('w, Network, ExternalUpdate, 'e) outcome" where
  "network_Update c mg w =
     (let L = net_runtime c in
      case mg of
        None \<Rightarrow> (w, None, ExternalUpdate0, Some (errors_New L errNotNetwork))
      | Some cr \<Rightarrow>
         (case Networks_Get c (net_projectID c) (ExternalName cr) w of
            (w1, Inl err) \<Rightarrow> (w1, Some cr, ExternalUpdate0,
               errors_Wrap L (resource_Ignore L (IsErrorNotFound L) (Some err)) errGetNetwork)
          | (w1, Inr observed) \<Rightarrow>
              let (upToDate, switchToCustom, err) = network_IsUpToDate L (net_copy c) (net_cmp c)
                     (ExternalName cr) (ForProvider cr) observed
              in if err \<noteq> None
                 then (w1, Some cr, ExternalUpdate0, errors_Wrap L err errCheckSubnetworkUpToDate)
                 else if upToDate then (w1, Some cr, ExternalUpdate0, None)
                 else if switchToCustom
                 then let r = Networks_SwitchToCustomMode c (net_projectID c) (ExternalName cr) w1
                      in (fst r, Some cr, ExternalUpdate0, errors_Wrap L (call_error r) errNetworkUpdateFailed)
                 else let net = GenerateNetwork (ExternalName cr) (ForProvider cr) compute_Network0;
                          r = Networks_Patch c (net_projectID c) (ExternalName cr) net w1
                      in (fst r, Some cr, ExternalUpdate0, errors_Wrap L (call_error r) errNetworkUpdateFailed)))"

definition network_Delete ::
  "('w, 'e) networkExternal \<Rightarrow> Network option \<Rightarrow> 'w \<Rightarrow> ('w, Network, unit, 'e) outcome" where
  "network_Delete c mg w =
     (let L = net_runtime c in
      case mg of
        None \<Rightarrow> (w, None, (), Some (errors_New L errNotNetwork))
      | Some cr \<Rightarrow>
          let cr = SetConditions Deleting cr;
              r = Networks_Delete c (net_projectID c) (ExternalName cr) w
          in (fst r, Some cr, (),
              errors_Wrap L (resource_Ignore L (IsErrorNotFound L) (call_error r)) errNetworkDeleteFailed))"

section \<open>Late initialisation and generation\<close>

definition network_keeps :: "NetworkParameters \<Rightarrow> NetworkParameters \<Rightarrow> bool" where
  "network_keeps a b \<longleftrightarrow> keeps_ptr (np_AutoCreateSubnetworks a) (np_AutoCreateSubnetworks b)
     \<and> keeps_ptr (np_Description a) (np_Description b) \<and> keeps_ptr (np_RoutingConfig a) (np_RoutingConfig b)"

lemma network_LateInitializeSpec_idem:
  "network_LateInitializeSpec (network_LateInitializeSpec s x) x = network_LateInitializeSpec s x"
  by (simp add: network_LateInitializeSpec_def Let_def split: option.split)

interpretation network_init: late_initializer "\<lambda>s x. Some (network_LateInitializeSpec s x)" network_keeps
  by unfold_locales
    (auto simp: network_LateInitializeSpec_idem network_keeps_def network_LateInitializeSpec_def Let_def
      keeps_ptr_def [of "np_RoutingConfig _"] split: option.split)

interpretation network_desired: desired_state "\<lambda>(name, p) x. Some (GenerateNetwork name p x)"
  by unfold_locales (auto simp: GenerateNetwork_def Let_def split: option.split)

text \<open>The comparison of two networks ignores \<open>ForceSendFields\<close>.\<close>

definition network_view :: "compute_Network \<Rightarrow> compute_Network" where
  "network_view n = n\<lparr>cn_ForceSendFields := None\<rparr>"

definition empty_NetworkParameters :: NetworkParameters where
  "empty_NetworkParameters = \<lparr>np_AutoCreateSubnetworks = None, np_Description = None, np_RoutingConfig = None\<rparr>"

lemma network_adopt_view:
  "network_view (GenerateNetwork (cn_Name x) (network_LateInitializeSpec empty_NetworkParameters x) x)
     = network_view x"
  by (cases "cn_AutoCreateSubnetworks x"; cases "cn_RoutingConfig x")
    (simp_all add: network_view_def GenerateNetwork_def network_LateInitializeSpec_def Let_def
      empty_NetworkParameters_def LateInitializeBool_def)

lemma network_adopt_up_to_date:
  assumes "copy_ok copy" and "cmp_respects network_view eq"
  shows "network_IsUpToDate L copy eq (cn_Name x) (network_LateInitializeSpec empty_NetworkParameters x) x
    = (True, False, None)"
proof -
  let ?d = "GenerateNetwork (cn_Name x) (network_LateInitializeSpec empty_NetworkParameters x) x"
  have "eq ?d x" using assms(2) network_adopt_view by (simp add: cmp_respects_def)
  moreover have "cn_AutoCreateSubnetworks ?d = cn_AutoCreateSubnetworks x"
    using arg_cong [OF network_adopt_view, of cn_AutoCreateSubnetworks x] by (simp add: network_view_def)
  ultimately show ?thesis using assms(1) by (simp add: network_IsUpToDate_def copy_ok_def)
qed

lemma network_observation_total:
  "None \<notin> set (elems (cn_Peerings x)) \<Longrightarrow> \<exists>ob. GenerateNetworkObservation x = Some ob"
  by (cases "mapP network_peering (elems (cn_Peerings x))")
    (auto simp: GenerateNetworkObservation_def mapP_None_iff network_peering_def Option.bind_eq_None_conv)

text \<open>A compute service with one network, and a Kubernetes API server that echoes updates.\<close>

definition sample_networkExternal :: "compute_Network \<Rightarrow> (unit, sample_error) networkExternal" where
  "sample_networkExternal x = \<lparr>
     net_runtime = sample_runtime,
     net_copy = (\<lambda>x. Inr (Some x)),
     net_cmp = (\<lambda>a b. network_view a = network_view b),
     net_spec_cmp = (=),
     net_kube_Update = (\<lambda>cr w. (w, cr, None)),
     net_projectID = ''p'',
     Networks_Get = (\<lambda>p n w. (w, Inr x)),
     Networks_Insert = (\<lambda>p n w. (w, Inr ())),
     Networks_SwitchToCustomMode = (\<lambda>p n w. (w, Inr ())),
     Networks_Patch = (\<lambda>p n x w. (w, Inr ())),
     Networks_Delete = (\<lambda>p n w. (w, Inr ()))\<rparr>"

definition sample_network :: compute_Network where
  "sample_network = compute_Network0\<lparr>cn_Name := ''name'', cn_Description := ''d'',
     cn_AutoCreateSubnetworks := True, cn_RoutingConfig := Some \<lparr>cnrc_RoutingMode = ''GLOBAL''\<rparr>\<rparr>"

definition sample_network_cr :: Network where
  "sample_network_cr = sample_managed empty_NetworkParameters
     \<lparr>no_CreationTimestamp = '''', no_GatewayIPv4 = '''', no_ID = 0, no_Peerings = None,
      no_SelfLink = '''', no_Subnetworks = None\<rparr>"

lemmas sample_network_defs =
  sample_networkExternal_def sample_network_def compute_Network0_def sample_network_cr_def sample_managed_def

section \<open>Properties\<close>

text \<open>C7: an existing network is adopted. \<open>Observe\<close> of a custom resource with an empty spec fills
  the spec from the network, writes it back, and reports the network as existing and up to
  date: nothing of the network is scheduled for a change.\<close>

theorem network_Observe_adopts:
  assumes "copy_ok (net_copy c)" and "cmp_respects network_view (net_cmp c)" and "kube_echo (net_kube_Update c)"
    and "ForProvider cr = empty_NetworkParameters" and "cn_Name x = ExternalName cr"
    and "None \<notin> set (elems (cn_Peerings x))"
    and "Networks_Get c (net_projectID c) (ExternalName cr) w = (w1, Inr x)"
    and "net_kube_Update c (cr\<lparr>ForProvider := network_LateInitializeSpec empty_NetworkParameters x\<rparr>) w1 = (w2, cr2, None)"
  shows "\<exists>w' cr'. network_Observe c (Some cr) w = Some (w', Some cr',
      ExternalObservation0\<lparr>ResourceExists := True, ResourceUpToDate := True\<rparr>, None)
    \<and> ForProvider cr' = network_LateInitializeSpec empty_NetworkParameters x"
proof -
  obtain ob where ob: "GenerateNetworkObservation x = Some ob"
    using network_observation_total [OF assms(6)] by blast
  have cr2: "ForProvider cr2 = network_LateInitializeSpec empty_NetworkParameters x" "ExternalName cr2 = cn_Name x"
    using assms(3,5,8) unfolding kube_echo_def by fastforce+
  note up = network_adopt_up_to_date [OF assms(1,2), of "net_runtime c" x]
  show ?thesis
    using assms(4,5,7,8) ob cr2 up by (simp add: network_Observe_def Let_def)
qed

text \<open>Witness of C7: an auto-mode network with a description.\<close>

lemma network_Observe_adopts_witness:
  "\<exists>w' cr'. network_Observe (sample_networkExternal sample_network) (Some sample_network_cr) () =
      Some (w', Some cr', ExternalObservation0\<lparr>ResourceExists := True, ResourceUpToDate := True\<rparr>, None)
    \<and> ForProvider cr' = network_LateInitializeSpec empty_NetworkParameters sample_network"
  by (rule network_Observe_adopts)
    (simp_all add: sample_network_defs copy_ok_def cmp_respects_def kube_echo_def)

text \<open>C9: observing a network writes the custom resource back at most once. After a successful
  \<open>Observe\<close>, a further \<open>Observe\<close> of the same network makes no call but the read, leaves the spec
  alone and reports the same.\<close>

theorem network_Observe_settles:
  assumes "cmp_exact (net_spec_cmp c)" and "kube_echo (net_kube_Update c)"
    and "Networks_Get c (net_projectID c) (ExternalName cr) w = (w1, Inr x)"
    and "network_Observe c (Some cr) w = Some (w2, Some cr2, ob, None)"
    and "Networks_Get c (net_projectID c) (ExternalName cr) w2 = (w3, Inr x)" and "wrap_ok (net_runtime c)"
  shows "\<exists>cr3. network_Observe c (Some cr2) w2 = Some (w3, Some cr3, ob, None)
    \<and> ForProvider cr3 = ForProvider cr2 \<and> network_keeps (ForProvider cr) (ForProvider cr2)"
proof -
  let ?s = "network_LateInitializeSpec (ForProvider cr) x"
  have sn: "ForProvider cr2 = ?s \<and> ExternalName cr2 = ExternalName cr"
    and rest: "\<exists>at u sw. GenerateNetworkObservation x = Some at
      \<and> network_IsUpToDate (net_runtime c) (net_copy c) (net_cmp c) (ExternalName cr) ?s x = (u, sw, None)
      \<and> ob = ExternalObservation0\<lparr>ResourceExists := True, ResourceUpToDate := u\<rparr>"
    using assms(2,3,4,6)
    by (auto simp: network_Observe_def kube_echo_def outcome_convs)
  have "cr2\<lparr>ForProvider := ?s\<rparr> = cr2" using sn by (cases cr2) simp
  then show ?thesis
    using sn rest assms(1,5) network_init.keeps_set [of "ForProvider cr" x ?s]
    by (auto simp: network_Observe_def cmp_exact_def network_LateInitializeSpec_idem Let_def)
qed

text \<open>Witness of C9: the sample network, observed twice.\<close>

lemma network_Observe_settles_witness:
  "\<exists>w2 cr2 ob cr3.
     network_Observe (sample_networkExternal sample_network) (Some sample_network_cr) () = Some (w2, Some cr2, ob, None)
   \<and> network_Observe (sample_networkExternal sample_network) (Some cr2) w2 = Some ((), Some cr3, ob, None)
   \<and> ForProvider cr3 = ForProvider cr2"
proof -
  let ?c = "sample_networkExternal sample_network"
  have "case network_Observe ?c (Some sample_network_cr) () of Some (_, Some _, _, None) \<Rightarrow> True | _ \<Rightarrow> False"
    by code_simp
  then obtain w2 cr2 ob where o1: "network_Observe ?c (Some sample_network_cr) () = Some (w2, Some cr2, ob, None)"
    by (auto split: option.splits prod.splits)
  show ?thesis
    using network_Observe_settles [OF _ _ _ o1, where x = sample_network] o1
    by (simp add: cmp_exact_def kube_echo_def sample_runtime_ok sample_networkExternal_def) blast
qed

end
