(* ===== verification/Compute_Subnetwork.thy ===== *)
theory Compute_Subnetwork
  imports Compute_Network
begin

text \<open>
  Subnetworks: \<^verbatim>\<open>apis/compute/v1beta1/subnetwork_types.go\<close>, the client
  \<^verbatim>\<open>pkg/clients/subnetwork/subnetwork.go\<close> and the controller \<^verbatim>\<open>pkg/controller/compute/subnetwork.go\<close>.
\<close>

section \<open>Data\<close>

record SubnetworkSecondaryRange =
  ssr_IPCidrRange :: string
  ssr_RangeName :: string

record SubnetworkParameters =
  sp_IPCidrRange :: string
  sp_Network :: "string option"
  sp_NetworkRef :: "Reference option"
  sp_NetworkSelector :: "Selector option"
  sp_Region :: string
  sp_Description :: "string option"
  sp_EnableFlowLogs :: "bool option"
  sp_PrivateIPGoogleAccess :: "bool option"
  sp_SecondaryIPRanges :: "SubnetworkSecondaryRange option slice"

record SubnetworkObservation =
  so_CreationTimestamp :: string
  so_Fingerprint :: string
  so_GatewayAddress :: string
  so_ID :: "64 word"
  so_SelfLink :: string

type_synonym Subnetwork = "(SubnetworkParameters, SubnetworkObservation) managed"

text \<open>\<^verbatim>\<open>compute.Subnetwork\<close>: the fields that the client reads or writes.\<close>

record compute_SubnetworkSecondaryRange =
  cssr_IpCidrRange :: string
  cssr_RangeName :: string

record compute_Subnetwork =
  cs_Name :: string
  cs_Description :: string
  cs_EnableFlowLogs :: bool
  cs_IpCidrRange :: string
  cs_Network :: string
  cs_PrivateIpGoogleAccess :: bool
  cs_Region :: string
  cs_SecondaryIpRanges :: "compute_SubnetworkSecondaryRange option slice"
  cs_Fingerprint :: string
  cs_CreationTimestamp :: string
  cs_GatewayAddress :: string
  cs_Id :: "64 word"
  cs_SelfLink :: string

definition compute_Subnetwork0 :: compute_Subnetwork where
  "compute_Subnetwork0 = \<lparr>cs_Name = '''', cs_Description = '''', cs_EnableFlowLogs = False,
     cs_IpCidrRange = '''', cs_Network = '''', cs_PrivateIpGoogleAccess = False, cs_Region = '''',
     cs_SecondaryIpRanges = None, cs_Fingerprint = '''', cs_CreationTimestamp = '''',
     cs_GatewayAddress = '''', cs_Id = 0, cs_SelfLink = ''''\<rparr>"

section \<open>Client\<close>

definition compute_range ::
  "SubnetworkSecondaryRange option \<Rightarrow> compute_SubnetworkSecondaryRange option option" where
  "compute_range val = do {
     val \<leftarrow> val;
     Some (Some \<lparr>cssr_IpCidrRange = ssr_IPCidrRange val, cssr_RangeName = ssr_RangeName val\<rparr>) }"

definition GenerateSubnetwork ::
  "string \<Rightarrow> SubnetworkParameters \<Rightarrow> compute_Subnetwork \<Rightarrow> compute_Subnetwork option" where
  "GenerateSubnetwork name in' subnet = do {
     let subnet = subnet\<lparr>cs_Name := name,
       cs_Description := StringValue (sp_Description in'),
       cs_EnableFlowLogs := BoolValue (sp_EnableFlowLogs in'),
       cs_IpCidrRange := sp_IPCidrRange in',
       cs_Network := StringValue (sp_Network in'),
       cs_PrivateIpGoogleAccess := BoolValue (sp_PrivateIPGoogleAccess in'),
       cs_Region := sp_Region in'\<rparr>;
     \<comment> \<open>without ranges in the spec the observed ones stay\<close>
     if len (sp_SecondaryIPRanges in') > 0
     then do {
       rs \<leftarrow> mapP compute_range (elems (sp_SecondaryIPRanges in'));
       Some (subnet\<lparr>cs_SecondaryIpRanges := Some rs\<rparr>) }
     else Some subnet }"

definition GenerateSubnetworkForUpdate :: "Subnetwork \<Rightarrow> string \<Rightarrow> compute_Subnetwork option" where
  "GenerateSubnetworkForUpdate s name = do {
     let sn = compute_Subnetwork0\<lparr>cs_Name := name,
       cs_Description := StringValue (sp_Description (ForProvider s)),
       cs_EnableFlowLogs := BoolValue (sp_EnableFlowLogs (ForProvider s)),
       cs_IpCidrRange := sp_IPCidrRange (ForProvider s),
       cs_PrivateIpGoogleAccess := BoolValue (sp_PrivateIPGoogleAccess (ForProvider s)),
       cs_Fingerprint := so_Fingerprint (AtProvider s)\<rparr>;
     rs \<leftarrow> mapP compute_range (elems (sp_SecondaryIPRanges (ForProvider s)));
     Some (if rs = [] then sn else sn\<lparr>cs_SecondaryIpRanges := Some rs\<rparr>) }"

definition GenerateSubnetworkObservation :: "compute_Subnetwork \<Rightarrow> SubnetworkObservation" where
  "GenerateSubnetworkObservation in' = \<lparr>
     so_CreationTimestamp = cs_CreationTimestamp in', so_Fingerprint = cs_Fingerprint in',
     so_GatewayAddress = cs_GatewayAddress in', so_ID = cs_Id in', so_SelfLink = cs_SelfLink in'\<rparr>"

definition spec_range ::
  "compute_SubnetworkSecondaryRange option \<Rightarrow> SubnetworkSecondaryRange option option" where
  "spec_range r = do {
     r \<leftarrow> r;
     Some (Some \<lparr>ssr_IPCidrRange = cssr_IpCidrRange r, ssr_RangeName = cssr_RangeName r\<rparr>) }"

definition subnetwork_LateInitializeSpec ::
  "SubnetworkParameters \<Rightarrow> compute_Subnetwork \<Rightarrow> SubnetworkParameters option" where
  "subnetwork_LateInitializeSpec spec in' = do {
     let spec = spec\<lparr>sp_IPCidrRange := late_str (sp_IPCidrRange spec) (cs_IpCidrRange in'),
       sp_Region := late_str (sp_Region spec) (cs_Region in'),
       sp_Network := LateInitializeString (sp_Network spec) (cs_Network in'),
       sp_Description := LateInitializeString (sp_Description spec) (cs_Description in'),
       sp_EnableFlowLogs := LateInitializeBool (sp_EnableFlowLogs spec) (cs_EnableFlowLogs in'),
       sp_PrivateIPGoogleAccess :=
         LateInitializeBool (sp_PrivateIPGoogleAccess spec) (cs_PrivateIpGoogleAccess in')\<rparr>;
     if len (cs_SecondaryIpRanges in') \<noteq> 0 \<and> len (sp_SecondaryIPRanges spec) = 0
     then do {
       rs \<leftarrow> mapP spec_range (elems (cs_SecondaryIpRanges in'));
       Some (spec\<lparr>sp_SecondaryIPRanges := Some rs\<rparr>) }
     else Some spec }"

text \<open>\<open>eq\<close> is the comparison with \<open>EquateEmpty\<close>, \<open>EquateComputeURLs\<close> and sorted ranges.\<close>

definition subnetwork_IsUpToDate ::
  "'e runtime \<Rightarrow> (compute_Subnetwork, 'e) copier \<Rightarrow> compute_Subnetwork comparer
    \<Rightarrow> string \<Rightarrow> SubnetworkParameters \<Rightarrow> compute_Subnetwork \<Rightarrow> (bool \<times> bool \<times> 'e option) option" where
  "subnetwork_IsUpToDate L copy eq name in' observed =
     (case copy observed of
        Inl err \<Rightarrow> Some (True, False, errors_Wrap L (Some err) network_errCheckUpToDate)
      | Inr None \<Rightarrow> Some (True, False, Some (errors_New L network_errCheckUpToDate))
      | Inr (Some desired) \<Rightarrow> do {
          desired \<leftarrow> GenerateSubnetwork name in' desired;
          if cs_PrivateIpGoogleAccess desired \<noteq> cs_PrivateIpGoogleAccess observed
          then Some (False, True, None)
          else Some (eq desired observed, False, None) })"

section \<open>Controller\<close>

definition errNotSubnetwork :: string where
  "errNotSubnetwork = ''managed resource is not a Subnetwork resource''"
definition errManagedSubnetworkUpdate :: string where
  "errManagedSubnetworkUpdate = ''unable to update Subnetwork managed resource''"
definition errGetSubnetwork :: string where
  "errGetSubnetwork = ''unable to get GCP Subnetwork''"
definition errUpdateSubnetworkFailed :: string where
  "errUpdateSubnetworkFailed = ''update of GCP Subnetwork has failed''"
definition errUpdateSubnetworkPAFailed :: string where
  "errUpdateSubnetworkPAFailed = ''unable to update GCP Subnetwork Private IP Google Access''"
definition errCreateSubnetworkFailed :: string where
  "errCreateSubnetworkFailed = ''creation of GCP Subnetwork resource has failed''"
definition errDeleteSubnetworkFailed :: string where
  "errDeleteSubnetworkFailed = ''deletion of GCP Subnetwork resource has failed''"

record ('w, 'e) subnetworkExternal =
  sub_runtime :: "'e runtime"
  sub_copy :: "(compute_Subnetwork, 'e) copier"
  sub_cmp :: "compute_Subnetwork comparer"
  sub_spec_cmp :: "SubnetworkParameters comparer"
  sub_kube_Update :: "('w, Subnetwork, 'e) kube_update"
  sub_projectID :: string
  Subnetworks_Get :: "string \<Rightarrow> string \<Rightarrow> string \<Rightarrow> ('w, compute_Subnetwork, 'e) call"
  Subnetworks_Insert :: "string \<Rightarrow> string \<Rightarrow> compute_Subnetwork \<Rightarrow> ('w, unit, 'e) call"
  Subnetworks_SetPrivateIpGoogleAccess :: "string \<Rightarrow> string \<Rightarrow> string \<Rightarrow> bool \<Rightarrow> ('w, unit, 'e) call"
  Subnetworks_Patch :: "string \<Rightarrow> string \<Rightarrow> string \<Rightarrow> compute_Subnetwork \<Rightarrow> ('w, unit, 'e) call"
  Subnetworks_Delete :: "string \<Rightarrow> string \<Rightarrow> string \<Rightarrow> ('w, unit, 'e) call"

definition subnetwork_Connect ::
  "'e runtime \<Rightarrow> ('w, Subnetwork, 'src, 'sel, 'e) auth_api
    \<Rightarrow> (string \<Rightarrow> ClientOption option \<Rightarrow> ('w, ('w, 'e) subnetworkExternal, 'e) call)
    \<Rightarrow> Subnetwork \<Rightarrow> 'w \<Rightarrow> ('w \<times> ('w, 'e) subnetworkExternal option \<times> 'e option) option" where
  "subnetwork_Connect L c newService mg w = connect_service L c compute_errNewClient newService mg w"

definition subnetwork_Observe ::
  "('w, 'e) subnetworkExternal \<Rightarrow> Subnetwork option \<Rightarrow> 'w
    \<Rightarrow> ('w, Subnetwork, ExternalObservation, 'e) outcome option" where
  "subnetwork_Observe c mg w =
     (let L = sub_runtime c in
      case mg of
        None \<Rightarrow> Some (w, None, ExternalObservation0, Some (errors_New L errNotSubnetwork))
      | Some cr \<Rightarrow>
         (case Subnetworks_Get c (sub_projectID c) (sp_Region (ForProvider cr)) (ExternalName cr) w of
            (w1, Inl err) \<Rightarrow> Some (w1, Some cr, ExternalObservation0,
               errors_Wrap L (resource_Ignore L (IsErrorNotFound L) (Some err)) errGetSubnetwork)
          | (w1, Inr observed) \<Rightarrow> do {
              let currentSpec = ForProvider cr;
              spec \<leftarrow> subnetwork_LateInitializeSpec (ForProvider cr) observed;
              let cr = cr\<lparr>ForProvider := spec\<rparr>;
              let (w2, cr, err) = (if \<not> sub_spec_cmp c currentSpec (ForProvider cr)
                                   then sub_kube_Update c cr w1 else (w1, cr, None));
              if err \<noteq> None
              then Some (w2, Some cr, ExternalObservation0, errors_Wrap L err errManagedSubnetworkUpdate)
              else do {
                let cr = cr\<lparr>AtProvider := GenerateSubnetworkObservation observed\<rparr>;
                (u, _, err) \<leftarrow> subnetwork_IsUpToDate L (sub_copy c) (sub_cmp c) (ExternalName cr)
                                 (ForProvider cr) observed;
                if err \<noteq> None
                then Some (w2, Some cr, ExternalObservation0, errors_Wrap L err errCheckSubnetworkUpToDate)
                else Some (w2, Some (SetConditions Available cr),
                  ExternalObservation0\<lparr>ResourceExists := True, ResourceUpToDate := u\<rparr>, None) } }))"

definition subnetwork_Create ::
  "('w, 'e) subnetworkExternal \<Rightarrow> Subnetwork option \<Rightarrow> 'w
    \<Rightarrow> ('w, Subnetwork, ExternalCreation, 'e) outcome option" where
  "subnetwork_Create c mg w =
     (let L = sub_runtime c in
      case mg of
        None \<Rightarrow> Some (w, None, ExternalCreation0, Some (errors_New L errNotSubnetwork))
      | Some cr \<Rightarrow> do {
          let cr = SetConditions Creating cr;
          subnet \<leftarrow> GenerateSubnetwork (ExternalName cr) (ForProvider cr) compute_Subnetwork0;
          let r = Subnetworks_Insert c (sub_projectID c) (sp_Region (ForProvider cr)) subnet w;
          Some (fst r, Some cr, ExternalCreation0, errors_Wrap L (call_error r) errCreateSubnetworkFailed) })"

definition subnetwork_Update ::
  "('w, 'e) subnetworkExternal \<Rightarrow> Subnetwork option \<Rightarrow> 'w
    \<Rightarrow> ('w, Subnetwork, ExternalUpdate, 'e) outcome option" where
  "subnetwork_Update c mg w =
     (let L = sub_runtime c in
      case mg of
        None \<Rightarrow> Some (w, None, ExternalUpdate0, Some (errors_New L errNotSubnetwork))
      | Some cr \<Rightarrow>
         (case Subnetworks_Get c (sub_projectID c) (sp_Region (ForProvider cr)) (ExternalName cr) w of
            (w1, Inl err) \<Rightarrow> Some (w1, Some cr, ExternalUpdate0,
               errors_Wrap L (resource_Ignore L (IsErrorNotFound L) (Some err)) errGetSubnetwork)
          | (w1, Inr observed) \<Rightarrow> do {
              (upToDate, privateAccess, err) \<leftarrow> subnetwork_IsUpToDate L (sub_copy c) (sub_cmp c)
                 (ExternalName cr) (ForProvider cr) observed;
              if err \<noteq> None
              then Some (w1, Some cr, ExternalUpdate0, errors_Wrap L err errCheckSubnetworkUpToDate)
              else if upToDate then Some (w1, Some cr, ExternalUpdate0, None)
              else if privateAccess
              then do {
                update \<leftarrow> sp_PrivateIPGoogleAccess (ForProvider cr);
                let r = Subnetworks_SetPrivateIpGoogleAccess c (sub_projectID c)
                          (sp_Region (ForProvider cr)) (ExternalName cr) update w1;
                Some (fst r, Some cr, ExternalUpdate0, errors_Wrap L (call_error r) errUpdateSubnetworkPAFailed) }
              else do {
                subnetUpdate \<leftarrow> GenerateSubnetworkForUpdate cr (ExternalName cr);
                let r = Subnetworks_Patch c (sub_projectID c) (sp_Region (ForProvider cr))
                          (ExternalName cr) subnetUpdate w1;
                Some (fst r, Some cr, ExternalUpdate0, errors_Wrap L (call_error r) errUpdateSubnetworkFailed) } }))"

definition subnetwork_Delete ::
  "('w, 'e) subnetworkExternal \<Rightarrow> Subnetwork option \<Rightarrow> 'w \<Rightarrow> ('w, Subnetwork, unit, 'e) outcome" where
  "subnetwork_Delete c mg w =
     (let L = sub_runtime c in
      case mg of
        None \<Rightarrow> (w, None, (), Some (errors_New L errNotSubnetwork))
      | Some cr \<Rightarrow>
          let cr = SetConditions Deleting cr;
              r = Subnetworks_Delete c (sub_projectID c) (sp_Region (ForProvider cr)) (ExternalName cr) w
          in (fst r, Some cr, (),
              errors_Wrap L (resource_Ignore L (IsErrorNotFound L) (call_error r)) errDeleteSubnetworkFailed))"

section \<open>Late initialisation and generation\<close>

definition subnetwork_keeps :: "SubnetworkParameters \<Rightarrow> SubnetworkParameters \<Rightarrow> bool" where
  "subnetwork_keeps a b \<longleftrightarrow>
     keeps_str (sp_IPCidrRange a) (sp_IPCidrRange b) \<and> keeps_str (sp_Region a) (sp_Region b)
     \<and> keeps_ptr (sp_Network a) (sp_Network b) \<and> keeps_ptr (sp_Description a) (sp_Description b)
     \<and> keeps_ptr (sp_EnableFlowLogs a) (sp_EnableFlowLogs b)
     \<and> keeps_ptr (sp_PrivateIPGoogleAccess a) (sp_PrivateIPGoogleAccess b)
     \<and> keeps_slice (sp_SecondaryIPRanges a) (sp_SecondaryIPRanges b)
     \<and> sp_NetworkRef b = sp_NetworkRef a \<and> sp_NetworkSelector b = sp_NetworkSelector a"

lemma compute_range_None [simp]: "compute_range p = None \<longleftrightarrow> p = None"
  by (simp add: compute_range_def Option.bind_eq_None_conv)

lemma spec_range_None [simp]: "spec_range p = None \<longleftrightarrow> p = None"
  by (simp add: spec_range_def Option.bind_eq_None_conv)

lemma ranges_round_trip: "mapP spec_range xs = Some ys \<Longrightarrow> mapP compute_range ys = Some xs"
proof (induction xs arbitrary: ys)
  case (Cons x xs)
  then obtain r zs where "x = Some r" "mapP spec_range xs = Some zs"
      "ys = Some \<lparr>ssr_IPCidrRange = cssr_IpCidrRange r, ssr_RangeName = cssr_RangeName r\<rparr> # zs"
    by (auto simp: bind_eq_Some_conv spec_range_def [of x])
  with Cons.IH [of zs] show ?case by (simp add: compute_range_def [of "Some _"])
qed simp

text \<open>The result field by field, with the ranges aside.\<close>

definition late_ranges :: "SubnetworkParameters \<Rightarrow> compute_Subnetwork \<Rightarrow> SubnetworkSecondaryRange option slice option" where
  "late_ranges s x =
     (if len (cs_SecondaryIpRanges x) \<noteq> 0 \<and> len (sp_SecondaryIPRanges s) = 0
      then map_option Some (mapP spec_range (elems (cs_SecondaryIpRanges x)))
      else Some (sp_SecondaryIPRanges s))"

lemma subnetwork_init_fields:
  "subnetwork_LateInitializeSpec s x = map_option (\<lambda>rs.
     s\<lparr>sp_IPCidrRange := late_str (sp_IPCidrRange s) (cs_IpCidrRange x),
       sp_Region := late_str (sp_Region s) (cs_Region x),
       sp_Network := LateInitializeString (sp_Network s) (cs_Network x),
       sp_Description := LateInitializeString (sp_Description s) (cs_Description x),
       sp_EnableFlowLogs := LateInitializeBool (sp_EnableFlowLogs s) (cs_EnableFlowLogs x),
       sp_PrivateIPGoogleAccess :=
         LateInitializeBool (sp_PrivateIPGoogleAccess s) (cs_PrivateIpGoogleAccess x),
       sp_SecondaryIPRanges := rs\<rparr>) (late_ranges s x)"
  by (cases "mapP spec_range (elems (cs_SecondaryIpRanges x))"; cases "sp_IPCidrRange s = ''''";
      cases "sp_Region s = ''''")
    (simp_all add: subnetwork_LateInitializeSpec_def late_ranges_def Let_def late_str_def)

lemma late_ranges_settle: "late_ranges s x = Some rs \<Longrightarrow> late_ranges (s'\<lparr>sp_SecondaryIPRanges := rs\<rparr>) x = Some rs"
  by (auto simp: late_ranges_def len_def dest: mapP_length split: if_splits)

lemma subnetwork_init_settles:
  "subnetwork_LateInitializeSpec s x = Some s' \<Longrightarrow> subnetwork_LateInitializeSpec s' x = Some s'"
  by (auto simp: subnetwork_init_fields late_ranges_settle)

lemma subnetwork_init_keeps:
  "subnetwork_LateInitializeSpec s x = Some s' \<Longrightarrow> subnetwork_keeps s s'"
  by (auto simp: subnetwork_init_fields subnetwork_keeps_def keeps_slice_def late_ranges_def
      split: if_splits)

lemma subnetwork_init_access:
  "subnetwork_LateInitializeSpec s x = Some s' \<Longrightarrow> sp_PrivateIPGoogleAccess s' =
     LateInitializeBool (sp_PrivateIPGoogleAccess s) (cs_PrivateIpGoogleAccess x)"
  by (auto simp: subnetwork_init_fields)

interpretation subnetwork_init: late_initializer subnetwork_LateInitializeSpec subnetwork_keeps
  by unfold_locales
    (auto simp: subnetwork_keeps_def intro: subnetwork_init_settles dest: subnetwork_init_keeps)

interpretation subnetwork_desired: desired_state "\<lambda>(name, p). GenerateSubnetwork name p"
  by unfold_locales (auto simp: GenerateSubnetwork_def Let_def bind_eq_Some_conv split: if_splits)

definition empty_SubnetworkParameters :: SubnetworkParameters where
  "empty_SubnetworkParameters = \<lparr>sp_IPCidrRange = '''', sp_Network = None, sp_NetworkRef = None,
     sp_NetworkSelector = None, sp_Region = '''', sp_Description = None, sp_EnableFlowLogs = None,
     sp_PrivateIPGoogleAccess = None, sp_SecondaryIPRanges = None\<rparr>"

lemma subnetwork_IsUpToDate_copy:
  "copy_ok copy \<Longrightarrow> subnetwork_IsUpToDate L copy eq name p x =
     map_option (\<lambda>d. if cs_PrivateIpGoogleAccess d \<noteq> cs_PrivateIpGoogleAccess x then (False, True, None)
                     else (eq d x, False, None)) (GenerateSubnetwork name p x)"
  by (cases "GenerateSubnetwork name p x") (simp_all add: subnetwork_IsUpToDate_def copy_ok_def)

lemma GenerateSubnetwork_defined:
  assumes "None \<notin> set (elems (sp_SecondaryIPRanges p))"
  shows "\<exists>d. GenerateSubnetwork name p x = Some d
    \<and> cs_PrivateIpGoogleAccess d = BoolValue (sp_PrivateIPGoogleAccess p)"
  using assms
  by (cases "mapP compute_range (elems (sp_SecondaryIPRanges p))")
    (auto simp: GenerateSubnetwork_def Let_def mapP_None_iff)

lemma GenerateSubnetworkForUpdate_defined:
  assumes "None \<notin> set (elems (sp_SecondaryIPRanges (ForProvider cr)))"
  shows "\<exists>d. GenerateSubnetworkForUpdate cr name = Some d"
  using assms
  by (cases "mapP compute_range (elems (sp_SecondaryIPRanges (ForProvider cr)))")
    (auto simp: GenerateSubnetworkForUpdate_def Let_def mapP_None_iff)

text \<open>A compute service with one subnetwork.\<close>

definition sample_subnetworkExternal :: "compute_Subnetwork \<Rightarrow> (unit, sample_error) subnetworkExternal" where
  "sample_subnetworkExternal x = \<lparr>
     sub_runtime = sample_runtime,
     sub_copy = (\<lambda>x. Inr (Some x)),
     sub_cmp = (=),
     sub_spec_cmp = (=),
     sub_kube_Update = (\<lambda>cr w. (w, cr, None)),
     sub_projectID = ''p'',
     Subnetworks_Get = (\<lambda>p r n w. (w, Inr x)),
     Subnetworks_Insert = (\<lambda>p r n w. (w, Inr ())),
     Subnetworks_SetPrivateIpGoogleAccess = (\<lambda>p r n b w. (w, Inr ())),
     Subnetworks_Patch = (\<lambda>p r n x w. (w, Inr ())),
     Subnetworks_Delete = (\<lambda>p r n w. (w, Inr ()))\<rparr>"

definition sample_subnetwork :: compute_Subnetwork where
  "sample_subnetwork = compute_Subnetwork0\<lparr>cs_Name := ''name'', cs_IpCidrRange := ''10.0.0.0/9'',
     cs_Region := ''r'', cs_PrivateIpGoogleAccess := True,
     cs_SecondaryIpRanges := Some [Some \<lparr>cssr_IpCidrRange = ''10.128.0.0/9'', cssr_RangeName = ''pods''\<rparr>]\<rparr>"

definition sample_subnetwork_cr :: "SubnetworkParameters \<Rightarrow> Subnetwork" where
  "sample_subnetwork_cr p = sample_managed p (GenerateSubnetworkObservation compute_Subnetwork0)"

section \<open>Properties\<close>

text \<open>C33: an existing subnetwork is adopted as it is: late initialisation of an empty spec followed
  by the generation of the desired state gives back exactly the observed subnetwork, secondary
  ranges included.\<close>

theorem subnetwork_adopt_round_trip:
  assumes "subnetwork_LateInitializeSpec empty_SubnetworkParameters x = Some s"
  shows "GenerateSubnetwork (cs_Name x) s x = Some x"
proof (cases "len (cs_SecondaryIpRanges x) = 0")
  case True
  with assms show ?thesis
    by (auto simp: subnetwork_init_fields late_ranges_def empty_SubnetworkParameters_def
        GenerateSubnetwork_def)
next
  case False
  with assms obtain rs where rs: "mapP spec_range (elems (cs_SecondaryIpRanges x)) = Some rs"
      "sp_SecondaryIPRanges s = Some rs"
    by (auto simp: subnetwork_init_fields late_ranges_def empty_SubnetworkParameters_def)
  obtain ys where ys: "cs_SecondaryIpRanges x = Some ys" "ys \<noteq> []"
    using False by (cases "cs_SecondaryIpRanges x") auto
  with rs have "rs \<noteq> []" and "mapP compute_range rs = Some ys"
    using ranges_round_trip mapP_length by fastforce+
  with assms rs ys show ?thesis
    by (auto simp: subnetwork_init_fields late_ranges_def empty_SubnetworkParameters_def
        GenerateSubnetwork_def)
qed

text \<open>Witness of C33: a subnetwork with a secondary range.\<close>

lemma subnetwork_adopt_round_trip_witness:
  "\<exists>s. subnetwork_LateInitializeSpec empty_SubnetworkParameters sample_subnetwork = Some s
     \<and> GenerateSubnetwork ''name'' s sample_subnetwork = Some sample_subnetwork"
proof -
  have n: "cs_Name sample_subnetwork = ''name''" by code_simp
  have "subnetwork_LateInitializeSpec empty_SubnetworkParameters sample_subnetwork \<noteq> None" by code_simp
  then obtain s where s: "subnetwork_LateInitializeSpec empty_SubnetworkParameters sample_subnetwork = Some s"
    by blast
  from subnetwork_adopt_round_trip [OF s] s n show ?thesis by auto
qed

text \<open>C35: \<open>Update\<close> of a subnetwork dereferences \<open>PrivateIPGoogleAccess\<close> without a check: with a
  spec without nil ranges it panics exactly when the spec leaves the field unset while the
  subnetwork has the access enabled. It cannot panic on a spec that late initialisation from
  the same subnetwork has gone over.\<close>

theorem subnetwork_Update_panics_iff:
  assumes "copy_ok (sub_copy c)" and "None \<notin> set (elems (sp_SecondaryIPRanges (ForProvider cr)))"
    and "Subnetworks_Get c (sub_projectID c) (sp_Region (ForProvider cr)) (ExternalName cr) w = (w1, Inr x)"
  shows "(subnetwork_Update c (Some cr) w = None \<longleftrightarrow>
            sp_PrivateIPGoogleAccess (ForProvider cr) = None \<and> cs_PrivateIpGoogleAccess x)
       \<and> (subnetwork_LateInitializeSpec s x = Some (ForProvider cr) \<longrightarrow> subnetwork_Update c (Some cr) w \<noteq> None)"
proof -
  obtain d where d: "GenerateSubnetwork (ExternalName cr) (ForProvider cr) x = Some d"
      "cs_PrivateIpGoogleAccess d = BoolValue (sp_PrivateIPGoogleAccess (ForProvider cr))"
    using GenerateSubnetwork_defined [OF assms(2)] by blast
  obtain v where v: "GenerateSubnetworkForUpdate cr (ExternalName cr) = Some v"
    using GenerateSubnetworkForUpdate_defined [OF assms(2)] by blast
  have 1: "subnetwork_Update c (Some cr) w = None \<longleftrightarrow>
      sp_PrivateIPGoogleAccess (ForProvider cr) = None \<and> cs_PrivateIpGoogleAccess x"
    using assms(3) d v
    by (cases "sp_PrivateIPGoogleAccess (ForProvider cr)")
      (auto simp: subnetwork_Update_def subnetwork_IsUpToDate_copy [OF assms(1)] Let_def)
  moreover have "sp_PrivateIPGoogleAccess (ForProvider cr) \<noteq> None \<or> \<not> cs_PrivateIpGoogleAccess x"
    if "subnetwork_LateInitializeSpec s x = Some (ForProvider cr)"
    using subnetwork_init_access [OF that] by (auto simp: LateInitializeBool_def split: if_splits)
  ultimately show ?thesis by blast
qed

text \<open>Witness of C35: the access is enabled on the subnetwork and not mentioned in the spec.\<close>

lemma subnetwork_Update_panics_iff_witness:
  "subnetwork_Update (sample_subnetworkExternal sample_subnetwork)
     (Some (sample_subnetwork_cr empty_SubnetworkParameters)) () = None"
  using subnetwork_Update_panics_iff [of "sample_subnetworkExternal sample_subnetwork"
      "sample_subnetwork_cr empty_SubnetworkParameters" "()" "()" sample_subnetwork empty_SubnetworkParameters]
  by (simp add: sample_subnetworkExternal_def sample_subnetwork_cr_def sample_managed_def copy_ok_def
      empty_SubnetworkParameters_def sample_subnetwork_def)

end
