(* ===== verification/Compute_Address.thy ===== *)
theory Compute_Address
  imports Compute_Network
begin

text \<open>
  Global addresses: \<^verbatim>\<open>apis/compute/v1beta1/globaladdress_types.go\<close>, the client
  \<^verbatim>\<open>pkg/clients/globaladdress/globaladdress.go\<close> and the controller
  \<^verbatim>\<open>pkg/controller/compute/globaladdress.go\<close>.
\<close>

section \<open>Data\<close>

record GlobalAddressParameters =
  gap_Address :: "string option"
  gap_AddressType :: "string option"
  gap_Description :: "string option"
  gap_IPVersion :: "string option"
  gap_Network :: "string option"
  gap_NetworkRef :: "Reference option"
  gap_NetworkSelector :: "Selector option"
  gap_PrefixLength :: "int64 option"
  gap_Purpose :: "string option"
  gap_Subnetwork :: "string option"
  gap_SubnetworkRef :: "Reference option"
  gap_SubnetworkSelector :: "Selector option"

record GlobalAddressObservation =
  gao_CreationTimestamp :: string
  gao_ID :: "64 word"
  gao_SelfLink :: string
  gao_Status :: string
  gao_Users :: "string slice"

type_synonym GlobalAddress = "(GlobalAddressParameters, GlobalAddressObservation) managed"

record compute_Address =
  ca_Address :: string
  ca_AddressType :: string
  ca_Description :: string
  ca_IpVersion :: string
  ca_Name :: string
  ca_Network :: string
  ca_PrefixLength :: int64
  ca_Purpose :: string
  ca_Subnetwork :: string
  ca_CreationTimestamp :: string
  ca_Id :: "64 word"
  ca_SelfLink :: string
  ca_Status :: string
  ca_Users :: "string slice"

definition compute_Address0 :: compute_Address where
  "compute_Address0 = \<lparr>ca_Address = '''', ca_AddressType = '''', ca_Description = '''',
     ca_IpVersion = '''', ca_Name = '''', ca_Network = '''', ca_PrefixLength = 0, ca_Purpose = '''',
     ca_Subnetwork = '''', ca_CreationTimestamp = '''', ca_Id = 0, ca_SelfLink = '''',
     ca_Status = '''', ca_Users = None\<rparr>"

section \<open>Client\<close>

definition GenerateGlobalAddress ::
  "string \<Rightarrow> GlobalAddressParameters \<Rightarrow> compute_Address \<Rightarrow> compute_Address" where
  "GenerateGlobalAddress name in' address = address\<lparr>
     ca_Address := StringValue (gap_Address in'),
     ca_AddressType := StringValue (gap_AddressType in'),
     ca_Description := StringValue (gap_Description in'),
     ca_IpVersion := StringValue (gap_IPVersion in'),
     ca_Name := name,
     ca_Network := StringValue (gap_Network in'),
     ca_PrefixLength := Int64Value (gap_PrefixLength in'),
     ca_Purpose := StringValue (gap_Purpose in'),
     ca_Subnetwork := StringValue (gap_Subnetwork in')\<rparr>"

definition globaladdress_LateInitializeSpec ::
  "GlobalAddressParameters \<Rightarrow> compute_Address \<Rightarrow> GlobalAddressParameters" where
  "globaladdress_LateInitializeSpec p observed = p\<lparr>
     gap_Address := LateInitializeString (gap_Address p) (ca_Address observed),
     gap_AddressType := LateInitializeString (gap_AddressType p) (ca_AddressType observed),
     gap_Description := LateInitializeString (gap_Description p) (ca_Description observed),
     gap_IPVersion := LateInitializeString (gap_IPVersion p) (ca_IpVersion observed),
     gap_Network := LateInitializeString (gap_Network p) (ca_Network observed),
     gap_PrefixLength := LateInitializeInt64 (gap_PrefixLength p) (ca_PrefixLength observed),
     gap_Purpose := LateInitializeString (gap_Purpose p) (ca_Purpose observed),
     gap_Subnetwork := LateInitializeString (gap_Subnetwork p) (ca_Subnetwork observed)\<rparr>"

definition GenerateGlobalAddressObservation :: "compute_Address \<Rightarrow> GlobalAddressObservation" where
  "GenerateGlobalAddressObservation observed = \<lparr>
     gao_CreationTimestamp = ca_CreationTimestamp observed, gao_ID = ca_Id observed,
     gao_SelfLink = ca_SelfLink observed, gao_Status = ca_Status observed,
     gao_Users = ca_Users observed\<rparr>"

section \<open>Controller\<close>

definition StatusInUse :: string where "StatusInUse = ''IN_USE''"
definition StatusReserved :: string where "StatusReserved = ''RESERVED''"
definition StatusReserving :: string where "StatusReserving = ''RESERVING''"

definition errNotGlobalAddress :: string where
  "errNotGlobalAddress = ''managed resource is not a GlobalAddress''"
definition errGetAddress :: string where
  "errGetAddress = ''cannot get external Address resource''"
definition errCreateAddress :: string where
  "errCreateAddress = ''cannot create external Address resource''"
definition errDeleteAddress :: string where
  "errDeleteAddress = ''cannot delete external Address resource''"
definition errManagedAddressUpdate :: string where
  "errManagedAddressUpdate = ''cannot update managed GlobalAddress resource''"

record ('w, 'e) gaExternal =
  ga_runtime :: "'e runtime"
  ga_spec_cmp :: "GlobalAddressParameters comparer"
  ga_kube_Update :: "('w, GlobalAddress, 'e) kube_update"
  ga_projectID :: string
  GlobalAddresses_Get :: "string \<Rightarrow> string \<Rightarrow> ('w, compute_Address, 'e) call"
  GlobalAddresses_Insert :: "string \<Rightarrow> compute_Address \<Rightarrow> ('w, unit, 'e) call"
  GlobalAddresses_Delete :: "string \<Rightarrow> string \<Rightarrow> ('w, unit, 'e) call"

definition ga_Connect ::
  "'e runtime \<Rightarrow> ('w, GlobalAddress, 'src, 'sel, 'e) auth_api
    \<Rightarrow> (string \<Rightarrow> ClientOption option \<Rightarrow> ('w, ('w, 'e) gaExternal, 'e) call)
    \<Rightarrow> GlobalAddress \<Rightarrow> 'w \<Rightarrow> ('w \<times> ('w, 'e) gaExternal option \<times> 'e option) option" where
  \<comment> \<open>the last line wraps the error once more, which is nil there\<close>
  "ga_Connect L c newService mg w = do {
     (w1, ext, err) \<leftarrow> connect_service L c compute_errNewClient newService mg w;
     Some (w1, ext, case ext of None \<Rightarrow> err | Some _ \<Rightarrow> errors_Wrap L None compute_errNewClient) }"

definition ga_Observe ::
  "('w, 'e) gaExternal \<Rightarrow> GlobalAddress option \<Rightarrow> 'w
    \<Rightarrow> ('w, GlobalAddress, ExternalObservation, 'e) outcome" where
  "ga_Observe e mg w =
     (let L = ga_runtime e in
      case mg of
        None \<Rightarrow> (w, None, ExternalObservation0, Some (errors_New L errNotGlobalAddress))
      | Some cr \<Rightarrow>
         (case GlobalAddresses_Get e (ga_projectID e) (ExternalName cr) w of
            (w1, Inl err) \<Rightarrow> (w1, Some cr, ExternalObservation0,
               errors_Wrap L (resource_Ignore L (IsErrorNotFound L) (Some err)) errGetAddress)
          | (w1, Inr observed) \<Rightarrow>
              let eo = ExternalObservation0\<lparr>ResourceExists := True, ResourceUpToDate := True\<rparr>;
                  currentSpec = ForProvider cr;
                  cr = cr\<lparr>ForProvider := globaladdress_LateInitializeSpec (ForProvider cr) observed\<rparr>;
                  (w2, cr, err) = (if \<not> ga_spec_cmp e currentSpec (ForProvider cr)
                                   then ga_kube_Update e cr w1 else (w1, cr, None))
              in if err \<noteq> None
                 then (w2, Some cr, eo, errors_Wrap L err errManagedAddressUpdate)
                 else
                   let cr = cr\<lparr>AtProvider := GenerateGlobalAddressObservation observed\<rparr>;
                       status = gao_Status (AtProvider cr);
                       cr = (if status = StatusReserving then SetConditions Creating cr
                             else if status = StatusInUse \<or> status = StatusReserved
                             then SetConditions Available cr else cr)
                   in (w2, Some cr, eo, errors_Wrap L None errManagedAddressUpdate)))"

definition ga_Create ::
  "('w, 'e) gaExternal \<Rightarrow> GlobalAddress option \<Rightarrow> 'w \<Rightarrow> ('w, GlobalAddress, ExternalCreation, 'e) outcome" where
  "ga_Create e mg w =
     (let L = ga_runtime e in
      case mg of
        None \<Rightarrow> (w, None, ExternalCreation0, Some (errors_New L errNotGlobalAddress))
      | Some cr \<Rightarrow>
          let cr = SetConditions Creating cr;
              address = GenerateGlobalAddress (ExternalName cr) (ForProvider cr) compute_Address0;
              r = GlobalAddresses_Insert e (ga_projectID e) address w
          in (fst r, Some cr, ExternalCreation0, errors_Wrap L (call_error r) errCreateAddress))"

definition ga_Update ::
  "('w, 'e) gaExternal \<Rightarrow> GlobalAddress option \<Rightarrow> 'w \<Rightarrow> ('w, GlobalAddress, ExternalUpdate, 'e) outcome" where
  "ga_Update e mg w = (w, mg, ExternalUpdate0, None)"

definition ga_Delete ::
  "('w, 'e) gaExternal \<Rightarrow> GlobalAddress option \<Rightarrow> 'w \<Rightarrow> ('w, GlobalAddress, unit, 'e) outcome" where
  "ga_Delete e mg w =
     (let L = ga_runtime e in
      case mg of
        None \<Rightarrow> (w, None, (), Some (errors_New L errNotGlobalAddress))
      | Some cr \<Rightarrow>
          let cr = SetConditions Deleting cr;
              r = GlobalAddresses_Delete e (ga_projectID e) (ExternalName cr) w
          in (fst r, Some cr, (),
              errors_Wrap L (resource_Ignore L (IsErrorNotFound L) (call_error r)) errDeleteAddress))"

section \<open>Late initialisation and generation\<close>

definition globaladdress_keeps :: "GlobalAddressParameters \<Rightarrow> GlobalAddressParameters \<Rightarrow> bool" where
  "globaladdress_keeps a b \<longleftrightarrow>
     keeps_ptr (gap_Address a) (gap_Address b) \<and> keeps_ptr (gap_AddressType a) (gap_AddressType b)
     \<and> keeps_ptr (gap_Description a) (gap_Description b) \<and> keeps_ptr (gap_IPVersion a) (gap_IPVersion b)
     \<and> keeps_ptr (gap_Network a) (gap_Network b) \<and> keeps_ptr (gap_PrefixLength a) (gap_PrefixLength b)
     \<and> keeps_ptr (gap_Purpose a) (gap_Purpose b) \<and> keeps_ptr (gap_Subnetwork a) (gap_Subnetwork b)
     \<and> gap_NetworkRef b = gap_NetworkRef a \<and> gap_NetworkSelector b = gap_NetworkSelector a
     \<and> gap_SubnetworkRef b = gap_SubnetworkRef a \<and> gap_SubnetworkSelector b = gap_SubnetworkSelector a"

interpretation globaladdress_init: late_initializer
  "\<lambda>s x. Some (globaladdress_LateInitializeSpec s x)" globaladdress_keeps
  by unfold_locales (auto simp: globaladdress_LateInitializeSpec_def globaladdress_keeps_def)

interpretation globaladdress_desired: desired_state "\<lambda>(name, p) x. Some (GenerateGlobalAddress name p x)"
  by unfold_locales (auto simp: GenerateGlobalAddress_def)

definition empty_GlobalAddressParameters :: GlobalAddressParameters where
  "empty_GlobalAddressParameters = \<lparr>gap_Address = None, gap_AddressType = None, gap_Description = None,
     gap_IPVersion = None, gap_Network = None, gap_NetworkRef = None, gap_NetworkSelector = None,
     gap_PrefixLength = None, gap_Purpose = None, gap_Subnetwork = None, gap_SubnetworkRef = None,
     gap_SubnetworkSelector = None\<rparr>"

section \<open>Properties\<close>

text \<open>A global address is adopted as it is, and creating it again from the late-initialised
  spec would ask for the same address: generation after late initialisation of an empty spec
  gives back the observed address, and a second late initialisation changes nothing.\<close>

theorem globaladdress_adopt_round_trip:
  "GenerateGlobalAddress (ca_Name x) (globaladdress_LateInitializeSpec empty_GlobalAddressParameters x) x = x
   \<and> globaladdress_LateInitializeSpec (globaladdress_LateInitializeSpec s x) x
       = globaladdress_LateInitializeSpec s x
   \<and> globaladdress_keeps s (globaladdress_LateInitializeSpec s x)"
  using globaladdress_init.settles [of s x] globaladdress_init.keeps_set [of s x]
  by (simp add: GenerateGlobalAddress_def globaladdress_LateInitializeSpec_def empty_GlobalAddressParameters_def)

end
