(* ===== verification/Service_Connection.thy ===== *)
theory Service_Connection
  imports Compute_Network
begin

text \<open>
  Service networking connections: \<^verbatim>\<open>apis/servicenetworking/v1beta1/connection_types.go\<close>, the
  client \<^verbatim>\<open>pkg/clients/connection/connection.go\<close> and the controller
  \<^verbatim>\<open>pkg/controller/servicenetworking/connection.go\<close>. A connection has no ``get'' call: it is found in a
  list by the name of its peering, and its condition comes from the peerings of the network.
\<close>

section \<open>Data\<close>

record ConnectionParameters =
  cp_Parent :: string
  cp_Network :: "string option"
  cp_NetworkRef :: "Reference option"
  cp_NetworkSelector :: "Selector option"
  cp_ReservedPeeringRanges :: "string slice"
  cp_ReservedPeeringRangeRefs :: "Reference slice"
  cp_ReservedPeeringRangeSelector :: Selector

record ConnectionObservation =
  co_Peering :: string
  co_Service :: string

type_synonym Connection = "(ConnectionParameters, ConnectionObservation) managed"

text \<open>\<^verbatim>\<open>servicenetworking.Connection\<close>\<close>

record sn_Connection =
  sn_Network :: string
  sn_Peering :: string
  sn_ReservedPeeringRanges :: "string slice"
  sn_Service :: string
  sn_ForceSendFields :: "string slice"

text \<open>\<open>Observation\<close>: both pointers are set when \<open>UpdateStatus\<close> is called.\<close>

record ConnectionWithNetwork =
  obs_Connection :: sn_Connection
  obs_Network :: compute_Network

section \<open>Client\<close>

definition PeeringName :: string where
  "PeeringName = ''servicenetworking-googleapis-com''"
definition PeeringStateActive :: string where
  "PeeringStateActive = ''ACTIVE''"
definition PeeringStateInactive :: string where
  "PeeringStateInactive = ''INACTIVE''"

definition FromParameters :: "ConnectionParameters \<Rightarrow> sn_Connection" where
  "FromParameters p = \<lparr>sn_Network = StringValue (cp_Network p), sn_Peering = '''',
     sn_ReservedPeeringRanges = cp_ReservedPeeringRanges p, sn_Service = '''',
     sn_ForceSendFields = Some [''ReservedPeeringRanges'']\<rparr>"

text \<open>\<open>eq\<close> is the comparison of two slices with the option that sorts them.\<close>

definition connection_IsUpToDate :: "string slice comparer \<Rightarrow> ConnectionParameters \<Rightarrow> sn_Connection \<Rightarrow> bool" where
  "connection_IsUpToDate eq p observed = eq (cp_ReservedPeeringRanges p) (sn_ReservedPeeringRanges observed)"

fun status_loop :: "string \<Rightarrow> compute_NetworkPeering option list \<Rightarrow> Connection \<Rightarrow> Connection option" where
  "status_loop peering [] s = Some s"
| "status_loop peering (p # ps) s = do {
     p \<leftarrow> p;
     let s = (if cnpe_Name p = peering
              then if cnpe_State p = PeeringStateActive then SetConditions Available s
                   else if cnpe_State p = PeeringStateInactive then SetConditions Unavailable s
                   else s
              else s);
     status_loop peering ps s }"

definition UpdateStatus :: "Connection \<Rightarrow> ConnectionWithNetwork \<Rightarrow> Connection option" where
  "UpdateStatus s o' =
     (let s = s\<lparr>AtProvider := (AtProvider s)\<lparr>co_Peering := sn_Peering (obs_Connection o'),
                  co_Service := sn_Service (obs_Connection o')\<rparr>\<rparr>
      in if len (cn_Peerings (obs_Network o')) = 0 then Some (SetConditions Unavailable s)
         else status_loop (sn_Peering (obs_Connection o')) (elems (cn_Peerings (obs_Network o'))) s)"

section \<open>Controller\<close>

definition connection_errNewClient :: string where
  "connection_errNewClient = ''cannot create new Compute Service''"
definition errNotConnection :: string where
  "errNotConnection = ''managed resource is not a Connection''"
definition errListConnections :: string where
  "errListConnections = ''cannot list external Connection resources''"
definition connection_errGetNetwork :: string where
  "connection_errGetNetwork = ''cannot get VPC Network''"
definition errCreateConnection :: string where
  "errCreateConnection = ''cannot create external Connection resource''"
definition errUpdateConnection :: string where
  "errUpdateConnection = ''cannot update external Connection resource''"
definition errDeleteConnection :: string where
  "errDeleteConnection = ''cannot delete external Connection resource''"

text \<open>\<open>Connections_Patch\<close> takes the update mask (empty when it is not set) and the force flag.\<close>

record ('w, 'e) connectionExternal =
  con_runtime :: "'e runtime"
  con_ranges_cmp :: "string slice comparer"
  con_projectID :: string
  Connections_List :: "string \<Rightarrow> string \<Rightarrow> ('w, sn_Connection option slice, 'e) call"
  Connections_Patch :: "string \<Rightarrow> sn_Connection \<Rightarrow> string \<Rightarrow> bool \<Rightarrow> ('w, unit, 'e) call"
  con_Networks_Get :: "string \<Rightarrow> string \<Rightarrow> ('w, compute_Network, 'e) call"
  con_Networks_RemovePeering :: "string \<Rightarrow> string \<Rightarrow> string \<Rightarrow> ('w, unit, 'e) call"

text \<open>\<open>Connect\<close> builds two services; an error of the second is returned beside the client.\<close>

definition connection_Connect ::
  "'e runtime \<Rightarrow> ('w, Connection, 'src, 'sel, 'e) auth_api
    \<Rightarrow> (ClientOption option \<Rightarrow> ('w, 'cs, 'e) call)
    \<Rightarrow> (ClientOption option \<Rightarrow> 'w \<Rightarrow> 'w \<times> 'sn \<times> 'e option)
    \<Rightarrow> ('cs \<Rightarrow> 'sn \<Rightarrow> string \<Rightarrow> ('w, 'e) connectionExternal)
    \<Rightarrow> Connection \<Rightarrow> 'w \<Rightarrow> ('w \<times> ('w, 'e) connectionExternal option \<times> 'e option) option" where
  "connection_Connect L c newCompute newSn external mg w = do {
     (w1, projectID, opts, err) \<leftarrow> GetAuthInfo L c mg w;
     if err \<noteq> None then Some (w1, None, err)
     else (case newCompute opts w1 of
         (w2, Inl err) \<Rightarrow> Some (w2, None, errors_Wrap L (Some err) connection_errNewClient)
       | (w2, Inr cmp) \<Rightarrow>
           (case newSn opts w2 of (w3, sn, err) \<Rightarrow>
              Some (w3, Some (external cmp sn projectID), errors_Wrap L err connection_errNewClient))) }"

fun findConnection :: "sn_Connection option list \<Rightarrow> sn_Connection option option" where
  "findConnection [] = Some None"
| "findConnection (c # cs) = do {
     c \<leftarrow> c;
     if sn_Peering c = PeeringName then Some (Some c) else findConnection cs }"

definition connection_Observe ::
  "('w, 'e) connectionExternal \<Rightarrow> Connection option \<Rightarrow> 'w
    \<Rightarrow> ('w, Connection, ExternalObservation, 'e) outcome option" where
  "connection_Observe e mg w =
     (let L = con_runtime e in
      case mg of
        None \<Rightarrow> Some (w, None, ExternalObservation0, Some (errors_New L errNotConnection))
      | Some cn \<Rightarrow>
         (case Connections_List e (cp_Parent (ForProvider cn)) (StringValue (cp_Network (ForProvider cn))) w of
            (w1, Inl err) \<Rightarrow> Some (w1, Some cn, ExternalObservation0, errors_Wrap L (Some err) errListConnections)
          | (w1, Inr conns) \<Rightarrow> do {
              conn \<leftarrow> findConnection (elems conns);
              (case conn of
                 None \<Rightarrow> Some (w1, Some cn, ExternalObservation0\<lparr>ResourceExists := False\<rparr>, None)
               | Some conn \<Rightarrow>
                  (case con_Networks_Get e (con_projectID e) (path_Base (sn_Network conn)) w1 of
                     (w2, Inl err) \<Rightarrow> Some (w2, Some cn, ExternalObservation0,
                        errors_Wrap L (Some err) connection_errGetNetwork)
                   | (w2, Inr net) \<Rightarrow> do {
                       let eo = ExternalObservation0\<lparr>ResourceExists := True,
                          ResourceUpToDate := connection_IsUpToDate (con_ranges_cmp e) (ForProvider cn) conn\<rparr>;
                       cn \<leftarrow> UpdateStatus cn \<lparr>obs_Connection = conn, obs_Network = net\<rparr>;
                       Some (w2, Some cn, eo, None) })) }))"

definition connection_Create ::
  "('w, 'e) connectionExternal \<Rightarrow> Connection option \<Rightarrow> 'w \<Rightarrow> ('w, Connection, ExternalCreation, 'e) outcome" where
  "connection_Create e mg w =
     (let L = con_runtime e in
      case mg of
        None \<Rightarrow> (w, None, ExternalCreation0, Some (errors_New L errNotConnection))
      | Some cn \<Rightarrow>
          let cn = SetConditions Creating cn;
              conn = FromParameters (ForProvider cn);
              r = Connections_Patch e (cp_Parent (ForProvider cn) @ ''/connections/-'') conn
                    ''reservedPeeringRanges'' True w
          in (fst r, Some cn, ExternalCreation0,
              errors_Wrap L (resource_Ignore L (IsErrorAlreadyExists L) (call_error r)) errCreateConnection))"

definition connection_Update ::
  "('w, 'e) connectionExternal \<Rightarrow> Connection option \<Rightarrow> 'w \<Rightarrow> ('w, Connection, ExternalUpdate, 'e) outcome" where
  "connection_Update e mg w =
     (let L = con_runtime e in
      case mg of
        None \<Rightarrow> (w, None, ExternalUpdate0, Some (errors_New L errNotConnection))
      | Some cn \<Rightarrow>
          let name = cp_Parent (ForProvider cn) @ ''/connections/'' @ PeeringName;
              conn = FromParameters (ForProvider cn);
              r = Connections_Patch e name conn '''' False w
          in (fst r, Some cn, ExternalUpdate0, errors_Wrap L (call_error r) errUpdateConnection))"

definition connection_Delete ::
  "('w, 'e) connectionExternal \<Rightarrow> Connection option \<Rightarrow> 'w \<Rightarrow> ('w, Connection, unit, 'e) outcome" where
  "connection_Delete e mg w =
     (let L = con_runtime e in
      case mg of
        None \<Rightarrow> (w, None, (), Some (errors_New L errNotConnection))
      | Some cn \<Rightarrow>
          let cn = SetConditions Deleting cn;
              rm = co_Peering (AtProvider cn);
              r = con_Networks_RemovePeering e (con_projectID e)
                    (path_Base (StringValue (cp_Network (ForProvider cn)))) rm w
          in (fst r, Some cn, (),
              errors_Wrap L (resource_Ignore L (IsErrorNotFound L) (call_error r)) errDeleteConnection))"

section \<open>Lemmas\<close>

definition peering_conditions :: "string \<Rightarrow> compute_NetworkPeering option list \<Rightarrow> condition list" where
  "peering_conditions peering ps = concat (map (\<lambda>p. case p of None \<Rightarrow> [] | Some p \<Rightarrow>
     if cnpe_Name p \<noteq> peering then []
     else if cnpe_State p = PeeringStateActive then [Available]
     else if cnpe_State p = PeeringStateInactive then [Unavailable] else []) ps)"

lemma status_loop_conditions:
  "None \<notin> set ps \<Longrightarrow> status_loop peering ps s =
     Some (s\<lparr>Conditions := Conditions s @ peering_conditions peering ps\<rparr>)"
proof (induction ps arbitrary: s)
  case (Cons p ps)
  then obtain q where "p = Some q" by (cases p) auto
  with Cons show ?case by (simp add: peering_conditions_def SetConditions_def)
qed (simp add: peering_conditions_def)

lemma findConnection_result:
  "None \<notin> set cs \<Longrightarrow> findConnection cs = Some (List.find (\<lambda>c. sn_Peering c = PeeringName) (map the cs))"
proof (induction cs)
  case (Cons c cs)
  then show ?case by (cases c) auto
qed simp

lemma find_some_peering: "List.find (\<lambda>c. sn_Peering c = PeeringName) cs = Some c \<Longrightarrow> sn_Peering c = PeeringName"
  by (metis (mono_tags, lifting) find_Some_iff)

definition sample_sn_Connection :: sn_Connection where
  "sample_sn_Connection = \<lparr>sn_Network = ''projects/p/global/networks/n'', sn_Peering = PeeringName,
     sn_ReservedPeeringRanges = Some [''b'', ''a''], sn_Service = ''s'', sn_ForceSendFields = None\<rparr>"

definition sample_connection_cr :: Connection where
  "sample_connection_cr = sample_managed
     \<lparr>cp_Parent = ''services/s'', cp_Network = Some ''projects/p/global/networks/n'', cp_NetworkRef = None,
      cp_NetworkSelector = None, cp_ReservedPeeringRanges = Some [''a'', ''b''],
      cp_ReservedPeeringRangeRefs = None,
      cp_ReservedPeeringRangeSelector = \<lparr>MatchLabels = None, MatchControllerRef = None\<rparr>\<rparr>
     \<lparr>co_Peering = '''', co_Service = ''''\<rparr>"

definition sample_peered_network :: compute_Network where
  "sample_peered_network = compute_Network0\<lparr>cn_Peerings := Some [Some \<lparr>cnpe_AutoCreateRoutes = True,
     cnpe_ExchangeSubnetRoutes = True, cnpe_Name = PeeringName, cnpe_Network = ''n'',
     cnpe_State = PeeringStateActive, cnpe_StateDetails = ''''\<rparr>]\<rparr>"

definition sample_connectionExternal :: "(unit, sample_error) connectionExternal" where
  "sample_connectionExternal = \<lparr>
     con_runtime = sample_runtime,
     con_ranges_cmp = (\<lambda>a b. map_option sort a = map_option sort b),
     con_projectID = ''p'',
     Connections_List = (\<lambda>p n w. (w, Inr (Some [Some sample_sn_Connection]))),
     Connections_Patch = (\<lambda>n c m f w. (w, Inr ())),
     con_Networks_Get = (\<lambda>p n w. (w, Inr sample_peered_network)),
     con_Networks_RemovePeering = (\<lambda>p n r w. (w, Inr ()))\<rparr>"

section \<open>Properties\<close>

text \<open>C34: what an observation of a connection reports. If the list has a connection with the
  peering name of the service, then the resource exists; it is up to date exactly when the
  reserved ranges are those of the spec in some order; the condition follows the state of the
  peerings of that name in the network (unavailable if the network has no peering); and a
  later \<open>Delete\<close> asks for the removal of that peering.\<close>

theorem connection_Observe_found:
  assumes "Connections_List e (cp_Parent (ForProvider cn)) (StringValue (cp_Network (ForProvider cn))) w
      = (w1, Inr conns)"
    and "None \<notin> set (elems conns)"
    and "List.find (\<lambda>c. sn_Peering c = PeeringName) (map the (elems conns)) = Some conn"
    and "con_Networks_Get e (con_projectID e) (path_Base (sn_Network conn)) w1 = (w2, Inr net)"
    and "None \<notin> set (elems (cn_Peerings net))"
    and "cmp_modulo (map_option sort) (con_ranges_cmp e)"
  shows "\<exists>cn' ob. connection_Observe e (Some cn) w = Some (w2, Some cn', ob, None)
    \<and> ResourceExists ob
    \<and> (ResourceUpToDate ob \<longleftrightarrow> map_option sort (cp_ReservedPeeringRanges (ForProvider cn))
          = map_option sort (sn_ReservedPeeringRanges conn))
    \<and> Conditions cn' = Conditions cn @ (if len (cn_Peerings net) = 0 then [Unavailable]
          else peering_conditions PeeringName (elems (cn_Peerings net)))
    \<and> ForProvider cn' = ForProvider cn
    \<and> fst (connection_Delete e (Some cn') v) = fst (con_Networks_RemovePeering e (con_projectID e)
          (path_Base (StringValue (cp_Network (ForProvider cn)))) PeeringName v)"
proof -
  note p = find_some_peering [OF assms(3)]
  note f = findConnection_result [OF assms(2), unfolded assms(3)]
  show ?thesis
    using assms(1,4,6) p f status_loop_conditions [OF assms(5)]
    by (simp add: connection_Observe_def UpdateStatus_def connection_IsUpToDate_def cmp_modulo_def
        connection_Delete_def Let_def)
qed

text \<open>Witness of C34: an active peering, with the ranges in another order.\<close>

lemma connection_Observe_found_witness:
  "\<exists>cn' ob. connection_Observe sample_connectionExternal (Some sample_connection_cr) () = Some ((), Some cn', ob, None)
     \<and> ResourceUpToDate ob \<and> Conditions cn' = [Available]"
proof -
  have s: "map_option sort (cp_ReservedPeeringRanges (ForProvider sample_connection_cr))
      = map_option sort (sn_ReservedPeeringRanges sample_sn_Connection)"
    by code_simp
  have c: "Conditions sample_connection_cr @ (if len (cn_Peerings sample_peered_network) = 0 then [Unavailable]
          else peering_conditions PeeringName (elems (cn_Peerings sample_peered_network))) = [Available]"
    by code_simp
  have n: "None \<notin> set (elems (cn_Peerings sample_peered_network))"
    by code_simp
  show ?thesis
    using connection_Observe_found [of sample_connectionExternal sample_connection_cr "()" "()"
        "Some [Some sample_sn_Connection]" sample_sn_Connection "()" sample_peered_network "()"] s c n
    by (auto simp: sample_connectionExternal_def cmp_modulo_def sample_sn_Connection_def)
qed

end
