(* ===== verification/Cloud_SQL.thy ===== *)
theory Cloud_SQL
  imports Gcp_Client
begin

text \<open>
  CloudSQL instances: \<^verbatim>\<open>apis/database/v1beta1/cloudsql_instance_types.go\<close>, the client
  \<^verbatim>\<open>pkg/clients/cloudsql/cloudsql.go\<close> and the controller \<^verbatim>\<open>pkg/controller/database/cloudsql.go\<close>.
  The nested blocks of the translation functions are definitions of their own.
\<close>

section \<open>Data\<close>

record LocationPreference =
  lp_FollowGaeApplication :: "string option"
  lp_Zone :: "string option"

record MaintenanceWindow =
  mw_Day :: "int64 option"
  mw_Hour :: "int64 option"
  mw_UpdateTrack :: "string option"

record BackupConfiguration =
  bc_BinaryLogEnabled :: "bool option"
  bc_Enabled :: "bool option"
  bc_Location :: "string option"
  bc_ReplicationLogArchivingEnabled :: "bool option"
  bc_StartTime :: "string option"

record DatabaseFlags =
  df_Name :: string
  df_Value :: string

record ACLEntry =
  acl_ExpirationTime :: "string option"
  acl_Name :: "string option"
  acl_Value :: "string option"

record IPConfiguration =
  ipc_AuthorizedNetworks :: "ACLEntry option slice"
  ipc_Ipv4Enabled :: "bool option"
  ipc_PrivateNetwork :: "string option"
  ipc_PrivateNetworkRef :: "Reference option"
  ipc_PrivateNetworkSelector :: "Selector option"
  ipc_RequireSsl :: "bool option"

record Settings =
  set_Tier :: string
  set_ActivationPolicy :: "string option"
  set_AuthorizedGaeApplications :: "string slice"
  set_AvailabilityType :: "string option"
  set_CrashSafeReplicationEnabled :: "bool option"
  set_StorageAutoResize :: "bool option"
  set_DataDiskType :: "string option"
  set_PricingPlan :: "string option"
  set_ReplicationType :: "string option"
  set_UserLabels :: strmap
  set_DatabaseFlags :: "DatabaseFlags option slice"
  set_BackupConfiguration :: "BackupConfiguration option"
  set_IPConfiguration :: "IPConfiguration option"
  set_LocationPreference :: "LocationPreference option"
  set_MaintenanceWindow :: "MaintenanceWindow option"
  set_DataDiskSizeGb :: "int64 option"
  set_DatabaseReplicationEnabled :: "bool option"
  set_StorageAutoResizeLimit :: "int64 option"

record DiskEncryptionConfiguration =
  dec_KmsKeyName :: string

record DatabaseInstanceFailoverReplicaSpec =
  frs_Name :: string

record OnPremisesConfiguration =
  opc_HostPort :: string

record CloudSQLInstanceParameters =
  csp_Region :: string
  csp_Settings :: Settings
  csp_DatabaseVersion :: "string option"
  csp_MasterInstanceName :: "string option"
  csp_DiskEncryptionConfiguration :: "DiskEncryptionConfiguration option"
  csp_FailoverReplica :: "DatabaseInstanceFailoverReplicaSpec option"
  csp_GceZone :: "string option"
  csp_InstanceType :: "string option"
  csp_MaxDiskSize :: "int64 option"
  csp_OnPremisesConfiguration :: "OnPremisesConfiguration option"
  csp_ReplicaNames :: "string slice"
  csp_SuspensionReason :: "string slice"

record IPMapping =
  ipm_IPAddress :: string
  ipm_TimeToRetire :: string
  ipm_Type :: string

record CloudSQLInstanceObservation =
  cso_BackendType :: string
  cso_CurrentDiskSize :: int64
  cso_ConnectionName :: string
  cso_DiskEncryptionStatus :: "string option" \<comment> \<open>\<open>KmsKeyVersionName\<close>, its only field\<close>
  cso_FailoverReplica :: "bool option" \<comment> \<open>\<open>Available\<close>, its only field\<close>
  cso_GceZone :: string
  cso_IPAddresses :: "IPMapping option slice"
  cso_IPv6Address :: string
  cso_Project :: string
  cso_SelfLink :: string
  cso_ServiceAccountEmailAddress :: string
  cso_State :: string
  cso_SettingsVersion :: int64

type_synonym CloudSQLInstance = "(CloudSQLInstanceParameters, CloudSQLInstanceObservation) managed"

text \<open>\<^verbatim>\<open>sqladmin.DatabaseInstance\<close>: the fields that the client reads or writes.\<close>

record sql_LocationPreference =
  slp_FollowGaeApplication :: string
  slp_Zone :: string

record sql_MaintenanceWindow =
  smw_Day :: int64
  smw_Hour :: int64
  smw_UpdateTrack :: string

record sql_BackupConfiguration =
  sbc_BinaryLogEnabled :: bool
  sbc_Enabled :: bool
  sbc_Location :: string
  sbc_ReplicationLogArchivingEnabled :: bool
  sbc_StartTime :: string

record sql_DatabaseFlags =
  sdf_Name :: string
  sdf_Value :: string

record sql_AclEntry =
  sacl_ExpirationTime :: string
  sacl_Name :: string
  sacl_Value :: string
  sacl_Kind :: string

record sql_IpConfiguration =
  sipc_AuthorizedNetworks :: "sql_AclEntry option slice"
  sipc_Ipv4Enabled :: bool
  sipc_PrivateNetwork :: string
  sipc_RequireSsl :: bool
  sipc_ForceSendFields :: "string slice"

record sql_Settings =
  sset_Tier :: string
  sset_ActivationPolicy :: string
  sset_AuthorizedGaeApplications :: "string slice"
  sset_AvailabilityType :: string
  sset_CrashSafeReplicationEnabled :: bool
  sset_StorageAutoResize :: "bool option"
  sset_DataDiskType :: string
  sset_PricingPlan :: string
  sset_ReplicationType :: string
  sset_UserLabels :: strmap
  sset_DatabaseFlags :: "sql_DatabaseFlags option slice"
  sset_BackupConfiguration :: "sql_BackupConfiguration option"
  sset_IpConfiguration :: "sql_IpConfiguration option"
  sset_LocationPreference :: "sql_LocationPreference option"
  sset_MaintenanceWindow :: "sql_MaintenanceWindow option"
  sset_DataDiskSizeGb :: int64
  sset_DatabaseReplicationEnabled :: bool
  sset_StorageAutoResizeLimit :: int64
  sset_SettingsVersion :: int64

record sql_FailoverReplica =
  sfr_Name :: string
  sfr_Available :: bool

record sql_IpMapping =
  sipm_IpAddress :: string
  sipm_TimeToRetire :: string
  sipm_Type :: string

record sql_SslCert =
  ssl_Cert :: string
  ssl_CertSerialNumber :: string
  ssl_CommonName :: string
  ssl_CreateTime :: string
  ssl_ExpirationTime :: string
  ssl_Instance :: string
  ssl_Sha1Fingerprint :: string

record sql_DatabaseInstance =
  db_DatabaseVersion :: string
  db_GceZone :: string
  db_InstanceType :: string
  db_MasterInstanceName :: string
  db_MaxDiskSize :: int64
  db_Name :: string
  db_Region :: string
  db_ReplicaNames :: "string slice"
  db_SuspensionReason :: "string slice"
  db_DiskEncryptionConfiguration :: "DiskEncryptionConfiguration option"
  db_FailoverReplica :: "sql_FailoverReplica option"
  db_OnPremisesConfiguration :: "OnPremisesConfiguration option"
  db_Settings :: "sql_Settings option"
  db_BackendType :: string
  db_CurrentDiskSize :: int64
  db_ConnectionName :: string
  db_Ipv6Address :: string
  db_Project :: string
  db_SelfLink :: string
  db_ServiceAccountEmailAddress :: string
  db_State :: string
  db_DiskEncryptionStatus :: "string option"
  db_IpAddresses :: "sql_IpMapping option slice"
  db_ServerCaCert :: "sql_SslCert option"
  db_RootPassword :: string

definition sql_Settings0 :: sql_Settings where
  "sql_Settings0 = \<lparr>sset_Tier = '''', sset_ActivationPolicy = '''', sset_AuthorizedGaeApplications = None,
     sset_AvailabilityType = '''', sset_CrashSafeReplicationEnabled = False, sset_StorageAutoResize = None,
     sset_DataDiskType = '''', sset_PricingPlan = '''', sset_ReplicationType = '''',
     sset_UserLabels = None, sset_DatabaseFlags = None, sset_BackupConfiguration = None,
     sset_IpConfiguration = None, sset_LocationPreference = None, sset_MaintenanceWindow = None,
     sset_DataDiskSizeGb = 0, sset_DatabaseReplicationEnabled = False, sset_StorageAutoResizeLimit = 0,
     sset_SettingsVersion = 0\<rparr>"

definition sql_DatabaseInstance0 :: sql_DatabaseInstance where
  "sql_DatabaseInstance0 = \<lparr>db_DatabaseVersion = '''', db_GceZone = '''', db_InstanceType = '''',
     db_MasterInstanceName = '''', db_MaxDiskSize = 0, db_Name = '''', db_Region = '''',
     db_ReplicaNames = None, db_SuspensionReason = None, db_DiskEncryptionConfiguration = None,
     db_FailoverReplica = None, db_OnPremisesConfiguration = None, db_Settings = None,
     db_BackendType = '''', db_CurrentDiskSize = 0, db_ConnectionName = '''', db_Ipv6Address = '''',
     db_Project = '''', db_SelfLink = '''', db_ServiceAccountEmailAddress = '''', db_State = '''',
     db_DiskEncryptionStatus = None, db_IpAddresses = None, db_ServerCaCert = None, db_RootPassword = ''''\<rparr>"

section \<open>Generation\<close>

definition gen_backup :: "BackupConfiguration \<Rightarrow> sql_BackupConfiguration \<Rightarrow> sql_BackupConfiguration" where
  "gen_backup in' db = db\<lparr>
     sbc_BinaryLogEnabled := BoolValue (bc_BinaryLogEnabled in'),
     sbc_Enabled := BoolValue (bc_Enabled in'),
     sbc_Location := StringValue (bc_Location in'),
     sbc_ReplicationLogArchivingEnabled := BoolValue (bc_ReplicationLogArchivingEnabled in'),
     sbc_StartTime := StringValue (bc_StartTime in')\<rparr>"

definition sql_BackupConfiguration0 :: sql_BackupConfiguration where
  "sql_BackupConfiguration0 = \<lparr>sbc_BinaryLogEnabled = False, sbc_Enabled = False, sbc_Location = '''',
     sbc_ReplicationLogArchivingEnabled = False, sbc_StartTime = ''''\<rparr>"

definition gen_acl :: "ACLEntry option \<Rightarrow> sql_AclEntry option option" where
  "gen_acl val = do {
     val \<leftarrow> val;
     Some (Some \<lparr>sacl_ExpirationTime = StringValue (acl_ExpirationTime val),
       sacl_Name = StringValue (acl_Name val), sacl_Value = StringValue (acl_Value val),
       sacl_Kind = ''sql#aclEntry''\<rparr>) }"

definition sql_IpConfiguration0 :: sql_IpConfiguration where
  "sql_IpConfiguration0 = \<lparr>sipc_AuthorizedNetworks = None, sipc_Ipv4Enabled = False,
     sipc_PrivateNetwork = '''', sipc_RequireSsl = False, sipc_ForceSendFields = None\<rparr>"

definition gen_ip :: "IPConfiguration option \<Rightarrow> sql_IpConfiguration option \<Rightarrow> sql_IpConfiguration option option" where
  "gen_ip in' db = (case in' of None \<Rightarrow> Some db
     | Some in' \<Rightarrow> do {
         let db = (case db of None \<Rightarrow> sql_IpConfiguration0 | Some b \<Rightarrow> b);
         let db = db\<lparr>sipc_Ipv4Enabled := BoolValue (ipc_Ipv4Enabled in'),
           sipc_PrivateNetwork := StringValue (ipc_PrivateNetwork in'),
           sipc_RequireSsl := BoolValue (ipc_RequireSsl in'),
           sipc_ForceSendFields := Some [''Ipv4Enabled'']\<rparr>;
         acls \<leftarrow> gen_slice gen_acl (ipc_AuthorizedNetworks in') (sipc_AuthorizedNetworks db);
         Some (Some (db\<lparr>sipc_AuthorizedNetworks := acls\<rparr>)) })"

definition gen_location :: "LocationPreference \<Rightarrow> sql_LocationPreference \<Rightarrow> sql_LocationPreference" where
  "gen_location in' db = db\<lparr>slp_FollowGaeApplication := StringValue (lp_FollowGaeApplication in'),
     slp_Zone := StringValue (lp_Zone in')\<rparr>"

definition gen_maintenance :: "MaintenanceWindow \<Rightarrow> sql_MaintenanceWindow \<Rightarrow> sql_MaintenanceWindow" where
  "gen_maintenance in' db = db\<lparr>smw_Day := Int64Value (mw_Day in'),
     smw_Hour := Int64Value (mw_Hour in'), smw_UpdateTrack := StringValue (mw_UpdateTrack in')\<rparr>"

definition gen_flag :: "DatabaseFlags option \<Rightarrow> sql_DatabaseFlags option option" where
  "gen_flag val = do {
     val \<leftarrow> val;
     Some (Some \<lparr>sdf_Name = df_Name val, sdf_Value = df_Value val\<rparr>) }"

definition gen_settings :: "Settings \<Rightarrow> sql_Settings \<Rightarrow> sql_Settings option" where
  "gen_settings in' db = do {
     let db = db\<lparr>
       sset_ActivationPolicy := StringValue (set_ActivationPolicy in'),
       sset_AuthorizedGaeApplications := set_AuthorizedGaeApplications in',
       sset_AvailabilityType := StringValue (set_AvailabilityType in'),
       sset_CrashSafeReplicationEnabled := BoolValue (set_CrashSafeReplicationEnabled in'),
       sset_DataDiskSizeGb := Int64Value (set_DataDiskSizeGb in'),
       sset_DataDiskType := StringValue (set_DataDiskType in'),
       sset_DatabaseReplicationEnabled := BoolValue (set_DatabaseReplicationEnabled in'),
       sset_PricingPlan := StringValue (set_PricingPlan in'),
       sset_ReplicationType := StringValue (set_ReplicationType in'),
       sset_StorageAutoResize := set_StorageAutoResize in',
       sset_StorageAutoResizeLimit := Int64Value (set_StorageAutoResizeLimit in'),
       sset_Tier := set_Tier in',
       sset_UserLabels := set_UserLabels in',
       sset_BackupConfiguration := gen_block sql_BackupConfiguration0 gen_backup
          (set_BackupConfiguration in') (sset_BackupConfiguration db)\<rparr>;
     ip \<leftarrow> gen_ip (set_IPConfiguration in') (sset_IpConfiguration db);
     let db = db\<lparr>sset_IpConfiguration := ip,
       sset_LocationPreference := gen_block \<lparr>slp_FollowGaeApplication = '''', slp_Zone = ''''\<rparr> gen_location
          (set_LocationPreference in') (sset_LocationPreference db),
       sset_MaintenanceWindow := gen_block \<lparr>smw_Day = 0, smw_Hour = 0, smw_UpdateTrack = ''''\<rparr> gen_maintenance
          (set_MaintenanceWindow in') (sset_MaintenanceWindow db)\<rparr>;
     flags \<leftarrow> gen_slice gen_flag (set_DatabaseFlags in') (sset_DatabaseFlags db);
     Some (db\<lparr>sset_DatabaseFlags := flags\<rparr>) }"

definition GenerateDatabaseInstance ::
  "string \<Rightarrow> CloudSQLInstanceParameters \<Rightarrow> sql_DatabaseInstance \<Rightarrow> sql_DatabaseInstance option" where
  "GenerateDatabaseInstance name in' db = do {
     let db = db\<lparr>
       db_DatabaseVersion := StringValue (csp_DatabaseVersion in'),
       db_GceZone := StringValue (csp_GceZone in'),
       db_InstanceType := StringValue (csp_InstanceType in'),
       db_MasterInstanceName := StringValue (csp_MasterInstanceName in'),
       db_MaxDiskSize := Int64Value (csp_MaxDiskSize in'),
       db_Name := name,
       db_Region := csp_Region in',
       db_ReplicaNames := csp_ReplicaNames in',
       db_SuspensionReason := csp_SuspensionReason in',
       db_DiskEncryptionConfiguration := gen_block \<lparr>dec_KmsKeyName = ''''\<rparr>
         (\<lambda>a b. b\<lparr>dec_KmsKeyName := dec_KmsKeyName a\<rparr>)
         (csp_DiskEncryptionConfiguration in') (db_DiskEncryptionConfiguration db),
       db_FailoverReplica := gen_block \<lparr>sfr_Name = '''', sfr_Available = False\<rparr>
         (\<lambda>a b. b\<lparr>sfr_Name := frs_Name a\<rparr>) (csp_FailoverReplica in') (db_FailoverReplica db),
       db_OnPremisesConfiguration := gen_block \<lparr>opc_HostPort = ''''\<rparr>
         (\<lambda>a b. b\<lparr>opc_HostPort := opc_HostPort a\<rparr>)
         (csp_OnPremisesConfiguration in') (db_OnPremisesConfiguration db)\<rparr>;
     let settings = (case db_Settings db of None \<Rightarrow> sql_Settings0 | Some s \<Rightarrow> s);
     settings \<leftarrow> gen_settings (csp_Settings in') settings;
     Some (db\<lparr>db_Settings := Some settings\<rparr>) }"

definition cloudsql_ip_mapping :: "sql_IpMapping option \<Rightarrow> IPMapping option option" where
  "cloudsql_ip_mapping val = do {
     val \<leftarrow> val;
     Some (Some \<lparr>ipm_IPAddress = sipm_IpAddress val, ipm_TimeToRetire = sipm_TimeToRetire val,
       ipm_Type = sipm_Type val\<rparr>) }"

definition cloudsql_GenerateObservation :: "sql_DatabaseInstance \<Rightarrow> CloudSQLInstanceObservation option" where
  "cloudsql_GenerateObservation in' = do {
     settings \<leftarrow> db_Settings in';
     ips \<leftarrow> mapP cloudsql_ip_mapping (elems (db_IpAddresses in'));
     Some \<lparr>cso_BackendType = db_BackendType in', cso_CurrentDiskSize = db_CurrentDiskSize in',
       cso_ConnectionName = db_ConnectionName in', cso_DiskEncryptionStatus = db_DiskEncryptionStatus in',
       cso_FailoverReplica = map_option sfr_Available (db_FailoverReplica in'),
       cso_GceZone = db_GceZone in', cso_IPAddresses = (if ips = [] then None else Some ips),
       cso_IPv6Address = db_Ipv6Address in', cso_Project = db_Project in', cso_SelfLink = db_SelfLink in',
       cso_ServiceAccountEmailAddress = db_ServiceAccountEmailAddress in', cso_State = db_State in',
       cso_SettingsVersion = sset_SettingsVersion settings\<rparr> }"

section \<open>Late initialisation\<close>

definition late_backup :: "BackupConfiguration \<Rightarrow> sql_BackupConfiguration \<Rightarrow> BackupConfiguration" where
  "late_backup s x = s\<lparr>
     bc_BinaryLogEnabled := LateInitializeBool (bc_BinaryLogEnabled s) (sbc_BinaryLogEnabled x),
     bc_Enabled := LateInitializeBool (bc_Enabled s) (sbc_Enabled x),
     bc_Location := LateInitializeString (bc_Location s) (sbc_Location x),
     bc_ReplicationLogArchivingEnabled := LateInitializeBool (bc_ReplicationLogArchivingEnabled s)
        (sbc_ReplicationLogArchivingEnabled x),
     bc_StartTime := LateInitializeString (bc_StartTime s) (sbc_StartTime x)\<rparr>"

definition BackupConfiguration0 :: BackupConfiguration where
  "BackupConfiguration0 = \<lparr>bc_BinaryLogEnabled = None, bc_Enabled = None, bc_Location = None,
     bc_ReplicationLogArchivingEnabled = None, bc_StartTime = None\<rparr>"

definition late_acl :: "sql_AclEntry option \<Rightarrow> ACLEntry option option" where
  "late_acl val = do {
     val \<leftarrow> val;
     Some (Some \<lparr>acl_ExpirationTime = Some (sacl_ExpirationTime val), acl_Name = Some (sacl_Name val),
       acl_Value = Some (sacl_Value val)\<rparr>) }"

definition IPConfiguration0 :: IPConfiguration where
  "IPConfiguration0 = \<lparr>ipc_AuthorizedNetworks = None, ipc_Ipv4Enabled = None, ipc_PrivateNetwork = None,
     ipc_PrivateNetworkRef = None, ipc_PrivateNetworkSelector = None, ipc_RequireSsl = None\<rparr>"

definition late_ip :: "IPConfiguration option \<Rightarrow> sql_IpConfiguration option \<Rightarrow> IPConfiguration option option" where
  "late_ip spec in' = (case in' of None \<Rightarrow> Some spec
     | Some x \<Rightarrow> do {
         let s = (case spec of None \<Rightarrow> IPConfiguration0 | Some s \<Rightarrow> s);
         let s = s\<lparr>ipc_Ipv4Enabled := LateInitializeBool (ipc_Ipv4Enabled s) (sipc_Ipv4Enabled x),
           ipc_PrivateNetwork := LateInitializeString (ipc_PrivateNetwork s) (sipc_PrivateNetwork x),
           ipc_RequireSsl := LateInitializeBool (ipc_RequireSsl s) (sipc_RequireSsl x)\<rparr>;
         acls \<leftarrow> late_slice late_acl (ipc_AuthorizedNetworks s) (sipc_AuthorizedNetworks x);
         Some (Some (s\<lparr>ipc_AuthorizedNetworks := acls\<rparr>)) })"

definition late_location :: "LocationPreference \<Rightarrow> sql_LocationPreference \<Rightarrow> LocationPreference" where
  "late_location s x = s\<lparr>lp_Zone := LateInitializeString (lp_Zone s) (slp_Zone x),
     lp_FollowGaeApplication := LateInitializeString (lp_FollowGaeApplication s) (slp_FollowGaeApplication x)\<rparr>"

definition late_maintenance :: "MaintenanceWindow \<Rightarrow> sql_MaintenanceWindow \<Rightarrow> MaintenanceWindow" where
  "late_maintenance s x = s\<lparr>mw_UpdateTrack := LateInitializeString (mw_UpdateTrack s) (smw_UpdateTrack x),
     mw_Day := LateInitializeInt64 (mw_Day s) (smw_Day x),
     mw_Hour := LateInitializeInt64 (mw_Hour s) (smw_Hour x)\<rparr>"

definition late_flag :: "sql_DatabaseFlags option \<Rightarrow> DatabaseFlags option option" where
  "late_flag val = do {
     val \<leftarrow> val;
     Some (Some \<lparr>df_Name = sdf_Name val, df_Value = sdf_Value val\<rparr>) }"

definition late_settings :: "Settings \<Rightarrow> sql_Settings \<Rightarrow> Settings option" where
  "late_settings s x = do {
     let s = s\<lparr>
       set_Tier := late_str (set_Tier s) (sset_Tier x),
       set_ActivationPolicy := LateInitializeString (set_ActivationPolicy s) (sset_ActivationPolicy x),
       set_AuthorizedGaeApplications := LateInitializeStringSlice (set_AuthorizedGaeApplications s)
          (sset_AuthorizedGaeApplications x),
       set_AvailabilityType := LateInitializeString (set_AvailabilityType s) (sset_AvailabilityType x),
       set_CrashSafeReplicationEnabled := LateInitializeBool (set_CrashSafeReplicationEnabled s)
          (sset_CrashSafeReplicationEnabled x),
       set_DataDiskType := LateInitializeString (set_DataDiskType s) (sset_DataDiskType x),
       set_PricingPlan := LateInitializeString (set_PricingPlan s) (sset_PricingPlan x),
       set_ReplicationType := LateInitializeString (set_ReplicationType s) (sset_ReplicationType x),
       set_UserLabels := LateInitializeStringMap (set_UserLabels s) (sset_UserLabels x),
       set_DataDiskSizeGb := LateInitializeInt64 (set_DataDiskSizeGb s) (sset_DataDiskSizeGb x),
       set_DatabaseReplicationEnabled := LateInitializeBool (set_DatabaseReplicationEnabled s)
          (sset_DatabaseReplicationEnabled x),
       set_StorageAutoResizeLimit := LateInitializeInt64 (set_StorageAutoResizeLimit s) (sset_StorageAutoResizeLimit x),
       set_StorageAutoResize := late_ptr (set_StorageAutoResize s) (sset_StorageAutoResize x)\<rparr>;
     flags \<leftarrow> late_slice late_flag (set_DatabaseFlags s) (sset_DatabaseFlags x);
     let s = s\<lparr>set_DatabaseFlags := flags,
       set_BackupConfiguration := late_block BackupConfiguration0 late_backup (set_BackupConfiguration s)
          (sset_BackupConfiguration x)\<rparr>;
     ip \<leftarrow> late_ip (set_IPConfiguration s) (sset_IpConfiguration x);
     Some (s\<lparr>set_IPConfiguration := ip,
       set_LocationPreference := late_block \<lparr>lp_FollowGaeApplication = None, lp_Zone = None\<rparr> late_location
          (set_LocationPreference s) (sset_LocationPreference x),
       set_MaintenanceWindow := late_block \<lparr>mw_Day = None, mw_Hour = None, mw_UpdateTrack = None\<rparr> late_maintenance
          (set_MaintenanceWindow s) (sset_MaintenanceWindow x)\<rparr>) }"

definition cloudsql_LateInitializeSpec ::
  "CloudSQLInstanceParameters \<Rightarrow> sql_DatabaseInstance \<Rightarrow> CloudSQLInstanceParameters option" where
  "cloudsql_LateInitializeSpec spec in' = do {
     let spec = spec\<lparr>
       csp_Region := late_str (csp_Region spec) (db_Region in'),
       csp_DatabaseVersion := LateInitializeString (csp_DatabaseVersion spec) (db_DatabaseVersion in'),
       csp_MasterInstanceName := LateInitializeString (csp_MasterInstanceName spec) (db_MasterInstanceName in'),
       csp_GceZone := LateInitializeString (csp_GceZone spec) (db_GceZone in'),
       csp_InstanceType := LateInitializeString (csp_InstanceType spec) (db_InstanceType in'),
       csp_MaxDiskSize := LateInitializeInt64 (csp_MaxDiskSize spec) (db_MaxDiskSize in'),
       csp_ReplicaNames := LateInitializeStringSlice (csp_ReplicaNames spec) (db_ReplicaNames in'),
       csp_SuspensionReason := LateInitializeStringSlice (csp_SuspensionReason spec) (db_SuspensionReason in')\<rparr>;
     settings \<leftarrow> (case db_Settings in' of None \<Rightarrow> Some (csp_Settings spec)
        | Some s \<Rightarrow> late_settings (csp_Settings spec) s);
     let spec = spec\<lparr>csp_Settings := settings,
       csp_DiskEncryptionConfiguration := late_block \<lparr>dec_KmsKeyName = ''''\<rparr>
          (\<lambda>s x. s\<lparr>dec_KmsKeyName := late_str (dec_KmsKeyName s) (dec_KmsKeyName x)\<rparr>)
          (csp_DiskEncryptionConfiguration spec) (db_DiskEncryptionConfiguration in')\<rparr>;
     Some (spec\<lparr>
       csp_FailoverReplica := late_ptr (csp_FailoverReplica spec)
          (map_option (\<lambda>r. \<lparr>frs_Name = sfr_Name r\<rparr>) (db_FailoverReplica in')),
       csp_OnPremisesConfiguration := late_ptr (csp_OnPremisesConfiguration spec)
          (map_option (\<lambda>r. \<lparr>opc_HostPort = opc_HostPort r\<rparr>) (db_OnPremisesConfiguration in'))\<rparr>) }"

section \<open>Comparison and connection details\<close>

definition cloudsql_IsUpToDate ::
  "'e runtime \<Rightarrow> (sql_DatabaseInstance, 'e) copier \<Rightarrow> sql_DatabaseInstance comparer
    \<Rightarrow> string \<Rightarrow> CloudSQLInstanceParameters \<Rightarrow> sql_DatabaseInstance \<Rightarrow> (bool \<times> 'e option) option" where
  "cloudsql_IsUpToDate L copy eq name in' observed =
     (case copy observed of
        Inl err \<Rightarrow> Some (True, errors_Wrap L (Some err) ''unable to determine if external resource is up to date'')
      | Inr None \<Rightarrow> Some (True, Some (errors_New L ''unable to determine if external resource is up to date''))
      | Inr (Some desired) \<Rightarrow> do {
          desired \<leftarrow> GenerateDatabaseInstance name in' desired;
          Some (eq desired observed, None) })"

definition DatabaseUserName :: "CloudSQLInstanceParameters \<Rightarrow> string" where
  "DatabaseUserName p =
     (if HasPrefix (StringValue (csp_DatabaseVersion p)) ''POSTGRES'' then ''postgres'' else ''root'')"

definition GetServerCACertificate :: "sql_DatabaseInstance \<Rightarrow> (string, bytes) fmap option" where
  "GetServerCACertificate in' = (case db_ServerCaCert in' of None \<Rightarrow> None
     | Some c \<Rightarrow> Some (fmap_of_list [
         (''serverCACertificateCert'', ssl_Cert c),
         (''serverCACertificateCertSerialNumber'', ssl_CertSerialNumber c),
         (''serverCACertificateCommonName'', ssl_CommonName c),
         (''serverCACertificateCreateTime'', ssl_CreateTime c),
         (''serverCACertificateExpirationTime'', ssl_ExpirationTime c),
         (''serverCACertificateInstance'', ssl_Instance c),
         (''serverCACertificateSha1Fingerprint'', ssl_Sha1Fingerprint c)]))"

definition PrivateIPType :: string where "PrivateIPType = ''PRIVATE''"
definition PublicIPType :: string where "PublicIPType = ''PRIMARY''"
definition PrivateIPKey :: string where "PrivateIPKey = ''privateIP''"
definition PublicIPKey :: string where "PublicIPKey = ''publicIP''"
definition CloudSQLSecretConnectionName :: string where
  "CloudSQLSecretConnectionName = ''connectionName''"

definition add_address :: "IPMapping \<Rightarrow> (string, bytes) fmap \<Rightarrow> (string, bytes) fmap" where
  "add_address ip m =
     (let m = (if ipm_Type ip = PrivateIPType
               then fmupd ResourceCredentialsSecretEndpointKey (ipm_IPAddress ip)
                      (fmupd PrivateIPKey (ipm_IPAddress ip) m)
               else m)
      in if ipm_Type ip = PublicIPType
         then let m = fmupd PublicIPKey (ipm_IPAddress ip) m in
              if fmlookup m ResourceCredentialsSecretEndpointKey \<in> {None, Some []}
              then fmupd ResourceCredentialsSecretEndpointKey (ipm_IPAddress ip) m else m
         else m)"

fun add_addresses :: "IPMapping option list \<Rightarrow> (string, bytes) fmap \<Rightarrow> (string, bytes) fmap option" where
  "add_addresses [] m = Some m"
| "add_addresses (ip # ips) m = do { ip \<leftarrow> ip; add_addresses ips (add_address ip m) }"

definition getConnectionDetails ::
  "CloudSQLInstance \<Rightarrow> sql_DatabaseInstance \<Rightarrow> (string, bytes) fmap option" where
  "getConnectionDetails cr instance' = do {
     let m = fmap_of_list [(ResourceCredentialsSecretUserKey, DatabaseUserName (ForProvider cr)),
                           (CloudSQLSecretConnectionName, db_ConnectionName instance')];
     m \<leftarrow> add_addresses (elems (cso_IPAddresses (AtProvider cr))) m;
     Some (case GetServerCACertificate instance' of None \<Rightarrow> m | Some certs \<Rightarrow> fmadd m certs) }"

section \<open>Controller\<close>

definition StateRunnable :: string where "StateRunnable = ''RUNNABLE''"
definition StateCreating :: string where "StateCreating = ''PENDING_CREATE''"
definition StateSuspended :: string where "StateSuspended = ''SUSPENDED''"
definition StateMaintenance :: string where "StateMaintenance = ''MAINTENANCE''"
definition StateCreationFailed :: string where "StateCreationFailed = ''FAILED''"
definition StateUnknownState :: string where "StateUnknownState = ''UNKNOWN_STATE''"

definition errNotCloudSQL :: string where
  "errNotCloudSQL = ''managed resource is not a CloudSQLInstance custom resource''"
definition sql_errManagedUpdateFailed :: string where
  "sql_errManagedUpdateFailed = ''cannot update CloudSQLInstance custom resource''"
definition sql_errNewClient :: string where
  "sql_errNewClient = ''cannot create new Sqladmin Service''"
definition sql_errCreateFailed :: string where
  "sql_errCreateFailed = ''cannot create new CloudSQL instance''"
definition sql_errNameInUse :: string where
  "sql_errNameInUse = ''cannot create new CloudSQL instance, resource name is unavailable because it is in use or was used recently''"
definition sql_errDeleteFailed :: string where
  "sql_errDeleteFailed = ''cannot delete the CloudSQL instance''"
definition sql_errUpdateFailed :: string where
  "sql_errUpdateFailed = ''cannot update the CloudSQL instance''"
definition sql_errGetFailed :: string where
  "sql_errGetFailed = ''cannot get the CloudSQL instance''"
definition errGeneratePassword :: string where
  "errGeneratePassword = ''cannot generate root password''"
definition sql_errCheckUpToDate :: string where
  "sql_errCheckUpToDate = ''cannot determine if CloudSQL instance is up to date''"

record ('w, 'e) cloudsqlExternal =
  sql_runtime :: "'e runtime"
  sql_copy :: "(sql_DatabaseInstance, 'e) copier"
  sql_cmp :: "sql_DatabaseInstance comparer"
  sql_spec_cmp :: "CloudSQLInstanceParameters comparer"
  sql_kube_Update :: "('w, CloudSQLInstance, 'e) kube_update"
  sql_projectID :: string
  sql_Get :: "string \<Rightarrow> string \<Rightarrow> ('w, sql_DatabaseInstance, 'e) call"
  sql_Insert :: "string \<Rightarrow> sql_DatabaseInstance \<Rightarrow> ('w, unit, 'e) call"
  sql_Patch :: "string \<Rightarrow> string \<Rightarrow> sql_DatabaseInstance \<Rightarrow> ('w, unit, 'e) call"
  sql_Delete :: "string \<Rightarrow> string \<Rightarrow> ('w, unit, 'e) call"
  password_Generate :: "('w, string, 'e) call"

definition cloudsql_Connect ::
  "'e runtime \<Rightarrow> ('w, CloudSQLInstance, 'src, 'sel, 'e) auth_api
    \<Rightarrow> (string \<Rightarrow> ClientOption option \<Rightarrow> ('w, ('w, 'e) cloudsqlExternal, 'e) call)
    \<Rightarrow> CloudSQLInstance \<Rightarrow> 'w \<Rightarrow> ('w \<times> ('w, 'e) cloudsqlExternal option \<times> 'e option) option" where
  "cloudsql_Connect L c newService mg w = connect_service L c sql_errNewClient newService mg w"

definition cloudsql_state_condition :: "string \<Rightarrow> CloudSQLInstance \<Rightarrow> CloudSQLInstance" where
  "cloudsql_state_condition state cr =
     (if state = StateRunnable then SetConditions Available cr
      else if state = StateCreating then SetConditions Creating cr
      else if state \<in> {StateCreationFailed, StateSuspended, StateMaintenance, StateUnknownState}
      then SetConditions Unavailable cr else cr)"

definition cloudsql_Observe ::
  "('w, 'e) cloudsqlExternal \<Rightarrow> CloudSQLInstance option \<Rightarrow> 'w
    \<Rightarrow> ('w, CloudSQLInstance, ExternalObservation, 'e) outcome option" where
  "cloudsql_Observe c mg w =
     (let L = sql_runtime c in
      case mg of
        None \<Rightarrow> Some (w, None, ExternalObservation0, Some (errors_New L errNotCloudSQL))
      | Some cr \<Rightarrow>
         (case sql_Get c (sql_projectID c) (ExternalName cr) w of
            (w1, Inl err) \<Rightarrow> Some (w1, Some cr, ExternalObservation0,
               errors_Wrap L (resource_Ignore L (IsErrorNotFound L) (Some err)) sql_errGetFailed)
          | (w1, Inr instance') \<Rightarrow> do {
              let currentSpec = ForProvider cr;
              spec \<leftarrow> cloudsql_LateInitializeSpec (ForProvider cr) instance';
              let cr = cr\<lparr>ForProvider := spec\<rparr>;
              let (w2, cr, err) = (if \<not> sql_spec_cmp c currentSpec (ForProvider cr)
                                   then sql_kube_Update c cr w1 else (w1, cr, None));
              if err \<noteq> None
              then Some (w2, Some cr, ExternalObservation0, errors_Wrap L err sql_errManagedUpdateFailed)
              else do {
                at \<leftarrow> cloudsql_GenerateObservation instance';
                let cr = cr\<lparr>AtProvider := at\<rparr>;
                let cr = cloudsql_state_condition (cso_State (AtProvider cr)) cr;
                (upToDate, err) \<leftarrow> cloudsql_IsUpToDate L (sql_copy c) (sql_cmp c) (ExternalName cr)
                                      (ForProvider cr) instance';
                if err \<noteq> None
                then Some (w2, Some cr, ExternalObservation0, errors_Wrap L err sql_errCheckUpToDate)
                else do {
                  details \<leftarrow> getConnectionDetails cr instance';
                  Some (w2, Some cr, ExternalObservation0\<lparr>ResourceExists := True,
                    ResourceUpToDate := upToDate, ObservedDetails := Some details\<rparr>, None) } } }))"

definition cloudsql_Create ::
  "('w, 'e) cloudsqlExternal \<Rightarrow> CloudSQLInstance option \<Rightarrow> 'w
    \<Rightarrow> ('w, CloudSQLInstance, ExternalCreation, 'e) outcome option" where
  "cloudsql_Create c mg w =
     (let L = sql_runtime c in
      case mg of
        None \<Rightarrow> Some (w, None, ExternalCreation0, Some (errors_New L errNotCloudSQL))
      | Some cr \<Rightarrow> do {
          let cr = SetConditions Creating cr;
          instance' \<leftarrow> GenerateDatabaseInstance (ExternalName cr) (ForProvider cr) sql_DatabaseInstance0;
          (case password_Generate c w of
             (w1, Inl err) \<Rightarrow> Some (w1, Some cr, ExternalCreation0, errors_Wrap L (Some err) errGeneratePassword)
           | (w1, Inr pw) \<Rightarrow>
               let instance' = instance'\<lparr>db_RootPassword := pw\<rparr> in
               (case sql_Insert c (sql_projectID c) instance' w1 of
                  (w2, Inl err) \<Rightarrow>
                    if IsErrorAlreadyExists L (Some err)
                    then Some (w2, Some cr, ExternalCreation0, errors_Wrap L (Some err) sql_errNameInUse)
                    else Some (w2, Some cr, ExternalCreation0, errors_Wrap L (Some err) sql_errCreateFailed)
                | (w2, Inr _) \<Rightarrow> Some (w2, Some cr, ExternalCreation0\<lparr>CreatedDetails :=
                     Some (fmap_of_list [(ResourceCredentialsSecretPasswordKey, pw)])\<rparr>, None))) })"

definition cloudsql_Update ::
  "('w, 'e) cloudsqlExternal \<Rightarrow> CloudSQLInstance option \<Rightarrow> 'w
    \<Rightarrow> ('w, CloudSQLInstance, ExternalUpdate, 'e) outcome option" where
  "cloudsql_Update c mg w =
     (let L = sql_runtime c in
      case mg of
        None \<Rightarrow> Some (w, None, ExternalUpdate0, Some (errors_New L errNotCloudSQL))
      | Some cr \<Rightarrow>
          if cso_State (AtProvider cr) = StateCreating then Some (w, Some cr, ExternalUpdate0, None)
          else do {
            instance' \<leftarrow> GenerateDatabaseInstance (ExternalName cr) (ForProvider cr) sql_DatabaseInstance0;
            let r = sql_Patch c (sql_projectID c) (ExternalName cr) instance' w;
            Some (fst r, Some cr, ExternalUpdate0, errors_Wrap L (call_error r) sql_errUpdateFailed) })"

definition cloudsql_Delete ::
  "('w, 'e) cloudsqlExternal \<Rightarrow> CloudSQLInstance option \<Rightarrow> 'w \<Rightarrow> ('w, CloudSQLInstance, unit, 'e) outcome" where
  "cloudsql_Delete c mg w =
     (let L = sql_runtime c in
      case mg of
        None \<Rightarrow> (w, None, (), Some (errors_New L errNotCloudSQL))
      | Some cr \<Rightarrow>
          let cr = SetConditions Deleting cr;
              r = sql_Delete c (sql_projectID c) (ExternalName cr) w
          in if IsErrorNotFound L (call_error r) then (fst r, Some cr, (), None)
             else (fst r, Some cr, (), errors_Wrap L (call_error r) sql_errDeleteFailed))"

text \<open>\<open>cloudsqlTagger.Initialize\<close>; \<open>tags\<close> is \<open>resource.GetExternalTags(cr)\<close>. The keys of the map are
  distinct, so the order of the loop does not matter.\<close>

definition cloudsqlTagger_Initialize ::
  "'e runtime \<Rightarrow> (CloudSQLInstance \<Rightarrow> (string, string) fmap) \<Rightarrow> ('w, CloudSQLInstance, 'e) kube_update
    \<Rightarrow> CloudSQLInstance option \<Rightarrow> 'w \<Rightarrow> 'w \<times> CloudSQLInstance option \<times> 'e option" where
  "cloudsqlTagger_Initialize L tags upd mg w =
     (case mg of
        None \<Rightarrow> (w, None, Some (errors_New L errNotCloudSQL))
      | Some cr \<Rightarrow>
          let labels = (case set_UserLabels (csp_Settings (ForProvider cr)) of None \<Rightarrow> fmempty | Some m \<Rightarrow> m);
              labels = fmadd labels (fmmap (\<lambda>v. ToLower (ReplaceAll v ''.'' ''_'')) (tags cr));
              spec = (ForProvider cr)\<lparr>csp_Settings := (csp_Settings (ForProvider cr))\<lparr>set_UserLabels := Some labels\<rparr>\<rparr>;
              (w1, cr, err) = upd (cr\<lparr>ForProvider := spec\<rparr>) w
          in (w1, Some cr, errors_Wrap L err sql_errManagedUpdateFailed))"

end
