(* ===== verification/Cloud_SQL_Correct.thy ===== *)
theory Cloud_SQL_Correct
  imports Cloud_SQL
begin

text \<open>
  Correctness of the CloudSQL client and controller: late initialisation settles and keeps
  what the user has set, an existing instance is adopted without a change, and the connection
  secret is built and published as intended.
\<close>

section \<open>Late initialisation settles and keeps what is set\<close>

lemma late_block_idems:
  "late_backup (late_backup b x) x = late_backup b x"
  "late_location (late_location l y) y = late_location l y"
  "late_maintenance (late_maintenance m z) z = late_maintenance m z"
  by (simp_all add: late_backup_def late_location_def late_maintenance_def)

lemma late_ip_settles: "late_ip s x = Some s' \<Longrightarrow> late_ip s' x = Some s'"
  by (auto simp: late_ip_def Let_def bind_eq_Some_conv late_slice_settles split: option.splits)

lemma late_settings_settles: "late_settings s x = Some s' \<Longrightarrow> late_settings s' x = Some s'"
  by (auto simp: late_settings_def Let_def bind_eq_Some_conv late_slice_settles late_ip_settles
      late_block_settles late_block_idems)

lemma cloudsql_init_settles:
  "cloudsql_LateInitializeSpec s x = Some s' \<Longrightarrow> cloudsql_LateInitializeSpec s' x = Some s'"
  by (cases "db_Settings x")
    (auto simp: cloudsql_LateInitializeSpec_def Let_def bind_eq_Some_conv late_settings_settles
      late_block_settles)

definition backup_keeps :: "BackupConfiguration \<Rightarrow> BackupConfiguration \<Rightarrow> bool" where
  "backup_keeps a b \<longleftrightarrow> keeps_ptr (bc_BinaryLogEnabled a) (bc_BinaryLogEnabled b)
     \<and> keeps_ptr (bc_Enabled a) (bc_Enabled b) \<and> keeps_ptr (bc_Location a) (bc_Location b)
     \<and> keeps_ptr (bc_ReplicationLogArchivingEnabled a) (bc_ReplicationLogArchivingEnabled b)
     \<and> keeps_ptr (bc_StartTime a) (bc_StartTime b)"

definition ip_keeps :: "IPConfiguration \<Rightarrow> IPConfiguration \<Rightarrow> bool" where
  "ip_keeps a b \<longleftrightarrow> keeps_slice (ipc_AuthorizedNetworks a) (ipc_AuthorizedNetworks b)
     \<and> keeps_ptr (ipc_Ipv4Enabled a) (ipc_Ipv4Enabled b)
     \<and> keeps_ptr (ipc_PrivateNetwork a) (ipc_PrivateNetwork b)
     \<and> keeps_ptr (ipc_RequireSsl a) (ipc_RequireSsl b)
     \<and> ipc_PrivateNetworkRef b = ipc_PrivateNetworkRef a
     \<and> ipc_PrivateNetworkSelector b = ipc_PrivateNetworkSelector a"

definition location_keeps :: "LocationPreference \<Rightarrow> LocationPreference \<Rightarrow> bool" where
  "location_keeps a b \<longleftrightarrow> keeps_ptr (lp_FollowGaeApplication a) (lp_FollowGaeApplication b)
     \<and> keeps_ptr (lp_Zone a) (lp_Zone b)"

definition maintenance_keeps :: "MaintenanceWindow \<Rightarrow> MaintenanceWindow \<Rightarrow> bool" where
  "maintenance_keeps a b \<longleftrightarrow> keeps_ptr (mw_Day a) (mw_Day b) \<and> keeps_ptr (mw_Hour a) (mw_Hour b)
     \<and> keeps_ptr (mw_UpdateTrack a) (mw_UpdateTrack b)"

definition settings_keeps :: "Settings \<Rightarrow> Settings \<Rightarrow> bool" where
  "settings_keeps a b \<longleftrightarrow> keeps_str (set_Tier a) (set_Tier b)
     \<and> keeps_ptr (set_ActivationPolicy a) (set_ActivationPolicy b)
     \<and> keeps_slice (set_AuthorizedGaeApplications a) (set_AuthorizedGaeApplications b)
     \<and> keeps_ptr (set_AvailabilityType a) (set_AvailabilityType b)
     \<and> keeps_ptr (set_CrashSafeReplicationEnabled a) (set_CrashSafeReplicationEnabled b)
     \<and> keeps_ptr (set_StorageAutoResize a) (set_StorageAutoResize b)
     \<and> keeps_ptr (set_DataDiskType a) (set_DataDiskType b)
     \<and> keeps_ptr (set_PricingPlan a) (set_PricingPlan b)
     \<and> keeps_ptr (set_ReplicationType a) (set_ReplicationType b)
     \<and> keeps_map (set_UserLabels a) (set_UserLabels b)
     \<and> keeps_slice (set_DatabaseFlags a) (set_DatabaseFlags b)
     \<and> keeps_struct backup_keeps (set_BackupConfiguration a) (set_BackupConfiguration b)
     \<and> keeps_struct ip_keeps (set_IPConfiguration a) (set_IPConfiguration b)
     \<and> keeps_struct location_keeps (set_LocationPreference a) (set_LocationPreference b)
     \<and> keeps_struct maintenance_keeps (set_MaintenanceWindow a) (set_MaintenanceWindow b)
     \<and> keeps_ptr (set_DataDiskSizeGb a) (set_DataDiskSizeGb b)
     \<and> keeps_ptr (set_DatabaseReplicationEnabled a) (set_DatabaseReplicationEnabled b)
     \<and> keeps_ptr (set_StorageAutoResizeLimit a) (set_StorageAutoResizeLimit b)"

definition cloudsql_keeps :: "CloudSQLInstanceParameters \<Rightarrow> CloudSQLInstanceParameters \<Rightarrow> bool" where
  "cloudsql_keeps a b \<longleftrightarrow> keeps_str (csp_Region a) (csp_Region b)
     \<and> settings_keeps (csp_Settings a) (csp_Settings b)
     \<and> keeps_ptr (csp_DatabaseVersion a) (csp_DatabaseVersion b)
     \<and> keeps_ptr (csp_MasterInstanceName a) (csp_MasterInstanceName b)
     \<and> keeps_struct (\<lambda>x y. keeps_str (dec_KmsKeyName x) (dec_KmsKeyName y))
         (csp_DiskEncryptionConfiguration a) (csp_DiskEncryptionConfiguration b)
     \<and> keeps_ptr (csp_FailoverReplica a) (csp_FailoverReplica b)
     \<and> keeps_ptr (csp_GceZone a) (csp_GceZone b) \<and> keeps_ptr (csp_InstanceType a) (csp_InstanceType b)
     \<and> keeps_ptr (csp_MaxDiskSize a) (csp_MaxDiskSize b)
     \<and> keeps_ptr (csp_OnPremisesConfiguration a) (csp_OnPremisesConfiguration b)
     \<and> keeps_slice (csp_ReplicaNames a) (csp_ReplicaNames b)
     \<and> keeps_slice (csp_SuspensionReason a) (csp_SuspensionReason b)"

lemma block_keeps:
  "backup_keeps b b" "location_keeps l l" "maintenance_keeps m m" "ip_keeps i i"
  "backup_keeps b (late_backup b x)" "location_keeps l (late_location l y)"
  "maintenance_keeps m (late_maintenance m z)"
  by (simp_all add: backup_keeps_def location_keeps_def maintenance_keeps_def ip_keeps_def
      late_backup_def late_location_def late_maintenance_def)

lemma late_ip_keeps: "late_ip s x = Some s' \<Longrightarrow> keeps_struct ip_keeps s s'"
  by (cases s; cases x)
    (auto simp: late_ip_def ip_keeps_def Let_def bind_eq_Some_conv dest: late_slice_keeps)

lemma settings_keeps_refl: "settings_keeps s s"
  by (simp add: settings_keeps_def keeps_struct_refl block_keeps)

lemma late_settings_keeps: "late_settings s x = Some s' \<Longrightarrow> settings_keeps s s'"
  by (auto simp: late_settings_def settings_keeps_def Let_def bind_eq_Some_conv late_block_keeps block_keeps
      late_ip_keeps late_slice_keeps )

lemma cloudsql_init_keeps: "cloudsql_LateInitializeSpec s x = Some s' \<Longrightarrow> cloudsql_keeps s s'"
  by (auto simp: cloudsql_LateInitializeSpec_def cloudsql_keeps_def Let_def bind_eq_Some_conv
      late_block_keeps late_settings_keeps settings_keeps_refl split: option.splits)

interpretation cloudsql_init: late_initializer cloudsql_LateInitializeSpec cloudsql_keeps
proof
  show "cloudsql_keeps s s" for s
    by (simp add: cloudsql_keeps_def settings_keeps_refl keeps_struct_refl)
qed (auto intro: cloudsql_init_settles cloudsql_init_keeps)

section \<open>Adoption\<close>

text \<open>The comparison equates nil with empty slices and maps and ignores the \<open>ForceSendFields\<close> of the IP
  configuration.\<close>

definition sql_settings_view :: "sql_Settings \<Rightarrow> sql_Settings" where
  "sql_settings_view s = s\<lparr>
     sset_AuthorizedGaeApplications := nil_slice (sset_AuthorizedGaeApplications s),
     sset_UserLabels := nil_map (sset_UserLabels s),
     sset_DatabaseFlags := nil_slice (sset_DatabaseFlags s),
     sset_IpConfiguration := map_option (\<lambda>i. i\<lparr>sipc_ForceSendFields := None,
        sipc_AuthorizedNetworks := nil_slice (sipc_AuthorizedNetworks i)\<rparr>) (sset_IpConfiguration s)\<rparr>"

definition sql_view :: "sql_DatabaseInstance \<Rightarrow> sql_DatabaseInstance" where
  "sql_view db = db\<lparr>db_ReplicaNames := nil_slice (db_ReplicaNames db),
     db_SuspensionReason := nil_slice (db_SuspensionReason db),
     db_Settings := map_option sql_settings_view (db_Settings db)\<rparr>"

definition empty_Settings :: Settings where
  "empty_Settings = \<lparr>set_Tier = '''', set_ActivationPolicy = None, set_AuthorizedGaeApplications = None,
     set_AvailabilityType = None, set_CrashSafeReplicationEnabled = None, set_StorageAutoResize = None,
     set_DataDiskType = None, set_PricingPlan = None, set_ReplicationType = None, set_UserLabels = None,
     set_DatabaseFlags = None, set_BackupConfiguration = None, set_IPConfiguration = None,
     set_LocationPreference = None, set_MaintenanceWindow = None, set_DataDiskSizeGb = None,
     set_DatabaseReplicationEnabled = None, set_StorageAutoResizeLimit = None\<rparr>"

definition empty_CloudSQLInstanceParameters :: CloudSQLInstanceParameters where
  "empty_CloudSQLInstanceParameters = \<lparr>csp_Region = '''', csp_Settings = empty_Settings,
     csp_DatabaseVersion = None, csp_MasterInstanceName = None, csp_DiskEncryptionConfiguration = None,
     csp_FailoverReplica = None, csp_GceZone = None, csp_InstanceType = None, csp_MaxDiskSize = None,
     csp_OnPremisesConfiguration = None, csp_ReplicaNames = None, csp_SuspensionReason = None\<rparr>"

definition acl_kinds_ok :: "sql_Settings \<Rightarrow> bool" where
  \<comment> \<open>the service labels every entry of the access list with its kind\<close>
  "acl_kinds_ok s \<longleftrightarrow> (case sset_IpConfiguration s of None \<Rightarrow> True
     | Some i \<Rightarrow> \<forall>p\<in>set (elems (sipc_AuthorizedNetworks i)).
         case p of None \<Rightarrow> True | Some a \<Rightarrow> sacl_Kind a = ''sql#aclEntry'')"

lemma acl_round_trip:
  "late_acl p = Some q \<Longrightarrow> (case p of None \<Rightarrow> True | Some a \<Rightarrow> sacl_Kind a = ''sql#aclEntry'') \<Longrightarrow> gen_acl q = Some p"
  by (cases p) (auto simp: late_acl_def gen_acl_def)

lemma flag_round_trip: "late_flag p = Some q \<Longrightarrow> gen_flag q = Some p"
  by (cases p) (auto simp: late_flag_def gen_flag_def)

lemma ip_adopt:
  assumes "late_ip None x = Some s" and "acl_kinds_ok st" and "sset_IpConfiguration st = x"
  shows "gen_ip s x = Some (map_option (\<lambda>i. i\<lparr>sipc_ForceSendFields := Some [''Ipv4Enabled'']\<rparr>) x)"
proof (cases x)
  case None
  with assms(1) show ?thesis by (simp add: late_ip_def gen_ip_def)
next
  case (Some i)
  with assms(1) obtain acls where a: "late_slice late_acl None (sipc_AuthorizedNetworks i) = Some acls"
      "s = Some \<lparr>ipc_AuthorizedNetworks = acls, ipc_Ipv4Enabled = LateInitializeBool None (sipc_Ipv4Enabled i),
        ipc_PrivateNetwork = LateInitializeString None (sipc_PrivateNetwork i), ipc_PrivateNetworkRef = None,
        ipc_PrivateNetworkSelector = None, ipc_RequireSsl = LateInitializeBool None (sipc_RequireSsl i)\<rparr>"
    by (auto simp: late_ip_def Let_def bind_eq_Some_conv IPConfiguration0_def)
  have "gen_slice gen_acl acls (sipc_AuthorizedNetworks i) = Some (sipc_AuthorizedNetworks i)"
    by (rule gen_slice_adopt [OF _ a(1)])
      (use assms(2,3) Some in \<open>auto simp: acl_kinds_ok_def intro: acl_round_trip\<close>)
  with a(2) Some show ?thesis by (simp add: gen_ip_def Let_def)
qed

lemma settings_adopt:
  assumes "late_settings empty_Settings x = Some s" and "acl_kinds_ok x"
  shows "\<exists>y. gen_settings s x = Some y \<and> sql_settings_view y = sql_settings_view x"
proof -
  obtain flags ip where f: "late_slice late_flag None (sset_DatabaseFlags x) = Some flags"
      and i: "late_ip None (sset_IpConfiguration x) = Some ip"
      and s: "set_DatabaseFlags s = flags" "set_IPConfiguration s = ip"
    using assms(1) by (auto simp: late_settings_def Let_def bind_eq_Some_conv empty_Settings_def)
  have gf: "gen_slice gen_flag flags (sset_DatabaseFlags x) = Some (sset_DatabaseFlags x)"
    by (rule gen_slice_adopt [OF _ f]) (rule flag_round_trip)
  note gi = ip_adopt [OF i assms(2) refl]
  have gb: "gen_block z gen_backup (late_block BackupConfiguration0 late_backup None b) b = b" for z b
    by (rule gen_block_adopt) (simp add: gen_backup_def late_backup_def BackupConfiguration0_def)
  have gl: "gen_block z gen_location
      (late_block \<lparr>lp_FollowGaeApplication = None, lp_Zone = None\<rparr> late_location None b) b = b" for z b
    by (rule gen_block_adopt) (simp add: gen_location_def late_location_def)
  have gm: "gen_block z gen_maintenance
      (late_block \<lparr>mw_Day = None, mw_Hour = None, mw_UpdateTrack = None\<rparr> late_maintenance None b) b = b" for z b
    by (rule gen_block_adopt) (simp add: gen_maintenance_def late_maintenance_def)
  show ?thesis
    using assms(1) f i gf gi
    by (auto simp: late_settings_def Let_def empty_Settings_def gen_settings_def gb gl gm sql_settings_view_def
        option.map_comp comp_def)
qed

lemma cloudsql_adopt:
  assumes "cloudsql_LateInitializeSpec empty_CloudSQLInstanceParameters x = Some s"
    and "db_Settings x = Some st" and "acl_kinds_ok st"
  shows "\<exists>y. GenerateDatabaseInstance (db_Name x) s x = Some y \<and> sql_view y = sql_view x"
proof -
  obtain t where t: "late_settings empty_Settings st = Some t" "csp_Settings s = t"
    using assms(1,2)
    by (auto simp: cloudsql_LateInitializeSpec_def Let_def bind_eq_Some_conv empty_CloudSQLInstanceParameters_def)
  obtain y where y: "gen_settings t st = Some y" "sql_settings_view y = sql_settings_view st"
    using settings_adopt [OF t(1) assms(3)] by blast
  have gd: "gen_block z (\<lambda>a b. b\<lparr>dec_KmsKeyName := dec_KmsKeyName a\<rparr>)
      (late_block \<lparr>dec_KmsKeyName = ''''\<rparr> (\<lambda>s x. s\<lparr>dec_KmsKeyName := late_str (dec_KmsKeyName s) (dec_KmsKeyName x)\<rparr>)
        None b) b = b" for z b
    by (rule gen_block_adopt) simp
  have gf: "gen_block z (\<lambda>a b. b\<lparr>sfr_Name := frs_Name a\<rparr>) (map_option (\<lambda>r. \<lparr>frs_Name = sfr_Name r\<rparr>) b) b = b"
    for z b by (cases b) (simp_all add: gen_block_def)
  have go: "gen_block z (\<lambda>a b. b\<lparr>opc_HostPort := opc_HostPort a\<rparr>) (map_option (\<lambda>r. \<lparr>opc_HostPort = opc_HostPort r\<rparr>) b) b = b"
    for z b by (cases b) (simp_all add: gen_block_def)
  have s: "s = \<lparr>csp_Region = db_Region x, csp_Settings = t,
      csp_DatabaseVersion = LateInitializeString None (db_DatabaseVersion x),
      csp_MasterInstanceName = LateInitializeString None (db_MasterInstanceName x),
      csp_DiskEncryptionConfiguration = late_block \<lparr>dec_KmsKeyName = ''''\<rparr>
        (\<lambda>s x. s\<lparr>dec_KmsKeyName := late_str (dec_KmsKeyName s) (dec_KmsKeyName x)\<rparr>) None (db_DiskEncryptionConfiguration x),
      csp_FailoverReplica = map_option (\<lambda>r. \<lparr>frs_Name = sfr_Name r\<rparr>) (db_FailoverReplica x),
      csp_GceZone = LateInitializeString None (db_GceZone x),
      csp_InstanceType = LateInitializeString None (db_InstanceType x),
      csp_MaxDiskSize = LateInitializeInt64 None (db_MaxDiskSize x),
      csp_OnPremisesConfiguration = map_option (\<lambda>r. \<lparr>opc_HostPort = opc_HostPort r\<rparr>) (db_OnPremisesConfiguration x),
      csp_ReplicaNames = LateInitializeStringSlice None (db_ReplicaNames x),
      csp_SuspensionReason = LateInitializeStringSlice None (db_SuspensionReason x)\<rparr>"
    using assms(1,2) t by (simp add: cloudsql_LateInitializeSpec_def empty_CloudSQLInstanceParameters_def)
  show ?thesis
    using assms(2) y by (simp add: s GenerateDatabaseInstance_def gd gf go sql_view_def)
qed

section \<open>The endpoint of the connection secret\<close>

fun addresses_of :: "string \<Rightarrow> IPMapping option list \<Rightarrow> string list" where
  "addresses_of ty [] = []"
| "addresses_of ty (None # ips) = addresses_of ty ips"
| "addresses_of ty (Some ip # ips) =
     (if ipm_Type ip = ty then ipm_IPAddress ip # addresses_of ty ips else addresses_of ty ips)"

abbreviation endpoint :: "(string, bytes) fmap \<Rightarrow> bytes option" where
  "endpoint m \<equiv> fmlookup m ResourceCredentialsSecretEndpointKey"

lemmas key_defs = ResourceCredentialsSecretEndpointKey_def PrivateIPKey_def PublicIPKey_def
  PrivateIPType_def PublicIPType_def ResourceCredentialsSecretUserKey_def CloudSQLSecretConnectionName_def

lemma endpoint_add_address:
  "endpoint (add_address ip m) =
     (if ipm_Type ip = PrivateIPType then Some (ipm_IPAddress ip)
      else if ipm_Type ip = PublicIPType \<and> endpoint m \<in> {None, Some []} then Some (ipm_IPAddress ip)
      else endpoint m)"
  by (simp add: add_address_def Let_def key_defs)

lemma add_addresses_no_private:
  "None \<notin> set ips \<Longrightarrow> addresses_of PrivateIPType ips = [] \<Longrightarrow> endpoint m = Some (c # cs) \<Longrightarrow>
     \<exists>m'. add_addresses ips m = Some m' \<and> endpoint m' = Some (c # cs)"
proof (induction ips arbitrary: m)
  case (Cons p ips)
  then obtain ip where p: "p = Some ip" "ipm_Type ip \<noteq> PrivateIPType" "addresses_of PrivateIPType ips = []"
    by (cases p) (auto split: if_splits)
  then have "endpoint (add_address ip m) = Some (c # cs)"
    using Cons.prems(3) by (simp add: endpoint_add_address)
  with Cons.IH p Cons.prems(1) show ?case by simp
qed simp

lemma add_addresses_private:
  "None \<notin> set ips \<Longrightarrow> addresses_of PrivateIPType ips \<noteq> [] \<Longrightarrow> last (addresses_of PrivateIPType ips) \<noteq> [] \<Longrightarrow>
     \<exists>m'. add_addresses ips m = Some m' \<and> endpoint m' = Some (last (addresses_of PrivateIPType ips))"
proof (induction ips arbitrary: m)
  case (Cons p ips)
  then obtain ip where p: "p = Some ip" by (cases p) auto
  show ?case
  proof (cases "addresses_of PrivateIPType ips = []")
    case True
    with Cons.prems p have "ipm_Type ip = PrivateIPType" "ipm_IPAddress ip \<noteq> []"
      by (auto split: if_splits)
    with True Cons.prems(1) p show ?thesis
      using add_addresses_no_private [of ips "add_address ip m"]
      by (cases "ipm_IPAddress ip") (auto simp: endpoint_add_address)
  next
    case False
    with Cons.IH [of "add_address ip m"] Cons.prems p show ?thesis by (auto split: if_splits)
  qed
qed simp

lemma add_addresses_public:
  "None \<notin> set ips \<Longrightarrow> addresses_of PrivateIPType ips = [] \<Longrightarrow> addresses_of PublicIPType ips = a # as \<Longrightarrow>
   a \<noteq> [] \<Longrightarrow> endpoint m = None \<Longrightarrow> \<exists>m'. add_addresses ips m = Some m' \<and> endpoint m' = Some a"
proof (induction ips arbitrary: m)
  case (Cons p ips)
  then obtain ip where p: "p = Some ip" "ipm_Type ip \<noteq> PrivateIPType" "addresses_of PrivateIPType ips = []"
    by (cases p) (auto split: if_splits)
  show ?case
  proof (cases "ipm_Type ip = PublicIPType")
    case True
    with Cons.prems p have "ipm_IPAddress ip = a" "endpoint (add_address ip m) = Some a"
      by (auto simp: endpoint_add_address)
    with Cons.prems p show ?thesis
      using add_addresses_no_private [of ips "add_address ip m"] by (cases a) auto
  next
    case False
    with Cons.prems p have "endpoint (add_address ip m) = None" by (simp add: endpoint_add_address)
    with Cons.IH [of "add_address ip m"] Cons.prems p False show ?thesis by auto
  qed
qed simp

lemma add_addresses_total: "None \<notin> set ips \<Longrightarrow> \<exists>m'. add_addresses ips m = Some m'"
proof (induction ips arbitrary: m)
  case (Cons p ips)
  then show ?case by (cases p) auto
qed simp

lemma certificate_no_endpoint:
  "GetServerCACertificate x = Some certs \<Longrightarrow> endpoint certs = None"
  by (auto simp: GetServerCACertificate_def fmlookup_of_list key_defs split: option.splits)

lemma details_endpoint:
  assumes "add_addresses (elems (cso_IPAddresses (AtProvider cr)))
      (fmap_of_list [(ResourceCredentialsSecretUserKey, DatabaseUserName (ForProvider cr)),
                     (CloudSQLSecretConnectionName, db_ConnectionName x)]) = Some m"
  shows "\<exists>d. getConnectionDetails cr x = Some d \<and> endpoint d = endpoint m"
  using assms certificate_no_endpoint [of x]
  by (cases "GetServerCACertificate x")
    (auto simp: getConnectionDetails_def Let_def fmlookup_dom_iff)

lemma GenerateDatabaseInstance_name: "GenerateDatabaseInstance name p x = Some d \<Longrightarrow> db_Name d = name"
  by (auto simp: GenerateDatabaseInstance_def Let_def bind_eq_Some_conv)

section \<open>Sample instances\<close>

definition sample_sql_settings :: sql_Settings where
  "sample_sql_settings = sql_Settings0\<lparr>sset_Tier := ''db-n1'', sset_UserLabels := Some fmempty,
     sset_BackupConfiguration := Some (sql_BackupConfiguration0\<lparr>sbc_Enabled := True\<rparr>),
     sset_IpConfiguration := Some (sql_IpConfiguration0\<lparr>sipc_AuthorizedNetworks :=
        Some [Some \<lparr>sacl_ExpirationTime = '''', sacl_Name = ''n'', sacl_Value = ''10.0.0.0/8'',
                    sacl_Kind = ''sql#aclEntry''\<rparr>]\<rparr>),
     sset_DatabaseFlags := Some [Some \<lparr>sdf_Name = ''f'', sdf_Value = ''on''\<rparr>]\<rparr>"

definition sample_db :: sql_DatabaseInstance where
  "sample_db = sql_DatabaseInstance0\<lparr>db_Name := ''name'', db_Region := ''us-east1'',
     db_DatabaseVersion := ''POSTGRES_11'', db_FailoverReplica := Some \<lparr>sfr_Name = ''r'', sfr_Available = True\<rparr>,
     db_Settings := Some sample_sql_settings\<rparr>"

definition sample_observation :: "IPMapping option slice \<Rightarrow> CloudSQLInstanceObservation" where
  "sample_observation ips = \<lparr>cso_BackendType = '''', cso_CurrentDiskSize = 0, cso_ConnectionName = '''',
     cso_DiskEncryptionStatus = None, cso_FailoverReplica = None, cso_GceZone = '''', cso_IPAddresses = ips,
     cso_IPv6Address = '''', cso_Project = '''', cso_SelfLink = '''', cso_ServiceAccountEmailAddress = '''',
     cso_State = '''', cso_SettingsVersion = 0\<rparr>"

definition sample_sql_cr :: "IPMapping option slice \<Rightarrow> CloudSQLInstance" where
  "sample_sql_cr ips = sample_managed empty_CloudSQLInstanceParameters (sample_observation ips)"

definition sample_ips :: "IPMapping option slice" where
  "sample_ips = Some [Some \<lparr>ipm_IPAddress = ''8.8.8.8'', ipm_TimeToRetire = '''', ipm_Type = PublicIPType\<rparr>,
                      Some \<lparr>ipm_IPAddress = ''10.0.0.1'', ipm_TimeToRetire = '''', ipm_Type = PrivateIPType\<rparr>]"

definition sample_cloudsqlExternal :: "sql_DatabaseInstance \<Rightarrow> (unit, sample_error) cloudsqlExternal" where
  "sample_cloudsqlExternal x = \<lparr>
     sql_runtime = sample_runtime,
     sql_copy = (\<lambda>x. Inr (Some x)),
     sql_cmp = (\<lambda>a b. sql_view a = sql_view b),
     sql_spec_cmp = (=),
     sql_kube_Update = (\<lambda>cr w. (w, cr, None)),
     sql_projectID = ''p'',
     sql_Get = (\<lambda>p n w. (w, Inr x)),
     sql_Insert = (\<lambda>p d w. (w, Inr ())),
     sql_Patch = (\<lambda>p n d w. (w, Inr ())),
     sql_Delete = (\<lambda>p n w. (w, Inr ())),
     password_Generate = (\<lambda>w. (w, Inr ''secret''))\<rparr>"

section \<open>Properties\<close>

text \<open>C8: an existing CloudSQL instance is adopted. Late initialisation of an empty spec from the
  instance makes the spec describe it completely: the instance is then up to date, so that no
  patch is sent. The instance has settings, and its access list entries carry their kind.\<close>

theorem cloudsql_adopted_up_to_date:
  assumes "copy_ok copy" and "cmp_respects sql_view eq"
    and "cloudsql_LateInitializeSpec empty_CloudSQLInstanceParameters x = Some s"
    and "db_Settings x = Some st" and "acl_kinds_ok st"
  shows "cloudsql_IsUpToDate L copy eq (db_Name x) s x = Some (True, None)"
proof -
  obtain y where "GenerateDatabaseInstance (db_Name x) s x = Some y" "sql_view y = sql_view x"
    using cloudsql_adopt [OF assms(3-5)] by blast
  with assms(1,2) show ?thesis by (simp add: cloudsql_IsUpToDate_def copy_ok_def cmp_respects_def)
qed

text \<open>Witness of C8: an instance with a backup, an access list entry and a flag.\<close>

lemma cloudsql_adopted_up_to_date_witness:
  "\<exists>s. cloudsql_LateInitializeSpec empty_CloudSQLInstanceParameters sample_db = Some s
     \<and> cloudsql_IsUpToDate sample_runtime (\<lambda>x. Inr (Some x)) (\<lambda>a b. sql_view a = sql_view b)
         (db_Name sample_db) s sample_db = Some (True, None)"
proof -
  have "cloudsql_LateInitializeSpec empty_CloudSQLInstanceParameters sample_db \<noteq> None" by code_simp
  then obtain s where s: "cloudsql_LateInitializeSpec empty_CloudSQLInstanceParameters sample_db = Some s" by blast
  have st: "db_Settings sample_db = Some sample_sql_settings" by (simp add: sample_db_def)
  have "acl_kinds_ok sample_sql_settings" by code_simp
  from cloudsql_adopted_up_to_date [OF _ _ s st this, of "\<lambda>x. Inr (Some x)" "\<lambda>a b. sql_view a = sql_view b"] s
  show ?thesis by (simp add: copy_ok_def cmp_respects_def)
qed

text \<open>C10: late initialisation of a CloudSQL spec keeps every field the user has set, in the nested
  blocks too, and settles: applied again to its result it changes nothing, so observations
  write the custom resource back at most once however often the instance is observed.\<close>

theorem cloudsql_late_init_contract:
  assumes "cloudsql_LateInitializeSpec s x = Some s'"
  shows "cloudsql_keeps s s' \<and> cloudsql_LateInitializeSpec s' x = Some s'
    \<and> cloudsql_init.observe_times (Suc n) s x = Some (s', if s' = s then 0 else 1)"
  using cloudsql_init.keeps_set [OF assms] cloudsql_init.settles [OF assms]
    cloudsql_init.observe_once [OF assms] by blast

text \<open>Witness of C10: an empty spec and the sample instance.\<close>

lemma cloudsql_late_init_contract_witness:
  "\<exists>s. cloudsql_LateInitializeSpec empty_CloudSQLInstanceParameters sample_db = Some s
     \<and> cloudsql_LateInitializeSpec s sample_db = Some s \<and> cloudsql_keeps empty_CloudSQLInstanceParameters s"
proof -
  have "cloudsql_LateInitializeSpec empty_CloudSQLInstanceParameters sample_db \<noteq> None" by code_simp
  then obtain s where s: "cloudsql_LateInitializeSpec empty_CloudSQLInstanceParameters sample_db = Some s" by blast
  from cloudsql_late_init_contract [OF s] s show ?thesis by blast
qed

text \<open>C12: the endpoint in the connection secret is a private address whenever there is one (the
  last one listed), otherwise the first public address; the certificate entries do not
  overwrite it.\<close>

theorem connection_endpoint:
  assumes "None \<notin> set (elems (cso_IPAddresses (AtProvider cr)))"
    and "addresses_of PrivateIPType (elems (cso_IPAddresses (AtProvider cr))) = ps"
    and "addresses_of PublicIPType (elems (cso_IPAddresses (AtProvider cr))) = qs"
    and "[] \<notin> set ps" and "[] \<notin> set qs"
  shows "\<exists>d. getConnectionDetails cr x = Some d
    \<and> (ps \<noteq> [] \<longrightarrow> endpoint d = Some (last ps))
    \<and> (ps = [] \<and> qs \<noteq> [] \<longrightarrow> endpoint d = Some (hd qs))"
proof -
  let ?ips = "elems (cso_IPAddresses (AtProvider cr))"
  let ?m = "fmap_of_list [(ResourceCredentialsSecretUserKey, DatabaseUserName (ForProvider cr)),
                     (CloudSQLSecretConnectionName, db_ConnectionName x)]"
  have m: "endpoint ?m = None" by (simp add: fmlookup_of_list key_defs)
  consider "ps \<noteq> []" | "ps = []" "qs \<noteq> []" | "ps = []" "qs = []" by blast
  then show ?thesis
  proof cases
    case 1
    with assms(4) have "last ps \<noteq> []" by (metis last_in_set)
    with 1 assms(1,2) show ?thesis
      using add_addresses_private [of ?ips ?m] details_endpoint [of cr x] by fastforce
  next
    case 2
    then obtain a as where qs: "qs = a # as" by (cases qs) auto
    with assms(5) have "a \<noteq> []" by auto
    with 2 qs assms(1-3) m show ?thesis
      using add_addresses_public [of ?ips a as ?m] details_endpoint [of cr x] by fastforce
  next
    case 3
    obtain m' where "add_addresses ?ips ?m = Some m'"
      using add_addresses_total [OF assms(1)] by blast
    with 3 show ?thesis using details_endpoint [of cr x] by fastforce
  qed
qed

text \<open>Witness of C12: a public address listed before a private one.\<close>

lemma connection_endpoint_witness:
  "\<exists>d. getConnectionDetails (sample_sql_cr sample_ips) sample_db = Some d \<and> endpoint d = Some ''10.0.0.1''"
proof -
  have 1: "None \<notin> set (elems (cso_IPAddresses (AtProvider (sample_sql_cr sample_ips))))" by code_simp
  have 2: "addresses_of PrivateIPType (elems (cso_IPAddresses (AtProvider (sample_sql_cr sample_ips)))) = [''10.0.0.1'']"
    by code_simp
  have 3: "addresses_of PublicIPType (elems (cso_IPAddresses (AtProvider (sample_sql_cr sample_ips)))) = [''8.8.8.8'']"
    by code_simp
  from connection_endpoint [OF 1 2 3] show ?thesis by auto
qed

text \<open>C11: the root password is published exactly when the instance has been created, and the
  published password is the one the instance was created with. On every error, the connection
  details of the result are empty.\<close>

theorem cloudsql_Create_password:
  assumes "wrap_ok (sql_runtime c)" and "cloudsql_Create c (Some cr) w = Some (w', cr', r, err)"
  shows "(CreatedDetails r \<noteq> None \<longleftrightarrow> err = None)
    \<and> (err = None \<longrightarrow> (\<exists>w1 pw inst. password_Generate c w = (w1, Inr pw)
         \<and> sql_Insert c (sql_projectID c) inst w1 = (w', Inr ()) \<and> db_RootPassword inst = pw
         \<and> db_Name inst = ExternalName cr
         \<and> CreatedDetails r = Some (fmap_of_list [(ResourceCredentialsSecretPasswordKey, pw)])))"
proof -
  obtain d where d: "GenerateDatabaseInstance (ExternalName cr) (ForProvider cr) sql_DatabaseInstance0 = Some d"
      "db_Name d = ExternalName cr"
    using assms(2) GenerateDatabaseInstance_name by (fastforce simp: cloudsql_Create_def bind_eq_Some_conv)
  show ?thesis
    using assms d
    by (auto simp: cloudsql_Create_def outcome_convs ExternalCreation0_def
        intro!: exI [of _ "d\<lparr>db_RootPassword := _\<rparr>"])
qed

text \<open>Witness of C11: a successful creation.\<close>

lemma cloudsql_Create_password_witness:
  "\<exists>w cr r. cloudsql_Create (sample_cloudsqlExternal sample_db) (Some (sample_sql_cr None)) () = Some (w, cr, r, None)
     \<and> CreatedDetails r \<noteq> None"
proof -
  let ?c = "sample_cloudsqlExternal sample_db"
  have "case cloudsql_Create ?c (Some (sample_sql_cr None)) () of Some (_, _, _, None) \<Rightarrow> True | _ \<Rightarrow> False"
    by code_simp
  then obtain w cr r where c: "cloudsql_Create ?c (Some (sample_sql_cr None)) () = Some (w, cr, r, None)"
    by (auto split: option.splits prod.splits)
  have "wrap_ok (sql_runtime ?c)" by (simp add: sample_cloudsqlExternal_def sample_runtime_ok)
  from cloudsql_Create_password [OF this c] c show ?thesis by blast
qed

text \<open>\<open>GenerateObservation\<close> dereferences the settings that \<open>LateInitializeSpec\<close> checks for nil: an
  observation of an instance without settings panics, unless writing the spec back fails
  first.\<close>

theorem cloudsql_Observe_panics_without_settings:
  assumes "sql_Get c (sql_projectID c) (ExternalName cr) w = (w1, Inr x)" and "db_Settings x = None"
    and "\<And>cr v. \<exists>v' cr'. sql_kube_Update c cr v = (v', cr', None)"
  shows "cloudsql_Observe c (Some cr) w = None \<and> cloudsql_LateInitializeSpec (ForProvider cr) x \<noteq> None"
proof -
  obtain s where s: "cloudsql_LateInitializeSpec (ForProvider cr) x = Some s"
    using assms(2) by (simp add: cloudsql_LateInitializeSpec_def)
  obtain v' cr' where "sql_kube_Update c (cr\<lparr>ForProvider := s\<rparr>) w1 = (v', cr', None)"
    using assms(3) by blast
  with s assms(1,2) show ?thesis
    by (simp add: cloudsql_Observe_def cloudsql_GenerateObservation_def Let_def)
qed

text \<open>An instance that the service returns without settings.\<close>

lemma cloudsql_Observe_panics_example:
  "cloudsql_Observe (sample_cloudsqlExternal sql_DatabaseInstance0) (Some (sample_sql_cr None)) () = None"
  using cloudsql_Observe_panics_without_settings [of "sample_cloudsqlExternal sql_DatabaseInstance0"
      "sample_sql_cr None" "()" "()" sql_DatabaseInstance0]
  by (simp add: sample_cloudsqlExternal_def sql_DatabaseInstance0_def)

end
