(* ===== verification/Storage_Bucket.thy ===== *)
theory Storage_Bucket
  imports Complex_Main Gcp_Client Go_Encoding "HOL-Library.Signed_Division"
begin

text \<open>
  Storage buckets: the types and conversion functions of \<^verbatim>\<open>apis/storage/v1alpha3/types.go\<close> and the
  controller \<^verbatim>\<open>pkg/controller/storage/bucket.go\<close>. A \<open>time.Duration\<close> is an \<open>int64\<close> of nanoseconds, and
  its conversion to seconds goes through a floating point number, as in Go.
\<close>

section \<open>Durations\<close>

type_synonym Duration = int64

text \<open>
  Rounding to a \<open>float64\<close> (53 bits of precision, ties to even) for values below \<open>2^53\<close>: the number is
  scaled by a power of two to at least \<open>2^52\<close>, rounded to an integer and scaled back. The fuel
  covers every exponent of a normal number.
\<close>

definition round_half_even :: "rat \<Rightarrow> int" where
  "round_half_even x = (let f = \<lfloor>x\<rfloor>; r = x - of_int f in
     if r < 1/2 then f else if r > 1/2 then f + 1 else if even f then f else f + 1)"

fun float_scale :: "nat \<Rightarrow> rat \<Rightarrow> nat" where
  "float_scale 0 q = 0"
| "float_scale (Suc n) q = (if q \<ge> 2 ^ 52 then 0 else Suc (float_scale n (2 * q)))"

definition float64 :: "rat \<Rightarrow> rat" where
  "float64 q = (if q = 0 then 0 else
     let k = float_scale 1074 \<bar>q\<bar> in sgn q * (of_int (round_half_even (\<bar>q\<bar> * 2 ^ k)) / 2 ^ k))"

text \<open>\<open>time.Duration.Seconds\<close>: \<open>sec := d / Second; nsec := d % Second; float64(sec) + float64(nsec)/1e9\<close>,
  and the conversion \<open>int(\<dots>)\<close>, which drops the fraction.\<close>

definition Duration_Seconds :: "Duration \<Rightarrow> rat" where
  "Duration_Seconds d = (let sec = sint d sdiv 1000000000; nsec = sint d smod 1000000000 in
     float64 (float64 (of_int sec) + float64 (float64 (of_int nsec) / 1000000000)))"

definition int_of_float :: "rat \<Rightarrow> int64" where
  "int_of_float q = word_of_int (if q < 0 then \<lceil>q\<rceil> else \<lfloor>q\<rfloor>)"

section \<open>Types of the custom resource and of the storage client\<close>

record ProjectTeam =
  pt_ProjectNumber :: string
  pt_Team :: string

record ACLRule =
  ar_Entity :: string
  ar_Role :: string
  ar_EntityID :: string
  ar_Domain :: string
  ar_Email :: string
  ar_ProjectTeam :: "ProjectTeam option"

record LifecycleAction =
  la_StorageClass :: string
  la_Type :: string

record LifecycleCondition =
  lc_AgeInDays :: int64
  lc_CreatedBefore :: Time
  lc_Liveness :: int64
  lc_MatchesStorageClasses :: "string slice"
  lc_NumNewerVersions :: int64

record LifecycleRule =
  lr_Action :: LifecycleAction
  lr_Condition :: LifecycleCondition

record Lifecycle =
  lf_Rules :: "LifecycleRule slice"

record RetentionPolicy =
  rp_RetentionPeriodSeconds :: int64

record RetentionPolicyStatus =
  rps_EffectiveTime :: Time
  rps_IsLocked :: bool

record BucketEncryption =
  be_DefaultKMSKeyName :: string

record BucketLogging =
  bl_LogBucket :: string
  bl_LogObjectPrefix :: string

record CORS =
  cors_MaxAge :: Duration
  cors_Methods :: "string slice"
  cors_Origins :: "string slice"
  cors_ResponseHeaders :: "string slice"

record BucketWebsite =
  bw_MainPageSuffix :: string
  bw_NotFoundPage :: string

record BucketPolicyOnly =
  bpo_Enabled :: bool
  bpo_LockedTime :: Time

record BucketUpdatableAttrs =
  bua_BucketPolicyOnly :: "BucketPolicyOnly option"
  bua_CORS :: "CORS slice"
  bua_DefaultEventBasedHold :: bool
  bua_Encryption :: "BucketEncryption option"
  bua_Labels :: strmap
  bua_Lifecycle :: Lifecycle
  bua_Logging :: "BucketLogging option"
  bua_PredefinedACL :: string
  bua_PredefinedDefaultObjectACL :: string
  bua_RequesterPays :: bool
  bua_RetentionPolicy :: "RetentionPolicy option"
  bua_VersioningEnabled :: bool
  bua_Website :: "BucketWebsite option"

record BucketSpecAttrs =
  bsa_BucketUpdatableAttrs :: BucketUpdatableAttrs
  bsa_ACL :: "ACLRule slice"
  bsa_DefaultObjectACL :: "ACLRule slice"
  bsa_Location :: string
  bsa_StorageClass :: string

record BucketOutputAttrs =
  boa_BucketPolicyOnly :: "BucketPolicyOnly option"
  boa_Created :: "Time option"
  boa_RetentionPolicy :: "RetentionPolicyStatus option"

type_synonym Bucket = "(BucketSpecAttrs, BucketOutputAttrs) managed"

text \<open>\<^verbatim>\<open>cloud.google.com/go/storage\<close>\<close>

record gcs_ProjectTeam =
  gpt_ProjectNumber :: string
  gpt_Team :: string

record gcs_ACLRule =
  gar_Entity :: string
  gar_EntityID :: string
  gar_Role :: string
  gar_Domain :: string
  gar_Email :: string
  gar_ProjectTeam :: "gcs_ProjectTeam option"

record gcs_LifecycleAction =
  gla_Type :: string
  gla_StorageClass :: string

record gcs_LifecycleCondition =
  glc_AgeInDays :: int64
  glc_CreatedBefore :: Time
  glc_Liveness :: int64
  glc_MatchesStorageClasses :: "string slice"
  glc_NumNewerVersions :: int64

record gcs_LifecycleRule =
  glr_Action :: gcs_LifecycleAction
  glr_Condition :: gcs_LifecycleCondition

record gcs_Lifecycle =
  glf_Rules :: "gcs_LifecycleRule slice"

record gcs_RetentionPolicy =
  grp_RetentionPeriod :: Duration
  grp_EffectiveTime :: Time
  grp_IsLocked :: bool

record gcs_BucketEncryption =
  gbe_DefaultKMSKeyName :: string

record gcs_BucketLogging =
  gbl_LogBucket :: string
  gbl_LogObjectPrefix :: string

record gcs_CORS =
  gcors_MaxAge :: Duration
  gcors_Methods :: "string slice"
  gcors_Origins :: "string slice"
  gcors_ResponseHeaders :: "string slice"

record gcs_BucketWebsite =
  gbw_MainPageSuffix :: string
  gbw_NotFoundPage :: string

record gcs_BucketPolicyOnly =
  gbpo_Enabled :: bool
  gbpo_LockedTime :: Time

record gcs_BucketAttrs =
  gba_BucketPolicyOnly :: gcs_BucketPolicyOnly
  gba_CORS :: "gcs_CORS slice"
  gba_DefaultEventBasedHold :: bool
  gba_Encryption :: "gcs_BucketEncryption option"
  gba_Labels :: strmap
  gba_Lifecycle :: gcs_Lifecycle
  gba_Logging :: "gcs_BucketLogging option"
  gba_PredefinedACL :: string
  gba_PredefinedDefaultObjectACL :: string
  gba_RequesterPays :: bool
  gba_RetentionPolicy :: "gcs_RetentionPolicy option"
  gba_VersioningEnabled :: bool
  gba_Website :: "gcs_BucketWebsite option"
  gba_ACL :: "gcs_ACLRule slice"
  gba_DefaultObjectACL :: "gcs_ACLRule slice"
  gba_Location :: string
  gba_StorageClass :: string
  gba_Created :: Time

text \<open>
  \<^verbatim>\<open>storage.BucketAttrsToUpdate\<close>; the calls of \<open>SetLabel\<close> and \<open>DeleteLabel\<close> are collected in the last
  two fields.
\<close>

record gcs_BucketAttrsToUpdate =
  gup_BucketPolicyOnly :: "gcs_BucketPolicyOnly option"
  gup_CORS :: "gcs_CORS slice"
  gup_DefaultEventBasedHold :: bool
  gup_Encryption :: "gcs_BucketEncryption option"
  gup_Lifecycle :: "gcs_Lifecycle option"
  gup_Logging :: "gcs_BucketLogging option"
  gup_PredefinedACL :: string
  gup_PredefinedDefaultObjectACL :: string
  gup_RequesterPays :: bool
  gup_RetentionPolicy :: "gcs_RetentionPolicy option"
  gup_VersioningEnabled :: bool
  gup_Website :: "gcs_BucketWebsite option"
  gup_setLabels :: "(string, string) fmap"
  gup_deleteLabels :: "string fset"

section \<open>Conversions\<close>

definition NewProjectTeam :: "gcs_ProjectTeam option \<Rightarrow> ProjectTeam option" where
  "NewProjectTeam pt = (case pt of None \<Rightarrow> None
     | Some p \<Rightarrow> Some \<lparr>pt_ProjectNumber = gpt_ProjectNumber p, pt_Team = gpt_Team p\<rparr>)"

definition CopyToProjectTeam :: "ProjectTeam option \<Rightarrow> gcs_ProjectTeam option" where
  "CopyToProjectTeam pt = (case pt of None \<Rightarrow> None
     | Some p \<Rightarrow> Some \<lparr>gpt_ProjectNumber = pt_ProjectNumber p, gpt_Team = pt_Team p\<rparr>)"

definition NewACLRule :: "gcs_ACLRule \<Rightarrow> ACLRule" where
  "NewACLRule r = \<lparr>ar_Entity = gar_Entity r, ar_Role = gar_Role r, ar_EntityID = gar_EntityID r,
     ar_Domain = gar_Domain r, ar_Email = gar_Email r, ar_ProjectTeam = NewProjectTeam (gar_ProjectTeam r)\<rparr>"

definition CopyToACLRule :: "ACLRule \<Rightarrow> gcs_ACLRule" where
  "CopyToACLRule ar = \<lparr>gar_Entity = ar_Entity ar, gar_EntityID = ar_EntityID ar, gar_Role = ar_Role ar,
     gar_Domain = ar_Domain ar, gar_Email = ar_Email ar, gar_ProjectTeam = CopyToProjectTeam (ar_ProjectTeam ar)\<rparr>"

text \<open>\<open>var rs []T; if l := len(r); l > 0 { rs = make(\<dots>, l); \<dots> }\<close>: an empty slice becomes nil.\<close>

definition map_nonempty :: "('a \<Rightarrow> 'b) \<Rightarrow> 'a slice \<Rightarrow> 'b slice" where
  "map_nonempty f r = (if len r > 0 then Some (map f (elems r)) else None)"

definition NewACLRules :: "gcs_ACLRule slice \<Rightarrow> ACLRule slice" where
  "NewACLRules r = map_nonempty NewACLRule r"

definition CopyToACLRules :: "ACLRule slice \<Rightarrow> gcs_ACLRule slice" where
  "CopyToACLRules r = map_nonempty CopyToACLRule r"

definition NewLifecyleAction :: "gcs_LifecycleAction \<Rightarrow> LifecycleAction" where
  "NewLifecyleAction la = \<lparr>la_StorageClass = gla_StorageClass la, la_Type = gla_Type la\<rparr>"

definition CopyToLifecyleAction :: "LifecycleAction \<Rightarrow> gcs_LifecycleAction" where
  "CopyToLifecyleAction la = \<lparr>gla_Type = la_Type la, gla_StorageClass = la_StorageClass la\<rparr>"

definition NewLifecycleCondition :: "gcs_LifecycleCondition \<Rightarrow> LifecycleCondition" where
  "NewLifecycleCondition lc = \<lparr>lc_AgeInDays = glc_AgeInDays lc, lc_CreatedBefore = glc_CreatedBefore lc,
     lc_Liveness = glc_Liveness lc, lc_MatchesStorageClasses = glc_MatchesStorageClasses lc,
     lc_NumNewerVersions = glc_NumNewerVersions lc\<rparr>"

definition CopyToLifecycleCondition :: "LifecycleCondition \<Rightarrow> gcs_LifecycleCondition" where
  "CopyToLifecycleCondition lc = \<lparr>glc_AgeInDays = lc_AgeInDays lc, glc_CreatedBefore = lc_CreatedBefore lc,
     glc_Liveness = lc_Liveness lc, glc_MatchesStorageClasses = lc_MatchesStorageClasses lc,
     glc_NumNewerVersions = lc_NumNewerVersions lc\<rparr>"

definition NewLifecycleRule :: "gcs_LifecycleRule \<Rightarrow> LifecycleRule" where
  "NewLifecycleRule lr = \<lparr>lr_Action = NewLifecyleAction (glr_Action lr),
     lr_Condition = NewLifecycleCondition (glr_Condition lr)\<rparr>"

definition CopyToLifecyleRule :: "LifecycleRule \<Rightarrow> gcs_LifecycleRule" where
  "CopyToLifecyleRule lr = \<lparr>glr_Action = CopyToLifecyleAction (lr_Action lr),
     glr_Condition = CopyToLifecycleCondition (lr_Condition lr)\<rparr>"

definition NewLifecycle :: "gcs_Lifecycle \<Rightarrow> Lifecycle" where
  "NewLifecycle lf = \<lparr>lf_Rules = map_nonempty NewLifecycleRule (glf_Rules lf)\<rparr>"

definition CopyToLifecycle :: "Lifecycle \<Rightarrow> gcs_Lifecycle" where
  "CopyToLifecycle lf = \<lparr>glf_Rules = map_nonempty CopyToLifecyleRule (lf_Rules lf)\<rparr>"

definition NewRetentionPolicy :: "gcs_RetentionPolicy option \<Rightarrow> RetentionPolicy option" where
  "NewRetentionPolicy rp = (case rp of None \<Rightarrow> None
     | Some p \<Rightarrow> Some \<lparr>rp_RetentionPeriodSeconds = int_of_float (Duration_Seconds (grp_RetentionPeriod p))\<rparr>)"

definition CopyToRetentionPolicy :: "RetentionPolicy option \<Rightarrow> gcs_RetentionPolicy option" where
  "CopyToRetentionPolicy rp =
     (let d = (case rp of None \<Rightarrow> 0 | Some p \<Rightarrow> rp_RetentionPeriodSeconds p)
      in Some \<lparr>grp_RetentionPeriod = d * 1000000000, grp_EffectiveTime = 0, grp_IsLocked = False\<rparr>)"

definition NewRetentionPolicyStatus :: "gcs_RetentionPolicy option \<Rightarrow> RetentionPolicyStatus option" where
  "NewRetentionPolicyStatus r = (case r of None \<Rightarrow> None
     | Some p \<Rightarrow> Some \<lparr>rps_EffectiveTime = grp_EffectiveTime p, rps_IsLocked = grp_IsLocked p\<rparr>)"

definition NewBucketEncryption :: "gcs_BucketEncryption option \<Rightarrow> BucketEncryption option" where
  "NewBucketEncryption e = (case e of None \<Rightarrow> None
     | Some b \<Rightarrow> Some \<lparr>be_DefaultKMSKeyName = gbe_DefaultKMSKeyName b\<rparr>)"

definition CopyToBucketEncryption :: "BucketEncryption option \<Rightarrow> gcs_BucketEncryption option" where
  "CopyToBucketEncryption e = (case e of None \<Rightarrow> None
     | Some b \<Rightarrow> Some \<lparr>gbe_DefaultKMSKeyName = be_DefaultKMSKeyName b\<rparr>)"

definition NewBucketLogging :: "gcs_BucketLogging option \<Rightarrow> BucketLogging option" where
  "NewBucketLogging l = (case l of None \<Rightarrow> None
     | Some b \<Rightarrow> Some \<lparr>bl_LogBucket = gbl_LogBucket b, bl_LogObjectPrefix = gbl_LogObjectPrefix b\<rparr>)"

definition CopyToBucketLogging :: "BucketLogging option \<Rightarrow> gcs_BucketLogging option" where
  "CopyToBucketLogging l = (case l of None \<Rightarrow> None
     | Some b \<Rightarrow> Some \<lparr>gbl_LogBucket = bl_LogBucket b, gbl_LogObjectPrefix = bl_LogObjectPrefix b\<rparr>)"

definition NewCORS :: "gcs_CORS \<Rightarrow> CORS" where
  "NewCORS c = \<lparr>cors_MaxAge = gcors_MaxAge c, cors_Methods = gcors_Methods c,
     cors_Origins = gcors_Origins c, cors_ResponseHeaders = gcors_ResponseHeaders c\<rparr>"

definition CopyToCORS :: "CORS \<Rightarrow> gcs_CORS" where
  "CopyToCORS c = \<lparr>gcors_MaxAge = cors_MaxAge c, gcors_Methods = cors_Methods c,
     gcors_Origins = cors_Origins c, gcors_ResponseHeaders = cors_ResponseHeaders c\<rparr>"

definition NewCORSList :: "gcs_CORS slice \<Rightarrow> CORS slice" where
  "NewCORSList c = (case c of None \<Rightarrow> None | Some cs \<Rightarrow> Some (map NewCORS cs))"

definition CopyToCORSList :: "CORS slice \<Rightarrow> gcs_CORS slice" where
  "CopyToCORSList c = (case c of None \<Rightarrow> None | Some cs \<Rightarrow> Some (map CopyToCORS cs))"

definition NewBucketWebsite :: "gcs_BucketWebsite option \<Rightarrow> BucketWebsite option" where
  "NewBucketWebsite w = (case w of None \<Rightarrow> None
     | Some b \<Rightarrow> Some \<lparr>bw_MainPageSuffix = gbw_MainPageSuffix b, bw_NotFoundPage = gbw_NotFoundPage b\<rparr>)"

definition CopyToBucketWebsite :: "BucketWebsite option \<Rightarrow> gcs_BucketWebsite option" where
  "CopyToBucketWebsite w = (case w of None \<Rightarrow> None
     | Some b \<Rightarrow> Some \<lparr>gbw_MainPageSuffix = bw_MainPageSuffix b, gbw_NotFoundPage = bw_NotFoundPage b\<rparr>)"

definition NewBucketPolicyOnly :: "gcs_BucketPolicyOnly \<Rightarrow> BucketPolicyOnly option" where
  "NewBucketPolicyOnly bp =
     (if bp = \<lparr>gbpo_Enabled = False, gbpo_LockedTime = 0\<rparr> then None
      else Some \<lparr>bpo_Enabled = gbpo_Enabled bp, bpo_LockedTime = gbpo_LockedTime bp\<rparr>)"

definition CopyToBucketPolicyOnly :: "BucketPolicyOnly option \<Rightarrow> gcs_BucketPolicyOnly" where
  "CopyToBucketPolicyOnly bp = (case bp of None \<Rightarrow> \<lparr>gbpo_Enabled = False, gbpo_LockedTime = 0\<rparr>
     | Some b \<Rightarrow> \<lparr>gbpo_Enabled = bpo_Enabled b, gbpo_LockedTime = bpo_LockedTime b\<rparr>)"

definition NewBucketUpdatableAttrs :: "gcs_BucketAttrs option \<Rightarrow> BucketUpdatableAttrs option" where
  "NewBucketUpdatableAttrs ba = (case ba of None \<Rightarrow> None
     | Some a \<Rightarrow> Some \<lparr>
         bua_BucketPolicyOnly = NewBucketPolicyOnly (gba_BucketPolicyOnly a),
         bua_CORS = NewCORSList (gba_CORS a),
         bua_DefaultEventBasedHold = gba_DefaultEventBasedHold a,
         bua_Encryption = NewBucketEncryption (gba_Encryption a),
         bua_Labels = gba_Labels a,
         bua_Lifecycle = NewLifecycle (gba_Lifecycle a),
         bua_Logging = NewBucketLogging (gba_Logging a),
         bua_PredefinedACL = gba_PredefinedACL a,
         bua_PredefinedDefaultObjectACL = gba_PredefinedDefaultObjectACL a,
         bua_RequesterPays = gba_RequesterPays a,
         bua_RetentionPolicy = NewRetentionPolicy (gba_RetentionPolicy a),
         bua_VersioningEnabled = gba_VersioningEnabled a,
         bua_Website = NewBucketWebsite (gba_Website a)\<rparr>)"

definition CopyToBucketAttrs :: "BucketUpdatableAttrs option \<Rightarrow> gcs_BucketAttrs option" where
  "CopyToBucketAttrs ba = (case ba of None \<Rightarrow> None
     | Some a \<Rightarrow> Some \<lparr>
         gba_BucketPolicyOnly = CopyToBucketPolicyOnly (bua_BucketPolicyOnly a),
         gba_CORS = CopyToCORSList (bua_CORS a),
         gba_DefaultEventBasedHold = bua_DefaultEventBasedHold a,
         gba_Encryption = CopyToBucketEncryption (bua_Encryption a),
         gba_Labels = bua_Labels a,
         gba_Lifecycle = CopyToLifecycle (bua_Lifecycle a),
         gba_Logging = CopyToBucketLogging (bua_Logging a),
         gba_PredefinedACL = bua_PredefinedACL a,
         gba_PredefinedDefaultObjectACL = bua_PredefinedDefaultObjectACL a,
         gba_RequesterPays = bua_RequesterPays a,
         gba_RetentionPolicy = CopyToRetentionPolicy (bua_RetentionPolicy a),
         gba_VersioningEnabled = bua_VersioningEnabled a,
         gba_Website = CopyToBucketWebsite (bua_Website a),
         gba_ACL = None, gba_DefaultObjectACL = None, gba_Location = '''', gba_StorageClass = '''',
         gba_Created = 0\<rparr>)"

text \<open>
  The two loops over labels: every label of the spec is set and taken out of the map of the
  current labels, then what is left in that map is deleted. The keys of a map are distinct, so
  the order of the loops does not matter.
\<close>

definition CopyToBucketUpdateAttrs :: "BucketUpdatableAttrs \<Rightarrow> strmap \<Rightarrow> gcs_BucketAttrsToUpdate" where
  "CopyToBucketUpdateAttrs ba labels =
     (let spec = (case bua_Labels ba of None \<Rightarrow> fmempty | Some m \<Rightarrow> m);
          left = fmdrop_fset (fmdom spec) (case labels of None \<Rightarrow> fmempty | Some m \<Rightarrow> m)
      in \<lparr>gup_BucketPolicyOnly = Some (CopyToBucketPolicyOnly (bua_BucketPolicyOnly ba)),
          gup_CORS = CopyToCORSList (bua_CORS ba),
          gup_DefaultEventBasedHold = bua_DefaultEventBasedHold ba,
          gup_Encryption = CopyToBucketEncryption (bua_Encryption ba),
          gup_Lifecycle = Some (CopyToLifecycle (bua_Lifecycle ba)),
          gup_Logging = CopyToBucketLogging (bua_Logging ba),
          gup_PredefinedACL = bua_PredefinedACL ba,
          gup_PredefinedDefaultObjectACL = bua_PredefinedDefaultObjectACL ba,
          gup_RequesterPays = bua_RequesterPays ba,
          gup_RetentionPolicy = CopyToRetentionPolicy (bua_RetentionPolicy ba),
          gup_VersioningEnabled = bua_VersioningEnabled ba,
          gup_Website = CopyToBucketWebsite (bua_Website ba),
          gup_setLabels = spec,
          gup_deleteLabels = fmdom left\<rparr>)"

definition BucketUpdatableAttrs0 :: BucketUpdatableAttrs where
  "BucketUpdatableAttrs0 = \<lparr>bua_BucketPolicyOnly = None, bua_CORS = None, bua_DefaultEventBasedHold = False,
     bua_Encryption = None, bua_Labels = None, bua_Lifecycle = \<lparr>lf_Rules = None\<rparr>, bua_Logging = None,
     bua_PredefinedACL = '''', bua_PredefinedDefaultObjectACL = '''', bua_RequesterPays = False,
     bua_RetentionPolicy = None, bua_VersioningEnabled = False, bua_Website = None\<rparr>"

definition NewBucketSpecAttrs :: "gcs_BucketAttrs option \<Rightarrow> BucketSpecAttrs" where
  "NewBucketSpecAttrs ba = (case ba of
       None \<Rightarrow> \<lparr>bsa_BucketUpdatableAttrs = BucketUpdatableAttrs0, bsa_ACL = None,
                bsa_DefaultObjectACL = None, bsa_Location = '''', bsa_StorageClass = ''''\<rparr>
     | Some a \<Rightarrow> \<lparr>bsa_BucketUpdatableAttrs = the (NewBucketUpdatableAttrs (Some a)),
                bsa_ACL = NewACLRules (gba_ACL a), bsa_DefaultObjectACL = NewACLRules (gba_DefaultObjectACL a),
                bsa_Location = gba_Location a, bsa_StorageClass = gba_StorageClass a\<rparr>)"

definition CopyBucketSpecAttrs :: "BucketSpecAttrs option \<Rightarrow> gcs_BucketAttrs option" where
  "CopyBucketSpecAttrs ba = (case ba of None \<Rightarrow> None
     | Some a \<Rightarrow> do {
         b \<leftarrow> CopyToBucketAttrs (Some (bsa_BucketUpdatableAttrs a));
         Some (b\<lparr>gba_ACL := CopyToACLRules (bsa_ACL a), gba_Location := bsa_Location a,
                 gba_StorageClass := bsa_StorageClass a\<rparr>) })"

definition NewBucketOutputAttrs :: "gcs_BucketAttrs option \<Rightarrow> BucketOutputAttrs" where
  "NewBucketOutputAttrs attrs = (case attrs of
       None \<Rightarrow> \<lparr>boa_BucketPolicyOnly = None, boa_Created = None, boa_RetentionPolicy = None\<rparr>
     | Some a \<Rightarrow> \<lparr>boa_BucketPolicyOnly = NewBucketPolicyOnly (gba_BucketPolicyOnly a),
                boa_Created = (if gba_Created a \<noteq> 0 then Some (gba_Created a) else None),
                boa_RetentionPolicy = NewRetentionPolicyStatus (gba_RetentionPolicy a)\<rparr>)"

section \<open>Controller\<close>

definition bucket_errNewClient :: string where
  "bucket_errNewClient = ''cannot create new GCP storage client''"
definition errNotBucket :: string where
  "errNotBucket = ''managed resource is not a GCP bucket''"
definition errAttrs :: string where
  "errAttrs = ''cannot get GCP bucket attributes''"
definition errLateInit :: string where
  "errLateInit = ''cannot late initialize GCP bucket''"
definition bucket_errCreate :: string where
  "bucket_errCreate = ''cannot create GCP bucket''"
definition bucket_errUpdate :: string where
  "bucket_errUpdate = ''cannot update GCP bucket''"
definition bucket_errDelete :: string where
  "bucket_errDelete = ''cannot delete GCP bucket''"

text \<open>
  \<open>external\<close> with the bucket handler (indexed by the bucket's name), \<open>mergo.Merge\<close> (which returns
  an error or the merged destination), and the two comparisons without options.
\<close>

record ('w, 'e) bucketExternal =
  bkt_runtime :: "'e runtime"
  bkt_ErrBucketNotExist :: 'e
  mergo_Merge :: "BucketSpecAttrs \<Rightarrow> BucketSpecAttrs \<Rightarrow> 'e + BucketSpecAttrs"
  bkt_spec_cmp :: "BucketSpecAttrs comparer"
  bkt_attrs_cmp :: "BucketUpdatableAttrs option comparer"
  bkt_kube_Update :: "('w, Bucket, 'e) kube_update"
  bkt_projectID :: string
  Bucket_Attrs :: "string \<Rightarrow> ('w, gcs_BucketAttrs, 'e) call"
  Bucket_Create :: "string \<Rightarrow> string \<Rightarrow> gcs_BucketAttrs option \<Rightarrow> 'w \<Rightarrow> 'w \<times> 'e option"
  Bucket_Update :: "string \<Rightarrow> gcs_BucketAttrsToUpdate \<Rightarrow> ('w, gcs_BucketAttrs, 'e) call"
  Bucket_Delete :: "string \<Rightarrow> 'w \<Rightarrow> 'w \<times> 'e option"

definition bucket_Connect ::
  "'e runtime \<Rightarrow> ('w, Bucket, 'src, 'sel, 'e) auth_api
    \<Rightarrow> (string \<Rightarrow> ClientOption option \<Rightarrow> ('w, ('w, 'e) bucketExternal, 'e) call)
    \<Rightarrow> Bucket \<Rightarrow> 'w \<Rightarrow> ('w \<times> ('w, 'e) bucketExternal option \<times> 'e option) option" where
  \<comment> \<open>unlike in the other controllers, an error of the constructor is returned as it is\<close>
  "bucket_Connect L c newClient mg w = do {
     (w1, projectID, opts, err) \<leftarrow> GetAuthInfo L c mg w;
     if err \<noteq> None then Some (w1, None, err)
     else (case newClient projectID opts w1 of
         (w2, Inl err) \<Rightarrow> Some (w2, None, Some err)
       | (w2, Inr ext) \<Rightarrow> Some (w2, Some ext, errors_Wrap L None bucket_errNewClient)) }"

definition bucket_Observe ::
  "('w, 'e) bucketExternal \<Rightarrow> Bucket option \<Rightarrow> 'w \<Rightarrow> ('w, Bucket, ExternalObservation, 'e) outcome" where
  "bucket_Observe e mg w =
     (let L = bkt_runtime e in
      case mg of
        None \<Rightarrow> (w, None, ExternalObservation0, Some (errors_New L errNotBucket))
      | Some cr \<Rightarrow>
         (case Bucket_Attrs e (ExternalName cr) w of
            (w1, Inl err) \<Rightarrow>
              if err = bkt_ErrBucketNotExist e
              then (w1, Some cr, ExternalObservation0\<lparr>ResourceExists := False\<rparr>, None)
              else (w1, Some cr, ExternalObservation0, errors_Wrap L (Some err) errAttrs)
          | (w1, Inr a) \<Rightarrow>
             (case mergo_Merge e (ForProvider cr) (NewBucketSpecAttrs (Some a)) of
                Inl err \<Rightarrow> (w1, Some cr, ExternalObservation0, errors_Wrap L (Some err) errLateInit)
              | Inr proposed \<Rightarrow>
                  let (w2, cr, err) = (if \<not> bkt_spec_cmp e proposed (ForProvider cr)
                                       then bkt_kube_Update e (cr\<lparr>ForProvider := proposed\<rparr>) w1
                                       else (w1, cr, None))
                  in if err \<noteq> None
                     then (w2, Some cr, ExternalObservation0, errors_Wrap L err errLateInit)
                     else
                       let cr = SetConditions Available (cr\<lparr>AtProvider := NewBucketOutputAttrs (Some a)\<rparr>)
                       in (w2, Some cr, ExternalObservation0\<lparr>ResourceExists := True,
                            ResourceUpToDate := bkt_attrs_cmp e (NewBucketUpdatableAttrs (Some a))
                              (Some (bsa_BucketUpdatableAttrs (ForProvider cr)))\<rparr>, None))))"

definition bucket_Create ::
  "('w, 'e) bucketExternal \<Rightarrow> Bucket option \<Rightarrow> 'w \<Rightarrow> ('w, Bucket, ExternalCreation, 'e) outcome" where
  "bucket_Create e mg w =
     (let L = bkt_runtime e in
      case mg of
        None \<Rightarrow> (w, None, ExternalCreation0, Some (errors_New L errNotBucket))
      | Some cr \<Rightarrow>
          let (w1, err) = Bucket_Create e (ExternalName cr) (bkt_projectID e)
                            (CopyBucketSpecAttrs (Some (ForProvider cr))) w
          in (w1, Some cr, ExternalCreation0, errors_Wrap L err bucket_errCreate))"

definition bucket_Update ::
  "('w, 'e) bucketExternal \<Rightarrow> Bucket option \<Rightarrow> 'w \<Rightarrow> ('w, Bucket, ExternalUpdate, 'e) outcome" where
  "bucket_Update e mg w =
     (let L = bkt_runtime e in
      case mg of
        None \<Rightarrow> (w, None, ExternalUpdate0, Some (errors_New L errNotBucket))
      | Some cr \<Rightarrow>
         (case Bucket_Attrs e (ExternalName cr) w of
            (w1, Inl err) \<Rightarrow> (w1, Some cr, ExternalUpdate0, errors_Wrap L (Some err) errAttrs)
          | (w1, Inr current) \<Rightarrow>
              let ua = CopyToBucketUpdateAttrs (bsa_BucketUpdatableAttrs (ForProvider cr)) (gba_Labels current);
                  r = Bucket_Update e (ExternalName cr) ua w1
              in (fst r, Some cr, ExternalUpdate0, errors_Wrap L (call_error r) bucket_errUpdate)))"

definition bucket_Delete ::
  "('w, 'e) bucketExternal \<Rightarrow> Bucket option \<Rightarrow> 'w \<Rightarrow> ('w, Bucket, unit, 'e) outcome" where
  "bucket_Delete e mg w =
     (let L = bkt_runtime e in
      case mg of
        None \<Rightarrow> (w, None, (), Some (errors_New L errNotBucket))
      | Some cr \<Rightarrow>
          let (w1, err) = Bucket_Delete e (ExternalName cr) w
          in (w1, Some cr, (), errors_Wrap L (resource_Ignore L (IsErrorNotFound L) err) bucket_errDelete))"

end
