(* ===== verification/Storage_Bucket_Correct.thy ===== *)
theory Storage_Bucket_Correct
  imports Storage_Bucket
begin

text \<open>
  Correctness of the bucket conversions: what is sent to the storage API and read back is what
  the custom resource says, up to the normalisations made explicit in \<open>bucket_norm\<close>.
\<close>

section \<open>Seconds\<close>

lemma round_half_even_int: "round_half_even (of_int n) = n"
  by (simp add: round_half_even_def)

lemma float64_of_int: "float64 (of_int n) = of_int n"
proof (cases "n = 0")
  case False
  let ?k = "float_scale 1074 \<bar>of_int n\<bar>"
  have "\<bar>of_int n\<bar> * 2 ^ ?k = (of_int (\<bar>n\<bar> * 2 ^ ?k) :: rat)" by simp
  then have "round_half_even (\<bar>of_int n\<bar> * 2 ^ ?k) = \<bar>n\<bar> * 2 ^ ?k"
    by (metis round_half_even_int)
  with False show ?thesis
    by (simp add: float64_def Let_def sgn_if)
qed (simp add: float64_def)

lemma float64_0 [simp]: "float64 0 = 0"
  by (simp add: float64_def)

definition retention_in_range :: "int64 \<Rightarrow> bool" where
  \<comment> \<open>the number of seconds fits a \<open>time.Duration\<close>: at most 292 years\<close>
  "retention_in_range s \<longleftrightarrow> \<bar>sint s\<bar> \<le> 9223372036"

lemma sint_seconds:
  assumes "retention_in_range s"
  shows "sint (s * 1000000000) = sint s * 1000000000"
proof -
  have "sint (s * 1000000000) = signed_take_bit 63 (sint s * 1000000000)"
    by (simp add: sint_word_ariths)
  also have "\<dots> = sint s * 1000000000"
    using assms by (intro signed_take_bit_int_eq_self) (auto simp: retention_in_range_def)
  finally show ?thesis .
qed

lemma seconds_round_trip:
  assumes "retention_in_range s"
  shows "int_of_float (Duration_Seconds (s * 1000000000)) = s"
proof -
  define n where "n = sint s"
  have d: "sint (s * 1000000000) = n * 1000000000"
    using sint_seconds [OF assms] by (simp add: n_def)
  have "n * 1000000000 sdiv 1000000000 = n" "n * 1000000000 smod 1000000000 = 0"
    by (simp_all add: signed_divide_int_def signed_modulo_int_def sgn_mult abs_mult mult_sgn_abs)
  then have "Duration_Seconds (s * 1000000000) = of_int n"
    by (simp add: Duration_Seconds_def d float64_of_int)
  moreover have "word_of_int n = s" by (simp add: n_def)
  ultimately show ?thesis by (simp add: int_of_float_def)
qed

section \<open>Round trips\<close>

definition nil_rules :: "'a slice \<Rightarrow> 'a slice" where
  "nil_rules s = (if len s > 0 then s else None)"

text \<open>
  What is left of the updatable attributes after they have been sent and read back: an empty
  list of lifecycle rules is nil, a policy-only block of zero values is nil, and a missing
  retention policy has become a policy of zero seconds.
\<close>

definition bucket_norm :: "BucketUpdatableAttrs \<Rightarrow> BucketUpdatableAttrs" where
  "bucket_norm ba = ba\<lparr>
     bua_BucketPolicyOnly := (if bua_BucketPolicyOnly ba = Some \<lparr>bpo_Enabled = False, bpo_LockedTime = 0\<rparr>
        then None else bua_BucketPolicyOnly ba),
     bua_Lifecycle := \<lparr>lf_Rules = nil_rules (lf_Rules (bua_Lifecycle ba))\<rparr>,
     bua_RetentionPolicy := Some (case bua_RetentionPolicy ba of
        None \<Rightarrow> \<lparr>rp_RetentionPeriodSeconds = 0\<rparr> | Some rp \<Rightarrow> rp)\<rparr>"

lemma map_nonempty_round_trip:
  "(\<And>x. g (f x) = x) \<Longrightarrow> map_nonempty g (map_nonempty f s) = nil_rules s"
  by (cases s) (simp_all add: map_nonempty_def nil_rules_def comp_def)

lemma element_round_trips [simp]:
  "NewProjectTeam (CopyToProjectTeam pt) = pt"
  "NewACLRule (CopyToACLRule r) = r"
  "NewLifecycleRule (CopyToLifecyleRule lr) = lr"
  "NewBucketEncryption (CopyToBucketEncryption e) = e"
  "NewBucketLogging (CopyToBucketLogging l) = l"
  "NewCORS (CopyToCORS c) = c"
  "NewCORSList (CopyToCORSList cs) = cs"
  "NewBucketWebsite (CopyToBucketWebsite bw) = bw"
proof -
  show pt: "NewProjectTeam (CopyToProjectTeam pt) = pt" for pt
    by (simp add: NewProjectTeam_def CopyToProjectTeam_def split: option.split)
  show "NewACLRule (CopyToACLRule r) = r"
    by (simp add: NewACLRule_def CopyToACLRule_def pt)
  show "NewLifecycleRule (CopyToLifecyleRule lr) = lr"
    by (simp add: NewLifecycleRule_def CopyToLifecyleRule_def NewLifecyleAction_def CopyToLifecyleAction_def
        NewLifecycleCondition_def CopyToLifecycleCondition_def)
  show "NewBucketEncryption (CopyToBucketEncryption e) = e"
    by (simp add: NewBucketEncryption_def CopyToBucketEncryption_def split: option.split)
  show "NewBucketLogging (CopyToBucketLogging l) = l"
    by (simp add: NewBucketLogging_def CopyToBucketLogging_def split: option.split)
  show cors: "NewCORS (CopyToCORS c) = c" for c
    by (simp add: NewCORS_def CopyToCORS_def)
  show "NewCORSList (CopyToCORSList cs) = cs"
    by (simp add: NewCORSList_def CopyToCORSList_def cors comp_def split: option.split)
  show "NewBucketWebsite (CopyToBucketWebsite bw) = bw"
    by (simp add: NewBucketWebsite_def CopyToBucketWebsite_def split: option.split)
qed

lemma policy_only_round_trip:
  "NewBucketPolicyOnly (CopyToBucketPolicyOnly bp) =
     (if bp = Some \<lparr>bpo_Enabled = False, bpo_LockedTime = 0\<rparr> then None else bp)"
  by (auto simp: NewBucketPolicyOnly_def CopyToBucketPolicyOnly_def split: option.split)

lemma lifecycle_round_trip: "NewLifecycle (CopyToLifecycle lf) = \<lparr>lf_Rules = nil_rules (lf_Rules lf)\<rparr>"
  by (simp add: NewLifecycle_def CopyToLifecycle_def map_nonempty_round_trip)

lemma retention_round_trip:
  assumes "\<And>rp. r = Some rp \<Longrightarrow> retention_in_range (rp_RetentionPeriodSeconds rp)"
  shows "NewRetentionPolicy (CopyToRetentionPolicy r) =
    Some (case r of None \<Rightarrow> \<lparr>rp_RetentionPeriodSeconds = 0\<rparr> | Some rp \<Rightarrow> rp)"
proof (cases r)
  case None
  have "retention_in_range 0" by (simp add: retention_in_range_def)
  with None show ?thesis
    using seconds_round_trip [of 0] by (simp add: NewRetentionPolicy_def CopyToRetentionPolicy_def)
next
  case (Some rp)
  with assms show ?thesis
    using seconds_round_trip [of "rp_RetentionPeriodSeconds rp"]
    by (simp add: NewRetentionPolicy_def CopyToRetentionPolicy_def)
qed

text \<open>The documented effect of the label operations of an update.\<close>

definition apply_label_update :: "gcs_BucketAttrsToUpdate \<Rightarrow> (string, string) fmap \<Rightarrow> (string, string) fmap" where
  "apply_label_update u labels = fmadd (fmdrop_fset (gup_deleteLabels u) labels) (gup_setLabels u)"

definition labels_of :: "strmap \<Rightarrow> (string, string) fmap" where
  "labels_of m = (case m of None \<Rightarrow> fmempty | Some f \<Rightarrow> f)"

text \<open>Sample value for a witness.\<close>

definition sample_bucket_spec :: BucketSpecAttrs where
  "sample_bucket_spec = \<lparr>
     bsa_BucketUpdatableAttrs = BucketUpdatableAttrs0\<lparr>
       bua_RetentionPolicy := Some \<lparr>rp_RetentionPeriodSeconds = 60\<rparr>\<rparr>,
     bsa_ACL = None,
     bsa_DefaultObjectACL = Some [\<lparr>ar_Entity = ''allUsers'', ar_Role = ''READER'', ar_EntityID = '''',
       ar_Domain = '''', ar_Email = '''', ar_ProjectTeam = None\<rparr>],
     bsa_Location = ''EU'', bsa_StorageClass = ''STANDARD''\<rparr>"

section \<open>Properties\<close>

text \<open>C16: the attributes of a bucket survive the way to the storage API and back. Converting a spec
  for creation and reading the same attributes again gives the spec up to \<open>bucket_norm\<close>, with an
  empty access list read as nil; but the default object access list of the spec is lost: it is
  never sent. Retention periods are at most 292 years.\<close>

theorem bucket_spec_round_trip:
  assumes "\<And>rp. bua_RetentionPolicy (bsa_BucketUpdatableAttrs s) = Some rp \<Longrightarrow>
    retention_in_range (rp_RetentionPeriodSeconds rp)"
  shows "NewBucketSpecAttrs (CopyBucketSpecAttrs (Some s)) = s\<lparr>
    bsa_BucketUpdatableAttrs := bucket_norm (bsa_BucketUpdatableAttrs s),
    bsa_ACL := nil_rules (bsa_ACL s), bsa_DefaultObjectACL := None\<rparr>"
  using retention_round_trip [OF assms]
  by (simp add: NewBucketSpecAttrs_def CopyBucketSpecAttrs_def CopyToBucketAttrs_def
      NewBucketUpdatableAttrs_def bucket_norm_def policy_only_round_trip lifecycle_round_trip
      NewACLRules_def CopyToACLRules_def map_nonempty_round_trip) (simp add: map_nonempty_def)

text \<open>Witness of C16: a bucket with a retention period of one minute and a default object access
  rule, which is lost.\<close>

lemma bucket_spec_round_trip_witness:
  "NewBucketSpecAttrs (CopyBucketSpecAttrs (Some sample_bucket_spec)) = sample_bucket_spec\<lparr>
     bsa_BucketUpdatableAttrs := bucket_norm (bsa_BucketUpdatableAttrs sample_bucket_spec),
     bsa_DefaultObjectACL := None\<rparr>
   \<and> bsa_DefaultObjectACL sample_bucket_spec \<noteq> None"
proof -
  have "retention_in_range (rp_RetentionPeriodSeconds rp)"
    if "bua_RetentionPolicy (bsa_BucketUpdatableAttrs sample_bucket_spec) = Some rp" for rp
    using that by (auto simp: sample_bucket_spec_def retention_in_range_def)
  from bucket_spec_round_trip [of sample_bucket_spec, OF this] show ?thesis
    by (simp add: sample_bucket_spec_def nil_rules_def)
qed

text \<open>C32: the retention period in seconds, sent as a number of nanoseconds and read back through a
  floating point number of seconds, is exact as long as it fits a duration; the first value
  beyond wraps around to a negative period.\<close>

theorem retention_period_exact:
  "(retention_in_range s \<longrightarrow>
      NewRetentionPolicy (CopyToRetentionPolicy (Some \<lparr>rp_RetentionPeriodSeconds = s\<rparr>))
        = Some \<lparr>rp_RetentionPeriodSeconds = s\<rparr>)
   \<and> sint (grp_RetentionPeriod (the (CopyToRetentionPolicy (Some \<lparr>rp_RetentionPeriodSeconds = 9223372037\<rparr>)))) < 0"
  using retention_round_trip [of "Some \<lparr>rp_RetentionPeriodSeconds = s\<rparr>"]
  by (auto simp: CopyToRetentionPolicy_def)

text \<open>Witness of C32: one minute.\<close>

lemma retention_period_exact_witness:
  "NewRetentionPolicy (CopyToRetentionPolicy (Some \<lparr>rp_RetentionPeriodSeconds = 60\<rparr>))
     = Some \<lparr>rp_RetentionPeriodSeconds = 60\<rparr>"
proof -
  have "retention_in_range 60" by (simp add: retention_in_range_def)
  with retention_period_exact [of 60] show ?thesis by simp
qed


end
