(* ===== verification/Kms_Correct.thy ===== *)
theory Kms_Correct
  imports Kms
begin

text \<open>
  Correctness of the crypto key client and controller: what the update mask says, that a patch
  with that mask makes the key up to date, when an observation panics, and that the labels of the
  spec are overwritten.
\<close>

section \<open>Late initialisation and generation\<close>

lemma late_template_idem [simp]: "late_template (late_template s x) x = late_template s x"
  by (simp add: late_template_def)

lemma cryptokey_late_idem:
  "cryptokey_LateInitializeSpec (cryptokey_LateInitializeSpec s x) x = cryptokey_LateInitializeSpec s x"
  by (simp add: cryptokey_LateInitializeSpec_def late_block_settles)

text \<open>Late initialisation settles, but it is not a \<open>late_initializer\<close>: it does not keep the labels.\<close>

interpretation cryptokey_init: settling_initializer "\<lambda>s x. Some (cryptokey_LateInitializeSpec s x)"
  by unfold_locales (auto simp: cryptokey_late_idem)

interpretation cryptokey_desired: desired_state "\<lambda>p x. Some (GenerateCryptoKeyInstance p x)"
proof
  have "gen_template a (gen_template a b) = gen_template a b" for a b
    by (simp add: gen_template_def)
  then show "Some (GenerateCryptoKeyInstance p x) = Some y \<Longrightarrow> Some (GenerateCryptoKeyInstance p y) = Some y" for p x y
    by (auto simp: GenerateCryptoKeyInstance_def gen_block_idem)
qed

section \<open>The update mask\<close>

definition labels_norm :: "strmap \<Rightarrow> strmap" where
  "labels_norm m = (if map_empty m then None else m)"

definition key_comparers_ok :: "key_comparers \<Rightarrow> bool" where
  "key_comparers_ok eq \<longleftrightarrow> cmp_modulo labels_norm (kc_labels eq) \<and> cmp_exact (kc_string eq) \<and> cmp_exact (kc_template eq)"

text \<open>The paths in which two keys differ, in the order of the mask.\<close>

definition key_diff :: "kms_CryptoKey \<Rightarrow> kms_CryptoKey \<Rightarrow> string list" where
  "key_diff d x =
     (let um = mask_unless (labels_norm (kck_Labels d) = labels_norm (kck_Labels x)) ''labels'' [];
          um = mask_unless (kck_Purpose d = kck_Purpose x) ''purpose'' um;
          um = mask_unless (kck_RotationPeriod d = kck_RotationPeriod x) ''rotationPeriod'' um;
          um = mask_unless (kck_NextRotationTime d = kck_NextRotationTime x) ''nextRotationTime'' um
      in case (kck_VersionTemplate d, kck_VersionTemplate x) of
           (Some a, Some b) \<Rightarrow>
             mask_unless (kvt_ProtectionLevel a = kvt_ProtectionLevel b) ''versionTemplate.protectionLevel''
               (mask_unless (kvt_Algorithm a = kvt_Algorithm b) ''versionTemplate.algorithm'' um)
         | _ \<Rightarrow> um)"

definition template_missing :: "CryptoKeyParameters \<Rightarrow> kms_CryptoKey \<Rightarrow> bool" where
  "template_missing p x \<longleftrightarrow> kck_VersionTemplate x = None \<and> ckp_VersionTemplate p \<noteq> None"

lemma mask_unless_True [simp]: "mask_unless True p um = um"
  by (simp add: mask_unless_def)

lemma set_mask_unless [simp]: "set (mask_unless b p um) = (if b then set um else insert p (set um))"
  by (simp add: mask_unless_def)

lemma mask_unless_Nil [simp]: "mask_unless b p um = [] \<longleftrightarrow> b \<and> um = []"
  by (simp add: mask_unless_def)

lemma template_eqI:
  "kvt_Algorithm a = kvt_Algorithm b \<Longrightarrow> kvt_ProtectionLevel a = kvt_ProtectionLevel b \<Longrightarrow> a = (b :: kms_VersionTemplate)"
  by (cases a; cases b) simp

lemma cryptokey_IsUpToDate_diff:
  assumes "copy_ok copy" and "key_comparers_ok eq"
  shows "cryptokey_IsUpToDate L copy eq p x = (if template_missing p x then None
    else let um = key_diff (GenerateCryptoKeyInstance p x) x in Some (um = [], Join um '','', None))"
proof -
  have cmps: "kc_labels eq a b \<longleftrightarrow> labels_norm a = labels_norm b" "kc_string eq s t \<longleftrightarrow> s = t"
    "kc_template eq u v \<longleftrightarrow> u = v" for a b s t u v
    using assms(2) by (auto simp: key_comparers_ok_def third_party_defs)
  show ?thesis
    using assms(1)
    by (cases "kck_VersionTemplate x"; cases "ckp_VersionTemplate p")
      (auto simp: cryptokey_IsUpToDate_def copy_ok_def cmps key_diff_def Let_def template_missing_def
        GenerateCryptoKeyInstance_def gen_block_def)
qed

section \<open>Patches\<close>

text \<open>The documented effect of a patch: the fields named by the mask are replaced.\<close>

definition apply_key_patch :: "string \<Rightarrow> kms_CryptoKey \<Rightarrow> kms_CryptoKey \<Rightarrow> kms_CryptoKey" where
  "apply_key_patch um d x =
     (let has = (\<lambda>p. p \<in> set (mask_paths um)) in x\<lparr>
        kck_Labels := (if has ''labels'' then kck_Labels d else kck_Labels x),
        kck_Purpose := (if has ''purpose'' then kck_Purpose d else kck_Purpose x),
        kck_RotationPeriod := (if has ''rotationPeriod'' then kck_RotationPeriod d else kck_RotationPeriod x),
        kck_NextRotationTime := (if has ''nextRotationTime'' then kck_NextRotationTime d else kck_NextRotationTime x),
        kck_VersionTemplate := (case (kck_VersionTemplate d, kck_VersionTemplate x) of
            (Some a, Some b) \<Rightarrow> Some \<lparr>
              kvt_Algorithm = (if has ''versionTemplate.algorithm'' then kvt_Algorithm a else kvt_Algorithm b),
              kvt_ProtectionLevel = (if has ''versionTemplate.protectionLevel'' then kvt_ProtectionLevel a
                                     else kvt_ProtectionLevel b)\<rparr>
          | (_, t) \<Rightarrow> t)\<rparr>)"

definition key_patch_ok :: "('w, 'e) cryptoKeyExternal \<Rightarrow> bool" where
  \<comment> \<open>reading does not change the key, and a patch that succeeds is visible to the next read\<close>
  "key_patch_ok e \<longleftrightarrow>
     (\<forall>n w w1 x. CryptoKeys_Get e n w = (w1, Inr x) \<longrightarrow> (\<exists>w2. CryptoKeys_Get e n w1 = (w2, Inr x)))
   \<and> (\<forall>n w w1 w2 x d um. CryptoKeys_Get e n w = (w1, Inr x) \<and> CryptoKeys_Patch e n d um w1 = (w2, Inr ())
       \<longrightarrow> (\<exists>w3. CryptoKeys_Get e n w2 = (w3, Inr (apply_key_patch um d x))))"

lemma key_diff_no_comma: "\<forall>p\<in>set (key_diff d x). CHR '','' \<notin> set p"
  by (simp add: key_diff_def Let_def split: option.split)

lemma key_diff_paths: "key_diff d x \<noteq> [] \<Longrightarrow> set (mask_paths (Join (key_diff d x) '','')) = set (key_diff d x)"
  using mask_paths_Join [OF key_diff_no_comma, of d x] by simp

lemma key_diff_mem:
  "''labels'' \<in> set (key_diff d x) \<longleftrightarrow> labels_norm (kck_Labels d) \<noteq> labels_norm (kck_Labels x)"
  "''purpose'' \<in> set (key_diff d x) \<longleftrightarrow> kck_Purpose d \<noteq> kck_Purpose x"
  "''rotationPeriod'' \<in> set (key_diff d x) \<longleftrightarrow> kck_RotationPeriod d \<noteq> kck_RotationPeriod x"
  "''nextRotationTime'' \<in> set (key_diff d x) \<longleftrightarrow> kck_NextRotationTime d \<noteq> kck_NextRotationTime x"
  by (simp_all add: key_diff_def Let_def split: option.split)

lemma key_diff_mem_template:
  assumes "kck_VersionTemplate d = Some a" and "kck_VersionTemplate x = Some b"
  shows "''versionTemplate.algorithm'' \<in> set (key_diff d x) \<longleftrightarrow> kvt_Algorithm a \<noteq> kvt_Algorithm b"
    and "''versionTemplate.protectionLevel'' \<in> set (key_diff d x) \<longleftrightarrow> kvt_ProtectionLevel a \<noteq> kvt_ProtectionLevel b"
  using assms by (simp_all add: key_diff_def Let_def)

lemma key_diff_Nil:
  "labels_norm (kck_Labels d) = labels_norm (kck_Labels x) \<Longrightarrow> kck_Purpose d = kck_Purpose x \<Longrightarrow>
   kck_RotationPeriod d = kck_RotationPeriod x \<Longrightarrow> kck_NextRotationTime d = kck_NextRotationTime x \<Longrightarrow>
   kck_VersionTemplate d = kck_VersionTemplate x \<Longrightarrow> key_diff d x = []"
  by (simp add: key_diff_def Let_def split: option.split)

text \<open>A patch with the mask of the differences leaves no difference.\<close>

lemma patched_key:
  assumes "d = GenerateCryptoKeyInstance p x" and "\<not> template_missing p x" and "key_diff d x \<noteq> []"
    and "x' = apply_key_patch (Join (key_diff d x) '','') d x"
  shows "kck_Purpose x' = kck_Purpose d \<and> kck_RotationPeriod x' = kck_RotationPeriod d
    \<and> kck_NextRotationTime x' = kck_NextRotationTime d \<and> kck_VersionTemplate x' = kck_VersionTemplate d
    \<and> labels_norm (kck_Labels x') = labels_norm (kck_Labels d)"
proof -
  have "kck_VersionTemplate x' = kck_VersionTemplate d"
  proof (cases "kck_VersionTemplate x")
    case None
    with assms(1,2,4) show ?thesis
      by (simp add: apply_key_patch_def Let_def GenerateCryptoKeyInstance_def template_missing_def gen_block_def)
  next
    case (Some b)
    then obtain a where a: "kck_VersionTemplate d = Some a"
      using assms(1) by (cases "ckp_VersionTemplate p") (simp_all add: GenerateCryptoKeyInstance_def gen_block_def)
    with Some assms(3,4) show ?thesis
      by (simp add: apply_key_patch_def Let_def key_diff_paths key_diff_mem_template template_eqI)
  qed
  then show ?thesis
    using assms(3,4) by (simp add: apply_key_patch_def Let_def key_diff_paths key_diff_mem)
qed

lemma patched_up_to_date:
  assumes "d = GenerateCryptoKeyInstance p x" and "\<not> template_missing p x" and "key_diff d x \<noteq> []"
    and "x' = apply_key_patch (Join (key_diff d x) '','') d x"
  shows "\<not> template_missing p x' \<and> key_diff (GenerateCryptoKeyInstance p x') x' = []"
proof -
  note px = patched_key [OF assms]
  have "kck_VersionTemplate (GenerateCryptoKeyInstance p x') = kck_VersionTemplate x'"
    using px assms(1,2)
    by (cases "ckp_VersionTemplate p"; cases "kck_VersionTemplate x")
      (auto simp: GenerateCryptoKeyInstance_def gen_block_def template_missing_def gen_template_def)
  moreover have "\<not> template_missing p x'"
    using px assms(1,2)
    by (cases "ckp_VersionTemplate p"; cases "kck_VersionTemplate x")
      (auto simp: GenerateCryptoKeyInstance_def gen_block_def template_missing_def)
  moreover have "key_diff (GenerateCryptoKeyInstance p x') x' = []" if "kck_VersionTemplate (GenerateCryptoKeyInstance p x') = kck_VersionTemplate x'"
    by (rule key_diff_Nil) (use px assms(1) that in \<open>simp_all add: GenerateCryptoKeyInstance_def\<close>)
  ultimately show ?thesis by blast
qed

text \<open>A spec that late initialisation has gone over stays as it is when the key is patched.\<close>

lemma settled_after_patch:
  assumes "cryptokey_LateInitializeSpec p x = p" and "d = GenerateCryptoKeyInstance p x"
    and "\<not> template_missing p x" and "key_diff d x \<noteq> []"
    and "x' = apply_key_patch (Join (key_diff d x) '','') d x"
  shows "cryptokey_LateInitializeSpec p x' = p"
proof -
  have f: "kck_Labels x = ckp_Labels p"
    "LateInitializeString (ckp_RotationPeriod p) (kck_RotationPeriod x) = ckp_RotationPeriod p"
    "LateInitializeString (ckp_NextRotationTime p) (kck_NextRotationTime x) = ckp_NextRotationTime p"
    "late_block CryptoKeyVersionTemplate0 late_template (ckp_VersionTemplate p) (kck_VersionTemplate x) = ckp_VersionTemplate p"
    using arg_cong [OF assms(1), of ckp_Labels] arg_cong [OF assms(1), of ckp_RotationPeriod]
      arg_cong [OF assms(1), of ckp_NextRotationTime] arg_cong [OF assms(1), of ckp_VersionTemplate]
    by (simp_all add: cryptokey_LateInitializeSpec_def)
  have lab: "kck_Labels x' = ckp_Labels p"
    using assms(2,5) f(1) by (simp add: apply_key_patch_def Let_def GenerateCryptoKeyInstance_def)
  have str: "LateInitializeString s (StringValue s) = s" for s
    by (cases s) (simp_all add: LateInitializeString_def)
  have tmpl: "late_block CryptoKeyVersionTemplate0 late_template (ckp_VersionTemplate p) (kck_VersionTemplate x')
      = ckp_VersionTemplate p"
    using patched_key [OF assms(2-5)] assms(2) f(4)
    by (cases "ckp_VersionTemplate p"; cases "kck_VersionTemplate x")
      (auto simp: GenerateCryptoKeyInstance_def gen_block_def late_block_def late_template_def gen_template_def str)
  show ?thesis
    using patched_key [OF assms(2-5)] assms(2) lab tmpl
    by (cases p) (simp add: cryptokey_LateInitializeSpec_def GenerateCryptoKeyInstance_def str)
qed

section \<open>Observations\<close>

lemma cryptoKey_Observe_eq:
  assumes "copy_ok (ck_copy e)" and "key_comparers_ok (ck_cmp e)" and "\<not> WasDeleted cr"
    and "CryptoKeys_Get e (cryptoKeyRRN cr) w = (w1, Inr x)" and "p = cryptokey_LateInitializeSpec (ForProvider cr) x"
  shows "cryptoKey_Observe e (Some cr) w = (if template_missing p x then None
    else Some (w1, Some (SetConditions Available (cr\<lparr>ForProvider := p, AtProvider := cryptokey_GenerateObservation x\<rparr>)),
      ExternalObservation0\<lparr>ResourceExists := True, ResourceLateInitialized := \<not> ck_spec_cmp e (ForProvider cr) p,
        ResourceUpToDate := key_diff (GenerateCryptoKeyInstance p x) x = []\<rparr>, None))"
  using assms(3,4,5) cryptokey_IsUpToDate_diff [OF assms(1,2)]
  by (simp add: cryptoKey_Observe_def Let_def)

lemma template_missing_late:
  "template_missing (cryptokey_LateInitializeSpec p x) x \<longleftrightarrow> template_missing p x"
  by (auto simp: template_missing_def cryptokey_LateInitializeSpec_def late_block_def)

text \<open>A key service whose state is one key.\<close>

definition sample_cryptoKeyExternal :: "(kms_CryptoKey, sample_error) cryptoKeyExternal" where
  "sample_cryptoKeyExternal = \<lparr>
     ck_runtime = sample_runtime, ck_copy = (\<lambda>x. Inr (Some x)),
     ck_cmp = \<lparr>kc_labels = (\<lambda>a b. labels_norm a = labels_norm b), kc_string = (=), kc_template = (=)\<rparr>,
     ck_spec_cmp = (=),
     CryptoKeys_Get = (\<lambda>n w. (w, Inr w)), CryptoKeys_Create = (\<lambda>p k n w. (k, Inr ())),
     CryptoKeys_Patch = (\<lambda>n d um w. (apply_key_patch um d w, Inr ()))\<rparr>"

definition sample_key :: kms_CryptoKey where
  "sample_key = kms_CryptoKey0\<lparr>kck_Purpose := ''ENCRYPT_DECRYPT'', kck_RotationPeriod := ''100s''\<rparr>"

definition sample_key_cr :: "CryptoKeyVersionTemplate option \<Rightarrow> CryptoKey" where
  "sample_key_cr t = sample_managed
     \<lparr>ckp_KeyRing = Some ''ring'', ckp_KeyRingRef = None, ckp_KeyRingSelector = None, ckp_Labels = None,
      ckp_Purpose = ''ENCRYPT_DECRYPT'', ckp_RotationPeriod = Some ''200s'', ckp_NextRotationTime = None,
      ckp_VersionTemplate = t\<rparr> (cryptokey_GenerateObservation kms_CryptoKey0)"

lemma sample_key_ok:
  "copy_ok (ck_copy sample_cryptoKeyExternal)" "key_comparers_ok (ck_cmp sample_cryptoKeyExternal)"
  "key_patch_ok sample_cryptoKeyExternal" "wrap_ok (ck_runtime sample_cryptoKeyExternal)"
  "CryptoKeys_Get sample_cryptoKeyExternal n w = (w, Inr w)" "\<not> WasDeleted (sample_key_cr t)"
  by (simp_all add: sample_cryptoKeyExternal_def third_party_defs key_comparers_ok_def key_patch_ok_def
      sample_key_cr_def sample_managed_def sample_runtime_def)

section \<open>Properties\<close>

text \<open>C18: an update makes a crypto key up to date. If \<open>Update\<close> succeeds on a resource whose spec has
  been late-initialised, then the next \<open>Observe\<close> reports the key as existing and up to date and
  leaves the spec alone, for any service that applies the fields named by the update mask.\<close>

theorem cryptoKey_update_converges:
  assumes "wrap_ok (ck_runtime e)" and "copy_ok (ck_copy e)" and "key_comparers_ok (ck_cmp e)" and "key_patch_ok e"
    and "\<not> WasDeleted cr" and "CryptoKeys_Get e (cryptoKeyRRN cr) w = (w1, Inr x)"
    and "cryptokey_LateInitializeSpec (ForProvider cr) x = ForProvider cr"
    and "cryptoKey_Update e (Some cr) w = Some (w2, cr2, r, None)"
  shows "\<exists>w3 cr3 ob. cryptoKey_Observe e cr2 w2 = Some (w3, Some cr3, ob, None)
    \<and> ResourceExists ob \<and> ResourceUpToDate ob \<and> ForProvider cr3 = ForProvider cr"
proof -
  let ?p = "ForProvider cr" let ?d = "GenerateCryptoKeyInstance (ForProvider cr) x"
  let ?um = "key_diff ?d x"
  have nt: "\<not> template_missing ?p x" and cr2: "cr2 = Some cr"
    and sent: "?um = [] \<and> w2 = w1 \<or> ?um \<noteq> [] \<and> CryptoKeys_Patch e (cryptoKeyRRN cr) ?d (Join ?um '','') w1 = (w2, Inr ())"
    using assms(1,6,8) cryptokey_IsUpToDate_diff [OF assms(2,3)]
    by (auto simp: cryptoKey_Update_def Let_def outcome_convs split: if_splits)
  show ?thesis
  proof (cases "?um = []")
    case True
    then obtain w3 where "CryptoKeys_Get e (cryptoKeyRRN cr) w2 = (w3, Inr x)"
      using sent assms(4,6) unfolding key_patch_ok_def by blast
    from cryptoKey_Observe_eq [OF assms(2,3,5) this refl] show ?thesis
      using True nt cr2 assms(7) by simp
  next
    case False
    define x' where "x' = apply_key_patch (Join ?um '','') ?d x"
    from False sent obtain w3 where get: "CryptoKeys_Get e (cryptoKeyRRN cr) w2 = (w3, Inr x')"
      using assms(4,6) unfolding key_patch_ok_def x'_def by blast
    from cryptoKey_Observe_eq [OF assms(2,3,5) get refl] show ?thesis
      using patched_up_to_date [OF refl nt False x'_def] settled_after_patch [OF assms(7) refl nt False x'_def] cr2
      by simp
  qed
qed

text \<open>Witness of C18: the rotation period of a key is changed.\<close>

lemma cryptoKey_update_converges_witness:
  "\<exists>w2 cr2 r w3 cr3 ob.
     cryptoKey_Update sample_cryptoKeyExternal (Some (sample_key_cr None)) sample_key = Some (w2, cr2, r, None)
   \<and> cryptoKey_Observe sample_cryptoKeyExternal cr2 w2 = Some (w3, Some cr3, ob, None) \<and> ResourceUpToDate ob"
proof -
  let ?e = sample_cryptoKeyExternal and ?cr = "sample_key_cr None"
  have "case cryptoKey_Update ?e (Some ?cr) sample_key of Some (_, _, _, None) \<Rightarrow> True | _ \<Rightarrow> False"
    by code_simp
  then obtain w2 cr2 r where up: "cryptoKey_Update ?e (Some ?cr) sample_key = Some (w2, cr2, r, None)"
    by (auto split: option.splits prod.splits)
  have "cryptokey_LateInitializeSpec (ForProvider ?cr) sample_key = ForProvider ?cr" by code_simp
  from cryptoKey_update_converges [OF sample_key_ok(4,1,2,3,6,5) this up] up show ?thesis by blast
qed

text \<open>C36: an observation of a crypto key panics exactly if the spec has a version template and the key
  has none, and then late initialisation does not help: the templates differ, and the fields of
  the missing one are read.\<close>

theorem cryptoKey_Observe_panics_iff:
  assumes "copy_ok (ck_copy e)" and "key_comparers_ok (ck_cmp e)" and "\<not> WasDeleted cr"
    and "CryptoKeys_Get e (cryptoKeyRRN cr) w = (w1, Inr x)"
  shows "cryptoKey_Observe e (Some cr) w = None
    \<longleftrightarrow> kck_VersionTemplate x = None \<and> ckp_VersionTemplate (ForProvider cr) \<noteq> None"
  using cryptoKey_Observe_eq [OF assms refl] template_missing_late [of "ForProvider cr" x]
  by (simp add: template_missing_def split: if_splits)

text \<open>Witness of C36: a spec with a version template for a key without one.\<close>

lemma cryptoKey_Observe_panics_iff_witness:
  "cryptoKey_Observe sample_cryptoKeyExternal
     (Some (sample_key_cr (Some \<lparr>vt_Algorithm = Some ''A'', vt_ProtectionLevel = None\<rparr>))) sample_key = None"
  using cryptoKey_Observe_panics_iff [OF sample_key_ok(1,2,6,5), of "Some \<lparr>vt_Algorithm = Some ''A'', vt_ProtectionLevel = None\<rparr>" sample_key]
  by (simp add: sample_key_def kms_CryptoKey0_def sample_key_cr_def sample_managed_def)

text \<open>C37: the labels of a crypto key cannot be changed. An observation overwrites the labels of the
  spec with those of the key, and whether the key is reported as up to date does not depend on
  the labels that the spec had.\<close>

theorem cryptoKey_labels_overwritten:
  assumes "copy_ok (ck_copy e)" and "key_comparers_ok (ck_cmp e)" and "\<not> WasDeleted cr"
    and "CryptoKeys_Get e (cryptoKeyRRN cr) w = (w1, Inr x)"
    and "cryptoKey_Observe e (Some cr) w = Some (w2, Some cr2, ob, None)"
  shows "ckp_Labels (ForProvider cr2) = kck_Labels x
    \<and> (\<exists>w3 cr3 ob3. cryptoKey_Observe e (Some (cr\<lparr>ForProvider := (ForProvider cr)\<lparr>ckp_Labels := ls\<rparr>\<rparr>)) w
          = Some (w3, Some cr3, ob3, None)
        \<and> ForProvider cr3 = ForProvider cr2 \<and> ResourceUpToDate ob3 = ResourceUpToDate ob)"
proof -
  let ?cr = "cr\<lparr>ForProvider := (ForProvider cr)\<lparr>ckp_Labels := ls\<rparr>\<rparr>"
  have same: "cryptokey_LateInitializeSpec (ForProvider ?cr) x = cryptokey_LateInitializeSpec (ForProvider cr) x"
    by (simp add: cryptokey_LateInitializeSpec_def)
  have "\<not> WasDeleted ?cr" "CryptoKeys_Get e (cryptoKeyRRN ?cr) w = (w1, Inr x)"
    using assms(3,4) by (simp_all add: cryptoKeyRRN_def)
  from cryptoKey_Observe_eq [OF assms(1,2) this refl] cryptoKey_Observe_eq [OF assms(1-4) refl] assms(5) same
  show ?thesis
    by (auto simp: cryptokey_LateInitializeSpec_def split: if_splits)
qed

text \<open>Witness of C37: a label that the spec asks for and the key does not have.\<close>

lemma cryptoKey_labels_overwritten_witness:
  "\<exists>w3 cr3 ob3. cryptoKey_Observe sample_cryptoKeyExternal (Some ((sample_key_cr None)\<lparr>ForProvider :=
        (ForProvider (sample_key_cr None))\<lparr>ckp_Labels := Some (fmap_of_list [(''team'', ''a'')])\<rparr>\<rparr>)) sample_key
      = Some (w3, Some cr3, ob3, None) \<and> ckp_Labels (ForProvider cr3) = None"
proof -
  let ?e = sample_cryptoKeyExternal and ?cr = "sample_key_cr None"
  have "case cryptoKey_Observe ?e (Some ?cr) sample_key of Some (_, Some _, _, None) \<Rightarrow> True | _ \<Rightarrow> False"
    by code_simp
  then obtain w2 cr2 ob where ob: "cryptoKey_Observe ?e (Some ?cr) sample_key = Some (w2, Some cr2, ob, None)"
    by (auto split: option.splits prod.splits)
  have "kck_Labels sample_key = None" by code_simp
  with cryptoKey_labels_overwritten [OF sample_key_ok(1,2,6,5) ob, of "Some (fmap_of_list [(''team'', ''a'')])"]
  show ?thesis by auto
qed

end
