(* ===== verification/PubSub_Topic.thy ===== *)
theory PubSub_Topic
  imports Gcp_Client
begin

text \<open>
  Pub/Sub topics: \<^verbatim>\<open>apis/pubsub/v1alpha1/topic_types.go\<close>, the client \<^verbatim>\<open>pkg/clients/topic/topic.go\<close> and the
  controller \<^verbatim>\<open>pkg/controller/pubsub/topic.go\<close>. An update is a patch with a field mask; the lemmas say
  which differences such a patch removes.
\<close>

section \<open>Data\<close>

record MessageStoragePolicy =
  msp_AllowedPersistenceRegions :: "string slice"

record TopicParameters =
  tp_Labels :: strmap
  tp_MessageStoragePolicy :: "MessageStoragePolicy option"
  tp_KmsKeyName :: "string option"

type_synonym Topic = "(TopicParameters, unit) managed"

definition ConnectionSecretKeyTopic :: string where
  "ConnectionSecretKeyTopic = ''topic''"
definition ConnectionSecretKeyProjectName :: string where
  "ConnectionSecretKeyProjectName = ''projectName''"

text \<open>\<^verbatim>\<open>pubsub.Topic\<close> and \<^verbatim>\<open>pubsub.UpdateTopicRequest\<close>\<close>

record pubsub_MessageStoragePolicy =
  pmsp_AllowedPersistenceRegions :: "string slice"

record pubsub_Topic =
  pt_Name :: string
  pt_Labels :: strmap
  pt_KmsKeyName :: string
  pt_MessageStoragePolicy :: "pubsub_MessageStoragePolicy option"

record pubsub_UpdateTopicRequest =
  ut_Topic :: pubsub_Topic
  ut_UpdateMask :: string

section \<open>Client\<close>

definition GetFullyQualifiedName :: "string \<Rightarrow> string \<Rightarrow> string" where
  "GetFullyQualifiedName project name = ''projects/'' @ project @ ''/topics/'' @ name"

definition GenerateTopic :: "string \<Rightarrow> string \<Rightarrow> TopicParameters \<Rightarrow> pubsub_Topic" where
  "GenerateTopic projectID name s =
     \<lparr>pt_Name = name, pt_Labels = tp_Labels s, pt_KmsKeyName = StringValue (tp_KmsKeyName s),
      pt_MessageStoragePolicy = (case tp_MessageStoragePolicy s of None \<Rightarrow> None
        | Some m \<Rightarrow> Some \<lparr>pmsp_AllowedPersistenceRegions = msp_AllowedPersistenceRegions m\<rparr>)\<rparr>"

definition topic_LateInitialize :: "TopicParameters \<Rightarrow> pubsub_Topic \<Rightarrow> TopicParameters" where
  "topic_LateInitialize s t =
     (let s = (if map_empty (tp_Labels s) \<and> \<not> map_empty (pt_Labels t)
               then s\<lparr>tp_Labels := pt_Labels t\<rparr> else s);
          s = (if tp_KmsKeyName s = None \<and> pt_KmsKeyName t \<noteq> ''''
               then s\<lparr>tp_KmsKeyName := StringPtr (pt_KmsKeyName t)\<rparr> else s)
      in case pt_MessageStoragePolicy t of
           None \<Rightarrow> s
         | Some m \<Rightarrow> if tp_MessageStoragePolicy s = None
             then s\<lparr>tp_MessageStoragePolicy :=
                      Some \<lparr>msp_AllowedPersistenceRegions = pmsp_AllowedPersistenceRegions m\<rparr>\<rparr>
             else s)"

definition TopicParameters0 :: TopicParameters where
  "TopicParameters0 = \<lparr>tp_Labels = None, tp_MessageStoragePolicy = None, tp_KmsKeyName = None\<rparr>"

definition topic_IsUpToDate :: "TopicParameters comparer \<Rightarrow> TopicParameters \<Rightarrow> pubsub_Topic \<Rightarrow> bool" where
  "topic_IsUpToDate eq s t = eq (topic_LateInitialize TopicParameters0 t) s"

definition topic_GenerateUpdateRequest ::
  "MessageStoragePolicy option comparer \<Rightarrow> strmap comparer \<Rightarrow> string \<Rightarrow> string
    \<Rightarrow> TopicParameters \<Rightarrow> pubsub_Topic \<Rightarrow> pubsub_UpdateTopicRequest" where
  "topic_GenerateUpdateRequest eqp eql projectID name s t =
     (let observed = topic_LateInitialize TopicParameters0 t;
          ut = \<lparr>pt_Name = name, pt_Labels = None, pt_KmsKeyName = '''', pt_MessageStoragePolicy = None\<rparr>;
          mask = [];
          (mask, ut) = (if \<not> eqp (tp_MessageStoragePolicy s) (tp_MessageStoragePolicy observed)
             then (mask @ [''messageStoragePolicy''],
                   case tp_MessageStoragePolicy s of None \<Rightarrow> ut
                   | Some m \<Rightarrow> ut\<lparr>pt_MessageStoragePolicy :=
                        Some \<lparr>pmsp_AllowedPersistenceRegions = msp_AllowedPersistenceRegions m\<rparr>\<rparr>)
             else (mask, ut));
          (mask, ut) = (if \<not> eql (tp_Labels s) (tp_Labels observed)
             then (mask @ [''labels''], ut\<lparr>pt_Labels := tp_Labels s\<rparr>)
             else (mask, ut))
      in \<lparr>ut_Topic = ut, ut_UpdateMask = Join mask '',''\<rparr>)"

section \<open>Controller\<close>

definition errNotTopic :: string where
  "errNotTopic = ''managed resource is not of type Topic''"
definition topic_errNewClient :: string where
  "topic_errNewClient = ''cannot create client''"
definition errGetTopic :: string where
  "errGetTopic = ''cannot get Topic''"
definition errUpdateTopic :: string where
  "errUpdateTopic = ''cannot update Topic''"
definition errKubeUpdateTopic :: string where
  "errKubeUpdateTopic = ''cannot update Topic custom resource''"
definition errCreateTopic :: string where
  "errCreateTopic = ''cannot create Topic''"
definition errDeleteTopic :: string where
  "errDeleteTopic = ''cannot delete Topic''"

text \<open>\<open>external\<close> with the calls of the topic service and the comparisons without options.\<close>

record ('w, 'e) topicExternal =
  top_runtime :: "'e runtime"
  top_spec_cmp :: "TopicParameters comparer"
  top_policy_cmp :: "MessageStoragePolicy option comparer"
  top_labels_cmp :: "strmap comparer"
  top_kube_Update :: "('w, Topic, 'e) kube_update"
  top_projectID :: string
  Topics_Get :: "string \<Rightarrow> ('w, pubsub_Topic, 'e) call"
  Topics_Create :: "string \<Rightarrow> pubsub_Topic \<Rightarrow> ('w, unit, 'e) call"
  Topics_Patch :: "string \<Rightarrow> pubsub_UpdateTopicRequest \<Rightarrow> ('w, unit, 'e) call"
  Topics_Delete :: "string \<Rightarrow> ('w, unit, 'e) call"

definition topic_Connect ::
  "'e runtime \<Rightarrow> ('w, Topic, 'src, 'sel, 'e) auth_api
    \<Rightarrow> (string \<Rightarrow> ClientOption option \<Rightarrow> ('w, ('w, 'e) topicExternal, 'e) call)
    \<Rightarrow> Topic \<Rightarrow> 'w \<Rightarrow> ('w \<times> ('w, 'e) topicExternal option \<times> 'e option) option" where
  "topic_Connect L c newService mg w = connect_service L c topic_errNewClient newService mg w"

definition topic_Observe ::
  "('w, 'e) topicExternal \<Rightarrow> Topic option \<Rightarrow> 'w \<Rightarrow> ('w, Topic, ExternalObservation, 'e) outcome" where
  "topic_Observe e mg w =
     (let L = top_runtime e in
      case mg of
        None \<Rightarrow> (w, None, ExternalObservation0, Some (errors_New L errNotTopic))
      | Some cr \<Rightarrow>
         (case Topics_Get e (GetFullyQualifiedName (top_projectID e) (ExternalName cr)) w of
            (w1, Inl err) \<Rightarrow> (w1, Some cr, ExternalObservation0,
               errors_Wrap L (resource_Ignore L (IsErrorNotFound L) (Some err)) errGetTopic)
          | (w1, Inr t) \<Rightarrow>
              let currentSpec = ForProvider cr;
                  cr = cr\<lparr>ForProvider := topic_LateInitialize (ForProvider cr) t\<rparr>;
                  (w2, cr, err) = (if \<not> top_spec_cmp e currentSpec (ForProvider cr)
                                   then top_kube_Update e cr w1 else (w1, cr, None))
              in if err \<noteq> None
                 then (w2, Some cr, ExternalObservation0, errors_Wrap L err errKubeUpdateTopic)
                 else let cr = SetConditions Available cr in
                   (w2, Some cr, ExternalObservation0\<lparr>ResourceExists := True,
                      ResourceUpToDate := topic_IsUpToDate (top_spec_cmp e) (ForProvider cr) t,
                      ObservedDetails := Some (fmap_of_list
                        [(ConnectionSecretKeyTopic, ExternalName cr),
                         (ConnectionSecretKeyProjectName, top_projectID e)])\<rparr>, None)))"

definition topic_Create ::
  "('w, 'e) topicExternal \<Rightarrow> Topic option \<Rightarrow> 'w \<Rightarrow> ('w, Topic, ExternalCreation, 'e) outcome" where
  "topic_Create e mg w =
     (let L = top_runtime e in
      case mg of
        None \<Rightarrow> (w, None, ExternalCreation0, Some (errors_New L errNotTopic))
      | Some cr \<Rightarrow>
          let cr = SetConditions Creating cr;
              r = Topics_Create e (GetFullyQualifiedName (top_projectID e) (ExternalName cr))
                    (GenerateTopic (top_projectID e) (ExternalName cr) (ForProvider cr)) w
          in (fst r, Some cr, ExternalCreation0, errors_Wrap L (call_error r) errCreateTopic))"

definition topic_Update ::
  "('w, 'e) topicExternal \<Rightarrow> Topic option \<Rightarrow> 'w \<Rightarrow> ('w, Topic, ExternalUpdate, 'e) outcome" where
  "topic_Update e mg w =
     (let L = top_runtime e in
      case mg of
        None \<Rightarrow> (w, None, ExternalUpdate0, Some (errors_New L errNotTopic))
      | Some cr \<Rightarrow>
         (let name = GetFullyQualifiedName (top_projectID e) (ExternalName cr) in
          case Topics_Get e name w of
            (w1, Inl err) \<Rightarrow> (w1, Some cr, ExternalUpdate0, errors_Wrap L (Some err) errGetTopic)
          | (w1, Inr t) \<Rightarrow>
              let r = Topics_Patch e name (topic_GenerateUpdateRequest (top_policy_cmp e) (top_labels_cmp e)
                        (top_projectID e) (ExternalName cr) (ForProvider cr) t) w1
              in (fst r, Some cr, ExternalUpdate0, errors_Wrap L (call_error r) errUpdateTopic)))"

definition topic_Delete ::
  "('w, 'e) topicExternal \<Rightarrow> Topic option \<Rightarrow> 'w \<Rightarrow> ('w, Topic, unit, 'e) outcome" where
  "topic_Delete e mg w =
     (let L = top_runtime e in
      case mg of
        None \<Rightarrow> (w, None, (), Some (errors_New L errNotTopic))
      | Some cr \<Rightarrow>
          let r = Topics_Delete e (GetFullyQualifiedName (top_projectID e) (ExternalName cr)) w
          in (fst r, Some cr, (),
              errors_Wrap L (resource_Ignore L (IsErrorNotFound L) (call_error r)) errDeleteTopic))"

section \<open>Late initialisation\<close>

definition topic_keeps :: "TopicParameters \<Rightarrow> TopicParameters \<Rightarrow> bool" where
  "topic_keeps a b \<longleftrightarrow> keeps_map (tp_Labels a) (tp_Labels b) \<and> keeps_ptr (tp_KmsKeyName a) (tp_KmsKeyName b)
     \<and> keeps_ptr (tp_MessageStoragePolicy a) (tp_MessageStoragePolicy b)"

definition spec_policy :: "pubsub_MessageStoragePolicy \<Rightarrow> MessageStoragePolicy" where
  "spec_policy m = \<lparr>msp_AllowedPersistenceRegions = pmsp_AllowedPersistenceRegions m\<rparr>"

lemma topic_init_fields [simp]:
  "tp_Labels (topic_LateInitialize s t) = LateInitializeStringMap (tp_Labels s) (pt_Labels t)"
  "tp_KmsKeyName (topic_LateInitialize s t) = LateInitializeString (tp_KmsKeyName s) (pt_KmsKeyName t)"
  "tp_MessageStoragePolicy (topic_LateInitialize s t)
     = late_ptr (tp_MessageStoragePolicy s) (map_option spec_policy (pt_MessageStoragePolicy t))"
  by (cases "tp_KmsKeyName s"; cases "pt_MessageStoragePolicy t"; cases "tp_MessageStoragePolicy s";
      simp add: topic_LateInitialize_def Let_def LateInitializeStringMap_def LateInitializeString_def
        late_ptr_def spec_policy_def StringPtr_def)+

lemma topic_eqI:
  "tp_Labels a = tp_Labels b \<Longrightarrow> tp_KmsKeyName a = tp_KmsKeyName b \<Longrightarrow>
   tp_MessageStoragePolicy a = tp_MessageStoragePolicy b \<Longrightarrow> a = (b :: TopicParameters)"
  by (cases a; cases b) simp

interpretation topic_init: late_initializer "\<lambda>s t. Some (topic_LateInitialize s t)" topic_keeps
  by unfold_locales (auto simp: topic_keeps_def intro: topic_eqI)

section \<open>Patches\<close>

text \<open>
  The documented effect of a patch: the fields named by the mask are replaced by those of the
  request, and the others are left alone.
\<close>

definition apply_topic_patch :: "pubsub_UpdateTopicRequest \<Rightarrow> pubsub_Topic \<Rightarrow> pubsub_Topic" where
  "apply_topic_patch u t =
     (let paths = mask_paths (ut_UpdateMask u);
          t = (if ''messageStoragePolicy'' \<in> set paths
               then t\<lparr>pt_MessageStoragePolicy := pt_MessageStoragePolicy (ut_Topic u)\<rparr> else t);
          t = (if ''labels'' \<in> set paths then t\<lparr>pt_Labels := pt_Labels (ut_Topic u)\<rparr> else t)
      in if ''kmsKeyName'' \<in> set paths then t\<lparr>pt_KmsKeyName := pt_KmsKeyName (ut_Topic u)\<rparr> else t)"

definition topic_patch_ok :: "('w, 'e) topicExternal \<Rightarrow> bool" where
  \<comment> \<open>a patch that succeeds is visible to the reads that follow\<close>
  "topic_patch_ok e \<longleftrightarrow> (\<forall>n u w w1 w2 t. Topics_Get e n w = (w1, Inr t) \<and> Topics_Patch e n u w1 = (w2, Inr ())
     \<longrightarrow> (\<exists>w3. Topics_Get e n w2 = (w3, Inr (apply_topic_patch u t))))"

definition api_policy :: "MessageStoragePolicy \<Rightarrow> pubsub_MessageStoragePolicy" where
  "api_policy m = \<lparr>pmsp_AllowedPersistenceRegions = msp_AllowedPersistenceRegions m\<rparr>"

lemma policy_inverse [simp]: "spec_policy (api_policy m) = m" "api_policy (spec_policy p) = p"
  by (simp_all add: spec_policy_def api_policy_def)

lemma topic_patch_effect:
  assumes "cmp_exact eqp" and "cmp_exact eql"
  shows "apply_topic_patch (topic_GenerateUpdateRequest eqp eql p n s t) t = t\<lparr>
    pt_MessageStoragePolicy := map_option api_policy (tp_MessageStoragePolicy s),
    pt_Labels := (if tp_Labels s = LateInitializeStringMap None (pt_Labels t) then pt_Labels t else tp_Labels s)\<rparr>"
proof -
  have m: "map_option api_policy (map_option spec_policy o') = o'" for o'
    by (cases o') simp_all
  show ?thesis
    using assms
    by (simp add: apply_topic_patch_def topic_GenerateUpdateRequest_def Let_def cmp_exact_def TopicParameters0_def m)
      (auto simp: api_policy_def split: option.split)
qed

lemma topic_settled_after_patch:
  assumes "topic_LateInitialize s t = s"
    and "t' = t\<lparr>pt_MessageStoragePolicy := map_option api_policy (tp_MessageStoragePolicy s),
      pt_Labels := (if tp_Labels s = LateInitializeStringMap None (pt_Labels t) then pt_Labels t else tp_Labels s)\<rparr>"
  shows "topic_LateInitialize s t' = s"
    and "topic_LateInitialize TopicParameters0 t' = s \<longleftrightarrow>
      tp_KmsKeyName s = LateInitializeString None (pt_KmsKeyName t) \<and> tp_Labels s \<noteq> Some fmempty"
proof -
  have f: "LateInitializeStringMap (tp_Labels s) (pt_Labels t) = tp_Labels s"
    "LateInitializeString (tp_KmsKeyName s) (pt_KmsKeyName t) = tp_KmsKeyName s"
    "late_ptr (tp_MessageStoragePolicy s) (map_option spec_policy (pt_MessageStoragePolicy t)) = tp_MessageStoragePolicy s"
    using assms(1) topic_init_fields [of s t] by simp_all
  show "topic_LateInitialize s t' = s"
    by (rule topic_eqI) (use f assms(2) in \<open>auto simp: LateInitializeStringMap_def late_ptr_def\<close>)
  have "map_option spec_policy (map_option api_policy o') = o'" for o'
    by (cases o') simp_all
  then have pol: "tp_MessageStoragePolicy (topic_LateInitialize TopicParameters0 t') = tp_MessageStoragePolicy s"
    using assms(2) by (simp add: TopicParameters0_def)
  have lab: "tp_Labels (topic_LateInitialize TopicParameters0 t') = tp_Labels s \<longleftrightarrow> tp_Labels s \<noteq> Some fmempty"
    using f(1) assms(2)
    by (cases "tp_Labels s"; cases "pt_Labels t") (auto simp: TopicParameters0_def LateInitializeStringMap_def)
  have kms: "tp_KmsKeyName (topic_LateInitialize TopicParameters0 t') = LateInitializeString None (pt_KmsKeyName t)"
    using assms(2) by (simp add: TopicParameters0_def)
  show "topic_LateInitialize TopicParameters0 t' = s \<longleftrightarrow>
      tp_KmsKeyName s = LateInitializeString None (pt_KmsKeyName t) \<and> tp_Labels s \<noteq> Some fmempty"
    using pol lab kms by (metis topic_eqI)
qed

text \<open>A topic service whose state is one topic.\<close>

definition sample_topicExternal :: "(pubsub_Topic, sample_error) topicExternal" where
  "sample_topicExternal = \<lparr>
     top_runtime = sample_runtime, top_spec_cmp = (=), top_policy_cmp = (=), top_labels_cmp = (=),
     top_kube_Update = (\<lambda>cr w. (w, cr, None)), top_projectID = ''p'',
     Topics_Get = (\<lambda>n w. (w, Inr w)), Topics_Create = (\<lambda>n t w. (t, Inr ())),
     Topics_Patch = (\<lambda>n u w. (apply_topic_patch u w, Inr ())), Topics_Delete = (\<lambda>n w. (w, Inr ()))\<rparr>"

definition sample_topic :: pubsub_Topic where
  "sample_topic = \<lparr>pt_Name = ''name'', pt_Labels = Some (fmap_of_list [(''a'', ''1'')]),
     pt_KmsKeyName = '''', pt_MessageStoragePolicy = None\<rparr>"

definition sample_topic_cr :: Topic where
  "sample_topic_cr = sample_managed \<lparr>tp_Labels = Some (fmap_of_list [(''a'', ''2'')]),
     tp_MessageStoragePolicy = Some \<lparr>msp_AllowedPersistenceRegions = Some [''eu'']\<rparr>, tp_KmsKeyName = None\<rparr> ()"

lemmas sample_topic_defs =
  sample_topicExternal_def sample_topic_def sample_topic_cr_def sample_managed_def

section \<open>Properties\<close>

text \<open>C19: what an update of a topic achieves. After a successful \<open>Update\<close> of a resource whose spec
  has been late-initialised, the next \<open>Observe\<close> succeeds without writing the spec back, and it
  reports the topic as up to date exactly if the encryption key of the spec is that of the topic
  and the labels of the spec are not an empty map that is not nil. The key is never part of the
  patch, and an empty map never compares equal to the missing labels of a topic: in these two
  cases updates are repeated forever.\<close>

theorem topic_update_converges:
  assumes "wrap_ok (top_runtime e)" and "topic_patch_ok e"
    and "cmp_exact (top_spec_cmp e)" "cmp_exact (top_policy_cmp e)" "cmp_exact (top_labels_cmp e)"
    and "Topics_Get e (GetFullyQualifiedName (top_projectID e) (ExternalName cr)) w = (w1, Inr t)"
    and "topic_LateInitialize (ForProvider cr) t = ForProvider cr"
    and "topic_Update e (Some cr) w = (w2, cr2, r, None)"
  shows "\<exists>w3 cr3 ob. topic_Observe e cr2 w2 = (w3, Some cr3, ob, None) \<and> ForProvider cr3 = ForProvider cr
    \<and> ResourceExists ob
    \<and> (ResourceUpToDate ob \<longleftrightarrow> tp_KmsKeyName (ForProvider cr) = LateInitializeString None (pt_KmsKeyName t)
          \<and> tp_Labels (ForProvider cr) \<noteq> Some fmempty)"
proof -
  let ?n = "GetFullyQualifiedName (top_projectID e) (ExternalName cr)"
  let ?u = "topic_GenerateUpdateRequest (top_policy_cmp e) (top_labels_cmp e) (top_projectID e)
    (ExternalName cr) (ForProvider cr) t"
  have "fst (Topics_Patch e ?n ?u w1) = w2" "call_error (Topics_Patch e ?n ?u w1) = None" and cr2: "cr2 = Some cr"
    using assms(1,6,8) by (simp_all add: topic_Update_def Let_def)
  then have up: "Topics_Patch e ?n ?u w1 = (w2, Inr ())"
    using call_error_None_unit by metis
  obtain w3 where get: "Topics_Get e ?n w2 = (w3, Inr (apply_topic_patch ?u t))"
    using assms(2,6) up unfolding topic_patch_ok_def by blast
  define t' where "t' = apply_topic_patch ?u t"
  note settled = topic_settled_after_patch [OF assms(7) t'_def [unfolded topic_patch_effect [OF assms(4,5)]]]
  show ?thesis
    using get settled assms(3) cr2
    by (simp add: topic_Observe_def Let_def topic_IsUpToDate_def cmp_exact_def t'_def [symmetric])
qed

text \<open>Witness of C19: a topic whose label and storage policy differ from the spec.\<close>

lemma topic_update_converges_witness:
  "\<exists>w2 cr2 r w3 cr3 ob. topic_Update sample_topicExternal (Some sample_topic_cr) sample_topic = (w2, cr2, r, None)
    \<and> topic_Observe sample_topicExternal cr2 w2 = (w3, Some cr3, ob, None) \<and> ResourceUpToDate ob"
proof -
  obtain w2 cr2 r where up: "topic_Update sample_topicExternal (Some sample_topic_cr) sample_topic = (w2, cr2, r, None)"
    by (simp add: topic_Update_def sample_topic_defs sample_runtime_def Let_def)
  have "topic_patch_ok sample_topicExternal"
    by (simp add: topic_patch_ok_def sample_topicExternal_def)
  moreover have "topic_LateInitialize (ForProvider sample_topic_cr) sample_topic = ForProvider sample_topic_cr"
    by code_simp
  ultimately obtain w3 cr3 ob where
    "topic_Observe sample_topicExternal cr2 w2 = (w3, Some cr3, ob, None)"
    "ResourceUpToDate ob \<longleftrightarrow> tp_KmsKeyName (ForProvider sample_topic_cr) = LateInitializeString None (pt_KmsKeyName sample_topic)
       \<and> tp_Labels (ForProvider sample_topic_cr) \<noteq> Some fmempty"
    using topic_update_converges [OF _ _ _ _ _ _ _ up, of sample_topic sample_topic]
    by (auto simp: sample_topicExternal_def sample_runtime_ok cmp_exact_def)
  moreover have "tp_Labels (ForProvider sample_topic_cr) \<noteq> Some fmempty" by code_simp
  ultimately show ?thesis
    using up by (auto simp: sample_topic_defs LateInitializeString_def)
qed

end
