(* ===== verification/Memorystore.thy ===== *)
theory Memorystore
  imports Gcp_Client Go_Encoding
begin

text \<open>
  Cloud Memorystore (Redis) instances: \<^verbatim>\<open>apis/cache/v1beta1/cloudmemorystore_instance_types.go\<close>, the
  client \<^verbatim>\<open>pkg/clients/cloudmemorystore/cloudmemorystore.go\<close> and the controller
  \<^verbatim>\<open>pkg/controller/cache/managed.go\<close>.
\<close>

section \<open>Data\<close>

record CloudMemorystoreInstanceParameters =
  cmp_Region :: string
  cmp_Tier :: string
  cmp_MemorySizeGB :: int64
  cmp_DisplayName :: "string option"
  cmp_Labels :: strmap
  cmp_LocationID :: "string option"
  cmp_AlternativeLocationID :: "string option"
  cmp_RedisVersion :: "string option"
  cmp_ReservedIPRange :: "string option"
  cmp_RedisConfigs :: strmap
  cmp_AuthorizedNetwork :: "string option"
  cmp_ConnectMode :: "string option"

record CloudMemorystoreInstanceObservation =
  cmo_Name :: string
  cmo_Host :: string
  cmo_Port :: int64
  cmo_CurrentLocationID :: string
  cmo_CreateTime :: "Time option"
  cmo_State :: string
  cmo_StatusMessage :: string
  cmo_PersistenceIAMIdentity :: string

type_synonym CloudMemorystoreInstance =
  "(CloudMemorystoreInstanceParameters, CloudMemorystoreInstanceObservation) managed"

text \<open>\<^verbatim>\<open>redis.Instance\<close>\<close>

record redis_Instance =
  ri_Name :: string
  ri_Tier :: string
  ri_MemorySizeGb :: int64
  ri_Labels :: strmap
  ri_RedisConfigs :: strmap
  ri_DisplayName :: string
  ri_LocationId :: string
  ri_AlternativeLocationId :: string
  ri_RedisVersion :: string
  ri_ReservedIpRange :: string
  ri_AuthorizedNetwork :: string
  ri_ConnectMode :: string
  ri_Host :: string
  ri_Port :: int64
  ri_CurrentLocationId :: string
  ri_CreateTime :: string
  ri_State :: string
  ri_StatusMessage :: string
  ri_PersistenceIamIdentity :: string

definition redis_Instance0 :: redis_Instance where
  "redis_Instance0 = \<lparr>ri_Name = '''', ri_Tier = '''', ri_MemorySizeGb = 0, ri_Labels = None,
     ri_RedisConfigs = None, ri_DisplayName = '''', ri_LocationId = '''', ri_AlternativeLocationId = '''',
     ri_RedisVersion = '''', ri_ReservedIpRange = '''', ri_AuthorizedNetwork = '''', ri_ConnectMode = '''',
     ri_Host = '''', ri_Port = 0, ri_CurrentLocationId = '''', ri_CreateTime = '''', ri_State = '''',
     ri_StatusMessage = '''', ri_PersistenceIamIdentity = ''''\<rparr>"

section \<open>Client\<close>

definition redis_StateCreating :: string where
  "redis_StateCreating = ''CREATING''"
definition redis_StateReady :: string where
  "redis_StateReady = ''READY''"
definition redis_StateDeleting :: string where
  "redis_StateDeleting = ''DELETING''"
definition redis_client_errCheckUpToDate :: string where
  "redis_client_errCheckUpToDate = ''unable to determine if external resource is up to date''"

definition GetFullyQualifiedParent :: "string \<Rightarrow> CloudMemorystoreInstanceParameters \<Rightarrow> string" where
  "GetFullyQualifiedParent project p = ''projects/'' @ project @ ''/locations/'' @ cmp_Region p"

definition redis_GetFullyQualifiedName ::
  "string \<Rightarrow> CloudMemorystoreInstanceParameters \<Rightarrow> string \<Rightarrow> string" where
  "redis_GetFullyQualifiedName project p name =
     ''projects/'' @ project @ ''/locations/'' @ cmp_Region p @ ''/instances/'' @ name"

definition GenerateRedisInstance ::
  "string \<Rightarrow> CloudMemorystoreInstanceParameters \<Rightarrow> redis_Instance \<Rightarrow> redis_Instance" where
  "GenerateRedisInstance name s r = r\<lparr>
     ri_Name := name,
     ri_Tier := cmp_Tier s,
     ri_MemorySizeGb := cmp_MemorySizeGB s,
     ri_Labels := cmp_Labels s,
     ri_RedisConfigs := cmp_RedisConfigs s,
     ri_DisplayName := StringValue (cmp_DisplayName s),
     ri_LocationId := StringValue (cmp_LocationID s),
     ri_AlternativeLocationId := StringValue (cmp_AlternativeLocationID s),
     ri_RedisVersion := StringValue (cmp_RedisVersion s),
     ri_ReservedIpRange := StringValue (cmp_ReservedIPRange s),
     ri_AuthorizedNetwork := StringValue (cmp_AuthorizedNetwork s),
     ri_ConnectMode := StringValue (cmp_ConnectMode s)\<rparr>"

definition redis_GenerateObservation :: "redis_Instance \<Rightarrow> CloudMemorystoreInstanceObservation" where
  "redis_GenerateObservation r = \<lparr>
     cmo_Name = ri_Name r, cmo_Host = ri_Host r, cmo_Port = ri_Port r,
     cmo_CurrentLocationID = ri_CurrentLocationId r,
     cmo_CreateTime = Parse_RFC3339 (ri_CreateTime r),
     cmo_State = ri_State r, cmo_StatusMessage = ri_StatusMessage r,
     cmo_PersistenceIAMIdentity = ri_PersistenceIamIdentity r\<rparr>"

definition redis_LateInitializeSpec ::
  "CloudMemorystoreInstanceParameters \<Rightarrow> redis_Instance \<Rightarrow> CloudMemorystoreInstanceParameters" where
  "redis_LateInitializeSpec spec r = spec\<lparr>
     cmp_Tier := late_str (cmp_Tier spec) (ri_Tier r),
     cmp_MemorySizeGB := (if cmp_MemorySizeGB spec = 0 then ri_MemorySizeGb r else cmp_MemorySizeGB spec),
     cmp_DisplayName := LateInitializeString (cmp_DisplayName spec) (ri_DisplayName r),
     cmp_Labels := LateInitializeStringMap (cmp_Labels spec) (ri_Labels r),
     cmp_LocationID := LateInitializeString (cmp_LocationID spec) (ri_LocationId r),
     cmp_AlternativeLocationID := LateInitializeString (cmp_AlternativeLocationID spec) (ri_AlternativeLocationId r),
     cmp_RedisVersion := LateInitializeString (cmp_RedisVersion spec) (ri_RedisVersion r),
     cmp_ReservedIPRange := LateInitializeString (cmp_ReservedIPRange spec) (ri_ReservedIpRange r),
     cmp_RedisConfigs := LateInitializeStringMap (cmp_RedisConfigs spec) (ri_RedisConfigs r),
     cmp_AuthorizedNetwork := LateInitializeString (cmp_AuthorizedNetwork spec) (ri_AuthorizedNetwork r),
     cmp_ConnectMode := LateInitializeString (cmp_ConnectMode spec) (ri_ConnectMode r)\<rparr>"

definition redis_IsUpToDate ::
  "'e runtime \<Rightarrow> (redis_Instance, 'e) copier \<Rightarrow> strmap comparer
    \<Rightarrow> string \<Rightarrow> CloudMemorystoreInstanceParameters \<Rightarrow> redis_Instance \<Rightarrow> bool \<times> 'e option" where
  "redis_IsUpToDate L copy eq name in' observed =
     (case copy observed of
        Inl err \<Rightarrow> (True, errors_Wrap L (Some err) redis_client_errCheckUpToDate)
      | Inr None \<Rightarrow> (True, Some (errors_New L redis_client_errCheckUpToDate))
      | Inr (Some desired) \<Rightarrow>
          let desired = GenerateRedisInstance name in' desired in
          if ri_MemorySizeGb desired \<noteq> ri_MemorySizeGb observed then (False, None)
          else if ri_DisplayName desired \<noteq> ri_DisplayName observed then (False, None)
          else if \<not> eq (ri_RedisConfigs desired) (ri_RedisConfigs observed) then (False, None)
          else if \<not> eq (ri_Labels desired) (ri_Labels observed) then (False, None)
          else (True, None))"

section \<open>Controller\<close>

definition redis_errNewClient :: string where
  "redis_errNewClient = ''cannot create new CloudMemorystore client''"
definition errNotInstance :: string where
  "errNotInstance = ''managed resource is not an CloudMemorystore instance''"
definition errUpdateCR :: string where
  "errUpdateCR = ''cannot update CloudMemorystore custom resource''"
definition errGetInstance :: string where
  "errGetInstance = ''cannot get CloudMemorystore instance''"
definition errCreateInstance :: string where
  "errCreateInstance = ''cannot create CloudMemorystore instance''"
definition errUpdateInstance :: string where
  "errUpdateInstance = ''cannot update CloudMemorystore instance''"
definition errDeleteInstance :: string where
  "errDeleteInstance = ''cannot delete CloudMemorystore instance''"
definition redis_errCheckUpToDate :: string where
  "redis_errCheckUpToDate = ''cannot determine if CloudMemorystore instance is up to date''"

text \<open>
  \<open>external\<close> with the calls of the Redis service. \<open>Create\<close> gets the parent, the instance and the
  instance id; the two comparisons have no options.
\<close>

record ('w, 'e) redisExternal =
  red_runtime :: "'e runtime"
  red_copy :: "(redis_Instance, 'e) copier"
  red_map_cmp :: "strmap comparer"
  red_spec_cmp :: "CloudMemorystoreInstanceParameters comparer"
  red_kube_Update :: "('w, CloudMemorystoreInstance, 'e) kube_update"
  red_projectID :: string
  Instances_Get :: "string \<Rightarrow> ('w, redis_Instance, 'e) call"
  Instances_Create :: "string \<Rightarrow> redis_Instance \<Rightarrow> string \<Rightarrow> ('w, unit, 'e) call"
  Instances_Patch :: "string \<Rightarrow> redis_Instance \<Rightarrow> ('w, unit, 'e) call"
  Instances_Delete :: "string \<Rightarrow> ('w, unit, 'e) call"

definition redis_Connect ::
  "'e runtime \<Rightarrow> ('w, CloudMemorystoreInstance, 'src, 'sel, 'e) auth_api
    \<Rightarrow> (string \<Rightarrow> ClientOption option \<Rightarrow> ('w, ('w, 'e) redisExternal, 'e) call)
    \<Rightarrow> CloudMemorystoreInstance \<Rightarrow> 'w \<Rightarrow> ('w \<times> ('w, 'e) redisExternal option \<times> 'e option) option" where
  \<comment> \<open>the error that is wrapped on success is nil\<close>
  "redis_Connect L c newService mg w = do {
     (w1, projectID, opts, err) \<leftarrow> GetAuthInfo L c mg w;
     if err \<noteq> None then Some (w1, None, err)
     else (case newService projectID opts w1 of
         (w2, Inl err) \<Rightarrow> Some (w2, None, errors_Wrap L (Some err) redis_errNewClient)
       | (w2, Inr s) \<Rightarrow> Some (w2, Some s, errors_Wrap L None redis_errNewClient)) }"

text \<open>The switch over the state: the condition that is set and the connection details.\<close>

definition redis_state :: "CloudMemorystoreInstanceObservation \<Rightarrow> condition \<times> (string, bytes) fmap" where
  "redis_state at =
     (if cmo_State at = redis_StateReady
      then (Available, fmap_of_list [(ResourceCredentialsSecretEndpointKey, cmo_Host at),
                                     (ResourceCredentialsSecretPortKey, Itoa (sint (cmo_Port at)))])
      else if cmo_State at = redis_StateCreating then (Creating, fmempty)
      else if cmo_State at = redis_StateDeleting then (Deleting, fmempty)
      else (Unavailable, fmempty))"

definition redis_Observe ::
  "('w, 'e) redisExternal \<Rightarrow> CloudMemorystoreInstance option \<Rightarrow> 'w
    \<Rightarrow> ('w, CloudMemorystoreInstance, ExternalObservation, 'e) outcome" where
  "redis_Observe e mg w =
     (let L = red_runtime e in
      case mg of
        None \<Rightarrow> (w, None, ExternalObservation0, Some (errors_New L errNotInstance))
      | Some cr \<Rightarrow>
         (case Instances_Get e (redis_GetFullyQualifiedName (red_projectID e) (ForProvider cr) (ExternalName cr)) w of
            (w1, Inl err) \<Rightarrow> (w1, Some cr, ExternalObservation0,
               errors_Wrap L (resource_Ignore L (IsErrorNotFound L) (Some err)) errGetInstance)
          | (w1, Inr existing) \<Rightarrow>
              let currentSpec = ForProvider cr;
                  cr = cr\<lparr>ForProvider := redis_LateInitializeSpec (ForProvider cr) existing\<rparr>;
                  (w2, cr, err) = (if \<not> red_spec_cmp e currentSpec (ForProvider cr)
                                   then red_kube_Update e cr w1 else (w1, cr, None))
              in if err \<noteq> None
                 then (w2, Some cr, ExternalObservation0, errors_Wrap L err errUpdateCR)
                 else
                   let cr = cr\<lparr>AtProvider := redis_GenerateObservation existing\<rparr>;
                       (cond, conn) = redis_state (AtProvider cr);
                       cr = SetConditions cond cr;
                       (u, err) = redis_IsUpToDate L (red_copy e) (red_map_cmp e) (ExternalName cr)
                                    (ForProvider cr) existing
                   in if err \<noteq> None
                      then (w2, Some cr, ExternalObservation0, errors_Wrap L err redis_errCheckUpToDate)
                      else (w2, Some cr, ExternalObservation0\<lparr>ResourceExists := True, ResourceUpToDate := u,
                              ObservedDetails := Some conn\<rparr>, None)))"

definition redis_Create ::
  "('w, 'e) redisExternal \<Rightarrow> CloudMemorystoreInstance option \<Rightarrow> 'w
    \<Rightarrow> ('w, CloudMemorystoreInstance, ExternalCreation, 'e) outcome" where
  "redis_Create e mg w =
     (let L = red_runtime e in
      case mg of
        None \<Rightarrow> (w, None, ExternalCreation0, Some (errors_New L errNotInstance))
      | Some i \<Rightarrow>
          let i = SetConditions Creating i;
              instance' = GenerateRedisInstance
                (redis_GetFullyQualifiedName (red_projectID e) (ForProvider i) (ExternalName i))
                (ForProvider i) redis_Instance0;
              r = Instances_Create e (GetFullyQualifiedParent (red_projectID e) (ForProvider i)) instance'
                    (ExternalName i) w
          in (fst r, Some i, ExternalCreation0, errors_Wrap L (call_error r) errCreateInstance))"

definition redis_Update ::
  "('w, 'e) redisExternal \<Rightarrow> CloudMemorystoreInstance option \<Rightarrow> 'w
    \<Rightarrow> ('w, CloudMemorystoreInstance, ExternalUpdate, 'e) outcome" where
  "redis_Update e mg w =
     (let L = red_runtime e in
      case mg of
        None \<Rightarrow> (w, None, ExternalUpdate0, Some (errors_New L errNotInstance))
      | Some i \<Rightarrow>
          let fqn = redis_GetFullyQualifiedName (red_projectID e) (ForProvider i) (ExternalName i);
              instance' = GenerateRedisInstance fqn (ForProvider i) redis_Instance0;
              r = Instances_Patch e fqn instance' w
          in (fst r, Some i, ExternalUpdate0, errors_Wrap L (call_error r) errUpdateInstance))"

definition redis_Delete ::
  "('w, 'e) redisExternal \<Rightarrow> CloudMemorystoreInstance option \<Rightarrow> 'w
    \<Rightarrow> ('w, CloudMemorystoreInstance, unit, 'e) outcome" where
  "redis_Delete e mg w =
     (let L = red_runtime e in
      case mg of
        None \<Rightarrow> (w, None, (), Some (errors_New L errNotInstance))
      | Some i \<Rightarrow>
          let i = SetConditions Deleting i;
              r = Instances_Delete e (redis_GetFullyQualifiedName (red_projectID e) (ForProvider i) (ExternalName i)) w
          in (fst r, Some i, (),
              errors_Wrap L (resource_Ignore L (IsErrorNotFound L) (call_error r)) errDeleteInstance))"

section \<open>Late initialisation and comparison\<close>

definition redis_keeps ::
  "CloudMemorystoreInstanceParameters \<Rightarrow> CloudMemorystoreInstanceParameters \<Rightarrow> bool" where
  "redis_keeps a b \<longleftrightarrow> cmp_Region b = cmp_Region a
     \<and> keeps_str (cmp_Tier a) (cmp_Tier b) \<and> keeps_int (cmp_MemorySizeGB a) (cmp_MemorySizeGB b)
     \<and> keeps_ptr (cmp_DisplayName a) (cmp_DisplayName b) \<and> keeps_map (cmp_Labels a) (cmp_Labels b)
     \<and> keeps_ptr (cmp_LocationID a) (cmp_LocationID b)
     \<and> keeps_ptr (cmp_AlternativeLocationID a) (cmp_AlternativeLocationID b)
     \<and> keeps_ptr (cmp_RedisVersion a) (cmp_RedisVersion b)
     \<and> keeps_ptr (cmp_ReservedIPRange a) (cmp_ReservedIPRange b)
     \<and> keeps_map (cmp_RedisConfigs a) (cmp_RedisConfigs b)
     \<and> keeps_ptr (cmp_AuthorizedNetwork a) (cmp_AuthorizedNetwork b)
     \<and> keeps_ptr (cmp_ConnectMode a) (cmp_ConnectMode b)"

interpretation redis_init: late_initializer "\<lambda>s x. Some (redis_LateInitializeSpec s x)" redis_keeps
  by unfold_locales (auto simp: redis_LateInitializeSpec_def redis_keeps_def keeps_int_def)

interpretation redis_desired: desired_state "\<lambda>(name, p) x. Some (GenerateRedisInstance name p x)"
  by unfold_locales (auto simp: GenerateRedisInstance_def)

text \<open>What an unset or a set field of the spec contributes to the comparison.\<close>

lemma late_string_matches: "StringValue (LateInitializeString s t) = t \<longleftrightarrow> s = None \<or> s = Some t"
  by (cases s) (auto simp: LateInitializeString_def)

lemma late_map_matches:
  "LateInitializeStringMap s t = t \<longleftrightarrow> (map_empty s \<and> \<not> map_empty t) \<or> s = t"
  by (auto simp: LateInitializeStringMap_def)

definition redis_matches :: "CloudMemorystoreInstanceParameters \<Rightarrow> redis_Instance \<Rightarrow> bool" where
  "redis_matches s x \<longleftrightarrow> cmp_MemorySizeGB s \<in> {0, ri_MemorySizeGb x}
     \<and> cmp_DisplayName s \<in> {None, Some (ri_DisplayName x)}
     \<and> (map_empty (cmp_RedisConfigs s) \<and> \<not> map_empty (ri_RedisConfigs x) \<or> cmp_RedisConfigs s = ri_RedisConfigs x)
     \<and> (map_empty (cmp_Labels s) \<and> \<not> map_empty (ri_Labels x) \<or> cmp_Labels s = ri_Labels x)"

lemma redis_up_to_date_iff:
  assumes "copy_ok copy" and "cmp_exact eq"
  shows "redis_IsUpToDate L copy eq name (redis_LateInitializeSpec s x) x = (redis_matches s x, None)"
  using assms
  by (auto simp: redis_IsUpToDate_def copy_ok_def cmp_exact_def Let_def GenerateRedisInstance_def
      redis_LateInitializeSpec_def late_string_matches late_map_matches redis_matches_def)

text \<open>A Redis service with one instance, and a Kubernetes API server that echoes updates.\<close>

definition sample_redisExternal :: "redis_Instance \<Rightarrow> (unit, sample_error) redisExternal" where
  "sample_redisExternal x = \<lparr>
     red_runtime = sample_runtime, red_copy = (\<lambda>x. Inr (Some x)), red_map_cmp = (=), red_spec_cmp = (=),
     red_kube_Update = (\<lambda>cr w. (w, cr, None)), red_projectID = ''p'',
     Instances_Get = (\<lambda>n w. (w, Inr x)), Instances_Create = (\<lambda>p i n w. (w, Inr ())),
     Instances_Patch = (\<lambda>n i w. (w, Inr ())), Instances_Delete = (\<lambda>n w. (w, Inr ()))\<rparr>"

definition sample_redis :: redis_Instance where
  "sample_redis = redis_Instance0\<lparr>ri_MemorySizeGb := 4, ri_Host := ''10.0.0.3'', ri_Port := 6379,
     ri_State := ''READY''\<rparr>"

definition sample_redis_cr :: CloudMemorystoreInstance where
  "sample_redis_cr = sample_managed
     \<lparr>cmp_Region = ''r'', cmp_Tier = ''BASIC'', cmp_MemorySizeGB = 4, cmp_DisplayName = None, cmp_Labels = None,
      cmp_LocationID = None, cmp_AlternativeLocationID = None, cmp_RedisVersion = None, cmp_ReservedIPRange = None,
      cmp_RedisConfigs = None, cmp_AuthorizedNetwork = None, cmp_ConnectMode = None\<rparr>
     (redis_GenerateObservation redis_Instance0)"

section \<open>Properties\<close>

text \<open>C30: what an observation of an existing Redis instance reports. The spec of the resource is
  late-initialised and keeps what the user has set. The instance is up to date exactly if every
  field that can be changed in place and that the user has set agrees with the instance
  (\<open>redis_matches\<close>). The address is published only while the instance is ready, with a port that
  reads back as the number the API gave; in every other state the details are empty.\<close>

theorem redis_Observe_found:
  assumes "wrap_ok (red_runtime e)" and "copy_ok (red_copy e)" and "cmp_exact (red_map_cmp e)"
    and "kube_echo (red_kube_Update e)"
    and "Instances_Get e (redis_GetFullyQualifiedName (red_projectID e) (ForProvider cr) (ExternalName cr)) w
      = (w1, Inr x)"
    and "redis_Observe e (Some cr) w = (w2, Some cr2, ob, None)"
  shows "ForProvider cr2 = redis_LateInitializeSpec (ForProvider cr) x
    \<and> redis_keeps (ForProvider cr) (ForProvider cr2)
    \<and> ResourceExists ob \<and> (ResourceUpToDate ob \<longleftrightarrow> redis_matches (ForProvider cr) x)
    \<and> (\<exists>d. ObservedDetails ob = Some d
        \<and> (ri_State x = redis_StateReady \<longrightarrow>
             fmlookup d ResourceCredentialsSecretEndpointKey = Some (ri_Host x)
             \<and> Option.bind (fmlookup d ResourceCredentialsSecretPortKey) time_atoi = Some (sint (ri_Port x)))
        \<and> (ri_State x \<noteq> redis_StateReady \<longrightarrow> d = fmempty))"
proof -
  let ?s = "redis_LateInitializeSpec (ForProvider cr) x"
  have s: "ForProvider cr2 = ?s"
    and ob: "ResourceExists ob" "ResourceUpToDate ob \<longleftrightarrow> redis_matches (ForProvider cr) x"
      "ObservedDetails ob = Some (snd (redis_state (redis_GenerateObservation x)))"
    using assms
    by (auto simp: redis_Observe_def kube_echo_def outcome_convs redis_up_to_date_iff)
  moreover have "redis_keeps (ForProvider cr) ?s" using redis_init.keeps_set by blast
  ultimately show ?thesis
    by (auto simp: redis_state_def redis_GenerateObservation_def secret_key_defs time_atoi_Itoa
        fmap_of_list.rep_eq)
qed

text \<open>Witness of C30: a ready instance with the memory size of the spec.\<close>

lemma redis_Observe_found_witness:
  "\<exists>w2 cr2 ob d. redis_Observe (sample_redisExternal sample_redis) (Some sample_redis_cr) () = (w2, Some cr2, ob, None)
    \<and> ResourceUpToDate ob \<and> ObservedDetails ob = Some d
    \<and> fmlookup d ResourceCredentialsSecretEndpointKey = Some ''10.0.0.3''"
proof -
  let ?e = "sample_redisExternal sample_redis"
  have "\<exists>w2 cr2 ob. redis_Observe ?e (Some sample_redis_cr) () = (w2, Some cr2, ob, None)"
    by (cases "ForProvider sample_redis_cr = redis_LateInitializeSpec (ForProvider sample_redis_cr) sample_redis")
      (simp_all add: redis_Observe_def sample_redisExternal_def Let_def redis_IsUpToDate_def split: prod.split)
  then obtain w2 cr2 ob where o: "redis_Observe ?e (Some sample_redis_cr) () = (w2, Some cr2, ob, None)"
    by blast
  have "redis_matches (ForProvider sample_redis_cr) sample_redis"
    by (simp add: redis_matches_def sample_redis_def sample_redis_cr_def sample_managed_def redis_Instance0_def)
  moreover have "ri_State sample_redis = redis_StateReady" "ri_Host sample_redis = ''10.0.0.3''"
    by (simp_all add: sample_redis_def redis_StateReady_def)
  ultimately show ?thesis
    using redis_Observe_found [OF _ _ _ _ _ o, of "()" sample_redis] o
    by (auto simp: sample_redisExternal_def sample_runtime_ok copy_ok_def cmp_exact_def kube_echo_def)
qed

end
