(* ===== verification/Staged_Updates.thy ===== *)
theory Staged_Updates
  imports Gcp_Client
begin

text \<open>
  Updates that change one aspect of a resource at a time. The GKE clients compare the desired
  with the observed state aspect by aspect, in a fixed order, and return the update of the first
  aspect that differs; the controller runs it and comes back for the next one. The contract
  \<open>staged_update\<close> says what is needed for this to come to an end: an update settles its own aspect
  and does not unsettle one that has been compared before.
\<close>

section \<open>Stages\<close>

definition first_pending :: "('k \<Rightarrow> 'x \<Rightarrow> bool) \<Rightarrow> 'k list \<Rightarrow> 'x \<Rightarrow> 'k option" where
  "first_pending pending ks x = List.find (\<lambda>k. pending k x) ks"

definition stage_step :: "('k \<Rightarrow> 'x \<Rightarrow> bool) \<Rightarrow> ('k \<Rightarrow> 'x \<Rightarrow> 'x) \<Rightarrow> 'k list \<Rightarrow> 'x \<Rightarrow> 'x" where
  "stage_step pending effect ks x = (case first_pending pending ks x of None \<Rightarrow> x | Some k \<Rightarrow> effect k x)"

lemma first_pending_None: "first_pending pending ks x = None \<longleftrightarrow> (\<forall>k\<in>set ks. \<not> pending k x)"
  by (auto simp: first_pending_def find_None_iff)

lemma first_pending_Some:
  assumes "first_pending pending ks x = Some k"
  shows "\<exists>pre post. ks = pre @ k # post \<and> (\<forall>j\<in>set pre. \<not> pending j x) \<and> pending k x"
proof -
  from assms obtain i where i: "i < length ks" "pending (ks ! i) x" "k = ks ! i" "\<forall>j<i. \<not> pending (ks ! j) x"
    by (auto simp: first_pending_def find_Some_iff)
  then have "ks = take i ks @ k # drop (Suc i) ks" by (simp add: id_take_nth_drop)
  moreover have "\<forall>j\<in>set (take i ks). \<not> pending j x" using i by (auto simp: in_set_conv_nth)
  ultimately show ?thesis using i by blast
qed

section \<open>The contract\<close>

locale staged_update =
  fixes stages :: "'k list" and pending :: "'k \<Rightarrow> 'x \<Rightarrow> bool" and effect :: "'k \<Rightarrow> 'x \<Rightarrow> 'x"
    and inv :: "'x \<Rightarrow> bool"
  assumes settled: "inv x \<Longrightarrow> stages = pre @ k # post \<Longrightarrow> \<forall>j\<in>set pre. \<not> pending j x \<Longrightarrow> pending k x \<Longrightarrow>
      j = k \<or> j \<in> set pre \<Longrightarrow> \<not> pending j (effect k x)"
    and inv_effect: "inv x \<Longrightarrow> stages = pre @ k # post \<Longrightarrow> \<forall>j\<in>set pre. \<not> pending j x \<Longrightarrow> pending k x \<Longrightarrow>
      inv (effect k x)"
begin

abbreviation step :: "'x \<Rightarrow> 'x" where
  "step \<equiv> stage_step pending effect stages"

lemma step_inv: "inv x \<Longrightarrow> inv (step x)"
  unfolding stage_step_def by (auto split: option.split dest!: first_pending_Some intro: inv_effect)

lemma steps_inv: "inv x \<Longrightarrow> inv ((step ^^ n) x)"
  by (induction n) (simp_all add: step_inv)

text \<open>Every step settles at least one more stage, counted from the front.\<close>

lemma step_progress:
  assumes "inv x" and "\<forall>j\<in>set (take m stages). \<not> pending j x"
  shows "\<forall>j\<in>set (take (Suc m) stages). \<not> pending j (step x)"
proof (cases "first_pending pending stages x")
  case None
  then have "\<forall>j\<in>set stages. \<not> pending j x" and "step x = x"
    by (simp_all add: stage_step_def first_pending_None [symmetric])
  then show ?thesis by (auto dest: in_set_takeD)
next
  case (Some k)
  obtain pre post where k: "stages = pre @ k # post" "\<forall>j\<in>set pre. \<not> pending j x" "pending k x"
    using first_pending_Some [OF Some] by blast
  have "m \<le> length pre"
  proof (rule ccontr)
    assume "\<not> m \<le> length pre"
    then have "k \<in> set (take m stages)" using k(1) by (auto simp: take_Cons')
    with assms(2) k(3) show False by blast
  qed
  then have "set (take (Suc m) stages) \<subseteq> insert k (set pre)"
    using k(1) by (auto simp: take_Cons' dest: in_set_takeD split: if_splits)
  with settled [OF assms(1) k] Some show ?thesis by (auto simp: stage_step_def)
qed

lemma steps_progress: "inv x \<Longrightarrow> \<forall>j\<in>set (take n stages). \<not> pending j ((step ^^ n) x)"
  by (induction n) (simp_all add: step_progress steps_inv)

lemma steps_settle: "inv x \<Longrightarrow> first_pending pending stages ((step ^^ length stages) x) = None"
  using steps_progress [of x "length stages"] by (simp add: first_pending_None)

end

section \<open>Rounds of a controller\<close>

text \<open>
  A controller that calls a handler again and again on the same custom resource; \<open>succeeds\<close> is the
  world after a call that neither panics nor returns an error.
\<close>

definition succeeds :: "('w, 'c, 'r, 'e) outcome option \<Rightarrow> 'w option" where
  "succeeds r = (case r of Some (w, _, _, None) \<Rightarrow> Some w | _ \<Rightarrow> None)"

fun rounds :: "('w \<Rightarrow> 'w option) \<Rightarrow> nat \<Rightarrow> 'w \<Rightarrow> 'w option" where
  "rounds f 0 w = Some w"
| "rounds f (Suc n) w = do { w1 \<leftarrow> f w; rounds f n w1 }"

lemma succeeds_Some: "succeeds r = Some w \<longleftrightarrow> (\<exists>c v. r = Some (w, c, v, None))"
  by (auto simp: succeeds_def split: option.splits)

lemma rounds_follow:
  assumes "\<And>w w' x. R w x \<Longrightarrow> I x \<Longrightarrow> f w = Some w' \<Longrightarrow> R w' (g x)" and "\<And>x. I x \<Longrightarrow> I (g x)"
  shows "R w x \<Longrightarrow> I x \<Longrightarrow> rounds f n w = Some w' \<Longrightarrow> R w' ((g ^^ n) x)"
proof (induction n arbitrary: w x)
  case (Suc n)
  then obtain w1 where "f w = Some w1" "rounds f n w1 = Some w'" by (auto simp: bind_eq_Some_conv)
  with Suc have "R w' ((g ^^ n) (g x))" using assms by blast
  then show ?case by (simp add: funpow_swap1)
qed simp

end
