(* ===== verification/Gke_NodePool.thy ===== *)
theory Gke_NodePool
  imports Staged_Updates
begin

text \<open>
  GKE node pools: \<^verbatim>\<open>apis/container/v1beta1/nodepool_types.go\<close> with the types it takes from
  \<^verbatim>\<open>apis/container/v1beta2/cluster_types.go\<close>, the client \<^verbatim>\<open>pkg/clients/nodepool/nodepool.go\<close> and the
  controller \<^verbatim>\<open>pkg/controller/container/nodepool.go\<close>.
\<close>

section \<open>Data\<close>

text \<open>Types that node pools share with clusters (\<^verbatim>\<open>v1beta2\<close>).\<close>

record StatusCondition =
  sc_Code :: string
  sc_Message :: string

record MaxPodsConstraint =
  mpc_MaxPodsPerNode :: int64

record UpgradeSettings =
  ups_MaxSurge :: "int64 option"
  ups_MaxUnavailable :: "int64 option"

record AutoUpgradeOptions =
  auo_AutoUpgradeStartTime :: string
  auo_Description :: string

record NodeManagementStatus =
  nmst_UpgradeOptions :: "AutoUpgradeOptions option"

record NodePoolObservation =
  npo_Conditions :: "StatusCondition option slice"
  npo_InstanceGroupUrls :: "string slice"
  npo_PodIpv4CidrSize :: int64
  npo_Management :: "NodeManagementStatus option"
  npo_SelfLink :: string
  npo_Status :: string
  npo_StatusMessage :: string

record NodePoolAutoscaling =
  npa_Autoprovisioned :: "bool option"
  npa_Enabled :: "bool option"
  npa_MaxNodeCount :: "int64 option"
  npa_MinNodeCount :: "int64 option"

record NodeKubeletConfig =
  nkc_CpuCfsQuota :: "bool option"
  nkc_CpuCfsQuotaPeriod :: "string option"
  nkc_CpuManagerPolicy :: "string option"

record LinuxNodeConfig =
  lnc_Sysctls :: strmap

record ReservationAffinity =
  raf_ConsumeReservationType :: "string option"
  raf_Key :: "string option"
  raf_Values :: "string slice"

record AcceleratorConfig =
  acc_AcceleratorCount :: int64
  acc_AcceleratorType :: string

record SandboxConfig =
  sbx_Type :: string

record ShieldedInstanceConfig =
  sic_EnableIntegrityMonitoring :: "bool option"
  sic_EnableSecureBoot :: "bool option"

record NodeTaint =
  tnt_Effect :: string
  tnt_Key :: string
  tnt_Value :: string

record WorkloadMetadataConfig =
  wmc_Mode :: string

record NodeManagementSpec =
  nms_AutoRepair :: "bool option"
  nms_AutoUpgrade :: "bool option"

record NodeConfig =
  ncf_Accelerators :: "AcceleratorConfig option slice"
  ncf_BootDiskKmsKey :: "string option"
  ncf_DiskSizeGb :: "int64 option"
  ncf_DiskType :: "string option"
  ncf_ImageType :: "string option"
  ncf_KubeletConfig :: "NodeKubeletConfig option"
  ncf_Labels :: strmap
  ncf_LinuxNodeConfig :: "LinuxNodeConfig option"
  ncf_LocalSsdCount :: "int64 option"
  ncf_MachineType :: "string option"
  ncf_Metadata :: strmap
  ncf_MinCPUPlatform :: "string option"
  ncf_NodeGroup :: "string option"
  ncf_OauthScopes :: "string slice"
  ncf_Preemptible :: "bool option"
  ncf_ReservationAffinity :: "ReservationAffinity option"
  ncf_SandboxConfig :: "SandboxConfig option"
  ncf_ServiceAccount :: "string option"
  ncf_ShieldedInstanceConfig :: "ShieldedInstanceConfig option"
  ncf_Tags :: "string slice"
  ncf_Taints :: "NodeTaint option slice"
  ncf_WorkloadMetadataConfig :: "WorkloadMetadataConfig option"

record NodePoolParameters =
  npp_Cluster :: string
  npp_ClusterRef :: "Reference option"
  npp_ClusterSelector :: "Selector option"
  npp_Autoscaling :: "NodePoolAutoscaling option"
  npp_Config :: "NodeConfig option"
  npp_InitialNodeCount :: "int64 option"
  npp_Locations :: "string slice"
  npp_Management :: "NodeManagementSpec option"
  npp_MaxPodsConstraint :: "MaxPodsConstraint option"
  npp_UpgradeSettings :: "UpgradeSettings option"
  npp_Version :: "string option"

type_synonym NodePool = "(NodePoolParameters, NodePoolObservation) managed"

definition NodePoolStateUnspecified :: string where
  "NodePoolStateUnspecified = ''STATUS_UNSPECIFIED''"
definition NodePoolStateProvisioning :: string where
  "NodePoolStateProvisioning = ''PROVISIONING''"
definition NodePoolStateRunning :: string where
  "NodePoolStateRunning = ''RUNNING''"
definition NodePoolStateRunningError :: string where
  "NodePoolStateRunningError = ''RUNNING_WITH_ERROR''"
definition NodePoolStateReconciling :: string where
  "NodePoolStateReconciling = ''RECONCILING''"
definition NodePoolStateStopping :: string where
  "NodePoolStateStopping = ''STOPPING''"
definition NodePoolStateError :: string where
  "NodePoolStateError = ''ERROR''"

text \<open>\<^verbatim>\<open>container.NodePool\<close> and the structs inside it, with the fields that the provider uses.\<close>

record container_StatusCondition =
  csc_Code :: string
  csc_Message :: string

record container_MaxPodsConstraint =
  cmx_MaxPodsPerNode :: int64

record container_UpgradeSettings =
  cus_MaxSurge :: int64
  cus_MaxUnavailable :: int64

record container_AutoUpgradeOptions =
  cuo_AutoUpgradeStartTime :: string
  cuo_Description :: string

record container_NodeManagement =
  cnm_AutoRepair :: bool
  cnm_AutoUpgrade :: bool
  cnm_UpgradeOptions :: "container_AutoUpgradeOptions option"

record container_NodePoolAutoscaling =
  cna_Autoprovisioned :: bool
  cna_Enabled :: bool
  cna_MaxNodeCount :: int64
  cna_MinNodeCount :: int64

record container_NodeKubeletConfig =
  cnk_CpuCfsQuota :: bool
  cnk_CpuCfsQuotaPeriod :: string
  cnk_CpuManagerPolicy :: string

record container_LinuxNodeConfig =
  cln_Sysctls :: strmap

record container_ReservationAffinity =
  cra_ConsumeReservationType :: string
  cra_Key :: string
  cra_Values :: "string slice"

record container_AcceleratorConfig =
  cac_AcceleratorCount :: int64
  cac_AcceleratorType :: string

record container_SandboxConfig =
  csb_Type :: string

record container_ShieldedInstanceConfig =
  csi_EnableIntegrityMonitoring :: bool
  csi_EnableSecureBoot :: bool

record container_NodeTaint =
  cnt_Effect :: string
  cnt_Key :: string
  cnt_Value :: string

record container_WorkloadMetadataConfig =
  cwm_Mode :: string

record container_NodeConfig =
  cnc_Accelerators :: "container_AcceleratorConfig option slice"
  cnc_BootDiskKmsKey :: string
  cnc_DiskSizeGb :: int64
  cnc_DiskType :: string
  cnc_ImageType :: string
  cnc_KubeletConfig :: "container_NodeKubeletConfig option"
  cnc_Labels :: strmap
  cnc_LinuxNodeConfig :: "container_LinuxNodeConfig option"
  cnc_LocalSsdCount :: int64
  cnc_MachineType :: string
  cnc_Metadata :: strmap
  cnc_MinCpuPlatform :: string
  cnc_NodeGroup :: string
  cnc_OauthScopes :: "string slice"
  cnc_Preemptible :: bool
  cnc_ReservationAffinity :: "container_ReservationAffinity option"
  cnc_SandboxConfig :: "container_SandboxConfig option"
  cnc_ServiceAccount :: string
  cnc_ShieldedInstanceConfig :: "container_ShieldedInstanceConfig option"
  cnc_Tags :: "string slice"
  cnc_Taints :: "container_NodeTaint option slice"
  cnc_WorkloadMetadataConfig :: "container_WorkloadMetadataConfig option"

record container_NodePool =
  cnp_Autoscaling :: "container_NodePoolAutoscaling option"
  cnp_Conditions :: "container_StatusCondition option slice"
  cnp_Config :: "container_NodeConfig option"
  cnp_InitialNodeCount :: int64
  cnp_InstanceGroupUrls :: "string slice"
  cnp_Locations :: "string slice"
  cnp_Management :: "container_NodeManagement option"
  cnp_MaxPodsConstraint :: "container_MaxPodsConstraint option"
  cnp_Name :: string
  cnp_PodIpv4CidrSize :: int64
  cnp_SelfLink :: string
  cnp_Status :: string
  cnp_StatusMessage :: string
  cnp_UpgradeSettings :: "container_UpgradeSettings option"
  cnp_Version :: string

record container_UpdateNodePoolRequest =
  unr_ImageType :: string
  unr_Locations :: "string slice"
  unr_NodeVersion :: string
  unr_WorkloadMetadataConfig :: "container_WorkloadMetadataConfig option"

text \<open>The zero values of the structs (\<open>&container.NodePool{}\<close> and so on).\<close>

definition container_NodeConfig0 :: container_NodeConfig where
  "container_NodeConfig0 = \<lparr>cnc_Accelerators = None, cnc_BootDiskKmsKey = '''', cnc_DiskSizeGb = 0,
     cnc_DiskType = '''', cnc_ImageType = '''', cnc_KubeletConfig = None, cnc_Labels = None,
     cnc_LinuxNodeConfig = None, cnc_LocalSsdCount = 0, cnc_MachineType = '''', cnc_Metadata = None,
     cnc_MinCpuPlatform = '''', cnc_NodeGroup = '''', cnc_OauthScopes = None, cnc_Preemptible = False,
     cnc_ReservationAffinity = None, cnc_SandboxConfig = None, cnc_ServiceAccount = '''',
     cnc_ShieldedInstanceConfig = None, cnc_Tags = None, cnc_Taints = None,
     cnc_WorkloadMetadataConfig = None\<rparr>"

definition container_NodePool0 :: container_NodePool where
  "container_NodePool0 = \<lparr>cnp_Autoscaling = None, cnp_Conditions = None, cnp_Config = None,
     cnp_InitialNodeCount = 0, cnp_InstanceGroupUrls = None, cnp_Locations = None, cnp_Management = None,
     cnp_MaxPodsConstraint = None, cnp_Name = '''', cnp_PodIpv4CidrSize = 0, cnp_SelfLink = '''',
     cnp_Status = '''', cnp_StatusMessage = '''', cnp_UpgradeSettings = None, cnp_Version = ''''\<rparr>"

definition NodeConfig0 :: NodeConfig where
  "NodeConfig0 = \<lparr>ncf_Accelerators = None, ncf_BootDiskKmsKey = None, ncf_DiskSizeGb = None,
     ncf_DiskType = None, ncf_ImageType = None, ncf_KubeletConfig = None, ncf_Labels = None,
     ncf_LinuxNodeConfig = None, ncf_LocalSsdCount = None, ncf_MachineType = None, ncf_Metadata = None,
     ncf_MinCPUPlatform = None, ncf_NodeGroup = None, ncf_OauthScopes = None, ncf_Preemptible = None,
     ncf_ReservationAffinity = None, ncf_SandboxConfig = None, ncf_ServiceAccount = None,
     ncf_ShieldedInstanceConfig = None, ncf_Tags = None, ncf_Taints = None,
     ncf_WorkloadMetadataConfig = None\<rparr>"

section \<open>Client: the desired node pool\<close>

definition nodepool_client_errCheckUpToDate :: string where
  "nodepool_client_errCheckUpToDate = ''unable to determine if external resource is up to date''"
definition runtimeKey :: string where
  "runtimeKey = ''sandbox.gke.io/runtime''"

definition isAutoUpgradeEnabled :: "NodePoolParameters \<Rightarrow> bool" where
  "isAutoUpgradeEnabled in' = (case npp_Management in' of None \<Rightarrow> False
     | Some m \<Rightarrow> BoolValue (nms_AutoUpgrade m))"

definition np_GenerateAutoscaling :: "NodePoolAutoscaling option \<Rightarrow> container_NodePool \<Rightarrow> container_NodePool" where
  "np_GenerateAutoscaling in' pool = pool\<lparr>cnp_Autoscaling :=
     gen_block \<lparr>cna_Autoprovisioned = False, cna_Enabled = False, cna_MaxNodeCount = 0, cna_MinNodeCount = 0\<rparr>
       (\<lambda>a b. b\<lparr>cna_Autoprovisioned := BoolValue (npa_Autoprovisioned a),
                cna_Enabled := BoolValue (npa_Enabled a),
                cna_MaxNodeCount := Int64Value (npa_MaxNodeCount a),
                cna_MinNodeCount := Int64Value (npa_MinNodeCount a)\<rparr>)
       in' (cnp_Autoscaling pool)\<rparr>"

definition gen_kubelet :: "NodeKubeletConfig \<Rightarrow> container_NodeKubeletConfig \<Rightarrow> container_NodeKubeletConfig" where
  "gen_kubelet a b = b\<lparr>cnk_CpuCfsQuota := BoolValue (nkc_CpuCfsQuota a),
     cnk_CpuCfsQuotaPeriod := StringValue (nkc_CpuCfsQuotaPeriod a),
     cnk_CpuManagerPolicy := StringValue (nkc_CpuManagerPolicy a)\<rparr>"

definition gen_affinity :: "ReservationAffinity \<Rightarrow> container_ReservationAffinity \<Rightarrow> container_ReservationAffinity" where
  "gen_affinity a b = b\<lparr>cra_ConsumeReservationType := StringValue (raf_ConsumeReservationType a),
     cra_Key := StringValue (raf_Key a), cra_Values := raf_Values a\<rparr>"

definition gen_shielded :: "ShieldedInstanceConfig \<Rightarrow> container_ShieldedInstanceConfig \<Rightarrow> container_ShieldedInstanceConfig" where
  "gen_shielded a b = b\<lparr>csi_EnableIntegrityMonitoring := BoolValue (sic_EnableIntegrityMonitoring a),
     csi_EnableSecureBoot := BoolValue (sic_EnableSecureBoot a)\<rparr>"

definition gen_accelerator :: "AcceleratorConfig \<Rightarrow> container_AcceleratorConfig" where
  "gen_accelerator a = \<lparr>cac_AcceleratorCount = acc_AcceleratorCount a, cac_AcceleratorType = acc_AcceleratorType a\<rparr>"

definition gen_taint :: "NodeTaint \<Rightarrow> container_NodeTaint" where
  "gen_taint t = \<lparr>cnt_Effect = tnt_Effect t, cnt_Key = tnt_Key t, cnt_Value = tnt_Value t\<rparr>"

definition gen_node_config :: "NodeConfig \<Rightarrow> container_NodeConfig \<Rightarrow> container_NodeConfig" where
  "gen_node_config in' c = c\<lparr>
     cnc_BootDiskKmsKey := StringValue (ncf_BootDiskKmsKey in'),
     cnc_DiskSizeGb := Int64Value (ncf_DiskSizeGb in'),
     cnc_DiskType := StringValue (ncf_DiskType in'),
     cnc_ImageType := StringValue (ncf_ImageType in'),
     cnc_Labels := ncf_Labels in',
     cnc_LocalSsdCount := Int64Value (ncf_LocalSsdCount in'),
     cnc_MachineType := StringValue (ncf_MachineType in'),
     cnc_Metadata := ncf_Metadata in',
     cnc_MinCpuPlatform := StringValue (ncf_MinCPUPlatform in'),
     cnc_NodeGroup := StringValue (ncf_NodeGroup in'),
     cnc_OauthScopes := ncf_OauthScopes in',
     cnc_Preemptible := BoolValue (ncf_Preemptible in'),
     cnc_ServiceAccount := StringValue (ncf_ServiceAccount in'),
     cnc_Tags := ncf_Tags in',
     cnc_Accelerators := gen_elems gen_accelerator (ncf_Accelerators in') (cnc_Accelerators c),
     cnc_KubeletConfig := gen_block \<lparr>cnk_CpuCfsQuota = False, cnk_CpuCfsQuotaPeriod = '''', cnk_CpuManagerPolicy = ''''\<rparr>
       gen_kubelet (ncf_KubeletConfig in') (cnc_KubeletConfig c),
     cnc_LinuxNodeConfig := gen_block \<lparr>cln_Sysctls = None\<rparr> (\<lambda>a b. b\<lparr>cln_Sysctls := lnc_Sysctls a\<rparr>)
       (ncf_LinuxNodeConfig in') (cnc_LinuxNodeConfig c),
     cnc_ReservationAffinity := gen_block \<lparr>cra_ConsumeReservationType = '''', cra_Key = '''', cra_Values = None\<rparr>
       gen_affinity (ncf_ReservationAffinity in') (cnc_ReservationAffinity c),
     cnc_SandboxConfig := gen_block \<lparr>csb_Type = ''''\<rparr> (\<lambda>a b. b\<lparr>csb_Type := sbx_Type a\<rparr>)
       (ncf_SandboxConfig in') (cnc_SandboxConfig c),
     cnc_ShieldedInstanceConfig := gen_block \<lparr>csi_EnableIntegrityMonitoring = False, csi_EnableSecureBoot = False\<rparr>
       gen_shielded (ncf_ShieldedInstanceConfig in') (cnc_ShieldedInstanceConfig c),
     cnc_Taints := gen_elems gen_taint (ncf_Taints in') (cnc_Taints c),
     cnc_WorkloadMetadataConfig := gen_block \<lparr>cwm_Mode = ''''\<rparr> (\<lambda>a b. b\<lparr>cwm_Mode := wmc_Mode a\<rparr>)
       (ncf_WorkloadMetadataConfig in') (cnc_WorkloadMetadataConfig c)\<rparr>"

definition np_GenerateConfig :: "NodeConfig option \<Rightarrow> container_NodePool \<Rightarrow> container_NodePool" where
  "np_GenerateConfig in' pool = pool\<lparr>cnp_Config := gen_block container_NodeConfig0 gen_node_config in' (cnp_Config pool)\<rparr>"

definition GenerateManagement :: "NodeManagementSpec option \<Rightarrow> container_NodePool \<Rightarrow> container_NodePool" where
  "GenerateManagement in' pool = pool\<lparr>cnp_Management :=
     gen_block \<lparr>cnm_AutoRepair = False, cnm_AutoUpgrade = False, cnm_UpgradeOptions = None\<rparr>
       (\<lambda>a b. b\<lparr>cnm_AutoRepair := BoolValue (nms_AutoRepair a), cnm_AutoUpgrade := BoolValue (nms_AutoUpgrade a)\<rparr>)
       in' (cnp_Management pool)\<rparr>"

definition GenerateMaxPodsConstraint :: "MaxPodsConstraint option \<Rightarrow> container_NodePool \<Rightarrow> container_NodePool" where
  "GenerateMaxPodsConstraint in' pool = pool\<lparr>cnp_MaxPodsConstraint :=
     gen_block \<lparr>cmx_MaxPodsPerNode = 0\<rparr> (\<lambda>a b. b\<lparr>cmx_MaxPodsPerNode := mpc_MaxPodsPerNode a\<rparr>)
       in' (cnp_MaxPodsConstraint pool)\<rparr>"

definition GenerateUpgradeSettings :: "UpgradeSettings option \<Rightarrow> container_NodePool \<Rightarrow> container_NodePool" where
  "GenerateUpgradeSettings in' pool = pool\<lparr>cnp_UpgradeSettings :=
     gen_block \<lparr>cus_MaxSurge = 0, cus_MaxUnavailable = 0\<rparr>
       (\<lambda>a b. b\<lparr>cus_MaxSurge := Int64Value (ups_MaxSurge a), cus_MaxUnavailable := Int64Value (ups_MaxUnavailable a)\<rparr>)
       in' (cnp_UpgradeSettings pool)\<rparr>"

definition GenerateNodePool :: "string \<Rightarrow> NodePoolParameters \<Rightarrow> container_NodePool \<Rightarrow> container_NodePool" where
  "GenerateNodePool name in' pool =
     (let pool = pool\<lparr>cnp_InitialNodeCount := Int64Value (npp_InitialNodeCount in'),
                      cnp_Locations := npp_Locations in', cnp_Name := name\<rparr>;
          \<comment> \<open>special handling for auto upgrade\<close>
          pool = (if cnp_Version pool = '''' \<or> \<not> isAutoUpgradeEnabled in'
                  then pool\<lparr>cnp_Version := StringValue (npp_Version in')\<rparr> else pool);
          pool = np_GenerateAutoscaling (npp_Autoscaling in') pool;
          pool = np_GenerateConfig (npp_Config in') pool;
          pool = GenerateManagement (npp_Management in') pool;
          pool = GenerateMaxPodsConstraint (npp_MaxPodsConstraint in') pool
      in GenerateUpgradeSettings (npp_UpgradeSettings in') pool)"

section \<open>Client: observation and late initialisation\<close>

definition status_condition :: "container_StatusCondition \<Rightarrow> StatusCondition" where
  "status_condition c = \<lparr>sc_Code = csc_Code c, sc_Message = csc_Message c\<rparr>"

definition nodepool_GenerateObservation :: "container_NodePool \<Rightarrow> NodePoolObservation" where
  "nodepool_GenerateObservation in' = \<lparr>
     npo_Conditions = copy_elems status_condition (cnp_Conditions in'),
     npo_InstanceGroupUrls = cnp_InstanceGroupUrls in',
     npo_PodIpv4CidrSize = cnp_PodIpv4CidrSize in',
     npo_Management = Option.bind (cnp_Management in') (\<lambda>m.
        map_option (\<lambda>o'. \<lparr>nmst_UpgradeOptions = Some \<lparr>auo_AutoUpgradeStartTime = cuo_AutoUpgradeStartTime o',
                                                    auo_Description = cuo_Description o'\<rparr>\<rparr>)
          (cnm_UpgradeOptions m)),
     npo_SelfLink = cnp_SelfLink in',
     npo_Status = cnp_Status in',
     npo_StatusMessage = cnp_StatusMessage in'\<rparr>"

definition GenerateNodePoolUpdate :: "NodePoolParameters \<Rightarrow> container_UpdateNodePoolRequest" where
  "GenerateNodePoolUpdate in' = \<lparr>
     unr_ImageType = (case npp_Config in' of None \<Rightarrow> '''' | Some c \<Rightarrow> StringValue (ncf_ImageType c)),
     unr_Locations = npp_Locations in',
     unr_NodeVersion = StringValue (npp_Version in'),
     unr_WorkloadMetadataConfig = Option.bind (npp_Config in') (\<lambda>c.
        map_option (\<lambda>m. \<lparr>cwm_Mode = wmc_Mode m\<rparr>) (ncf_WorkloadMetadataConfig c))\<rparr>"

definition late_np_autoscaling :: "NodePoolAutoscaling \<Rightarrow> container_NodePoolAutoscaling \<Rightarrow> NodePoolAutoscaling" where
  "late_np_autoscaling s x = s\<lparr>
     npa_Autoprovisioned := LateInitializeBool (npa_Autoprovisioned s) (cna_Autoprovisioned x),
     npa_Enabled := LateInitializeBool (npa_Enabled s) (cna_Enabled x),
     npa_MaxNodeCount := LateInitializeInt64 (npa_MaxNodeCount s) (cna_MaxNodeCount x),
     npa_MinNodeCount := LateInitializeInt64 (npa_MinNodeCount s) (cna_MinNodeCount x)\<rparr>"

definition late_kubelet :: "NodeKubeletConfig \<Rightarrow> container_NodeKubeletConfig \<Rightarrow> NodeKubeletConfig" where
  "late_kubelet s x = s\<lparr>
     nkc_CpuCfsQuota := LateInitializeBool (nkc_CpuCfsQuota s) (cnk_CpuCfsQuota x),
     nkc_CpuCfsQuotaPeriod := LateInitializeString (nkc_CpuCfsQuotaPeriod s) (cnk_CpuCfsQuotaPeriod x),
     nkc_CpuManagerPolicy := LateInitializeString (nkc_CpuManagerPolicy s) (cnk_CpuManagerPolicy x)\<rparr>"

definition late_affinity :: "ReservationAffinity \<Rightarrow> container_ReservationAffinity \<Rightarrow> ReservationAffinity" where
  "late_affinity s x = s\<lparr>
     raf_ConsumeReservationType := LateInitializeString (raf_ConsumeReservationType s) (cra_ConsumeReservationType x),
     raf_Key := LateInitializeString (raf_Key s) (cra_Key x),
     raf_Values := LateInitializeStringSlice (raf_Values s) (cra_Values x)\<rparr>"

definition late_shielded :: "ShieldedInstanceConfig \<Rightarrow> container_ShieldedInstanceConfig \<Rightarrow> ShieldedInstanceConfig" where
  "late_shielded s x = s\<lparr>
     sic_EnableIntegrityMonitoring := LateInitializeBool (sic_EnableIntegrityMonitoring s) (csi_EnableIntegrityMonitoring x),
     sic_EnableSecureBoot := LateInitializeBool (sic_EnableSecureBoot s) (csi_EnableSecureBoot x)\<rparr>"

definition late_accelerator :: "container_AcceleratorConfig \<Rightarrow> AcceleratorConfig" where
  "late_accelerator a = \<lparr>acc_AcceleratorCount = cac_AcceleratorCount a, acc_AcceleratorType = cac_AcceleratorType a\<rparr>"

definition late_taint :: "container_NodeTaint \<Rightarrow> NodeTaint" where
  "late_taint t = \<lparr>tnt_Effect = cnt_Effect t, tnt_Key = cnt_Key t, tnt_Value = cnt_Value t\<rparr>"

definition late_node_config :: "NodeConfig option \<Rightarrow> container_NodeConfig option \<Rightarrow> NodeConfig option option" where
  "late_node_config spec in' =
     (case in' of None \<Rightarrow> Some spec
      | Some c \<Rightarrow>
          let s = (case spec of None \<Rightarrow> NodeConfig0 | Some s \<Rightarrow> s) in do {
          accs \<leftarrow> late_slice (deref_elem late_accelerator) (ncf_Accelerators s) (cnc_Accelerators c);
          taints \<leftarrow> late_slice (deref_elem late_taint) (ncf_Taints s) (cnc_Taints c);
          Some (Some (s\<lparr>
            ncf_Accelerators := accs,
            ncf_BootDiskKmsKey := LateInitializeString (ncf_BootDiskKmsKey s) (cnc_BootDiskKmsKey c),
            ncf_DiskSizeGb := LateInitializeInt64 (ncf_DiskSizeGb s) (cnc_DiskSizeGb c),
            ncf_DiskType := LateInitializeString (ncf_DiskType s) (cnc_DiskType c),
            ncf_ImageType := LateInitializeString (ncf_ImageType s) (cnc_ImageType c),
            ncf_Labels := LateInitializeStringMap (ncf_Labels s) (cnc_Labels c),
            ncf_LocalSsdCount := LateInitializeInt64 (ncf_LocalSsdCount s) (cnc_LocalSsdCount c),
            ncf_MachineType := LateInitializeString (ncf_MachineType s) (cnc_MachineType c),
            ncf_Metadata := LateInitializeStringMap (ncf_Metadata s) (cnc_Metadata c),
            ncf_MinCPUPlatform := LateInitializeString (ncf_MinCPUPlatform s) (cnc_MinCpuPlatform c),
            ncf_NodeGroup := LateInitializeString (ncf_NodeGroup s) (cnc_NodeGroup c),
            ncf_OauthScopes := LateInitializeStringSlice (ncf_OauthScopes s) (cnc_OauthScopes c),
            ncf_Preemptible := LateInitializeBool (ncf_Preemptible s) (cnc_Preemptible c),
            ncf_KubeletConfig := late_block \<lparr>nkc_CpuCfsQuota = None, nkc_CpuCfsQuotaPeriod = None, nkc_CpuManagerPolicy = None\<rparr>
              late_kubelet (ncf_KubeletConfig s) (cnc_KubeletConfig c),
            ncf_LinuxNodeConfig := late_ptr (ncf_LinuxNodeConfig s)
              (map_option (\<lambda>l. \<lparr>lnc_Sysctls = cln_Sysctls l\<rparr>) (cnc_LinuxNodeConfig c)),
            ncf_ReservationAffinity := late_block \<lparr>raf_ConsumeReservationType = None, raf_Key = None, raf_Values = None\<rparr>
              late_affinity (ncf_ReservationAffinity s) (cnc_ReservationAffinity c),
            ncf_SandboxConfig := late_ptr (ncf_SandboxConfig s)
              (map_option (\<lambda>b. \<lparr>sbx_Type = csb_Type b\<rparr>) (cnc_SandboxConfig c)),
            ncf_ServiceAccount := LateInitializeString (ncf_ServiceAccount s) (cnc_ServiceAccount c),
            ncf_ShieldedInstanceConfig := late_block \<lparr>sic_EnableIntegrityMonitoring = None, sic_EnableSecureBoot = None\<rparr>
              late_shielded (ncf_ShieldedInstanceConfig s) (cnc_ShieldedInstanceConfig c),
            ncf_Tags := LateInitializeStringSlice (ncf_Tags s) (cnc_Tags c),
            ncf_Taints := taints,
            ncf_WorkloadMetadataConfig := late_ptr (ncf_WorkloadMetadataConfig s)
              (map_option (\<lambda>m. \<lparr>wmc_Mode = cwm_Mode m\<rparr>) (cnc_WorkloadMetadataConfig c))\<rparr>)) })"

definition nodepool_LateInitializeSpec ::
  "NodePoolParameters \<Rightarrow> container_NodePool \<Rightarrow> NodePoolParameters option" where
  "nodepool_LateInitializeSpec spec in' = do {
     config \<leftarrow> late_node_config (npp_Config spec) (cnp_Config in');
     Some (spec\<lparr>
       npp_Autoscaling := late_block \<lparr>npa_Autoprovisioned = None, npa_Enabled = None, npa_MaxNodeCount = None,
           npa_MinNodeCount = None\<rparr> late_np_autoscaling (npp_Autoscaling spec) (cnp_Autoscaling in'),
       npp_Config := config,
       npp_InitialNodeCount := LateInitializeInt64 (npp_InitialNodeCount spec) (cnp_InitialNodeCount in'),
       npp_Locations := LateInitializeStringSlice (npp_Locations spec) (cnp_Locations in'),
       npp_Management := late_block \<lparr>nms_AutoRepair = None, nms_AutoUpgrade = None\<rparr>
           (\<lambda>s x. s\<lparr>nms_AutoRepair := LateInitializeBool (nms_AutoRepair s) (cnm_AutoRepair x),
                    nms_AutoUpgrade := LateInitializeBool (nms_AutoUpgrade s) (cnm_AutoUpgrade x)\<rparr>)
           (npp_Management spec) (cnp_Management in'),
       npp_MaxPodsConstraint := late_ptr (npp_MaxPodsConstraint spec)
           (map_option (\<lambda>m. \<lparr>mpc_MaxPodsPerNode = cmx_MaxPodsPerNode m\<rparr>) (cnp_MaxPodsConstraint in')),
       npp_UpgradeSettings := late_block \<lparr>ups_MaxSurge = None, ups_MaxUnavailable = None\<rparr>
           (\<lambda>s x. s\<lparr>ups_MaxSurge := LateInitializeInt64 (ups_MaxSurge s) (cus_MaxSurge x),
                    ups_MaxUnavailable := LateInitializeInt64 (ups_MaxUnavailable s) (cus_MaxUnavailable x)\<rparr>)
           (npp_UpgradeSettings spec) (cnp_UpgradeSettings in'),
       npp_Version := LateInitializeString (npp_Version spec) (cnp_Version in')\<rparr>) }"

section \<open>Client: comparison and updates\<close>

text \<open>
  \<open>nodePoolExternal\<close> with the calls of the container service it makes; the operation that a call
  returns is dropped. The comparison of whole pools gets the options that are functions: the
  filter of \<open>IgnoreSliceElements\<close> (which dereferences the taint), the one of \<open>IgnoreMapEntries\<close> and
  the comparer of strings; it panics if a filter does.
\<close>

record ('w, 'e) nodePoolExternal =
  npx_runtime :: "'e runtime"
  npx_copy :: "(container_NodePool, 'e) copier"
  npx_spec_cmp :: "NodePoolParameters comparer"
  npx_autoscaling_cmp :: "container_NodePoolAutoscaling option comparer"
  npx_management_cmp :: "container_NodeManagement option comparer"
  npx_pool_cmp :: "(container_NodeTaint option \<Rightarrow> bool option) \<Rightarrow> (string \<Rightarrow> string \<Rightarrow> bool) \<Rightarrow> string comparer
     \<Rightarrow> container_NodePool \<Rightarrow> container_NodePool \<Rightarrow> bool option"
  npx_kube_Update :: "('w, NodePool, 'e) kube_update"
  NodePools_Get :: "string \<Rightarrow> ('w, container_NodePool, 'e) call"
  NodePools_Create :: "string \<Rightarrow> container_NodePool \<Rightarrow> ('w, unit, 'e) call"
  NodePools_SetAutoscaling :: "string \<Rightarrow> container_NodePoolAutoscaling option \<Rightarrow> ('w, unit, 'e) call"
  NodePools_SetManagement :: "string \<Rightarrow> container_NodeManagement option \<Rightarrow> ('w, unit, 'e) call"
  NodePools_Update :: "string \<Rightarrow> container_UpdateNodePoolRequest \<Rightarrow> ('w, unit, 'e) call"
  NodePools_Delete :: "string \<Rightarrow> ('w, unit, 'e) call"

type_synonym ('w, 'e) np_UpdateFn = "('w, 'e) nodePoolExternal \<Rightarrow> string \<Rightarrow> ('w, unit, 'e) call"

definition np_newAutoscalingUpdateFn :: "NodePoolAutoscaling option \<Rightarrow> ('w, 'e) np_UpdateFn" where
  "np_newAutoscalingUpdateFn in' s name =
     (let out = np_GenerateAutoscaling in' container_NodePool0
      in NodePools_SetAutoscaling s name (cnp_Autoscaling out))"

definition newManagementUpdateFn :: "NodeManagementSpec option \<Rightarrow> ('w, 'e) np_UpdateFn" where
  "newManagementUpdateFn in' s name =
     (let out = GenerateManagement in' container_NodePool0
      in NodePools_SetManagement s name (cnp_Management out))"

definition newGeneralUpdateFn :: "NodePoolParameters \<Rightarrow> ('w, 'e) np_UpdateFn" where
  "newGeneralUpdateFn in' s name = NodePools_Update s name (GenerateNodePoolUpdate in')"

definition np_noOpUpdate :: "('w, 'e) np_UpdateFn" where
  "np_noOpUpdate s name w = (w, Inr ())"

definition ignored_taint :: "container_NodeTaint option \<Rightarrow> bool option" where
  "ignored_taint c = map_option (\<lambda>t. cnt_Key t = runtimeKey) c"

definition EqualFold :: "string comparer" where
  \<comment> \<open>\<open>strings.EqualFold\<close> on ASCII strings\<close>
  "EqualFold s t \<longleftrightarrow> ToLower s = ToLower t"

definition nodepool_IsUpToDate ::
  "('w, 'e) nodePoolExternal \<Rightarrow> string \<Rightarrow> NodePoolParameters \<Rightarrow> container_NodePool
    \<Rightarrow> (bool \<times> ('w, 'e) np_UpdateFn \<times> 'e option) option" where
  "nodepool_IsUpToDate e name in' observed =
     (let L = npx_runtime e in
      case npx_copy e observed of
        Inl err \<Rightarrow> Some (True, np_noOpUpdate, errors_Wrap L (Some err) nodepool_client_errCheckUpToDate)
      | Inr None \<Rightarrow> Some (True, np_noOpUpdate, Some (errors_New L nodepool_client_errCheckUpToDate))
      | Inr (Some desired) \<Rightarrow>
          let desired = GenerateNodePool name in' desired in
          if \<not> npx_autoscaling_cmp e (cnp_Autoscaling desired) (cnp_Autoscaling observed)
          then Some (False, np_newAutoscalingUpdateFn (npp_Autoscaling in'), None)
          else if \<not> npx_management_cmp e (cnp_Management desired) (cnp_Management observed)
          then Some (False, newManagementUpdateFn (npp_Management in'), None)
          else do {
            same \<leftarrow> npx_pool_cmp e ignored_taint (\<lambda>key _. key = runtimeKey) EqualFold desired observed;
            Some (if \<not> same then (False, newGeneralUpdateFn in', None) else (True, np_noOpUpdate, None)) })"

definition nodepool_GetFullyQualifiedName :: "NodePoolParameters \<Rightarrow> string \<Rightarrow> string" where
  "nodepool_GetFullyQualifiedName p name =
     ReplaceAll (npp_Cluster p @ ''/nodePools/'' @ name) ''/zones/'' ''/locations/''"

section \<open>Controller\<close>

definition gke_errNewClient :: string where
  "gke_errNewClient = ''cannot create new GKE container client''"
definition errManagedNodePoolUpdateFailed :: string where
  "errManagedNodePoolUpdateFailed = ''cannot update NodePool custom resource''"
definition errNotNodePool :: string where
  "errNotNodePool = ''managed resource is not a NodePool''"
definition errGetNodePool :: string where
  "errGetNodePool = ''cannot get GKE node pool''"
definition errCreateNodePool :: string where
  "errCreateNodePool = ''cannot create GKE node pool''"
definition errUpdateNodePool :: string where
  "errUpdateNodePool = ''cannot update GKE node pool''"
definition errDeleteNodePool :: string where
  "errDeleteNodePool = ''cannot delete GKE node pool''"
definition errCheckNodePoolUpToDate :: string where
  "errCheckNodePoolUpToDate = ''cannot determine if GKE node pool is up to date''"

definition nodePool_Connect ::
  "'e runtime \<Rightarrow> ('w, NodePool, 'src, 'sel, 'e) auth_api
    \<Rightarrow> (string \<Rightarrow> ClientOption option \<Rightarrow> ('w, ('w, 'e) nodePoolExternal, 'e) call)
    \<Rightarrow> NodePool \<Rightarrow> 'w \<Rightarrow> ('w \<times> ('w, 'e) nodePoolExternal option \<times> 'e option) option" where
  "nodePool_Connect L c newService mg w = do {
     (w1, projectID, opts, err) \<leftarrow> GetAuthInfo L c mg w;
     if err \<noteq> None then Some (w1, None, err)
     else (case newService projectID opts w1 of
         (w2, Inl err) \<Rightarrow> Some (w2, None, errors_Wrap L (Some err) gke_errNewClient)
       | (w2, Inr s) \<Rightarrow> Some (w2, Some s, errors_Wrap L None gke_errNewClient)) }"

text \<open>The switch over the state of the pool; no condition is set for other states.\<close>

definition nodepool_conditions :: "string \<Rightarrow> NodePool \<Rightarrow> NodePool" where
  "nodepool_conditions st cr =
     (if st = NodePoolStateRunning \<or> st = NodePoolStateReconciling then SetConditions Available cr
      else if st = NodePoolStateProvisioning then SetConditions Creating cr
      else if st = NodePoolStateUnspecified \<or> st = NodePoolStateRunningError \<or> st = NodePoolStateError
      then SetConditions Unavailable cr
      else cr)"

definition nodePool_Observe ::
  "('w, 'e) nodePoolExternal \<Rightarrow> NodePool option \<Rightarrow> 'w
    \<Rightarrow> ('w, NodePool, ExternalObservation, 'e) outcome option" where
  "nodePool_Observe e mg w =
     (let L = npx_runtime e in
      case mg of
        None \<Rightarrow> Some (w, None, ExternalObservation0, Some (errors_New L errNotNodePool))
      | Some cr \<Rightarrow>
         (case NodePools_Get e (nodepool_GetFullyQualifiedName (ForProvider cr) (ExternalName cr)) w of
            (w1, Inl err) \<Rightarrow> Some (w1, Some cr, ExternalObservation0,
               errors_Wrap L (resource_Ignore L (IsErrorNotFound L) (Some err)) errGetNodePool)
          | (w1, Inr existing) \<Rightarrow>
              let cr = cr\<lparr>AtProvider := nodepool_GenerateObservation existing\<rparr>;
                  currentSpec = ForProvider cr in do {
              spec \<leftarrow> nodepool_LateInitializeSpec (ForProvider cr) existing;
              let cr = cr\<lparr>ForProvider := spec\<rparr>;
              let (w2, cr, err) = (if \<not> npx_spec_cmp e currentSpec (ForProvider cr)
                                   then npx_kube_Update e cr w1 else (w1, cr, None));
              if err \<noteq> None
              then Some (w2, Some cr, ExternalObservation0, errors_Wrap L err errManagedNodePoolUpdateFailed)
              else do {
                let cr = nodepool_conditions (npo_Status (AtProvider cr)) cr;
                (u, fn, err) \<leftarrow> nodepool_IsUpToDate e (ExternalName cr) (ForProvider cr) existing;
                if err \<noteq> None
                then Some (w2, Some cr, ExternalObservation0, errors_Wrap L err errCheckNodePoolUpToDate)
                else Some (w2, Some cr,
                       ExternalObservation0\<lparr>ResourceExists := True, ResourceUpToDate := u\<rparr>, None) } }))"

definition nodePool_Create ::
  "('w, 'e) nodePoolExternal \<Rightarrow> NodePool option \<Rightarrow> 'w \<Rightarrow> ('w, NodePool, ExternalCreation, 'e) outcome" where
  "nodePool_Create e mg w =
     (let L = npx_runtime e in
      case mg of
        None \<Rightarrow> (w, None, ExternalCreation0, Some (errors_New L errNotNodePool))
      | Some cr \<Rightarrow>
          let cr = SetConditions Creating cr in
          \<comment> \<open>wait until creation is complete if already provisioning\<close>
          if npo_Status (AtProvider cr) = NodePoolStateProvisioning then (w, Some cr, ExternalCreation0, None)
          else let pool = GenerateNodePool (ExternalName cr) (ForProvider cr) container_NodePool0;
                   r = NodePools_Create e (npp_Cluster (ForProvider cr)) pool w
               in (fst r, Some cr, ExternalCreation0, errors_Wrap L (call_error r) errCreateNodePool))"

definition nodePool_Update ::
  "('w, 'e) nodePoolExternal \<Rightarrow> NodePool option \<Rightarrow> 'w \<Rightarrow> ('w, NodePool, ExternalUpdate, 'e) outcome option" where
  "nodePool_Update e mg w =
     (let L = npx_runtime e in
      case mg of
        None \<Rightarrow> Some (w, None, ExternalUpdate0, Some (errors_New L errNotNodePool))
      | Some cr \<Rightarrow>
          if npo_Status (AtProvider cr) = NodePoolStateReconciling \<or> npo_Status (AtProvider cr) = NodePoolStateProvisioning
          then Some (w, Some cr, ExternalUpdate0, None)
          else
            let fqn = nodepool_GetFullyQualifiedName (ForProvider cr) (ExternalName cr) in
            case NodePools_Get e fqn w of
              (w1, Inl err) \<Rightarrow> Some (w1, Some cr, ExternalUpdate0, errors_Wrap L (Some err) errGetNodePool)
            | (w1, Inr existing) \<Rightarrow> do {
                (u, fn, err) \<leftarrow> nodepool_IsUpToDate e (ExternalName cr) (ForProvider cr) existing;
                if err \<noteq> None
                then Some (w1, Some cr, ExternalUpdate0, errors_Wrap L err errCheckNodePoolUpToDate)
                else if u then Some (w1, Some cr, ExternalUpdate0, None)
                else let r = fn e fqn w1
                     in Some (fst r, Some cr, ExternalUpdate0, errors_Wrap L (call_error r) errUpdateNodePool) })"

definition nodePool_Delete ::
  "('w, 'e) nodePoolExternal \<Rightarrow> NodePool option \<Rightarrow> 'w \<Rightarrow> ('w, NodePool, unit, 'e) outcome" where
  "nodePool_Delete e mg w =
     (let L = npx_runtime e in
      case mg of
        None \<Rightarrow> (w, None, (), Some (errors_New L errNotNodePool))
      | Some cr \<Rightarrow>
          let cr = SetConditions Deleting cr in
          \<comment> \<open>wait until deletion is complete if already stopping\<close>
          if npo_Status (AtProvider cr) = NodePoolStateStopping then (w, Some cr, (), None)
          else let r = NodePools_Delete e (nodepool_GetFullyQualifiedName (ForProvider cr) (ExternalName cr)) w
               in (fst r, Some cr, (),
                   errors_Wrap L (resource_Ignore L (IsErrorNotFound L) (call_error r)) errDeleteNodePool))"

end
