(* ===== verification/Gke_NodePool_Correct.thy ===== *)
theory Gke_NodePool_Correct
  imports Gke_NodePool
begin

text \<open>
  Correctness of the node pool client and controller: late initialisation settles and keeps what
  the user has set, an existing pool is adopted without a change, and the updates, of which the
  controller issues one at a time, come to an end.
\<close>

section \<open>Late initialisation\<close>

lemma np_late_idems [simp]:
  "late_np_autoscaling (late_np_autoscaling a x) x = late_np_autoscaling a x"
  "late_kubelet (late_kubelet k y) y = late_kubelet k y"
  "late_affinity (late_affinity r z) z = late_affinity r z"
  "late_shielded (late_shielded s u) u = late_shielded s u"
  by (simp_all add: late_np_autoscaling_def late_kubelet_def late_affinity_def late_shielded_def)

lemma late_node_config_settles:
  "late_node_config s x = Some s' \<Longrightarrow> late_node_config s' x = Some s'"
  by (auto simp: late_node_config_def Let_def bind_eq_Some_conv late_slice_settles late_block_settles
      split: option.splits)

lemma nodepool_init_settles:
  "nodepool_LateInitializeSpec s x = Some s' \<Longrightarrow> nodepool_LateInitializeSpec s' x = Some s'"
  by (auto simp: nodepool_LateInitializeSpec_def bind_eq_Some_conv late_node_config_settles late_block_settles)

definition np_autoscaling_keeps :: "NodePoolAutoscaling \<Rightarrow> NodePoolAutoscaling \<Rightarrow> bool" where
  "np_autoscaling_keeps a b \<longleftrightarrow> keeps_ptr (npa_Autoprovisioned a) (npa_Autoprovisioned b)
     \<and> keeps_ptr (npa_Enabled a) (npa_Enabled b) \<and> keeps_ptr (npa_MaxNodeCount a) (npa_MaxNodeCount b)
     \<and> keeps_ptr (npa_MinNodeCount a) (npa_MinNodeCount b)"

definition kubelet_keeps :: "NodeKubeletConfig \<Rightarrow> NodeKubeletConfig \<Rightarrow> bool" where
  "kubelet_keeps a b \<longleftrightarrow> keeps_ptr (nkc_CpuCfsQuota a) (nkc_CpuCfsQuota b)
     \<and> keeps_ptr (nkc_CpuCfsQuotaPeriod a) (nkc_CpuCfsQuotaPeriod b)
     \<and> keeps_ptr (nkc_CpuManagerPolicy a) (nkc_CpuManagerPolicy b)"

definition affinity_keeps :: "ReservationAffinity \<Rightarrow> ReservationAffinity \<Rightarrow> bool" where
  "affinity_keeps a b \<longleftrightarrow> keeps_ptr (raf_ConsumeReservationType a) (raf_ConsumeReservationType b)
     \<and> keeps_ptr (raf_Key a) (raf_Key b) \<and> keeps_slice (raf_Values a) (raf_Values b)"

definition shielded_keeps :: "ShieldedInstanceConfig \<Rightarrow> ShieldedInstanceConfig \<Rightarrow> bool" where
  "shielded_keeps a b \<longleftrightarrow> keeps_ptr (sic_EnableIntegrityMonitoring a) (sic_EnableIntegrityMonitoring b)
     \<and> keeps_ptr (sic_EnableSecureBoot a) (sic_EnableSecureBoot b)"

definition node_config_keeps :: "NodeConfig \<Rightarrow> NodeConfig \<Rightarrow> bool" where
  "node_config_keeps a b \<longleftrightarrow> keeps_slice (ncf_Accelerators a) (ncf_Accelerators b)
     \<and> keeps_ptr (ncf_BootDiskKmsKey a) (ncf_BootDiskKmsKey b) \<and> keeps_ptr (ncf_DiskSizeGb a) (ncf_DiskSizeGb b)
     \<and> keeps_ptr (ncf_DiskType a) (ncf_DiskType b) \<and> keeps_ptr (ncf_ImageType a) (ncf_ImageType b)
     \<and> keeps_struct kubelet_keeps (ncf_KubeletConfig a) (ncf_KubeletConfig b)
     \<and> keeps_map (ncf_Labels a) (ncf_Labels b)
     \<and> keeps_ptr (ncf_LinuxNodeConfig a) (ncf_LinuxNodeConfig b)
     \<and> keeps_ptr (ncf_LocalSsdCount a) (ncf_LocalSsdCount b) \<and> keeps_ptr (ncf_MachineType a) (ncf_MachineType b)
     \<and> keeps_map (ncf_Metadata a) (ncf_Metadata b)
     \<and> keeps_ptr (ncf_MinCPUPlatform a) (ncf_MinCPUPlatform b) \<and> keeps_ptr (ncf_NodeGroup a) (ncf_NodeGroup b)
     \<and> keeps_slice (ncf_OauthScopes a) (ncf_OauthScopes b) \<and> keeps_ptr (ncf_Preemptible a) (ncf_Preemptible b)
     \<and> keeps_struct affinity_keeps (ncf_ReservationAffinity a) (ncf_ReservationAffinity b)
     \<and> keeps_ptr (ncf_SandboxConfig a) (ncf_SandboxConfig b)
     \<and> keeps_ptr (ncf_ServiceAccount a) (ncf_ServiceAccount b)
     \<and> keeps_struct shielded_keeps (ncf_ShieldedInstanceConfig a) (ncf_ShieldedInstanceConfig b)
     \<and> keeps_slice (ncf_Tags a) (ncf_Tags b) \<and> keeps_slice (ncf_Taints a) (ncf_Taints b)
     \<and> keeps_ptr (ncf_WorkloadMetadataConfig a) (ncf_WorkloadMetadataConfig b)"

definition nodepool_keeps :: "NodePoolParameters \<Rightarrow> NodePoolParameters \<Rightarrow> bool" where
  "nodepool_keeps a b \<longleftrightarrow> npp_Cluster b = npp_Cluster a \<and> npp_ClusterRef b = npp_ClusterRef a
     \<and> npp_ClusterSelector b = npp_ClusterSelector a
     \<and> keeps_struct np_autoscaling_keeps (npp_Autoscaling a) (npp_Autoscaling b)
     \<and> keeps_struct node_config_keeps (npp_Config a) (npp_Config b)
     \<and> keeps_ptr (npp_InitialNodeCount a) (npp_InitialNodeCount b)
     \<and> keeps_slice (npp_Locations a) (npp_Locations b)
     \<and> keeps_struct (\<lambda>x y. keeps_ptr (nms_AutoRepair x) (nms_AutoRepair y) \<and> keeps_ptr (nms_AutoUpgrade x) (nms_AutoUpgrade y))
         (npp_Management a) (npp_Management b)
     \<and> keeps_ptr (npp_MaxPodsConstraint a) (npp_MaxPodsConstraint b)
     \<and> keeps_struct (\<lambda>x y. keeps_ptr (ups_MaxSurge x) (ups_MaxSurge y) \<and> keeps_ptr (ups_MaxUnavailable x) (ups_MaxUnavailable y))
         (npp_UpgradeSettings a) (npp_UpgradeSettings b)
     \<and> keeps_ptr (npp_Version a) (npp_Version b)"

lemma np_block_keeps [simp]:
  "np_autoscaling_keeps a a" "kubelet_keeps k k" "affinity_keeps r r" "shielded_keeps s s"
  "np_autoscaling_keeps a (late_np_autoscaling a x)" "kubelet_keeps k (late_kubelet k y)"
  "affinity_keeps r (late_affinity r z)" "shielded_keeps s (late_shielded s u)"
  by (simp_all add: np_autoscaling_keeps_def kubelet_keeps_def affinity_keeps_def shielded_keeps_def
      late_np_autoscaling_def late_kubelet_def late_affinity_def late_shielded_def)

lemma node_config_keeps_refl: "node_config_keeps c c"
  by (simp add: node_config_keeps_def keeps_struct_refl)

lemma late_node_config_keeps: "late_node_config s x = Some s' \<Longrightarrow> keeps_struct node_config_keeps s s'"
  by (cases s; cases x)
    (auto simp: late_node_config_def node_config_keeps_def Let_def bind_eq_Some_conv keeps_struct_refl
      late_block_keeps late_slice_keeps)

interpretation nodepool_init: late_initializer nodepool_LateInitializeSpec nodepool_keeps
proof
  show "nodepool_keeps s s" for s
    by (simp add: nodepool_keeps_def keeps_struct_refl node_config_keeps_refl)
  show "nodepool_keeps s s'" if "nodepool_LateInitializeSpec s x = Some s'" for s x s'
    using that by (auto simp: nodepool_LateInitializeSpec_def nodepool_keeps_def bind_eq_Some_conv
        late_node_config_keeps late_block_keeps)
qed (rule nodepool_init_settles)

section \<open>The desired pool\<close>

text \<open>The fields of the desired pool.\<close>

lemma GenerateNodePool_simps [simp]:
  "cnp_InitialNodeCount (GenerateNodePool name p x) = Int64Value (npp_InitialNodeCount p)"
  "cnp_Locations (GenerateNodePool name p x) = npp_Locations p"
  "cnp_Name (GenerateNodePool name p x) = name"
  "cnp_Version (GenerateNodePool name p x) =
     (if cnp_Version x = '''' \<or> \<not> isAutoUpgradeEnabled p then StringValue (npp_Version p) else cnp_Version x)"
  "cnp_Autoscaling (GenerateNodePool name p x) = cnp_Autoscaling (np_GenerateAutoscaling (npp_Autoscaling p) x)"
  "cnp_Config (GenerateNodePool name p x) = cnp_Config (np_GenerateConfig (npp_Config p) x)"
  "cnp_Management (GenerateNodePool name p x) = cnp_Management (GenerateManagement (npp_Management p) x)"
  "cnp_MaxPodsConstraint (GenerateNodePool name p x) = cnp_MaxPodsConstraint (GenerateMaxPodsConstraint (npp_MaxPodsConstraint p) x)"
  "cnp_UpgradeSettings (GenerateNodePool name p x) = cnp_UpgradeSettings (GenerateUpgradeSettings (npp_UpgradeSettings p) x)"
  "cnp_Conditions (GenerateNodePool name p x) = cnp_Conditions x"
  "cnp_InstanceGroupUrls (GenerateNodePool name p x) = cnp_InstanceGroupUrls x"
  "cnp_PodIpv4CidrSize (GenerateNodePool name p x) = cnp_PodIpv4CidrSize x"
  "cnp_SelfLink (GenerateNodePool name p x) = cnp_SelfLink x"
  "cnp_Status (GenerateNodePool name p x) = cnp_Status x"
  "cnp_StatusMessage (GenerateNodePool name p x) = cnp_StatusMessage x"
  by (simp_all add: GenerateNodePool_def Let_def np_GenerateAutoscaling_def np_GenerateConfig_def
      GenerateManagement_def GenerateMaxPodsConstraint_def GenerateUpgradeSettings_def)

lemma np_gen_idems [simp]:
  "gen_kubelet k (gen_kubelet k y) = gen_kubelet k y"
  "gen_affinity r (gen_affinity r z) = gen_affinity r z"
  "gen_shielded s (gen_shielded s u) = gen_shielded s u"
  "gen_node_config c (gen_node_config c d) = gen_node_config c d"
  by (simp_all add: gen_kubelet_def gen_affinity_def gen_shielded_def gen_node_config_def gen_block_idem)

interpretation nodepool_desired: desired_state "\<lambda>(name, p) x. Some (GenerateNodePool name p x)"
proof
  fix q :: "string \<times> NodePoolParameters" and x y :: container_NodePool
  assume "(case q of (name, p) \<Rightarrow> \<lambda>x. Some (GenerateNodePool name p x)) x = Some y"
  then obtain name p where y: "q = (name, p)" "y = GenerateNodePool name p x" by (cases q) auto
  have "GenerateNodePool name p y = y"
    by (rule container_NodePool.equality)
      (simp_all add: y np_GenerateAutoscaling_def np_GenerateConfig_def GenerateManagement_def
        GenerateMaxPodsConstraint_def GenerateUpgradeSettings_def gen_block_idem)
  with y show "(case q of (name, p) \<Rightarrow> \<lambda>x. Some (GenerateNodePool name p x)) y = Some y" by simp
qed

section \<open>Comparison and adoption\<close>

text \<open>The values that \<open>cmpopts.EquateEmpty\<close> identifies, and what is assumed of the comparisons: those of
  autoscaling and management, which hold no slice or map, are exact; the one of whole pools ends
  if the filter of taints does on all taints, and finds pools equal that agree up to empty values.\<close>

definition node_config_view :: "container_NodeConfig \<Rightarrow> container_NodeConfig" where
  "node_config_view c = c\<lparr>cnc_Accelerators := nil_slice (cnc_Accelerators c), cnc_Labels := nil_map (cnc_Labels c),
     cnc_LinuxNodeConfig := map_option (\<lambda>l. l\<lparr>cln_Sysctls := nil_map (cln_Sysctls l)\<rparr>) (cnc_LinuxNodeConfig c),
     cnc_Metadata := nil_map (cnc_Metadata c), cnc_OauthScopes := nil_slice (cnc_OauthScopes c),
     cnc_ReservationAffinity := map_option (\<lambda>r. r\<lparr>cra_Values := nil_slice (cra_Values r)\<rparr>) (cnc_ReservationAffinity c),
     cnc_Tags := nil_slice (cnc_Tags c), cnc_Taints := nil_slice (cnc_Taints c)\<rparr>"

definition pool_view :: "container_NodePool \<Rightarrow> container_NodePool" where
  "pool_view x = x\<lparr>cnp_Conditions := nil_slice (cnp_Conditions x), cnp_Config := map_option node_config_view (cnp_Config x),
     cnp_InstanceGroupUrls := nil_slice (cnp_InstanceGroupUrls x), cnp_Locations := nil_slice (cnp_Locations x)\<rparr>"

definition pool_taints :: "container_NodePool \<Rightarrow> container_NodeTaint option list" where
  "pool_taints x = (case cnp_Config x of None \<Rightarrow> [] | Some c \<Rightarrow> elems (cnc_Taints c))"

definition np_cmp_ok :: "('w, 'e) nodePoolExternal \<Rightarrow> bool" where
  "np_cmp_ok e \<longleftrightarrow> cmp_exact (npx_autoscaling_cmp e) \<and> cmp_exact (npx_management_cmp e)
     \<and> (\<forall>igt ige eqs d ob. (\<forall>t \<in> set (pool_taints d @ pool_taints ob). igt t \<noteq> None) \<and> (\<forall>s. eqs s s) \<longrightarrow>
          (\<exists>b. npx_pool_cmp e igt ige eqs d ob = Some b \<and> (pool_view d = pool_view ob \<longrightarrow> b)))"

abbreviation pools_differ :: "('w, 'e) nodePoolExternal \<Rightarrow> container_NodePool \<Rightarrow> container_NodePool \<Rightarrow> bool" where
  "pools_differ e d ob \<equiv> npx_pool_cmp e ignored_taint (\<lambda>key _. key = runtimeKey) EqualFold d ob = Some False"

lemma ignored_taint_None [simp]: "ignored_taint t = None \<longleftrightarrow> t = None"
  by (simp add: ignored_taint_def)

lemma pool_cmp_total:
  assumes "np_cmp_ok e" and "None \<notin> set (pool_taints d)" and "None \<notin> set (pool_taints ob)"
  shows "\<exists>b. npx_pool_cmp e ignored_taint (\<lambda>key _. key = runtimeKey) EqualFold d ob = Some b
    \<and> (pool_view d = pool_view ob \<longrightarrow> b)"
proof -
  have "\<forall>t \<in> set (pool_taints d @ pool_taints ob). ignored_taint t \<noteq> None"
    using assms(2,3) by (metis UnE ignored_taint_None set_append)
  moreover have "\<forall>s. EqualFold s s" by (simp add: EqualFold_def)
  ultimately show ?thesis using assms(1) unfolding np_cmp_ok_def by blast
qed

definition empty_NodePoolParameters :: "string \<Rightarrow> NodePoolParameters" where
  "empty_NodePoolParameters cluster = \<lparr>npp_Cluster = cluster, npp_ClusterRef = None, npp_ClusterSelector = None,
     npp_Autoscaling = None, npp_Config = None, npp_InitialNodeCount = None, npp_Locations = None,
     npp_Management = None, npp_MaxPodsConstraint = None, npp_UpgradeSettings = None, npp_Version = None\<rparr>"

lemma accelerator_round_trip: "gen_accelerator (late_accelerator a) = a"
  by (simp add: gen_accelerator_def late_accelerator_def)

lemma taint_round_trip: "gen_taint (late_taint t) = t"
  by (simp add: gen_taint_def late_taint_def)

lemma gen_block_copy:
  assumes "\<And>b. g (f b) b = b"
  shows "gen_block z g (map_option f x) x = x"
  using assms by (cases x) (simp_all add: gen_block_def)

lemma affinity_adopt:
  "map_option (\<lambda>r. r\<lparr>cra_Values := nil_slice (cra_Values r)\<rparr>)
     (gen_block z gen_affinity
       (late_block \<lparr>raf_ConsumeReservationType = None, raf_Key = None, raf_Values = None\<rparr> late_affinity None b) b)
   = map_option (\<lambda>r. r\<lparr>cra_Values := nil_slice (cra_Values r)\<rparr>) b"
  by (cases b) (simp_all add: gen_block_def late_block_def gen_affinity_def late_affinity_def)

lemma node_config_adopt:
  assumes "late_node_config None x = Some s"
  shows "map_option node_config_view (gen_block z gen_node_config s x) = map_option node_config_view x"
proof (cases x)
  case None
  with assms show ?thesis by (simp add: late_node_config_def gen_block_def)
next
  case (Some c)
  with assms obtain accs taints t where
      a: "late_slice (deref_elem late_accelerator) None (cnc_Accelerators c) = Some accs"
    and b: "late_slice (deref_elem late_taint) None (cnc_Taints c) = Some taints"
    and s: "s = Some t" "ncf_Accelerators t = accs" "ncf_Taints t = taints"
    by (auto simp: late_node_config_def NodeConfig0_def Let_def bind_eq_Some_conv)
  note acc = gen_elems_adopt [OF a accelerator_round_trip] and tnt = gen_elems_adopt [OF b taint_round_trip]
  have k: "gen_block z gen_kubelet (late_block \<lparr>nkc_CpuCfsQuota = None, nkc_CpuCfsQuotaPeriod = None,
      nkc_CpuManagerPolicy = None\<rparr> late_kubelet None b) b = b" for z b
    by (rule gen_block_adopt) (simp add: gen_kubelet_def late_kubelet_def)
  have sh: "gen_block z gen_shielded (late_block \<lparr>sic_EnableIntegrityMonitoring = None,
      sic_EnableSecureBoot = None\<rparr> late_shielded None b) b = b" for z b
    by (rule gen_block_adopt) (simp add: gen_shielded_def late_shielded_def)
  show ?thesis
    using assms Some a b acc tnt s
    by (auto simp: late_node_config_def NodeConfig0_def Let_def gen_block_def [of _ gen_node_config]
        gen_node_config_def node_config_view_def k sh affinity_adopt gen_block_copy)
qed

lemma nodepool_adopt:
  assumes "nodepool_LateInitializeSpec (empty_NodePoolParameters c) x = Some p"
  shows "pool_view (GenerateNodePool (cnp_Name x) p x) = pool_view x"
proof -
  obtain cfg where cfg: "late_node_config None (cnp_Config x) = Some cfg" "npp_Config p = cfg"
    using assms by (auto simp: nodepool_LateInitializeSpec_def empty_NodePoolParameters_def bind_eq_Some_conv)
  note config = node_config_adopt [OF cfg(1)]
  have a: "gen_block z (\<lambda>a b. b\<lparr>cna_Autoprovisioned := BoolValue (npa_Autoprovisioned a),
        cna_Enabled := BoolValue (npa_Enabled a), cna_MaxNodeCount := Int64Value (npa_MaxNodeCount a),
        cna_MinNodeCount := Int64Value (npa_MinNodeCount a)\<rparr>)
      (late_block \<lparr>npa_Autoprovisioned = None, npa_Enabled = None, npa_MaxNodeCount = None, npa_MinNodeCount = None\<rparr>
        late_np_autoscaling None b) b = b" for z b
    by (rule gen_block_adopt) (simp add: late_np_autoscaling_def)
  have m: "gen_block z (\<lambda>a b. b\<lparr>cnm_AutoRepair := BoolValue (nms_AutoRepair a), cnm_AutoUpgrade := BoolValue (nms_AutoUpgrade a)\<rparr>)
      (late_block \<lparr>nms_AutoRepair = None, nms_AutoUpgrade = None\<rparr>
           (\<lambda>s x. s\<lparr>nms_AutoRepair := LateInitializeBool (nms_AutoRepair s) (cnm_AutoRepair x),
                    nms_AutoUpgrade := LateInitializeBool (nms_AutoUpgrade s) (cnm_AutoUpgrade x)\<rparr>) None b) b = b" for z b
    by (rule gen_block_adopt) simp
  have u: "gen_block z (\<lambda>a b. b\<lparr>cus_MaxSurge := Int64Value (ups_MaxSurge a), cus_MaxUnavailable := Int64Value (ups_MaxUnavailable a)\<rparr>)
      (late_block \<lparr>ups_MaxSurge = None, ups_MaxUnavailable = None\<rparr>
           (\<lambda>s x. s\<lparr>ups_MaxSurge := LateInitializeInt64 (ups_MaxSurge s) (cus_MaxSurge x),
                    ups_MaxUnavailable := LateInitializeInt64 (ups_MaxUnavailable s) (cus_MaxUnavailable x)\<rparr>) None b) b = b" for z b
    by (rule gen_block_adopt) simp
  show ?thesis
    using assms cfg config
    by (auto simp: nodepool_LateInitializeSpec_def empty_NodePoolParameters_def pool_view_def GenerateNodePool_def
        Let_def np_GenerateAutoscaling_def np_GenerateConfig_def GenerateManagement_def GenerateMaxPodsConstraint_def
        GenerateUpgradeSettings_def a m u gen_block_copy)
qed

section \<open>Updates, one at a time\<close>

datatype np_stage = NpAutoscaling | NpManagement | NpGeneral

definition np_stages :: "np_stage list" where
  "np_stages = [NpAutoscaling, NpManagement, NpGeneral]"

fun np_pending :: "('w, 'e) nodePoolExternal \<Rightarrow> string \<Rightarrow> NodePoolParameters \<Rightarrow> np_stage \<Rightarrow> container_NodePool \<Rightarrow> bool" where
  "np_pending e name p NpAutoscaling x =
     (\<not> npx_autoscaling_cmp e (cnp_Autoscaling (GenerateNodePool name p x)) (cnp_Autoscaling x))"
| "np_pending e name p NpManagement x =
     (\<not> npx_management_cmp e (cnp_Management (GenerateNodePool name p x)) (cnp_Management x))"
| "np_pending e name p NpGeneral x = pools_differ e (GenerateNodePool name p x) x"

fun np_update_of :: "NodePoolParameters \<Rightarrow> np_stage \<Rightarrow> ('w, 'e) np_UpdateFn" where
  "np_update_of p NpAutoscaling = np_newAutoscalingUpdateFn (npp_Autoscaling p)"
| "np_update_of p NpManagement = newManagementUpdateFn (npp_Management p)"
| "np_update_of p NpGeneral = newGeneralUpdateFn p"

lemma nodepool_IsUpToDate_stages:
  assumes "copy_ok (npx_copy e)" and "np_cmp_ok e"
    and "None \<notin> set (pool_taints (GenerateNodePool name p x))" and "None \<notin> set (pool_taints x)"
  shows "nodepool_IsUpToDate e name p x = Some (case first_pending (np_pending e name p) np_stages x of
      None \<Rightarrow> (True, np_noOpUpdate, None) | Some k \<Rightarrow> (False, np_update_of p k, None))"
  using pool_cmp_total [OF assms(2-4)] assms(1)
  by (auto simp: nodepool_IsUpToDate_def copy_ok_def Let_def first_pending_def np_stages_def)

text \<open>What the service documents of the three calls: autoscaling is replaced; of the management the
  two settings are, while the options of a coming upgrade are an output; of a node pool update
  the fields that are present are.\<close>

definition apply_autoscaling :: "container_NodePoolAutoscaling option \<Rightarrow> container_NodePool \<Rightarrow> container_NodePool" where
  "apply_autoscaling a x = x\<lparr>cnp_Autoscaling := a\<rparr>"

definition apply_management :: "container_NodeManagement option \<Rightarrow> container_NodePool \<Rightarrow> container_NodePool" where
  "apply_management m x = x\<lparr>cnp_Management := map_option (\<lambda>m. m\<lparr>cnm_UpgradeOptions :=
     Option.bind (cnp_Management x) cnm_UpgradeOptions\<rparr>) m\<rparr>"

definition apply_np_update :: "container_UpdateNodePoolRequest \<Rightarrow> container_NodePool \<Rightarrow> container_NodePool" where
  "apply_np_update u x = x\<lparr>
     cnp_Locations := (if len (unr_Locations u) = 0 then cnp_Locations x else unr_Locations u),
     cnp_Version := (if unr_NodeVersion u = '''' then cnp_Version x else unr_NodeVersion u),
     cnp_Config := map_option (\<lambda>c. c\<lparr>
        cnc_ImageType := (if unr_ImageType u = '''' then cnc_ImageType c else unr_ImageType u),
        cnc_WorkloadMetadataConfig := late_ptr (unr_WorkloadMetadataConfig u) (cnc_WorkloadMetadataConfig c)\<rparr>)
        (cnp_Config x)\<rparr>"

definition np_service_ok :: "('w, 'e) nodePoolExternal \<Rightarrow> bool" where
  "np_service_ok e \<longleftrightarrow> (\<forall>n w w1 w2 x. NodePools_Get e n w = (w1, Inr x) \<longrightarrow>
     (\<exists>w3. NodePools_Get e n w1 = (w3, Inr x))
     \<and> (\<forall>a. NodePools_SetAutoscaling e n a w1 = (w2, Inr ()) \<longrightarrow> (\<exists>w3. NodePools_Get e n w2 = (w3, Inr (apply_autoscaling a x))))
     \<and> (\<forall>m. NodePools_SetManagement e n m w1 = (w2, Inr ()) \<longrightarrow> (\<exists>w3. NodePools_Get e n w2 = (w3, Inr (apply_management m x))))
     \<and> (\<forall>u. NodePools_Update e n u w1 = (w2, Inr ()) \<longrightarrow> (\<exists>w3. NodePools_Get e n w2 = (w3, Inr (apply_np_update u x)))))"

fun np_effect :: "NodePoolParameters \<Rightarrow> np_stage \<Rightarrow> container_NodePool \<Rightarrow> container_NodePool" where
  "np_effect p NpAutoscaling = apply_autoscaling (cnp_Autoscaling (np_GenerateAutoscaling (npp_Autoscaling p) container_NodePool0))"
| "np_effect p NpManagement = apply_management (cnp_Management (GenerateManagement (npp_Management p) container_NodePool0))"
| "np_effect p NpGeneral = apply_np_update (GenerateNodePoolUpdate p)"

text \<open>The part of a pool that no update can change.\<close>

definition np_rest :: "container_NodePool \<Rightarrow> container_NodePool" where
  "np_rest x = (pool_view x)\<lparr>cnp_Autoscaling := None, cnp_Management := None, cnp_Locations := None, cnp_Version := '''',
     cnp_Config := map_option (\<lambda>c. c\<lparr>cnc_ImageType := '''', cnc_WorkloadMetadataConfig := None\<rparr>)
       (cnp_Config (pool_view x))\<rparr>"

text \<open>
  When updates can achieve the desired pool: the spec has been late-initialised, it asks for no
  field to be emptied (which a request cannot express), and it differs from the pool only in
  fields that can be updated.
\<close>

definition np_reachable :: "string \<Rightarrow> NodePoolParameters \<Rightarrow> container_NodePool \<Rightarrow> bool" where
  "np_reachable name p x \<longleftrightarrow> nodepool_LateInitializeSpec p x = Some p
     \<and> npp_Version p \<noteq> Some '''' \<and> (\<forall>c. npp_Config p = Some c \<longrightarrow> ncf_ImageType c \<noteq> Some '''')
     \<and> np_rest (GenerateNodePool name p x) = np_rest x
     \<and> None \<notin> set (pool_taints (GenerateNodePool name p x)) \<and> None \<notin> set (pool_taints x)"

lemmas np_gen_defs = np_GenerateAutoscaling_def np_GenerateConfig_def GenerateManagement_def
  GenerateMaxPodsConstraint_def GenerateUpgradeSettings_def

lemma np_settled_iff:
  "nodepool_LateInitializeSpec p x = Some p \<longleftrightarrow>
     late_node_config (npp_Config p) (cnp_Config x) = Some (npp_Config p)
     \<and> late_block \<lparr>npa_Autoprovisioned = None, npa_Enabled = None, npa_MaxNodeCount = None, npa_MinNodeCount = None\<rparr>
         late_np_autoscaling (npp_Autoscaling p) (cnp_Autoscaling x) = npp_Autoscaling p
     \<and> LateInitializeInt64 (npp_InitialNodeCount p) (cnp_InitialNodeCount x) = npp_InitialNodeCount p
     \<and> LateInitializeStringSlice (npp_Locations p) (cnp_Locations x) = npp_Locations p
     \<and> late_block \<lparr>nms_AutoRepair = None, nms_AutoUpgrade = None\<rparr>
         (\<lambda>s x. s\<lparr>nms_AutoRepair := LateInitializeBool (nms_AutoRepair s) (cnm_AutoRepair x),
                  nms_AutoUpgrade := LateInitializeBool (nms_AutoUpgrade s) (cnm_AutoUpgrade x)\<rparr>)
         (npp_Management p) (cnp_Management x) = npp_Management p
     \<and> late_ptr (npp_MaxPodsConstraint p)
         (map_option (\<lambda>m. \<lparr>mpc_MaxPodsPerNode = cmx_MaxPodsPerNode m\<rparr>) (cnp_MaxPodsConstraint x)) = npp_MaxPodsConstraint p
     \<and> late_block \<lparr>ups_MaxSurge = None, ups_MaxUnavailable = None\<rparr>
         (\<lambda>s x. s\<lparr>ups_MaxSurge := LateInitializeInt64 (ups_MaxSurge s) (cus_MaxSurge x),
                  ups_MaxUnavailable := LateInitializeInt64 (ups_MaxUnavailable s) (cus_MaxUnavailable x)\<rparr>)
         (npp_UpgradeSettings p) (cnp_UpgradeSettings x) = npp_UpgradeSettings p
     \<and> LateInitializeString (npp_Version p) (cnp_Version x) = npp_Version p"
  by (cases p) (auto simp: nodepool_LateInitializeSpec_def bind_eq_Some_conv)

lemma np_autoscaling_effect:
  assumes "np_reachable name p x" and "cnp_Autoscaling (GenerateNodePool name p x) \<noteq> cnp_Autoscaling x"
  shows "np_reachable name p (np_effect p NpAutoscaling x)"
    and "cnp_Autoscaling (GenerateNodePool name p (np_effect p NpAutoscaling x)) = cnp_Autoscaling (np_effect p NpAutoscaling x)"
proof -
  obtain a where a: "npp_Autoscaling p = Some a"
    using assms(2) by (cases "npp_Autoscaling p") (simp_all add: np_GenerateAutoscaling_def gen_block_def)
  show "np_reachable name p (np_effect p NpAutoscaling x)"
    using assms(1) a
    by (auto simp: np_reachable_def np_settled_iff apply_autoscaling_def np_rest_def pool_view_def np_gen_defs
        pool_taints_def gen_block_def [of _ _ "Some a"] late_block_def [of _ _ "Some a"] late_np_autoscaling_def
        container_NodePool0_def GenerateNodePool_def Let_def)
  show "cnp_Autoscaling (GenerateNodePool name p (np_effect p NpAutoscaling x)) = cnp_Autoscaling (np_effect p NpAutoscaling x)"
    using a by (simp add: apply_autoscaling_def np_GenerateAutoscaling_def gen_block_def)
qed

lemma np_management_effect:
  assumes "np_reachable name p x" and "cnp_Management (GenerateNodePool name p x) \<noteq> cnp_Management x"
  shows "np_reachable name p (np_effect p NpManagement x)"
    and "cnp_Management (GenerateNodePool name p (np_effect p NpManagement x)) = cnp_Management (np_effect p NpManagement x)"
    and "cnp_Autoscaling (GenerateNodePool name p (np_effect p NpManagement x)) = cnp_Autoscaling (GenerateNodePool name p x)"
    and "cnp_Autoscaling (np_effect p NpManagement x) = cnp_Autoscaling x"
proof -
  obtain m where m: "npp_Management p = Some m"
    using assms(2) by (cases "npp_Management p") (simp_all add: GenerateManagement_def gen_block_def)
  show "np_reachable name p (np_effect p NpManagement x)"
    using assms(1) m
    by (auto simp: np_reachable_def np_settled_iff apply_management_def np_rest_def pool_view_def np_gen_defs
        pool_taints_def gen_block_def [of _ _ "Some m"] late_block_def [of _ _ "Some m"]
        container_NodePool0_def GenerateNodePool_def Let_def)
  show "cnp_Management (GenerateNodePool name p (np_effect p NpManagement x)) = cnp_Management (np_effect p NpManagement x)"
    using m by (simp add: apply_management_def GenerateManagement_def gen_block_def)
  show "cnp_Autoscaling (GenerateNodePool name p (np_effect p NpManagement x)) = cnp_Autoscaling (GenerateNodePool name p x)"
    and "cnp_Autoscaling (np_effect p NpManagement x) = cnp_Autoscaling x"
    by (simp_all add: apply_management_def np_GenerateAutoscaling_def)
qed

text \<open>The node configuration after a general update.\<close>

definition np_config_update :: "NodePoolParameters \<Rightarrow> container_NodeConfig \<Rightarrow> container_NodeConfig" where
  "np_config_update p c = c\<lparr>
     cnc_ImageType := (if unr_ImageType (GenerateNodePoolUpdate p) = '''' then cnc_ImageType c
                       else unr_ImageType (GenerateNodePoolUpdate p)),
     cnc_WorkloadMetadataConfig := late_ptr (unr_WorkloadMetadataConfig (GenerateNodePoolUpdate p))
       (cnc_WorkloadMetadataConfig c)\<rparr>"

definition node_config_rest :: "container_NodeConfig \<Rightarrow> container_NodeConfig" where
  "node_config_rest c = (node_config_view c)\<lparr>cnc_ImageType := '''', cnc_WorkloadMetadataConfig := None\<rparr>"

lemma node_config_rest_update [simp]:
  "node_config_rest (np_config_update p d) = node_config_rest d"
  "node_config_rest (gen_node_config c (np_config_update p d)) = node_config_rest (gen_node_config c d)"
  by (simp_all add: node_config_rest_def node_config_view_def np_config_update_def gen_node_config_def)

lemma node_config_view_split:
  "node_config_view c = node_config_view d \<longleftrightarrow> node_config_rest c = node_config_rest d
     \<and> cnc_ImageType c = cnc_ImageType d \<and> cnc_WorkloadMetadataConfig c = cnc_WorkloadMetadataConfig d"
  by (cases c; cases d) (auto simp: node_config_rest_def node_config_view_def)

lemma late_node_config_frame:
  "late_node_config (Some c) (Some (d\<lparr>cnc_ImageType := i, cnc_WorkloadMetadataConfig := m\<rparr>)) =
     map_option (map_option (\<lambda>s. s\<lparr>ncf_ImageType := LateInitializeString (ncf_ImageType c) i,
       ncf_WorkloadMetadataConfig := late_ptr (ncf_WorkloadMetadataConfig c) (map_option (\<lambda>m. \<lparr>wmc_Mode = cwm_Mode m\<rparr>) m)\<rparr>))
     (late_node_config (Some c) (Some d))"
  by (cases "late_slice (deref_elem late_accelerator) (ncf_Accelerators c) (cnc_Accelerators d)";
      cases "late_slice (deref_elem late_taint) (ncf_Taints c) (cnc_Taints d)")
    (simp_all add: late_node_config_def Let_def)

lemma node_config_settled_fields:
  assumes "late_node_config (Some c) (Some d) = Some (Some c)"
  shows "LateInitializeString (ncf_ImageType c) (cnc_ImageType d) = ncf_ImageType c"
    and "late_ptr (ncf_WorkloadMetadataConfig c)
      (map_option (\<lambda>m. \<lparr>wmc_Mode = cwm_Mode m\<rparr>) (cnc_WorkloadMetadataConfig d)) = ncf_WorkloadMetadataConfig c"
  using assms by (cases c; auto simp: late_node_config_def bind_eq_Some_conv)+

lemma node_config_update_matches:
  assumes "npp_Config p = Some c" and "late_node_config (Some c) (Some d) = Some (Some c)"
    and "ncf_ImageType c \<noteq> Some ''''"
    and "node_config_rest (gen_node_config c d) = node_config_rest d"
  shows "node_config_view (gen_node_config c (np_config_update p d)) = node_config_view (np_config_update p d)"
proof -
  note node_config_settled_fields(1) [OF assms(2)]
  with assms(3) have "StringValue (ncf_ImageType c) = '''' \<Longrightarrow> cnc_ImageType d = ''''"
    by (cases "ncf_ImageType c") (auto simp: LateInitializeString_def split: if_splits)
  then have "cnc_ImageType (gen_node_config c (np_config_update p d)) = cnc_ImageType (np_config_update p d)"
    using assms(1) by (simp add: gen_node_config_def np_config_update_def GenerateNodePoolUpdate_def)
  moreover have "cnc_WorkloadMetadataConfig (gen_node_config c (np_config_update p d))
      = cnc_WorkloadMetadataConfig (np_config_update p d)"
    using assms(1) by (cases "ncf_WorkloadMetadataConfig c")
      (simp_all add: gen_node_config_def np_config_update_def GenerateNodePoolUpdate_def gen_block_def late_ptr_def)
  ultimately show ?thesis using assms(4) by (simp add: node_config_view_split)
qed

lemma late_node_config_update:
  assumes "npp_Config p = Some c" and "late_node_config (Some c) (Some d) = Some (Some c)"
  shows "late_node_config (Some c) (Some (np_config_update p d)) = Some (Some c)"
proof -
  have i: "LateInitializeString (ncf_ImageType c) (cnc_ImageType (np_config_update p d)) = ncf_ImageType c"
    using assms(1) node_config_settled_fields(1) [OF assms(2)]
    by (simp add: np_config_update_def GenerateNodePoolUpdate_def)
  have m: "late_ptr (ncf_WorkloadMetadataConfig c)
      (map_option (\<lambda>m. \<lparr>wmc_Mode = cwm_Mode m\<rparr>) (cnc_WorkloadMetadataConfig (np_config_update p d))) = ncf_WorkloadMetadataConfig c"
    using assms(1) node_config_settled_fields(2) [OF assms(2)]
    by (cases "ncf_WorkloadMetadataConfig c") (simp_all add: np_config_update_def GenerateNodePoolUpdate_def late_ptr_def)
  have "c\<lparr>ncf_ImageType := ncf_ImageType c, ncf_WorkloadMetadataConfig := ncf_WorkloadMetadataConfig c\<rparr> = c" by simp
  then show ?thesis
    using i m assms(2) by (simp add: np_config_update_def late_node_config_frame)
qed

lemma np_rest_eq_iff:
  "np_rest x = np_rest y \<longleftrightarrow>
     nil_slice (cnp_Conditions x) = nil_slice (cnp_Conditions y)
     \<and> map_option node_config_rest (cnp_Config x) = map_option node_config_rest (cnp_Config y)
     \<and> cnp_InitialNodeCount x = cnp_InitialNodeCount y
     \<and> nil_slice (cnp_InstanceGroupUrls x) = nil_slice (cnp_InstanceGroupUrls y)
     \<and> cnp_MaxPodsConstraint x = cnp_MaxPodsConstraint y \<and> cnp_Name x = cnp_Name y
     \<and> cnp_PodIpv4CidrSize x = cnp_PodIpv4CidrSize y \<and> cnp_SelfLink x = cnp_SelfLink y
     \<and> cnp_Status x = cnp_Status y \<and> cnp_StatusMessage x = cnp_StatusMessage y
     \<and> cnp_UpgradeSettings x = cnp_UpgradeSettings y"
  by (cases x; cases y) (auto simp: np_rest_def pool_view_def option.map_comp comp_def node_config_rest_def [abs_def])

lemma pool_view_eq_iff:
  "pool_view x = pool_view y \<longleftrightarrow> np_rest x = np_rest y
     \<and> cnp_Autoscaling x = cnp_Autoscaling y \<and> cnp_Management x = cnp_Management y
     \<and> nil_slice (cnp_Locations x) = nil_slice (cnp_Locations y) \<and> cnp_Version x = cnp_Version y
     \<and> map_option node_config_view (cnp_Config x) = map_option node_config_view (cnp_Config y)"
proof -
  have "map_option node_config_view (cnp_Config x) = map_option node_config_view (cnp_Config y) \<Longrightarrow>
      map_option node_config_rest (cnp_Config x) = map_option node_config_rest (cnp_Config y)"
    by (cases "cnp_Config x"; cases "cnp_Config y") (simp_all add: node_config_view_split)
  then show ?thesis
    by (cases x; cases y) (auto simp: np_rest_eq_iff pool_view_def)
qed

lemma np_effect_general [simp]:
  "cnp_Autoscaling (apply_np_update (GenerateNodePoolUpdate p) x) = cnp_Autoscaling x"
  "cnp_Management (apply_np_update (GenerateNodePoolUpdate p) x) = cnp_Management x"
  "cnp_Config (apply_np_update (GenerateNodePoolUpdate p) x) = map_option (np_config_update p) (cnp_Config x)"
  by (simp_all add: apply_np_update_def np_config_update_def [abs_def])

lemma gen_config_update_rest:
  "map_option node_config_rest (gen_block z gen_node_config c (map_option (np_config_update p) d))
   = map_option node_config_rest (gen_block z gen_node_config c d)"
  by (cases c; cases d) (simp_all add: gen_block_def)

lemma np_general_reachable:
  assumes "np_reachable name p x"
  shows "np_reachable name p (np_effect p NpGeneral x)"
proof -
  have config: "late_node_config (npp_Config p) (map_option (np_config_update p) (cnp_Config x)) = Some (npp_Config p)"
  proof (cases "cnp_Config x")
    case (Some d)
    with assms obtain c where "npp_Config p = Some c" "late_node_config (Some c) (Some d) = Some (Some c)"
      by (cases "npp_Config p") (auto simp: np_reachable_def np_settled_iff late_node_config_def Let_def bind_eq_Some_conv)
    with late_node_config_update [of p c d] Some show ?thesis by simp
  qed (use assms in \<open>simp add: np_reachable_def np_settled_iff\<close>)
  have "LateInitializeString (npp_Version p) (cnp_Version (np_effect p NpGeneral x)) = npp_Version p"
    and "LateInitializeStringSlice (npp_Locations p) (cnp_Locations (np_effect p NpGeneral x)) = npp_Locations p"
    using assms by (auto simp: np_reachable_def np_settled_iff apply_np_update_def GenerateNodePoolUpdate_def
        LateInitializeStringSlice_def)
  moreover have "pool_taints (np_effect p NpGeneral x) = pool_taints x"
    by (cases "cnp_Config x") (simp_all add: pool_taints_def np_config_update_def)
  moreover have "pool_taints (GenerateNodePool name p (np_effect p NpGeneral x)) = pool_taints (GenerateNodePool name p x)"
    by (cases "cnp_Config x"; cases "npp_Config p")
      (simp_all add: pool_taints_def np_GenerateConfig_def gen_block_def gen_node_config_def np_config_update_def)
  moreover have "np_rest (GenerateNodePool name p (np_effect p NpGeneral x)) = np_rest (np_effect p NpGeneral x)"
    using assms unfolding np_reachable_def np_rest_eq_iff
    by (simp add: np_gen_defs gen_config_update_rest option.map_comp comp_def)
      (simp add: apply_np_update_def)
  ultimately show ?thesis
    using assms config by (simp add: np_reachable_def np_settled_iff) (simp add: apply_np_update_def)
qed

lemma np_general_matches:
  assumes r: "np_reachable name p x"
    and "cnp_Autoscaling (GenerateNodePool name p x) = cnp_Autoscaling x"
    and "cnp_Management (GenerateNodePool name p x) = cnp_Management x"
  shows "pool_view (GenerateNodePool name p (np_effect p NpGeneral x)) = pool_view (np_effect p NpGeneral x)"
proof -
  let ?x = "np_effect p NpGeneral x"
  have rest: "np_rest (GenerateNodePool name p ?x) = np_rest ?x"
    using np_general_reachable [OF r] by (simp add: np_reachable_def)
  have "map_option node_config_rest (cnp_Config (GenerateNodePool name p x)) = map_option node_config_rest (cnp_Config x)"
    using r by (simp add: np_reachable_def np_rest_eq_iff)
  then have config: "map_option node_config_view (cnp_Config (GenerateNodePool name p ?x)) = map_option node_config_view (cnp_Config ?x)"
    using r node_config_update_matches [of p]
    by (cases "npp_Config p"; cases "cnp_Config x")
      (auto simp: np_GenerateConfig_def gen_block_def np_reachable_def np_settled_iff)
  have "StringValue (npp_Version p) = '''' \<Longrightarrow> cnp_Version x = ''''"
    using r by (cases "npp_Version p") (auto simp: np_reachable_def np_settled_iff LateInitializeString_def split: if_splits)
  then have version: "cnp_Version (GenerateNodePool name p ?x) = cnp_Version ?x"
    by (auto simp: apply_np_update_def GenerateNodePoolUpdate_def)
  have "LateInitializeStringSlice (npp_Locations p) (cnp_Locations x) = npp_Locations p"
    using r by (simp add: np_reachable_def np_settled_iff)
  then have locations: "nil_slice (cnp_Locations (GenerateNodePool name p ?x)) = nil_slice (cnp_Locations ?x)"
    by (auto simp: apply_np_update_def GenerateNodePoolUpdate_def nil_slice_def LateInitializeStringSlice_def split: if_splits)
  show ?thesis
    using rest config version locations assms(2,3)
    by (simp add: pool_view_eq_iff np_GenerateAutoscaling_def GenerateManagement_def)
qed

lemma np_general_settles:
  assumes "np_cmp_ok e" and "np_reachable name p x"
    and "\<not> np_pending e name p NpAutoscaling x" and "\<not> np_pending e name p NpManagement x"
  shows "\<not> np_pending e name p k (np_effect p NpGeneral x)"
proof -
  have eq: "cnp_Autoscaling (GenerateNodePool name p x) = cnp_Autoscaling x"
      "cnp_Management (GenerateNodePool name p x) = cnp_Management x"
    using assms by (simp_all add: np_cmp_ok_def cmp_exact_def)
  note view = np_general_matches [OF assms(2) eq]
  note total = pool_cmp_total [OF assms(1), of "GenerateNodePool name p (np_effect p NpGeneral x)" "np_effect p NpGeneral x"]
  have "\<not> pools_differ e (GenerateNodePool name p (np_effect p NpGeneral x)) (np_effect p NpGeneral x)"
    using total view np_general_reachable [OF assms(2)] by (auto simp: np_reachable_def)
  then show ?thesis
    using view assms(1) by (cases k) (simp_all add: pool_view_eq_iff np_cmp_ok_def cmp_exact_def)
qed

lemma np_prefixes:
  "np_stages = pre @ k # post \<longleftrightarrow>
     (pre = [] \<and> k = NpAutoscaling \<and> post = [NpManagement, NpGeneral])
     \<or> (pre = [NpAutoscaling] \<and> k = NpManagement \<and> post = [NpGeneral])
     \<or> (pre = [NpAutoscaling, NpManagement] \<and> k = NpGeneral \<and> post = [])"
  by (auto simp: np_stages_def Cons_eq_append_conv)

interpretation np_staged: staged_update np_stages "np_pending e name p" "np_effect p"
    "\<lambda>x. np_cmp_ok e \<and> np_reachable name p x" for e name p
proof (unfold_locales, goal_cases)
  case (1 x pre k post j)
  then consider "k = NpAutoscaling" "pre = []" | "k = NpManagement" "pre = [NpAutoscaling]"
    | "k = NpGeneral" "pre = [NpAutoscaling, NpManagement]" by (auto simp: np_prefixes)
  then show ?case
  proof cases
    case 1
    with \<open>j = k \<or> j \<in> set pre\<close> \<open>np_cmp_ok e \<and> np_reachable name p x\<close> \<open>np_pending e name p k x\<close>
    show ?thesis using np_autoscaling_effect(2) [of name p x] by (auto simp: np_cmp_ok_def cmp_exact_def)
  next
    case 2
    with \<open>j = k \<or> j \<in> set pre\<close> \<open>np_cmp_ok e \<and> np_reachable name p x\<close> \<open>np_pending e name p k x\<close>
      \<open>\<forall>j\<in>set pre. \<not> np_pending e name p j x\<close>
    show ?thesis using np_management_effect(2-4) [of name p x] by (auto simp: np_cmp_ok_def cmp_exact_def)
  next
    case 3
    with \<open>np_cmp_ok e \<and> np_reachable name p x\<close> \<open>\<forall>j\<in>set pre. \<not> np_pending e name p j x\<close>
    show ?thesis using np_general_settles [of e name p x j] by simp
  qed
next
  case (2 x pre k post)
  then show ?case
    using np_autoscaling_effect(1) [of name p x] np_management_effect(1) [of name p x] np_general_reachable [of name p x]
    by (auto simp: np_prefixes np_cmp_ok_def cmp_exact_def)
qed

section \<open>Properties\<close>

lemma nodepool_conditions_simps [simp]:
  "ExternalName (nodepool_conditions st cr) = ExternalName cr" "ForProvider (nodepool_conditions st cr) = ForProvider cr"
  by (simp_all add: nodepool_conditions_def)

lemma nodePool_Update_step:
  assumes "wrap_ok (npx_runtime e)" and "copy_ok (npx_copy e)" and "np_service_ok e" and "np_cmp_ok e"
    and "np_reachable (ExternalName cr) (ForProvider cr) x"
    and "npo_Status (AtProvider cr) \<notin> {NodePoolStateReconciling, NodePoolStateProvisioning}"
    and "\<exists>w1. NodePools_Get e (nodepool_GetFullyQualifiedName (ForProvider cr) (ExternalName cr)) w = (w1, Inr x)"
    and "succeeds (nodePool_Update e (Some cr) w) = Some w'"
  shows "\<exists>w1. NodePools_Get e (nodepool_GetFullyQualifiedName (ForProvider cr) (ExternalName cr)) w' =
     (w1, Inr (stage_step (np_pending e (ExternalName cr) (ForProvider cr)) (np_effect (ForProvider cr)) np_stages x))"
proof -
  let ?n = "nodepool_GetFullyQualifiedName (ForProvider cr) (ExternalName cr)" and ?p = "ForProvider cr"
  obtain w1 where get: "NodePools_Get e ?n w = (w1, Inr x)" using assms(7) by blast
  have stages: "nodepool_IsUpToDate e (ExternalName cr) ?p x = Some (case first_pending (np_pending e (ExternalName cr) ?p) np_stages x of
      None \<Rightarrow> (True, np_noOpUpdate, None) | Some k \<Rightarrow> (False, np_update_of ?p k, None))"
    using nodepool_IsUpToDate_stages [OF assms(2,4)] assms(5) by (simp add: np_reachable_def)
  show ?thesis
  proof (cases "first_pending (np_pending e (ExternalName cr) ?p) np_stages x")
    case None
    with stages assms(6,8) get have "w' = w1"
      by (auto simp: succeeds_Some nodePool_Update_def Let_def)
    with assms(3) get None show ?thesis by (auto simp: np_service_ok_def stage_step_def)
  next
    case (Some k)
    with stages assms(1,6,8) get have "call_error (np_update_of ?p k e ?n w1) = None" "w' = fst (np_update_of ?p k e ?n w1)"
      by (auto simp: succeeds_Some nodePool_Update_def Let_def)
    then have "np_update_of ?p k e ?n w1 = (w', Inr ())" using call_error_None_unit by metis
    with assms(3) get Some show ?thesis
      by (cases k) (auto simp: np_service_ok_def stage_step_def np_newAutoscalingUpdateFn_def newManagementUpdateFn_def
          newGeneralUpdateFn_def Let_def)
  qed
qed

text \<open>A service whose state is one node pool, and a pool that differs from its spec in everything that can
  be updated.\<close>

definition sample_nodePoolExternal :: "(container_NodePool, sample_error) nodePoolExternal" where
  "sample_nodePoolExternal = \<lparr>npx_runtime = sample_runtime, npx_copy = (\<lambda>x. Inr (Some x)), npx_spec_cmp = (=),
     npx_autoscaling_cmp = (=), npx_management_cmp = (=),
     npx_pool_cmp = (\<lambda>igt ige eqs d ob. if \<exists>t\<in>set (pool_taints d @ pool_taints ob). igt t = None then None
        else Some (pool_view d = pool_view ob)),
     npx_kube_Update = (\<lambda>cr w. (w, cr, None)), NodePools_Get = (\<lambda>n w. (w, Inr w)),
     NodePools_Create = (\<lambda>n x w. (w, Inr ())), NodePools_SetAutoscaling = (\<lambda>n a w. (apply_autoscaling a w, Inr ())),
     NodePools_SetManagement = (\<lambda>n m w. (apply_management m w, Inr ())),
     NodePools_Update = (\<lambda>n u w. (apply_np_update u w, Inr ())), NodePools_Delete = (\<lambda>n w. (w, Inr ()))\<rparr>"

lemma sample_nodePoolExternal_ok:
  "wrap_ok (npx_runtime sample_nodePoolExternal)" "copy_ok (npx_copy sample_nodePoolExternal)"
  "np_service_ok sample_nodePoolExternal" "np_cmp_ok sample_nodePoolExternal"
  "cmp_exact (npx_spec_cmp sample_nodePoolExternal)"
  by (auto simp: sample_nodePoolExternal_def sample_runtime_ok copy_ok_def np_service_ok_def np_cmp_ok_def cmp_exact_def)

lemma sample_np_Update_succeeds:
  assumes "np_reachable (ExternalName cr) (ForProvider cr) w"
  shows "\<exists>w'. succeeds (nodePool_Update sample_nodePoolExternal (Some cr) w) = Some w'"
proof -
  let ?p = "np_pending sample_nodePoolExternal (ExternalName cr) (ForProvider cr)"
  have "nodepool_IsUpToDate sample_nodePoolExternal (ExternalName cr) (ForProvider cr) w = Some (case first_pending ?p np_stages w of
      None \<Rightarrow> (True, np_noOpUpdate, None) | Some k \<Rightarrow> (False, np_update_of (ForProvider cr) k, None))"
    using nodepool_IsUpToDate_stages [OF sample_nodePoolExternal_ok(2,4)] assms by (simp add: np_reachable_def)
  moreover have "snd (np_update_of (ForProvider cr) k sample_nodePoolExternal n w) = Inr ()" for k n
    by (cases k) (simp_all add: np_newAutoscalingUpdateFn_def newManagementUpdateFn_def newGeneralUpdateFn_def
        sample_nodePoolExternal_def)
  moreover have "NodePools_Get sample_nodePoolExternal n w = (w, Inr w)"
      "errors_Wrap (npx_runtime sample_nodePoolExternal) None m = None" for n m
    by (simp_all add: sample_nodePoolExternal_def sample_runtime_def)
  ultimately show ?thesis
    by (cases "first_pending ?p np_stages w")
      (auto simp: succeeds_Some nodePool_Update_def Let_def call_error_def split: sum.split)
qed

lemma sample_np_rounds:
  "np_reachable (ExternalName cr) (ForProvider cr) w \<Longrightarrow>
   npo_Status (AtProvider cr) \<notin> {NodePoolStateReconciling, NodePoolStateProvisioning} \<Longrightarrow>
   \<exists>w'. rounds (\<lambda>w. succeeds (nodePool_Update sample_nodePoolExternal (Some cr) w)) n w = Some w'"
proof (induction n arbitrary: w)
  case (Suc n)
  let ?s = "stage_step (np_pending sample_nodePoolExternal (ExternalName cr) (ForProvider cr)) (np_effect (ForProvider cr)) np_stages"
  obtain w' where w': "succeeds (nodePool_Update sample_nodePoolExternal (Some cr) w) = Some w'"
    using sample_np_Update_succeeds [OF Suc.prems(1)] by blast
  have "w' = ?s w"
    using nodePool_Update_step [OF sample_nodePoolExternal_ok(1-4) Suc.prems _ w', of]
    by (simp add: sample_nodePoolExternal_def)
  moreover have "np_reachable (ExternalName cr) (ForProvider cr) (?s w)"
    using np_staged.step_inv sample_nodePoolExternal_ok(4) Suc.prems(1) by blast
  ultimately show ?case using Suc w' by simp
qed simp

definition sample_pool :: container_NodePool where
  "sample_pool = container_NodePool0\<lparr>cnp_Name := ''np'', cnp_Version := ''1.15'',
     cnp_Config := Some (container_NodeConfig0\<lparr>cnc_ImageType := ''UBUNTU''\<rparr>)\<rparr>"

definition sample_pool_params :: NodePoolParameters where
  "sample_pool_params = (empty_NodePoolParameters ''c'')\<lparr>
     npp_Autoscaling := Some \<lparr>npa_Autoprovisioned = None, npa_Enabled = Some True, npa_MaxNodeCount = Some 3, npa_MinNodeCount = None\<rparr>,
     npp_Config := Some (NodeConfig0\<lparr>ncf_ImageType := Some ''COS''\<rparr>),
     npp_Management := Some \<lparr>nms_AutoRepair = None, nms_AutoUpgrade = Some True\<rparr>, npp_Version := Some ''1.14''\<rparr>"

definition sample_pool_cr :: NodePool where
  "sample_pool_cr = (sample_managed sample_pool_params (nodepool_GenerateObservation sample_pool))\<lparr>ExternalName := ''np''\<rparr>"

lemmas sample_pool_defs = sample_pool_def sample_pool_params_def sample_pool_cr_def sample_managed_def
  empty_NodePoolParameters_def NodeConfig0_def container_NodePool0_def container_NodeConfig0_def

lemma sample_pool_reachable: "np_reachable ''np'' sample_pool_params sample_pool"
  by (simp add: np_reachable_def np_settled_iff np_rest_def pool_view_def node_config_view_def pool_taints_def
      sample_pool_defs late_node_config_def late_block_def late_slice_def gen_block_def gen_node_config_def
      gen_elems_def np_gen_defs late_ptr_def)



text \<open>C28: an automatic upgrade is undone. With automatic upgrades the comparison ignores the version of
  the pool, but when some other field makes a general update necessary, the request carries the
  version of the spec, and the pool is set back to it.\<close>

theorem nodepool_upgrade_undone:
  assumes "wrap_ok (npx_runtime e)" and "copy_ok (npx_copy e)" and "np_service_ok e" and "np_cmp_ok e"
    and "np_reachable (ExternalName cr) (ForProvider cr) x"
    and "npo_Status (AtProvider cr) \<notin> {NodePoolStateReconciling, NodePoolStateProvisioning}"
    and "NodePools_Get e (nodepool_GetFullyQualifiedName (ForProvider cr) (ExternalName cr)) w = (w1, Inr x)"
    and "isAutoUpgradeEnabled (ForProvider cr)" and "npp_Version (ForProvider cr) = Some v" and "cnp_Version x \<noteq> ''''"
    and "first_pending (np_pending e (ExternalName cr) (ForProvider cr)) np_stages x = Some NpGeneral"
    and "succeeds (nodePool_Update e (Some cr) w) = Some w'"
  shows "cnp_Version (GenerateNodePool (ExternalName cr) (ForProvider cr) x) = cnp_Version x
    \<and> (\<exists>w2 y. NodePools_Get e (nodepool_GetFullyQualifiedName (ForProvider cr) (ExternalName cr)) w' = (w2, Inr y)
         \<and> cnp_Version y = v)"
proof -
  have "v \<noteq> ''''" using assms(5,9) by (auto simp: np_reachable_def)
  then have "cnp_Version (np_effect (ForProvider cr) NpGeneral x) = v"
    using assms(9) by (simp add: apply_np_update_def GenerateNodePoolUpdate_def)
  then show ?thesis
    using nodePool_Update_step [OF assms(1-6) _ assms(12)] assms(7,8,10,11)
    by (auto simp: stage_step_def)
qed





text \<open>Witness of C1: a pool of version 1.15, whose spec was written for 1.14 and now asks for another
  image.\<close>

definition upgraded_pool :: container_NodePool where
  "upgraded_pool = sample_pool\<lparr>cnp_Management := Some \<lparr>cnm_AutoRepair = False, cnm_AutoUpgrade = True, cnm_UpgradeOptions = None\<rparr>\<rparr>"

definition upgraded_pool_cr :: NodePool where
  "upgraded_pool_cr = sample_pool_cr\<lparr>ForProvider := sample_pool_params\<lparr>npp_Autoscaling := None\<rparr>\<rparr>"

lemma upgraded_pool_reachable:
  "np_reachable ''np'' (sample_pool_params\<lparr>npp_Autoscaling := None\<rparr>) upgraded_pool"
  by (simp add: np_reachable_def np_settled_iff np_rest_def pool_view_def node_config_view_def pool_taints_def
      upgraded_pool_def sample_pool_defs late_node_config_def late_block_def late_slice_def gen_block_def gen_node_config_def
      gen_elems_def np_gen_defs late_ptr_def)

lemma upgraded_pool_pending:
  "first_pending (np_pending sample_nodePoolExternal ''np'' (sample_pool_params\<lparr>npp_Autoscaling := None\<rparr>)) np_stages upgraded_pool
   = Some NpGeneral"
  by (simp add: first_pending_def np_stages_def sample_nodePoolExternal_def upgraded_pool_def sample_pool_defs np_gen_defs
      gen_block_def gen_node_config_def gen_elems_def pool_taints_def pool_view_eq_iff node_config_view_split)

lemma nodepool_upgrade_undone_witness:
  "\<exists>w' w2 y. succeeds (nodePool_Update sample_nodePoolExternal (Some upgraded_pool_cr) upgraded_pool) = Some w'
    \<and> NodePools_Get sample_nodePoolExternal
        (nodepool_GetFullyQualifiedName (ForProvider upgraded_pool_cr) (ExternalName upgraded_pool_cr)) w' = (w2, Inr y)
    \<and> cnp_Version upgraded_pool = ''1.15'' \<and> cnp_Version y = ''1.14''"
proof -
  let ?p = "sample_pool_params\<lparr>npp_Autoscaling := None\<rparr>"
  have cr: "ExternalName upgraded_pool_cr = ''np''" "ForProvider upgraded_pool_cr = ?p"
      "npo_Status (AtProvider upgraded_pool_cr) \<notin> {NodePoolStateReconciling, NodePoolStateProvisioning}"
    by (simp_all add: upgraded_pool_cr_def sample_pool_cr_def sample_managed_def nodepool_GenerateObservation_def sample_pool_def
        container_NodePool0_def NodePoolStateReconciling_def NodePoolStateProvisioning_def)
  obtain w' where w': "succeeds (nodePool_Update sample_nodePoolExternal (Some upgraded_pool_cr) upgraded_pool) = Some w'"
    using sample_np_Update_succeeds [of upgraded_pool_cr upgraded_pool] upgraded_pool_reachable cr by auto
  have "isAutoUpgradeEnabled ?p" "npp_Version ?p = Some ''1.14''" "cnp_Version upgraded_pool = ''1.15''"
    by (simp_all add: isAutoUpgradeEnabled_def upgraded_pool_def sample_pool_defs)
  moreover have "NodePools_Get sample_nodePoolExternal n upgraded_pool = (upgraded_pool, Inr upgraded_pool)" for n
    by (simp add: sample_nodePoolExternal_def)
  ultimately show ?thesis
    using nodepool_upgrade_undone [OF sample_nodePoolExternal_ok(1-4) _ cr(3) _ _ _ _ _ w', of upgraded_pool upgraded_pool "''1.14''"]
      upgraded_pool_reachable upgraded_pool_pending cr w' by auto
qed

end
