(* ===== verification/Gke_Cluster_Types.thy ===== *)
theory Gke_Cluster_Types
  imports Gke_NodePool Go_Encoding
begin

text \<open>
  The types of GKE clusters: \<^verbatim>\<open>apis/container/v1beta2/cluster_types.go\<close> and the structs of the
  container API that the provider reads or writes.
\<close>

section \<open>The spec\<close>

record GCEPersistentDiskCSIDriverConfig =
  pdc_Enabled :: bool

record DNSCacheConfig =
  dnc_Enabled :: bool

record CloudRunConfig =
  crc_Disabled :: bool
  crc_LoadBalancerType :: "string option"

record ConfigConnectorConfig =
  ccc_Enabled :: bool

record HorizontalPodAutoscaling =
  hpa_Disabled :: bool

record HTTPLoadBalancing =
  hlb_Disabled :: bool

record KubernetesDashboard =
  kdb_Disabled :: bool

record NetworkPolicyConfig =
  npc_Disabled :: bool

record AddonsConfig =
  adn_CloudRunConfig :: "CloudRunConfig option"
  adn_ConfigConnectorConfig :: "ConfigConnectorConfig option"
  adn_DNSCacheConfig :: "DNSCacheConfig option"
  adn_GCEPersistentDiskCSIDriverConfig :: "GCEPersistentDiskCSIDriverConfig option"
  adn_HorizontalPodAutoscaling :: "HorizontalPodAutoscaling option"
  adn_HTTPLoadBalancing :: "HTTPLoadBalancing option"
  adn_KubernetesDashboard :: "KubernetesDashboard option"
  adn_NetworkPolicyConfig :: "NetworkPolicyConfig option"

record AuthenticatorGroupsConfig =
  agc_Enabled :: "bool option"
  agc_SecurityGroup :: "string option"

record Autopilot =
  apl_Enabled :: bool

record NodeManagement =
  nmg_AutoRepair :: "bool option"
  nmg_AutoUpgrade :: "bool option"

record v1beta2_ShieldedInstanceConfig =
  shi_EnableIntegrityMonitoring :: "bool option"
  shi_EnableSecureBoot :: "bool option"

record AutoprovisioningNodePoolDefaults =
  and_BootDiskKMSKey :: "string option"
  and_DiskSizeGb :: "int64 option"
  and_DiskType :: "string option"
  and_Management :: "NodeManagement option"
  and_MinCPUPlatform :: "string option"
  and_OauthScopes :: "string slice"
  and_ServiceAccount :: "string option"
  and_ShieldedInstanceConfig :: "v1beta2_ShieldedInstanceConfig option"
  and_UpgradeSettings :: "UpgradeSettings option"

record ResourceLimit =
  rlm_Maximum :: "int64 option"
  rlm_Minimum :: "int64 option"
  rlm_ResourceType :: "string option"

record ClusterAutoscaling =
  cas_AutoprovisioningLocations :: "string slice"
  cas_AutoprovisioningNodePoolDefaults :: "AutoprovisioningNodePoolDefaults option"
  cas_EnableNodeAutoprovisioning :: "bool option"
  cas_ResourceLimits :: "ResourceLimit option slice"

record BinaryAuthorization =
  bau_Enabled :: bool

record ConfidentialNodes =
  cfn_Enabled :: bool

record DatabaseEncryption =
  dbe_KeyName :: "string option"
  dbe_State :: "string option"

record ReleaseChannel =
  rch_Channel :: string

record PubSub =
  psb_Enabled :: bool
  psb_Topic :: string

record NotificationConfig =
  nfc_Pubsub :: PubSub

record IPAllocationPolicy =
  iap_ClusterIpv4CidrBlock :: "string option"
  iap_ClusterSecondaryRangeName :: "string option"
  iap_CreateSubnetwork :: "bool option"
  iap_NodeIpv4CidrBlock :: "string option"
  iap_ServicesIpv4CidrBlock :: "string option"
  iap_ServicesSecondaryRangeName :: "string option"
  iap_SubnetworkName :: "string option"
  iap_TpuIpv4CidrBlock :: "string option"
  iap_UseIPAliases :: "bool option"
  iap_UseRoutes :: "bool option"

record LegacyAbac =
  lab_Enabled :: bool

record TimeWindow =
  tmw_EndTime :: string
  tmw_StartTime :: string

record RecurringTimeWindow =
  rtw_Recurrence :: "string option"
  rtw_Window :: "TimeWindow option"

record DailyMaintenanceWindowSpec =
  dmw_StartTime :: string

record MaintenanceWindowSpec =
  mws_DailyMaintenanceWindow :: "DailyMaintenanceWindowSpec option"
  mws_MaintenanceExclusions :: "(string, TimeWindow) fmap option"
  mws_RecurringWindow :: "RecurringTimeWindow option"

record MaintenancePolicySpec =
  mps_Window :: MaintenanceWindowSpec

record ClientCertificateConfig =
  cce_IssueClientCertificate :: bool

record MasterAuth =
  mau_ClientCertificateConfig :: "ClientCertificateConfig option"
  mau_Username :: "string option"

record CidrBlock =
  cib_CidrBlock :: string
  cib_DisplayName :: "string option"

record MasterAuthorizedNetworksConfig =
  man_CidrBlocks :: "CidrBlock option slice"
  man_Enabled :: "bool option"

record DefaultSnatStatus =
  dss_Disabled :: bool

record NetworkConfigSpec =
  ncs_DatapathProvider :: "string option"
  ncs_DefaultSnatStatus :: "DefaultSnatStatus option"
  ncs_EnableIntraNodeVisibility :: "bool option"
  ncs_PrivateIpv6GoogleAccess :: "string option"

record NetworkPolicy =
  nwp_Enabled :: "bool option"
  nwp_Provider :: "string option"

record PrivateClusterMasterGlobalAccessConfig =
  pga_Enabled :: bool

record PrivateClusterConfigSpec =
  pcs_EnablePrivateEndpoint :: "bool option"
  pcs_EnablePrivateNodes :: "bool option"
  pcs_MasterGlobalAccessConfig :: "PrivateClusterMasterGlobalAccessConfig option"
  pcs_MasterIpv4CidrBlock :: "string option"

record BigQueryDestination =
  bqd_DatasetID :: string

record ConsumptionMeteringConfig =
  cmc_Enabled :: bool

record ResourceUsageExportConfig =
  rue_BigqueryDestination :: "BigQueryDestination option"
  rue_ConsumptionMeteringConfig :: "ConsumptionMeteringConfig option"
  rue_EnableNetworkEgressMetering :: "bool option"

record VerticalPodAutoscaling =
  vpa_Enabled :: bool

record WorkloadIdentityConfig =
  wic_WorkloadPool :: string

record ClusterParameters =
  ccp_Location :: string
  ccp_AddonsConfig :: "AddonsConfig option"
  ccp_AuthenticatorGroupsConfig :: "AuthenticatorGroupsConfig option"
  ccp_Autopilot :: "Autopilot option"
  ccp_Autoscaling :: "ClusterAutoscaling option"
  ccp_BinaryAuthorization :: "BinaryAuthorization option"
  ccp_ClusterIpv4Cidr :: "string option"
  ccp_ConfidentialNodes :: "ConfidentialNodes option"
  ccp_DatabaseEncryption :: "DatabaseEncryption option"
  ccp_DefaultMaxPodsConstraint :: "MaxPodsConstraint option"
  ccp_Description :: "string option"
  ccp_EnableKubernetesAlpha :: "bool option"
  ccp_EnableTpu :: "bool option"
  ccp_InitialClusterVersion :: "string option"
  ccp_IPAllocationPolicy :: "IPAllocationPolicy option"
  ccp_LabelFingerprint :: "string option"
  ccp_LegacyAbac :: "LegacyAbac option"
  ccp_Locations :: "string slice"
  ccp_LoggingService :: "string option"
  ccp_MaintenancePolicy :: "MaintenancePolicySpec option"
  ccp_MasterAuth :: "MasterAuth option"
  ccp_MasterAuthorizedNetworksConfig :: "MasterAuthorizedNetworksConfig option"
  ccp_MonitoringService :: "string option"
  ccp_Network :: "string option"
  ccp_NetworkRef :: "Reference option"
  ccp_NetworkSelector :: "Selector option"
  ccp_NetworkConfig :: "NetworkConfigSpec option"
  ccp_NetworkPolicy :: "NetworkPolicy option"
  ccp_NotificationConfig :: "NotificationConfig option"
  ccp_PrivateClusterConfig :: "PrivateClusterConfigSpec option"
  ccp_ReleaseChannel :: "ReleaseChannel option"
  ccp_ResourceLabels :: strmap
  ccp_ResourceUsageExportConfig :: "ResourceUsageExportConfig option"
  ccp_Subnetwork :: "string option"
  ccp_SubnetworkRef :: "Reference option"
  ccp_SubnetworkSelector :: "Selector option"
  ccp_VerticalPodAutoscaling :: "VerticalPodAutoscaling option"
  ccp_WorkloadIdentityConfig :: "WorkloadIdentityConfig option"

text \<open>The structs that late initialisation creates empty.\<close>

definition AddonsConfig0 :: AddonsConfig where
  "AddonsConfig0 = \<lparr>adn_CloudRunConfig = None, adn_ConfigConnectorConfig = None, adn_DNSCacheConfig = None,
     adn_GCEPersistentDiskCSIDriverConfig = None, adn_HorizontalPodAutoscaling = None,
     adn_HTTPLoadBalancing = None, adn_KubernetesDashboard = None, adn_NetworkPolicyConfig = None\<rparr>"

definition AuthenticatorGroupsConfig0 :: AuthenticatorGroupsConfig where
  "AuthenticatorGroupsConfig0 = \<lparr>agc_Enabled = None, agc_SecurityGroup = None\<rparr>"

definition NodeManagement0 :: NodeManagement where
  "NodeManagement0 = \<lparr>nmg_AutoRepair = None, nmg_AutoUpgrade = None\<rparr>"

definition v1beta2_ShieldedInstanceConfig0 :: v1beta2_ShieldedInstanceConfig where
  "v1beta2_ShieldedInstanceConfig0 = \<lparr>shi_EnableIntegrityMonitoring = None, shi_EnableSecureBoot = None\<rparr>"

definition AutoprovisioningNodePoolDefaults0 :: AutoprovisioningNodePoolDefaults where
  "AutoprovisioningNodePoolDefaults0 = \<lparr>and_BootDiskKMSKey = None, and_DiskSizeGb = None, and_DiskType = None, and_Management = None,
     and_MinCPUPlatform = None, and_OauthScopes = None, and_ServiceAccount = None,
     and_ShieldedInstanceConfig = None, and_UpgradeSettings = None\<rparr>"

definition ClusterAutoscaling0 :: ClusterAutoscaling where
  "ClusterAutoscaling0 = \<lparr>cas_AutoprovisioningLocations = None, cas_AutoprovisioningNodePoolDefaults = None,
     cas_EnableNodeAutoprovisioning = None, cas_ResourceLimits = None\<rparr>"

definition DatabaseEncryption0 :: DatabaseEncryption where
  "DatabaseEncryption0 = \<lparr>dbe_KeyName = None, dbe_State = None\<rparr>"

definition IPAllocationPolicy0 :: IPAllocationPolicy where
  "IPAllocationPolicy0 = \<lparr>iap_ClusterIpv4CidrBlock = None, iap_ClusterSecondaryRangeName = None, iap_CreateSubnetwork = None,
     iap_NodeIpv4CidrBlock = None, iap_ServicesIpv4CidrBlock = None, iap_ServicesSecondaryRangeName =
     None, iap_SubnetworkName = None, iap_TpuIpv4CidrBlock = None, iap_UseIPAliases = None, iap_UseRoutes
     = None\<rparr>"

definition MaintenanceWindowSpec0 :: MaintenanceWindowSpec where
  "MaintenanceWindowSpec0 = \<lparr>mws_DailyMaintenanceWindow = None, mws_MaintenanceExclusions = None, mws_RecurringWindow = None\<rparr>"

definition MasterAuth0 :: MasterAuth where
  "MasterAuth0 = \<lparr>mau_ClientCertificateConfig = None, mau_Username = None\<rparr>"

definition MasterAuthorizedNetworksConfig0 :: MasterAuthorizedNetworksConfig where
  "MasterAuthorizedNetworksConfig0 = \<lparr>man_CidrBlocks = None, man_Enabled = None\<rparr>"

definition NetworkConfigSpec0 :: NetworkConfigSpec where
  "NetworkConfigSpec0 = \<lparr>ncs_DatapathProvider = None, ncs_DefaultSnatStatus = None, ncs_EnableIntraNodeVisibility = None,
     ncs_PrivateIpv6GoogleAccess = None\<rparr>"

definition NetworkPolicy0 :: NetworkPolicy where
  "NetworkPolicy0 = \<lparr>nwp_Enabled = None, nwp_Provider = None\<rparr>"

definition PrivateClusterConfigSpec0 :: PrivateClusterConfigSpec where
  "PrivateClusterConfigSpec0 = \<lparr>pcs_EnablePrivateEndpoint = None, pcs_EnablePrivateNodes = None, pcs_MasterGlobalAccessConfig =
     None, pcs_MasterIpv4CidrBlock = None\<rparr>"

definition ResourceUsageExportConfig0 :: ResourceUsageExportConfig where
  "ResourceUsageExportConfig0 = \<lparr>rue_BigqueryDestination = None, rue_ConsumptionMeteringConfig = None,
     rue_EnableNetworkEgressMetering = None\<rparr>"

section \<open>The observation\<close>

record DailyMaintenanceWindowStatus =
  dms_Duration :: string

record MaintenanceWindowStatus =
  mwt_DailyMaintenanceWindow :: DailyMaintenanceWindowStatus

record MaintenancePolicyStatus =
  mpt_Window :: MaintenanceWindowStatus

record NetworkConfigStatus =
  nct_Network :: string
  nct_Subnetwork :: string

record PrivateClusterConfigStatus =
  pct_PrivateEndpoint :: string
  pct_PublicEndpoint :: string

record NodePoolAutoscalingClusterStatus =
  nac_Autoprovisioned :: bool
  nac_Enabled :: bool
  nac_MaxNodeCount :: int64
  nac_MinNodeCount :: int64

record AcceleratorConfigClusterStatus =
  acs_AcceleratorCount :: int64
  acs_AcceleratorType :: string

record SandboxConfigClusterStatus =
  sbs_Type :: string

record ShieldedInstanceConfigClusterStatus =
  shs_EnableIntegrityMonitoring :: bool
  shs_EnableSecureBoot :: bool

record NodeTaintClusterStatus =
  nts_Effect :: string
  nts_Key :: string
  nts_Value :: string

record NodeConfigClusterStatus =
  nsc_Accelerators :: "AcceleratorConfigClusterStatus option slice"
  nsc_DiskSizeGb :: int64
  nsc_DiskType :: string
  nsc_ImageType :: string
  nsc_Labels :: strmap
  nsc_LocalSsdCount :: int64
  nsc_MachineType :: string
  nsc_Metadata :: strmap
  nsc_MinCPUPlatform :: string
  nsc_OauthScopes :: "string slice"
  nsc_Preemptible :: bool
  nsc_SandboxConfig :: "SandboxConfigClusterStatus option"
  nsc_ServiceAccount :: string
  nsc_ShieldedInstanceConfig :: "ShieldedInstanceConfigClusterStatus option"
  nsc_Tags :: "string slice"
  nsc_Taints :: "NodeTaintClusterStatus option slice"

record AutoUpgradeOptionsClusterStatus =
  aus_AutoUpgradeStartTime :: string
  aus_Description :: string

record NodeManagementClusterStatus =
  nmc_AutoRepair :: bool
  nmc_AutoUpgrade :: bool
  nmc_UpgradeOptions :: "AutoUpgradeOptionsClusterStatus option"

record NodePoolClusterStatus =
  ncl_Autoscaling :: "NodePoolAutoscalingClusterStatus option"
  ncl_Conditions :: "StatusCondition option slice"
  ncl_Config :: "NodeConfigClusterStatus option"
  ncl_InitialNodeCount :: int64
  ncl_InstanceGroupUrls :: "string slice"
  ncl_Locations :: "string slice"
  ncl_Management :: "NodeManagementClusterStatus option"
  ncl_MaxPodsConstraint :: "MaxPodsConstraint option"
  ncl_Name :: string
  ncl_PodIpv4CidrSize :: int64
  ncl_SelfLink :: string
  ncl_Status :: string
  ncl_StatusMessage :: string
  ncl_Version :: string

record ClusterObservation =
  cob_Conditions :: "StatusCondition option slice"
  cob_CreateTime :: string
  cob_CurrentMasterVersion :: string
  cob_CurrentNodeCount :: int64
  cob_CurrentNodeVersion :: string
  cob_Endpoint :: string
  cob_ExpireTime :: string
  cob_Location :: string
  cob_MaintenancePolicy :: "MaintenancePolicyStatus option"
  cob_NetworkConfig :: "NetworkConfigStatus option"
  cob_NodeIpv4CidrSize :: int64
  cob_PrivateClusterConfig :: "PrivateClusterConfigStatus option"
  cob_NodePools :: "NodePoolClusterStatus option slice"
  cob_SelfLink :: string
  cob_ServicesIpv4Cidr :: string
  cob_Status :: string
  cob_StatusMessage :: string
  cob_TpuIpv4CidrBlock :: string
  cob_Zone :: string

type_synonym Cluster = "(ClusterParameters, ClusterObservation) managed"

definition ClusterStateUnspecified :: string where
  "ClusterStateUnspecified = ''STATUS_UNSPECIFIED''"
definition ClusterStateProvisioning :: string where
  "ClusterStateProvisioning = ''PROVISIONING''"
definition ClusterStateRunning :: string where
  "ClusterStateRunning = ''RUNNING''"
definition ClusterStateReconciling :: string where
  "ClusterStateReconciling = ''RECONCILING''"
definition ClusterStateStopping :: string where
  "ClusterStateStopping = ''STOPPING''"
definition ClusterStateError :: string where
  "ClusterStateError = ''ERROR''"
definition ClusterStateDegraded :: string where
  "ClusterStateDegraded = ''DEGRADED''"

section \<open>The container API\<close>

record container_CloudRunConfig =
  kcr_Disabled :: bool
  kcr_LoadBalancerType :: string
  kcr_ForceSendFields :: "string slice"

record container_ConfigConnectorConfig =
  kcc_Enabled :: bool
  kcc_ForceSendFields :: "string slice"

record container_DnsCacheConfig =
  kdn_Enabled :: bool
  kdn_ForceSendFields :: "string slice"

record container_GcePersistentDiskCsiDriverConfig =
  kpd_Enabled :: bool
  kpd_ForceSendFields :: "string slice"

record container_HorizontalPodAutoscaling =
  khp_Disabled :: bool
  khp_ForceSendFields :: "string slice"

record container_HttpLoadBalancing =
  khl_Disabled :: bool
  khl_ForceSendFields :: "string slice"

record container_KubernetesDashboard =
  kkd_Disabled :: bool
  kkd_ForceSendFields :: "string slice"

record container_NetworkPolicyConfig =
  knp_Disabled :: bool
  knp_ForceSendFields :: "string slice"

record container_AddonsConfig =
  kad_CloudRunConfig :: "container_CloudRunConfig option"
  kad_ConfigConnectorConfig :: "container_ConfigConnectorConfig option"
  kad_DnsCacheConfig :: "container_DnsCacheConfig option"
  kad_GcePersistentDiskCsiDriverConfig :: "container_GcePersistentDiskCsiDriverConfig option"
  kad_HorizontalPodAutoscaling :: "container_HorizontalPodAutoscaling option"
  kad_HttpLoadBalancing :: "container_HttpLoadBalancing option"
  kad_KubernetesDashboard :: "container_KubernetesDashboard option"
  kad_NetworkPolicyConfig :: "container_NetworkPolicyConfig option"

record container_AuthenticatorGroupsConfig =
  kag_Enabled :: bool
  kag_SecurityGroup :: string

record container_Autopilot =
  kap_Enabled :: bool

record container_AutoprovisioningNodePoolDefaults =
  knd_BootDiskKmsKey :: string
  knd_DiskSizeGb :: int64
  knd_DiskType :: string
  knd_Management :: "container_NodeManagement option"
  knd_MinCpuPlatform :: string
  knd_OauthScopes :: "string slice"
  knd_ServiceAccount :: string
  knd_ShieldedInstanceConfig :: "container_ShieldedInstanceConfig option"
  knd_UpgradeSettings :: "container_UpgradeSettings option"

record container_ResourceLimit =
  krl_Maximum :: int64
  krl_Minimum :: int64
  krl_ResourceType :: string

record container_ClusterAutoscaling =
  kas_AutoprovisioningLocations :: "string slice"
  kas_AutoprovisioningNodePoolDefaults :: "container_AutoprovisioningNodePoolDefaults option"
  kas_EnableNodeAutoprovisioning :: bool
  kas_ResourceLimits :: "container_ResourceLimit option slice"

record container_BinaryAuthorization =
  kba_Enabled :: bool

record container_ConfidentialNodes =
  kcn_Enabled :: bool

record container_DatabaseEncryption =
  kde_KeyName :: string
  kde_State :: string

record container_IPAllocationPolicy =
  kip_ClusterIpv4CidrBlock :: string
  kip_ClusterSecondaryRangeName :: string
  kip_CreateSubnetwork :: bool
  kip_NodeIpv4CidrBlock :: string
  kip_ServicesIpv4CidrBlock :: string
  kip_ServicesSecondaryRangeName :: string
  kip_SubnetworkName :: string
  kip_TpuIpv4CidrBlock :: string
  kip_UseIpAliases :: bool
  kip_UseRoutes :: bool

record container_LegacyAbac =
  kla_Enabled :: bool

record container_TimeWindow =
  ktw_EndTime :: string
  ktw_StartTime :: string

record container_RecurringTimeWindow =
  krw_Recurrence :: string
  krw_Window :: "container_TimeWindow option"

record container_DailyMaintenanceWindow =
  kdm_Duration :: string
  kdm_StartTime :: string

record container_MaintenanceWindow =
  kmw_DailyMaintenanceWindow :: "container_DailyMaintenanceWindow option"
  kmw_MaintenanceExclusions :: "(string, container_TimeWindow) fmap option"
  kmw_RecurringWindow :: "container_RecurringTimeWindow option"

record container_MaintenancePolicy =
  kmp_ResourceVersion :: string
  kmp_Window :: "container_MaintenanceWindow option"

record container_ClientCertificateConfig =
  kce_IssueClientCertificate :: bool

record container_MasterAuth =
  kma_ClientCertificate :: string
  kma_ClientCertificateConfig :: "container_ClientCertificateConfig option"
  kma_ClientKey :: string
  kma_ClusterCaCertificate :: string
  kma_Password :: string
  kma_Username :: string

record container_CidrBlock =
  kcb_CidrBlock :: string
  kcb_DisplayName :: string

record container_MasterAuthorizedNetworksConfig =
  kmn_CidrBlocks :: "container_CidrBlock option slice"
  kmn_Enabled :: bool

record container_DefaultSnatStatus =
  kds_Disabled :: bool

record container_NetworkConfig =
  knc_DatapathProvider :: string
  knc_DefaultSnatStatus :: "container_DefaultSnatStatus option"
  knc_EnableIntraNodeVisibility :: bool
  knc_Network :: string
  knc_PrivateIpv6GoogleAccess :: string
  knc_Subnetwork :: string

record container_NetworkPolicy =
  knw_Enabled :: bool
  knw_Provider :: string

record container_PubSub =
  kps_Enabled :: bool
  kps_Topic :: string

record container_NotificationConfig =
  knf_Pubsub :: "container_PubSub option"

record container_PrivateClusterMasterGlobalAccessConfig =
  kpg_Enabled :: bool

record container_PrivateClusterConfig =
  kpc_EnablePrivateEndpoint :: bool
  kpc_EnablePrivateNodes :: bool
  kpc_MasterGlobalAccessConfig :: "container_PrivateClusterMasterGlobalAccessConfig option"
  kpc_MasterIpv4CidrBlock :: string
  kpc_PeeringName :: string
  kpc_PrivateEndpoint :: string
  kpc_PublicEndpoint :: string

record container_ReleaseChannel =
  krc_Channel :: string

record container_BigQueryDestination =
  kbq_DatasetId :: string

record container_ConsumptionMeteringConfig =
  kcm_Enabled :: bool

record container_ResourceUsageExportConfig =
  kru_BigqueryDestination :: "container_BigQueryDestination option"
  kru_ConsumptionMeteringConfig :: "container_ConsumptionMeteringConfig option"
  kru_EnableNetworkEgressMetering :: bool

record container_VerticalPodAutoscaling =
  kvp_Enabled :: bool

record container_WorkloadIdentityConfig =
  kwi_WorkloadPool :: string

record container_Cluster =
  kc_AddonsConfig :: "container_AddonsConfig option"
  kc_AuthenticatorGroupsConfig :: "container_AuthenticatorGroupsConfig option"
  kc_Autopilot :: "container_Autopilot option"
  kc_Autoscaling :: "container_ClusterAutoscaling option"
  kc_BinaryAuthorization :: "container_BinaryAuthorization option"
  kc_ClusterIpv4Cidr :: string
  kc_Conditions :: "container_StatusCondition option slice"
  kc_ConfidentialNodes :: "container_ConfidentialNodes option"
  kc_CreateTime :: string
  kc_CurrentMasterVersion :: string
  kc_CurrentNodeCount :: int64
  kc_CurrentNodeVersion :: string
  kc_DatabaseEncryption :: "container_DatabaseEncryption option"
  kc_DefaultMaxPodsConstraint :: "container_MaxPodsConstraint option"
  kc_Description :: string
  kc_EnableKubernetesAlpha :: bool
  kc_EnableTpu :: bool
  kc_Endpoint :: string
  kc_ExpireTime :: string
  kc_InitialClusterVersion :: string
  kc_IpAllocationPolicy :: "container_IPAllocationPolicy option"
  kc_LabelFingerprint :: string
  kc_LegacyAbac :: "container_LegacyAbac option"
  kc_Location :: string
  kc_Locations :: "string slice"
  kc_LoggingService :: string
  kc_MaintenancePolicy :: "container_MaintenancePolicy option"
  kc_MasterAuth :: "container_MasterAuth option"
  kc_MasterAuthorizedNetworksConfig :: "container_MasterAuthorizedNetworksConfig option"
  kc_MonitoringService :: string
  kc_Name :: string
  kc_Network :: string
  kc_NetworkConfig :: "container_NetworkConfig option"
  kc_NetworkPolicy :: "container_NetworkPolicy option"
  kc_NodeIpv4CidrSize :: int64
  kc_NodePools :: "container_NodePool option slice"
  kc_NotificationConfig :: "container_NotificationConfig option"
  kc_PrivateClusterConfig :: "container_PrivateClusterConfig option"
  kc_ReleaseChannel :: "container_ReleaseChannel option"
  kc_ResourceLabels :: strmap
  kc_ResourceUsageExportConfig :: "container_ResourceUsageExportConfig option"
  kc_SelfLink :: string
  kc_ServicesIpv4Cidr :: string
  kc_Status :: string
  kc_StatusMessage :: string
  kc_Subnetwork :: string
  kc_TpuIpv4CidrBlock :: string
  kc_VerticalPodAutoscaling :: "container_VerticalPodAutoscaling option"
  kc_WorkloadIdentityConfig :: "container_WorkloadIdentityConfig option"
  kc_Zone :: string

record container_IntraNodeVisibilityConfig =
  kiv_Enabled :: bool

record container_ClusterUpdate =
  kcu_DesiredAddonsConfig :: "container_AddonsConfig option"
  kcu_DesiredAutopilot :: "container_Autopilot option"
  kcu_DesiredBinaryAuthorization :: "container_BinaryAuthorization option"
  kcu_DesiredClusterAutoscaling :: "container_ClusterAutoscaling option"
  kcu_DesiredDatabaseEncryption :: "container_DatabaseEncryption option"
  kcu_DesiredDatapathProvider :: string
  kcu_DesiredIntraNodeVisibilityConfig :: "container_IntraNodeVisibilityConfig option"
  kcu_DesiredLocations :: "string slice"
  kcu_DesiredLoggingService :: string
  kcu_DesiredMasterAuthorizedNetworksConfig :: "container_MasterAuthorizedNetworksConfig option"
  kcu_DesiredMonitoringService :: string
  kcu_DesiredNotificationConfig :: "container_NotificationConfig option"
  kcu_DesiredPrivateClusterConfig :: "container_PrivateClusterConfig option"
  kcu_DesiredReleaseChannel :: "container_ReleaseChannel option"
  kcu_DesiredResourceUsageExportConfig :: "container_ResourceUsageExportConfig option"
  kcu_DesiredVerticalPodAutoscaling :: "container_VerticalPodAutoscaling option"
  kcu_DesiredWorkloadIdentityConfig :: "container_WorkloadIdentityConfig option"

text \<open>The zero values, \<open>&container.Cluster{}\<close> and so on.\<close>

definition container_CloudRunConfig0 :: container_CloudRunConfig where
  "container_CloudRunConfig0 = \<lparr>kcr_Disabled = False, kcr_LoadBalancerType = '''', kcr_ForceSendFields = None\<rparr>"

definition container_ConfigConnectorConfig0 :: container_ConfigConnectorConfig where
  "container_ConfigConnectorConfig0 = \<lparr>kcc_Enabled = False, kcc_ForceSendFields = None\<rparr>"

definition container_DnsCacheConfig0 :: container_DnsCacheConfig where
  "container_DnsCacheConfig0 = \<lparr>kdn_Enabled = False, kdn_ForceSendFields = None\<rparr>"

definition container_GcePersistentDiskCsiDriverConfig0 :: container_GcePersistentDiskCsiDriverConfig where
  "container_GcePersistentDiskCsiDriverConfig0 = \<lparr>kpd_Enabled = False, kpd_ForceSendFields = None\<rparr>"

definition container_HorizontalPodAutoscaling0 :: container_HorizontalPodAutoscaling where
  "container_HorizontalPodAutoscaling0 = \<lparr>khp_Disabled = False, khp_ForceSendFields = None\<rparr>"

definition container_HttpLoadBalancing0 :: container_HttpLoadBalancing where
  "container_HttpLoadBalancing0 = \<lparr>khl_Disabled = False, khl_ForceSendFields = None\<rparr>"

definition container_KubernetesDashboard0 :: container_KubernetesDashboard where
  "container_KubernetesDashboard0 = \<lparr>kkd_Disabled = False, kkd_ForceSendFields = None\<rparr>"

definition container_NetworkPolicyConfig0 :: container_NetworkPolicyConfig where
  "container_NetworkPolicyConfig0 = \<lparr>knp_Disabled = False, knp_ForceSendFields = None\<rparr>"

definition container_AddonsConfig0 :: container_AddonsConfig where
  "container_AddonsConfig0 = \<lparr>kad_CloudRunConfig = None, kad_ConfigConnectorConfig = None, kad_DnsCacheConfig = None,
     kad_GcePersistentDiskCsiDriverConfig = None, kad_HorizontalPodAutoscaling = None,
     kad_HttpLoadBalancing = None, kad_KubernetesDashboard = None, kad_NetworkPolicyConfig = None\<rparr>"

definition container_AuthenticatorGroupsConfig0 :: container_AuthenticatorGroupsConfig where
  "container_AuthenticatorGroupsConfig0 = \<lparr>kag_Enabled = False, kag_SecurityGroup = ''''\<rparr>"

definition container_Autopilot0 :: container_Autopilot where
  "container_Autopilot0 = \<lparr>kap_Enabled = False\<rparr>"

definition container_AutoprovisioningNodePoolDefaults0 :: container_AutoprovisioningNodePoolDefaults where
  "container_AutoprovisioningNodePoolDefaults0 = \<lparr>knd_BootDiskKmsKey = '''', knd_DiskSizeGb = 0, knd_DiskType = '''', knd_Management = None,
     knd_MinCpuPlatform = '''', knd_OauthScopes = None, knd_ServiceAccount = '''',
     knd_ShieldedInstanceConfig = None, knd_UpgradeSettings = None\<rparr>"

definition container_ResourceLimit0 :: container_ResourceLimit where
  "container_ResourceLimit0 = \<lparr>krl_Maximum = 0, krl_Minimum = 0, krl_ResourceType = ''''\<rparr>"

definition container_ClusterAutoscaling0 :: container_ClusterAutoscaling where
  "container_ClusterAutoscaling0 = \<lparr>kas_AutoprovisioningLocations = None, kas_AutoprovisioningNodePoolDefaults = None,
     kas_EnableNodeAutoprovisioning = False, kas_ResourceLimits = None\<rparr>"

definition container_BinaryAuthorization0 :: container_BinaryAuthorization where
  "container_BinaryAuthorization0 = \<lparr>kba_Enabled = False\<rparr>"

definition container_ConfidentialNodes0 :: container_ConfidentialNodes where
  "container_ConfidentialNodes0 = \<lparr>kcn_Enabled = False\<rparr>"

definition container_DatabaseEncryption0 :: container_DatabaseEncryption where
  "container_DatabaseEncryption0 = \<lparr>kde_KeyName = '''', kde_State = ''''\<rparr>"

definition container_IPAllocationPolicy0 :: container_IPAllocationPolicy where
  "container_IPAllocationPolicy0 = \<lparr>kip_ClusterIpv4CidrBlock = '''', kip_ClusterSecondaryRangeName = '''', kip_CreateSubnetwork = False,
     kip_NodeIpv4CidrBlock = '''', kip_ServicesIpv4CidrBlock = '''', kip_ServicesSecondaryRangeName =
     '''', kip_SubnetworkName = '''', kip_TpuIpv4CidrBlock = '''', kip_UseIpAliases = False,
     kip_UseRoutes = False\<rparr>"

definition container_LegacyAbac0 :: container_LegacyAbac where
  "container_LegacyAbac0 = \<lparr>kla_Enabled = False\<rparr>"

definition container_TimeWindow0 :: container_TimeWindow where
  "container_TimeWindow0 = \<lparr>ktw_EndTime = '''', ktw_StartTime = ''''\<rparr>"

definition container_RecurringTimeWindow0 :: container_RecurringTimeWindow where
  "container_RecurringTimeWindow0 = \<lparr>krw_Recurrence = '''', krw_Window = None\<rparr>"

definition container_DailyMaintenanceWindow0 :: container_DailyMaintenanceWindow where
  "container_DailyMaintenanceWindow0 = \<lparr>kdm_Duration = '''', kdm_StartTime = ''''\<rparr>"

definition container_MaintenanceWindow0 :: container_MaintenanceWindow where
  "container_MaintenanceWindow0 = \<lparr>kmw_DailyMaintenanceWindow = None, kmw_MaintenanceExclusions = None, kmw_RecurringWindow = None\<rparr>"

definition container_MaintenancePolicy0 :: container_MaintenancePolicy where
  "container_MaintenancePolicy0 = \<lparr>kmp_ResourceVersion = '''', kmp_Window = None\<rparr>"

definition container_ClientCertificateConfig0 :: container_ClientCertificateConfig where
  "container_ClientCertificateConfig0 = \<lparr>kce_IssueClientCertificate = False\<rparr>"

definition container_MasterAuth0 :: container_MasterAuth where
  "container_MasterAuth0 = \<lparr>kma_ClientCertificate = '''', kma_ClientCertificateConfig = None, kma_ClientKey = '''',
     kma_ClusterCaCertificate = '''', kma_Password = '''', kma_Username = ''''\<rparr>"

definition container_CidrBlock0 :: container_CidrBlock where
  "container_CidrBlock0 = \<lparr>kcb_CidrBlock = '''', kcb_DisplayName = ''''\<rparr>"

definition container_MasterAuthorizedNetworksConfig0 :: container_MasterAuthorizedNetworksConfig where
  "container_MasterAuthorizedNetworksConfig0 = \<lparr>kmn_CidrBlocks = None, kmn_Enabled = False\<rparr>"

definition container_DefaultSnatStatus0 :: container_DefaultSnatStatus where
  "container_DefaultSnatStatus0 = \<lparr>kds_Disabled = False\<rparr>"

definition container_NetworkConfig0 :: container_NetworkConfig where
  "container_NetworkConfig0 = \<lparr>knc_DatapathProvider = '''', knc_DefaultSnatStatus = None, knc_EnableIntraNodeVisibility = False,
     knc_Network = '''', knc_PrivateIpv6GoogleAccess = '''', knc_Subnetwork = ''''\<rparr>"

definition container_NetworkPolicy0 :: container_NetworkPolicy where
  "container_NetworkPolicy0 = \<lparr>knw_Enabled = False, knw_Provider = ''''\<rparr>"

definition container_PubSub0 :: container_PubSub where
  "container_PubSub0 = \<lparr>kps_Enabled = False, kps_Topic = ''''\<rparr>"

definition container_NotificationConfig0 :: container_NotificationConfig where
  "container_NotificationConfig0 = \<lparr>knf_Pubsub = None\<rparr>"

definition container_PrivateClusterMasterGlobalAccessConfig0 :: container_PrivateClusterMasterGlobalAccessConfig where
  "container_PrivateClusterMasterGlobalAccessConfig0 = \<lparr>kpg_Enabled = False\<rparr>"

definition container_PrivateClusterConfig0 :: container_PrivateClusterConfig where
  "container_PrivateClusterConfig0 = \<lparr>kpc_EnablePrivateEndpoint = False, kpc_EnablePrivateNodes = False, kpc_MasterGlobalAccessConfig =
     None, kpc_MasterIpv4CidrBlock = '''', kpc_PeeringName = '''', kpc_PrivateEndpoint = '''',
     kpc_PublicEndpoint = ''''\<rparr>"

definition container_ReleaseChannel0 :: container_ReleaseChannel where
  "container_ReleaseChannel0 = \<lparr>krc_Channel = ''''\<rparr>"

definition container_BigQueryDestination0 :: container_BigQueryDestination where
  "container_BigQueryDestination0 = \<lparr>kbq_DatasetId = ''''\<rparr>"

definition container_ConsumptionMeteringConfig0 :: container_ConsumptionMeteringConfig where
  "container_ConsumptionMeteringConfig0 = \<lparr>kcm_Enabled = False\<rparr>"

definition container_ResourceUsageExportConfig0 :: container_ResourceUsageExportConfig where
  "container_ResourceUsageExportConfig0 = \<lparr>kru_BigqueryDestination = None, kru_ConsumptionMeteringConfig = None,
     kru_EnableNetworkEgressMetering = False\<rparr>"

definition container_VerticalPodAutoscaling0 :: container_VerticalPodAutoscaling where
  "container_VerticalPodAutoscaling0 = \<lparr>kvp_Enabled = False\<rparr>"

definition container_WorkloadIdentityConfig0 :: container_WorkloadIdentityConfig where
  "container_WorkloadIdentityConfig0 = \<lparr>kwi_WorkloadPool = ''''\<rparr>"

definition container_Cluster0 :: container_Cluster where
  "container_Cluster0 = \<lparr>kc_AddonsConfig = None, kc_AuthenticatorGroupsConfig = None, kc_Autopilot = None, kc_Autoscaling =
     None, kc_BinaryAuthorization = None, kc_ClusterIpv4Cidr = '''', kc_Conditions = None,
     kc_ConfidentialNodes = None, kc_CreateTime = '''', kc_CurrentMasterVersion = '''',
     kc_CurrentNodeCount = 0, kc_CurrentNodeVersion = '''', kc_DatabaseEncryption = None,
     kc_DefaultMaxPodsConstraint = None, kc_Description = '''', kc_EnableKubernetesAlpha = False,
     kc_EnableTpu = False, kc_Endpoint = '''', kc_ExpireTime = '''', kc_InitialClusterVersion = '''',
     kc_IpAllocationPolicy = None, kc_LabelFingerprint = '''', kc_LegacyAbac = None, kc_Location = '''',
     kc_Locations = None, kc_LoggingService = '''', kc_MaintenancePolicy = None, kc_MasterAuth = None,
     kc_MasterAuthorizedNetworksConfig = None, kc_MonitoringService = '''', kc_Name = '''', kc_Network =
     '''', kc_NetworkConfig = None, kc_NetworkPolicy = None, kc_NodeIpv4CidrSize = 0, kc_NodePools =
     None, kc_NotificationConfig = None, kc_PrivateClusterConfig = None, kc_ReleaseChannel = None,
     kc_ResourceLabels = None, kc_ResourceUsageExportConfig = None, kc_SelfLink = '''',
     kc_ServicesIpv4Cidr = '''', kc_Status = '''', kc_StatusMessage = '''', kc_Subnetwork = '''',
     kc_TpuIpv4CidrBlock = '''', kc_VerticalPodAutoscaling = None, kc_WorkloadIdentityConfig = None,
     kc_Zone = ''''\<rparr>"

definition container_IntraNodeVisibilityConfig0 :: container_IntraNodeVisibilityConfig where
  "container_IntraNodeVisibilityConfig0 = \<lparr>kiv_Enabled = False\<rparr>"

definition container_ClusterUpdate0 :: container_ClusterUpdate where
  "container_ClusterUpdate0 = \<lparr>kcu_DesiredAddonsConfig = None, kcu_DesiredAutopilot = None, kcu_DesiredBinaryAuthorization = None,
     kcu_DesiredClusterAutoscaling = None, kcu_DesiredDatabaseEncryption = None,
     kcu_DesiredDatapathProvider = '''', kcu_DesiredIntraNodeVisibilityConfig = None,
     kcu_DesiredLocations = None, kcu_DesiredLoggingService = '''',
     kcu_DesiredMasterAuthorizedNetworksConfig = None, kcu_DesiredMonitoringService = '''',
     kcu_DesiredNotificationConfig = None, kcu_DesiredPrivateClusterConfig = None,
     kcu_DesiredReleaseChannel = None, kcu_DesiredResourceUsageExportConfig = None,
     kcu_DesiredVerticalPodAutoscaling = None, kcu_DesiredWorkloadIdentityConfig = None\<rparr>"

end
