(* ===== verification/Gke_Cluster.thy ===== *)
theory Gke_Cluster
  imports Gke_Cluster_Types
begin

text \<open>
  The client of GKE clusters, \<^verbatim>\<open>pkg/clients/cluster/cluster.go\<close>: the desired cluster, the observation, late
  initialisation, and the comparison with the update functions, of which each changes one aspect.
\<close>

section \<open>The desired cluster\<close>

definition BootstrapNodePoolName :: string where
  "BootstrapNodePoolName = ''crossplane-bootstrap''"
definition errNoSecretInfo :: string where
  "errNoSecretInfo = ''missing secret information for GKE cluster''"
definition cluster_client_errCheckUpToDate :: string where
  "cluster_client_errCheckUpToDate = ''unable to determine if external resource is up to date''"

definition AddNodePoolForCreate :: "container_Cluster \<Rightarrow> container_Cluster" where
  "AddNodePoolForCreate in' =
     (let pool = container_NodePool0\<lparr>cnp_Name := BootstrapNodePoolName, cnp_InitialNodeCount := 0\<rparr>
      in in'\<lparr>kc_NodePools := Some [Some pool]\<rparr>)"

definition gen_addons :: "AddonsConfig \<Rightarrow> container_AddonsConfig \<Rightarrow> container_AddonsConfig" where
  "gen_addons in' c = c\<lparr>
     kad_CloudRunConfig := gen_block container_CloudRunConfig0
       (\<lambda>a b. b\<lparr>kcr_Disabled := crc_Disabled a, kcr_LoadBalancerType := StringValue (crc_LoadBalancerType a),
                kcr_ForceSendFields := Some [''Disabled'', ''LoadBalancerType'']\<rparr>)
       (adn_CloudRunConfig in') (kad_CloudRunConfig c),
     kad_ConfigConnectorConfig := gen_block container_ConfigConnectorConfig0
       (\<lambda>a b. b\<lparr>kcc_Enabled := ccc_Enabled a, kcc_ForceSendFields := Some [''Enabled'']\<rparr>)
       (adn_ConfigConnectorConfig in') (kad_ConfigConnectorConfig c),
     kad_DnsCacheConfig := gen_block container_DnsCacheConfig0
       (\<lambda>a b. b\<lparr>kdn_Enabled := dnc_Enabled a, kdn_ForceSendFields := Some [''Enabled'']\<rparr>)
       (adn_DNSCacheConfig in') (kad_DnsCacheConfig c),
     kad_GcePersistentDiskCsiDriverConfig := gen_block container_GcePersistentDiskCsiDriverConfig0
       (\<lambda>a b. b\<lparr>kpd_Enabled := pdc_Enabled a, kpd_ForceSendFields := Some [''Enabled'']\<rparr>)
       (adn_GCEPersistentDiskCSIDriverConfig in') (kad_GcePersistentDiskCsiDriverConfig c),
     kad_HorizontalPodAutoscaling := gen_block container_HorizontalPodAutoscaling0
       (\<lambda>a b. b\<lparr>khp_Disabled := hpa_Disabled a, khp_ForceSendFields := Some [''Disabled'']\<rparr>)
       (adn_HorizontalPodAutoscaling in') (kad_HorizontalPodAutoscaling c),
     kad_HttpLoadBalancing := gen_block container_HttpLoadBalancing0
       (\<lambda>a b. b\<lparr>khl_Disabled := hlb_Disabled a, khl_ForceSendFields := Some [''Disabled'']\<rparr>)
       (adn_HTTPLoadBalancing in') (kad_HttpLoadBalancing c),
     kad_KubernetesDashboard := gen_block container_KubernetesDashboard0
       (\<lambda>a b. b\<lparr>kkd_Disabled := kdb_Disabled a, kkd_ForceSendFields := Some [''Disabled'']\<rparr>)
       (adn_KubernetesDashboard in') (kad_KubernetesDashboard c),
     kad_NetworkPolicyConfig := gen_block container_NetworkPolicyConfig0
       (\<lambda>a b. b\<lparr>knp_Disabled := npc_Disabled a, knp_ForceSendFields := Some [''Disabled'']\<rparr>)
       (adn_NetworkPolicyConfig in') (kad_NetworkPolicyConfig c)\<rparr>"

definition GenerateAddonsConfig :: "AddonsConfig option \<Rightarrow> container_Cluster \<Rightarrow> container_Cluster" where
  "GenerateAddonsConfig in' cluster = cluster\<lparr>kc_AddonsConfig :=
     gen_block container_AddonsConfig0 gen_addons in' (kc_AddonsConfig cluster)\<rparr>"

definition GenerateAutopilot :: "Autopilot option \<Rightarrow> container_Cluster \<Rightarrow> container_Cluster" where
  "GenerateAutopilot in' cluster = cluster\<lparr>kc_Autopilot :=
     gen_block container_Autopilot0 (\<lambda>a b. b\<lparr>kap_Enabled := apl_Enabled a\<rparr>) in' (kc_Autopilot cluster)\<rparr>"

definition GenerateAuthenticatorGroupsConfig ::
  "AuthenticatorGroupsConfig option \<Rightarrow> container_Cluster \<Rightarrow> container_Cluster" where
  "GenerateAuthenticatorGroupsConfig in' cluster = cluster\<lparr>kc_AuthenticatorGroupsConfig :=
     gen_block container_AuthenticatorGroupsConfig0
       (\<lambda>a b. b\<lparr>kag_Enabled := BoolValue (agc_Enabled a), kag_SecurityGroup := StringValue (agc_SecurityGroup a)\<rparr>)
       in' (kc_AuthenticatorGroupsConfig cluster)\<rparr>"

definition gen_pool_defaults ::
  "AutoprovisioningNodePoolDefaults \<Rightarrow> container_AutoprovisioningNodePoolDefaults \<Rightarrow> container_AutoprovisioningNodePoolDefaults" where
  \<comment> \<open>the disk type is not written\<close>
  "gen_pool_defaults in' d = d\<lparr>
     knd_BootDiskKmsKey := StringValue (and_BootDiskKMSKey in'),
     knd_DiskSizeGb := Int64Value (and_DiskSizeGb in'),
     knd_MinCpuPlatform := StringValue (and_MinCPUPlatform in'),
     knd_OauthScopes := and_OauthScopes in',
     knd_ServiceAccount := StringValue (and_ServiceAccount in'),
     knd_Management := gen_block \<lparr>cnm_AutoRepair = False, cnm_AutoUpgrade = False, cnm_UpgradeOptions = None\<rparr>
       (\<lambda>a b. b\<lparr>cnm_AutoRepair := BoolValue (nmg_AutoRepair a), cnm_AutoUpgrade := BoolValue (nmg_AutoUpgrade a)\<rparr>)
       (and_Management in') (knd_Management d),
     knd_ShieldedInstanceConfig := gen_block \<lparr>csi_EnableIntegrityMonitoring = False, csi_EnableSecureBoot = False\<rparr>
       (\<lambda>a b. b\<lparr>csi_EnableIntegrityMonitoring := BoolValue (shi_EnableIntegrityMonitoring a),
                csi_EnableSecureBoot := BoolValue (shi_EnableSecureBoot a)\<rparr>)
       (and_ShieldedInstanceConfig in') (knd_ShieldedInstanceConfig d),
     knd_UpgradeSettings := gen_block \<lparr>cus_MaxSurge = 0, cus_MaxUnavailable = 0\<rparr>
       (\<lambda>a b. b\<lparr>cus_MaxSurge := Int64Value (ups_MaxSurge a), cus_MaxUnavailable := Int64Value (ups_MaxUnavailable a)\<rparr>)
       (and_UpgradeSettings in') (knd_UpgradeSettings d)\<rparr>"

definition gen_limit :: "ResourceLimit \<Rightarrow> container_ResourceLimit" where
  "gen_limit l = \<lparr>krl_Maximum = Int64Value (rlm_Maximum l), krl_Minimum = Int64Value (rlm_Minimum l),
     krl_ResourceType = StringValue (rlm_ResourceType l)\<rparr>"

definition gen_cluster_autoscaling :: "ClusterAutoscaling \<Rightarrow> container_ClusterAutoscaling \<Rightarrow> container_ClusterAutoscaling" where
  "gen_cluster_autoscaling in' c = c\<lparr>
     kas_AutoprovisioningLocations := cas_AutoprovisioningLocations in',
     kas_EnableNodeAutoprovisioning := BoolValue (cas_EnableNodeAutoprovisioning in'),
     kas_AutoprovisioningNodePoolDefaults := gen_block container_AutoprovisioningNodePoolDefaults0 gen_pool_defaults
       (cas_AutoprovisioningNodePoolDefaults in') (kas_AutoprovisioningNodePoolDefaults c),
     kas_ResourceLimits := gen_elems gen_limit (cas_ResourceLimits in') (kas_ResourceLimits c)\<rparr>"

definition cluster_GenerateAutoscaling :: "ClusterAutoscaling option \<Rightarrow> container_Cluster \<Rightarrow> container_Cluster" where
  "cluster_GenerateAutoscaling in' cluster = cluster\<lparr>kc_Autoscaling :=
     gen_block container_ClusterAutoscaling0 gen_cluster_autoscaling in' (kc_Autoscaling cluster)\<rparr>"

definition GenerateBinaryAuthorization :: "BinaryAuthorization option \<Rightarrow> container_Cluster \<Rightarrow> container_Cluster" where
  "GenerateBinaryAuthorization in' cluster = cluster\<lparr>kc_BinaryAuthorization :=
     gen_block container_BinaryAuthorization0 (\<lambda>a b. b\<lparr>kba_Enabled := bau_Enabled a\<rparr>) in' (kc_BinaryAuthorization cluster)\<rparr>"

definition GenerateConfidentialNodes :: "ConfidentialNodes option \<Rightarrow> container_Cluster \<Rightarrow> container_Cluster" where
  "GenerateConfidentialNodes in' cluster = cluster\<lparr>kc_ConfidentialNodes :=
     gen_block container_ConfidentialNodes0 (\<lambda>a b. b\<lparr>kcn_Enabled := cfn_Enabled a\<rparr>) in' (kc_ConfidentialNodes cluster)\<rparr>"

definition GenerateDatabaseEncryption :: "DatabaseEncryption option \<Rightarrow> container_Cluster \<Rightarrow> container_Cluster" where
  "GenerateDatabaseEncryption in' cluster = cluster\<lparr>kc_DatabaseEncryption :=
     gen_block container_DatabaseEncryption0
       (\<lambda>a b. b\<lparr>kde_KeyName := StringValue (dbe_KeyName a), kde_State := StringValue (dbe_State a)\<rparr>)
       in' (kc_DatabaseEncryption cluster)\<rparr>"

definition GenerateDefaultMaxPodsConstraint :: "MaxPodsConstraint option \<Rightarrow> container_Cluster \<Rightarrow> container_Cluster" where
  "GenerateDefaultMaxPodsConstraint in' cluster = cluster\<lparr>kc_DefaultMaxPodsConstraint :=
     gen_block \<lparr>cmx_MaxPodsPerNode = 0\<rparr> (\<lambda>a b. b\<lparr>cmx_MaxPodsPerNode := mpc_MaxPodsPerNode a\<rparr>)
       in' (kc_DefaultMaxPodsConstraint cluster)\<rparr>"

definition GenerateIPAllocationPolicy :: "IPAllocationPolicy option \<Rightarrow> container_Cluster \<Rightarrow> container_Cluster" where
  "GenerateIPAllocationPolicy in' cluster = cluster\<lparr>kc_IpAllocationPolicy :=
     gen_block container_IPAllocationPolicy0
       (\<lambda>a b. b\<lparr>kip_ClusterIpv4CidrBlock := StringValue (iap_ClusterIpv4CidrBlock a),
                kip_ClusterSecondaryRangeName := StringValue (iap_ClusterSecondaryRangeName a),
                kip_CreateSubnetwork := BoolValue (iap_CreateSubnetwork a),
                kip_NodeIpv4CidrBlock := StringValue (iap_NodeIpv4CidrBlock a),
                kip_ServicesIpv4CidrBlock := StringValue (iap_ServicesIpv4CidrBlock a),
                kip_ServicesSecondaryRangeName := StringValue (iap_ServicesSecondaryRangeName a),
                kip_SubnetworkName := StringValue (iap_SubnetworkName a),
                kip_TpuIpv4CidrBlock := StringValue (iap_TpuIpv4CidrBlock a),
                kip_UseIpAliases := BoolValue (iap_UseIPAliases a),
                kip_UseRoutes := BoolValue (iap_UseRoutes a)\<rparr>)
       in' (kc_IpAllocationPolicy cluster)\<rparr>"

definition GenerateLegacyAbac :: "LegacyAbac option \<Rightarrow> container_Cluster \<Rightarrow> container_Cluster" where
  "GenerateLegacyAbac in' cluster = cluster\<lparr>kc_LegacyAbac :=
     gen_block container_LegacyAbac0 (\<lambda>a b. b\<lparr>kla_Enabled := lab_Enabled a\<rparr>) in' (kc_LegacyAbac cluster)\<rparr>"

definition gen_window :: "TimeWindow \<Rightarrow> container_TimeWindow" where
  "gen_window v = \<lparr>ktw_EndTime = tmw_EndTime v, ktw_StartTime = tmw_StartTime v\<rparr>"

definition gen_recurring :: "RecurringTimeWindow \<Rightarrow> container_RecurringTimeWindow \<Rightarrow> container_RecurringTimeWindow" where
  "gen_recurring a b = b\<lparr>
     krw_Recurrence := (case rtw_Recurrence a of None \<Rightarrow> krw_Recurrence b | Some r \<Rightarrow> r),
     krw_Window := (case rtw_Window a of None \<Rightarrow> krw_Window b | Some t \<Rightarrow> Some (gen_window t))\<rparr>"

definition gen_maintenance_window :: "MaintenanceWindowSpec \<Rightarrow> container_MaintenanceWindow \<Rightarrow> container_MaintenanceWindow" where
  "gen_maintenance_window in' w = w\<lparr>
     kmw_DailyMaintenanceWindow := gen_block container_DailyMaintenanceWindow0
       (\<lambda>a b. b\<lparr>kdm_StartTime := dmw_StartTime a\<rparr>) (mws_DailyMaintenanceWindow in') (kmw_DailyMaintenanceWindow w),
     kmw_MaintenanceExclusions := (case mws_MaintenanceExclusions in' of None \<Rightarrow> kmw_MaintenanceExclusions w
        | Some m \<Rightarrow> Some (fmmap gen_window m)),
     kmw_RecurringWindow := gen_block container_RecurringTimeWindow0 gen_recurring
       (mws_RecurringWindow in') (kmw_RecurringWindow w)\<rparr>"

definition gen_maintenance_policy :: "MaintenancePolicySpec \<Rightarrow> container_MaintenancePolicy \<Rightarrow> container_MaintenancePolicy" where
  "gen_maintenance_policy in' m = m\<lparr>kmp_Window :=
     Some (gen_maintenance_window (mps_Window in')
       (case kmp_Window m of None \<Rightarrow> container_MaintenanceWindow0 | Some w \<Rightarrow> w))\<rparr>"

definition GenerateMaintenancePolicy :: "MaintenancePolicySpec option \<Rightarrow> container_Cluster \<Rightarrow> container_Cluster" where
  "GenerateMaintenancePolicy in' cluster = cluster\<lparr>kc_MaintenancePolicy :=
     gen_block container_MaintenancePolicy0 gen_maintenance_policy in' (kc_MaintenancePolicy cluster)\<rparr>"

definition GenerateMasterAuth :: "MasterAuth option \<Rightarrow> container_Cluster \<Rightarrow> container_Cluster" where
  "GenerateMasterAuth in' cluster = cluster\<lparr>kc_MasterAuth :=
     gen_block container_MasterAuth0
       (\<lambda>a b. b\<lparr>kma_Username := StringValue (mau_Username a),
                kma_ClientCertificateConfig := gen_block container_ClientCertificateConfig0
                  (\<lambda>a b. b\<lparr>kce_IssueClientCertificate := cce_IssueClientCertificate a\<rparr>)
                  (mau_ClientCertificateConfig a) (kma_ClientCertificateConfig b)\<rparr>)
       in' (kc_MasterAuth cluster)\<rparr>"

definition gen_cidr :: "CidrBlock \<Rightarrow> container_CidrBlock" where
  "gen_cidr c = \<lparr>kcb_CidrBlock = cib_CidrBlock c, kcb_DisplayName = StringValue (cib_DisplayName c)\<rparr>"

definition GenerateMasterAuthorizedNetworksConfig ::
  "MasterAuthorizedNetworksConfig option \<Rightarrow> container_Cluster \<Rightarrow> container_Cluster" where
  "GenerateMasterAuthorizedNetworksConfig in' cluster = cluster\<lparr>kc_MasterAuthorizedNetworksConfig :=
     gen_block container_MasterAuthorizedNetworksConfig0
       (\<lambda>a b. b\<lparr>kmn_Enabled := BoolValue (man_Enabled a),
                kmn_CidrBlocks := gen_elems gen_cidr (man_CidrBlocks a) (kmn_CidrBlocks b)\<rparr>)
       in' (kc_MasterAuthorizedNetworksConfig cluster)\<rparr>"

definition GenerateNetworkConfig :: "NetworkConfigSpec option \<Rightarrow> container_Cluster \<Rightarrow> container_Cluster" where
  "GenerateNetworkConfig in' cluster = cluster\<lparr>kc_NetworkConfig :=
     gen_block container_NetworkConfig0
       (\<lambda>a b. b\<lparr>knc_EnableIntraNodeVisibility := BoolValue (ncs_EnableIntraNodeVisibility a),
                knc_PrivateIpv6GoogleAccess := StringValue (ncs_PrivateIpv6GoogleAccess a),
                knc_DatapathProvider := StringValue (ncs_DatapathProvider a),
                knc_DefaultSnatStatus := gen_block container_DefaultSnatStatus0
                  (\<lambda>a b. b\<lparr>kds_Disabled := dss_Disabled a\<rparr>) (ncs_DefaultSnatStatus a) (knc_DefaultSnatStatus b)\<rparr>)
       in' (kc_NetworkConfig cluster)\<rparr>"

definition GenerateNetworkPolicy :: "NetworkPolicy option \<Rightarrow> container_Cluster \<Rightarrow> container_Cluster" where
  "GenerateNetworkPolicy in' cluster = cluster\<lparr>kc_NetworkPolicy :=
     gen_block container_NetworkPolicy0
       (\<lambda>a b. b\<lparr>knw_Enabled := BoolValue (nwp_Enabled a), knw_Provider := StringValue (nwp_Provider a)\<rparr>)
       in' (kc_NetworkPolicy cluster)\<rparr>"

definition GenerateNotificationConfig :: "NotificationConfig option \<Rightarrow> container_Cluster \<Rightarrow> container_Cluster" where
  \<comment> \<open>an existing \<open>Pubsub\<close> is left alone\<close>
  "GenerateNotificationConfig in' cluster = cluster\<lparr>kc_NotificationConfig :=
     gen_block container_NotificationConfig0
       (\<lambda>a b. b\<lparr>knf_Pubsub := (case knf_Pubsub b of
            None \<Rightarrow> Some \<lparr>kps_Enabled = psb_Enabled (nfc_Pubsub a), kps_Topic = psb_Topic (nfc_Pubsub a)\<rparr>
          | Some q \<Rightarrow> Some q)\<rparr>)
       in' (kc_NotificationConfig cluster)\<rparr>"

definition GeneratePrivateClusterConfig :: "PrivateClusterConfigSpec option \<Rightarrow> container_Cluster \<Rightarrow> container_Cluster" where
  "GeneratePrivateClusterConfig in' cluster = cluster\<lparr>kc_PrivateClusterConfig :=
     gen_block container_PrivateClusterConfig0
       (\<lambda>a b. b\<lparr>kpc_EnablePrivateEndpoint := BoolValue (pcs_EnablePrivateEndpoint a),
                kpc_EnablePrivateNodes := BoolValue (pcs_EnablePrivateNodes a),
                kpc_MasterIpv4CidrBlock := StringValue (pcs_MasterIpv4CidrBlock a),
                kpc_MasterGlobalAccessConfig := (case pcs_MasterGlobalAccessConfig a of
                     None \<Rightarrow> kpc_MasterGlobalAccessConfig b | Some g \<Rightarrow> Some \<lparr>kpg_Enabled = pga_Enabled g\<rparr>)\<rparr>)
       in' (kc_PrivateClusterConfig cluster)\<rparr>"

definition GenerateReleaseChannel :: "ReleaseChannel option \<Rightarrow> container_Cluster \<Rightarrow> container_Cluster" where
  "GenerateReleaseChannel in' cluster = cluster\<lparr>kc_ReleaseChannel :=
     gen_block container_ReleaseChannel0 (\<lambda>a b. b\<lparr>krc_Channel := rch_Channel a\<rparr>) in' (kc_ReleaseChannel cluster)\<rparr>"

definition GenerateResourceUsageExportConfig ::
  "ResourceUsageExportConfig option \<Rightarrow> container_Cluster \<Rightarrow> container_Cluster" where
  "GenerateResourceUsageExportConfig in' cluster = cluster\<lparr>kc_ResourceUsageExportConfig :=
     gen_block container_ResourceUsageExportConfig0
       (\<lambda>a b. b\<lparr>kru_EnableNetworkEgressMetering := BoolValue (rue_EnableNetworkEgressMetering a),
                kru_BigqueryDestination := gen_block container_BigQueryDestination0
                  (\<lambda>a b. b\<lparr>kbq_DatasetId := bqd_DatasetID a\<rparr>) (rue_BigqueryDestination a) (kru_BigqueryDestination b),
                kru_ConsumptionMeteringConfig := gen_block container_ConsumptionMeteringConfig0
                  (\<lambda>a b. b\<lparr>kcm_Enabled := cmc_Enabled a\<rparr>) (rue_ConsumptionMeteringConfig a) (kru_ConsumptionMeteringConfig b)\<rparr>)
       in' (kc_ResourceUsageExportConfig cluster)\<rparr>"

definition GenerateVerticalPodAutoscaling :: "VerticalPodAutoscaling option \<Rightarrow> container_Cluster \<Rightarrow> container_Cluster" where
  "GenerateVerticalPodAutoscaling in' cluster = cluster\<lparr>kc_VerticalPodAutoscaling :=
     gen_block container_VerticalPodAutoscaling0 (\<lambda>a b. b\<lparr>kvp_Enabled := vpa_Enabled a\<rparr>) in' (kc_VerticalPodAutoscaling cluster)\<rparr>"

definition GenerateWorkloadIdentityConfig :: "WorkloadIdentityConfig option \<Rightarrow> container_Cluster \<Rightarrow> container_Cluster" where
  "GenerateWorkloadIdentityConfig in' cluster = cluster\<lparr>kc_WorkloadIdentityConfig :=
     gen_block container_WorkloadIdentityConfig0 (\<lambda>a b. b\<lparr>kwi_WorkloadPool := wic_WorkloadPool a\<rparr>)
       in' (kc_WorkloadIdentityConfig cluster)\<rparr>"

definition GenerateCluster :: "string \<Rightarrow> ClusterParameters \<Rightarrow> container_Cluster \<Rightarrow> container_Cluster" where
  "GenerateCluster name in' cluster =
     (let cluster = cluster\<lparr>
            kc_ClusterIpv4Cidr := StringValue (ccp_ClusterIpv4Cidr in'),
            kc_Description := StringValue (ccp_Description in'),
            kc_EnableKubernetesAlpha := BoolValue (ccp_EnableKubernetesAlpha in'),
            kc_EnableTpu := BoolValue (ccp_EnableTpu in'),
            kc_InitialClusterVersion := StringValue (ccp_InitialClusterVersion in'),
            kc_LabelFingerprint := StringValue (ccp_LabelFingerprint in'),
            kc_Locations := ccp_Locations in',
            kc_LoggingService := StringValue (ccp_LoggingService in'),
            kc_MonitoringService := StringValue (ccp_MonitoringService in'),
            kc_Name := name,
            kc_Network := StringValue (ccp_Network in'),
            kc_ResourceLabels := ccp_ResourceLabels in',
            kc_Subnetwork := StringValue (ccp_Subnetwork in')\<rparr>;
          cluster = GenerateAddonsConfig (ccp_AddonsConfig in') cluster;
          cluster = GenerateAutopilot (ccp_Autopilot in') cluster;
          cluster = GenerateAuthenticatorGroupsConfig (ccp_AuthenticatorGroupsConfig in') cluster;
          cluster = cluster_GenerateAutoscaling (ccp_Autoscaling in') cluster;
          cluster = GenerateConfidentialNodes (ccp_ConfidentialNodes in') cluster;
          cluster = GenerateBinaryAuthorization (ccp_BinaryAuthorization in') cluster;
          cluster = GenerateDatabaseEncryption (ccp_DatabaseEncryption in') cluster;
          cluster = GenerateDefaultMaxPodsConstraint (ccp_DefaultMaxPodsConstraint in') cluster;
          cluster = GenerateIPAllocationPolicy (ccp_IPAllocationPolicy in') cluster;
          cluster = GenerateLegacyAbac (ccp_LegacyAbac in') cluster;
          cluster = GenerateMaintenancePolicy (ccp_MaintenancePolicy in') cluster;
          cluster = GenerateMasterAuth (ccp_MasterAuth in') cluster;
          cluster = GenerateMasterAuthorizedNetworksConfig (ccp_MasterAuthorizedNetworksConfig in') cluster;
          cluster = GenerateNetworkConfig (ccp_NetworkConfig in') cluster;
          cluster = GenerateNetworkPolicy (ccp_NetworkPolicy in') cluster;
          cluster = GenerateNotificationConfig (ccp_NotificationConfig in') cluster;
          cluster = GeneratePrivateClusterConfig (ccp_PrivateClusterConfig in') cluster;
          cluster = GenerateReleaseChannel (ccp_ReleaseChannel in') cluster;
          cluster = GenerateResourceUsageExportConfig (ccp_ResourceUsageExportConfig in') cluster;
          cluster = GenerateVerticalPodAutoscaling (ccp_VerticalPodAutoscaling in') cluster
      in GenerateWorkloadIdentityConfig (ccp_WorkloadIdentityConfig in') cluster)"

section \<open>Observation\<close>

definition cluster_node_config :: "container_NodeConfig \<Rightarrow> NodeConfigClusterStatus" where
  "cluster_node_config c = \<lparr>
     nsc_Accelerators = copy_elems (\<lambda>a. \<lparr>acs_AcceleratorCount = cac_AcceleratorCount a, acs_AcceleratorType = cac_AcceleratorType a\<rparr>)
       (cnc_Accelerators c),
     nsc_DiskSizeGb = cnc_DiskSizeGb c, nsc_DiskType = cnc_DiskType c, nsc_ImageType = cnc_ImageType c,
     nsc_Labels = cnc_Labels c, nsc_LocalSsdCount = cnc_LocalSsdCount c, nsc_MachineType = cnc_MachineType c,
     nsc_Metadata = cnc_Metadata c, nsc_MinCPUPlatform = cnc_MinCpuPlatform c, nsc_OauthScopes = cnc_OauthScopes c,
     nsc_Preemptible = cnc_Preemptible c,
     nsc_SandboxConfig = map_option (\<lambda>s. \<lparr>sbs_Type = csb_Type s\<rparr>) (cnc_SandboxConfig c),
     nsc_ServiceAccount = cnc_ServiceAccount c,
     nsc_ShieldedInstanceConfig = map_option (\<lambda>s. \<lparr>shs_EnableIntegrityMonitoring = csi_EnableIntegrityMonitoring s,
        shs_EnableSecureBoot = csi_EnableSecureBoot s\<rparr>) (cnc_ShieldedInstanceConfig c),
     nsc_Tags = cnc_Tags c,
     nsc_Taints = copy_elems (\<lambda>t. \<lparr>nts_Effect = cnt_Effect t, nts_Key = cnt_Key t, nts_Value = cnt_Value t\<rparr>) (cnc_Taints c)\<rparr>"

definition cluster_node_pool :: "container_NodePool \<Rightarrow> NodePoolClusterStatus" where
  \<comment> \<open>the node count, the locations, the management and the pods constraint are not copied\<close>
  "cluster_node_pool p = \<lparr>
     ncl_Autoscaling = map_option (\<lambda>a. \<lparr>nac_Autoprovisioned = cna_Autoprovisioned a, nac_Enabled = cna_Enabled a,
        nac_MaxNodeCount = cna_MaxNodeCount a, nac_MinNodeCount = cna_MinNodeCount a\<rparr>) (cnp_Autoscaling p),
     ncl_Conditions = copy_elems status_condition (cnp_Conditions p),
     ncl_Config = map_option cluster_node_config (cnp_Config p),
     ncl_InitialNodeCount = 0, ncl_InstanceGroupUrls = cnp_InstanceGroupUrls p, ncl_Locations = None,
     ncl_Management = None, ncl_MaxPodsConstraint = None, ncl_Name = cnp_Name p,
     ncl_PodIpv4CidrSize = cnp_PodIpv4CidrSize p, ncl_SelfLink = cnp_SelfLink p, ncl_Status = cnp_Status p,
     ncl_StatusMessage = cnp_StatusMessage p, ncl_Version = cnp_Version p\<rparr>"

definition cluster_GenerateObservation :: "container_Cluster \<Rightarrow> ClusterObservation" where
  "cluster_GenerateObservation in' = \<lparr>
     cob_Conditions = copy_elems status_condition (kc_Conditions in'),
     cob_CreateTime = kc_CreateTime in',
     cob_CurrentMasterVersion = kc_CurrentMasterVersion in',
     cob_CurrentNodeCount = kc_CurrentNodeCount in',
     cob_CurrentNodeVersion = kc_CurrentNodeVersion in',
     cob_Endpoint = kc_Endpoint in',
     cob_ExpireTime = kc_ExpireTime in',
     cob_Location = kc_Location in',
     cob_MaintenancePolicy = do {
        m \<leftarrow> kc_MaintenancePolicy in'; w \<leftarrow> kmp_Window m; d \<leftarrow> kmw_DailyMaintenanceWindow w;
        Some \<lparr>mpt_Window = \<lparr>mwt_DailyMaintenanceWindow = \<lparr>dms_Duration = kdm_Duration d\<rparr>\<rparr>\<rparr> },
     cob_NetworkConfig = map_option (\<lambda>n. \<lparr>nct_Network = knc_Network n, nct_Subnetwork = knc_Subnetwork n\<rparr>) (kc_NetworkConfig in'),
     cob_NodeIpv4CidrSize = kc_NodeIpv4CidrSize in',
     cob_PrivateClusterConfig = map_option (\<lambda>p. \<lparr>pct_PrivateEndpoint = kpc_PrivateEndpoint p, pct_PublicEndpoint = kpc_PublicEndpoint p\<rparr>)
        (kc_PrivateClusterConfig in'),
     cob_NodePools = copy_elems cluster_node_pool (kc_NodePools in'),
     cob_SelfLink = kc_SelfLink in',
     cob_ServicesIpv4Cidr = kc_ServicesIpv4Cidr in',
     cob_Status = kc_Status in',
     cob_StatusMessage = kc_StatusMessage in',
     cob_TpuIpv4CidrBlock = kc_TpuIpv4CidrBlock in',
     cob_Zone = kc_Zone in'\<rparr>"

section \<open>Late initialisation\<close>

definition late_addons :: "AddonsConfig option \<Rightarrow> container_AddonsConfig option \<Rightarrow> AddonsConfig option option" where
  \<comment> \<open>the block for Cloud Run dereferences the pointer of the spec whenever the cluster has the addon\<close>
  "late_addons spec in' =
     (case in' of None \<Rightarrow> Some spec
      | Some c \<Rightarrow>
          let s = (case spec of None \<Rightarrow> AddonsConfig0 | Some s \<Rightarrow> s) in do {
          run \<leftarrow> (case kad_CloudRunConfig c of
                   None \<Rightarrow> Some (adn_CloudRunConfig s)
                 | Some r \<Rightarrow> do {
                     q \<leftarrow> adn_CloudRunConfig s;
                     Some (Some (q\<lparr>crc_LoadBalancerType := LateInitializeString (crc_LoadBalancerType q) (kcr_LoadBalancerType r)\<rparr>)) });
          Some (Some (s\<lparr>
            adn_CloudRunConfig := run,
            adn_ConfigConnectorConfig := late_ptr (adn_ConfigConnectorConfig s)
              (map_option (\<lambda>a. \<lparr>ccc_Enabled = kcc_Enabled a\<rparr>) (kad_ConfigConnectorConfig c)),
            adn_DNSCacheConfig := late_ptr (adn_DNSCacheConfig s)
              (map_option (\<lambda>a. \<lparr>dnc_Enabled = kdn_Enabled a\<rparr>) (kad_DnsCacheConfig c)),
            adn_GCEPersistentDiskCSIDriverConfig := late_ptr (adn_GCEPersistentDiskCSIDriverConfig s)
              (map_option (\<lambda>a. \<lparr>pdc_Enabled = kpd_Enabled a\<rparr>) (kad_GcePersistentDiskCsiDriverConfig c)),
            adn_HorizontalPodAutoscaling := late_ptr (adn_HorizontalPodAutoscaling s)
              (map_option (\<lambda>a. \<lparr>hpa_Disabled = khp_Disabled a\<rparr>) (kad_HorizontalPodAutoscaling c)),
            adn_HTTPLoadBalancing := late_ptr (adn_HTTPLoadBalancing s)
              (map_option (\<lambda>a. \<lparr>hlb_Disabled = khl_Disabled a\<rparr>) (kad_HttpLoadBalancing c)),
            adn_KubernetesDashboard := late_ptr (adn_KubernetesDashboard s)
              (map_option (\<lambda>a. \<lparr>kdb_Disabled = kkd_Disabled a\<rparr>) (kad_KubernetesDashboard c)),
            adn_NetworkPolicyConfig := late_ptr (adn_NetworkPolicyConfig s)
              (map_option (\<lambda>a. \<lparr>npc_Disabled = knp_Disabled a\<rparr>) (kad_NetworkPolicyConfig c))\<rparr>)) })"

definition late_pool_defaults ::
  "AutoprovisioningNodePoolDefaults \<Rightarrow> container_AutoprovisioningNodePoolDefaults \<Rightarrow> AutoprovisioningNodePoolDefaults" where
  "late_pool_defaults s x = s\<lparr>
     and_BootDiskKMSKey := LateInitializeString (and_BootDiskKMSKey s) (knd_BootDiskKmsKey x),
     and_DiskSizeGb := LateInitializeInt64 (and_DiskSizeGb s) (knd_DiskSizeGb x),
     and_DiskType := LateInitializeString (and_DiskType s) (knd_DiskType x),
     and_MinCPUPlatform := LateInitializeString (and_MinCPUPlatform s) (knd_MinCpuPlatform x),
     and_OauthScopes := LateInitializeStringSlice (and_OauthScopes s) (knd_OauthScopes x),
     and_ServiceAccount := LateInitializeString (and_ServiceAccount s) (knd_ServiceAccount x),
     and_Management := late_block NodeManagement0
       (\<lambda>s x. s\<lparr>nmg_AutoRepair := LateInitializeBool (nmg_AutoRepair s) (cnm_AutoRepair x),
                nmg_AutoUpgrade := LateInitializeBool (nmg_AutoUpgrade s) (cnm_AutoUpgrade x)\<rparr>)
       (and_Management s) (knd_Management x),
     and_ShieldedInstanceConfig := late_block v1beta2_ShieldedInstanceConfig0
       (\<lambda>s x. s\<lparr>shi_EnableIntegrityMonitoring := LateInitializeBool (shi_EnableIntegrityMonitoring s) (csi_EnableIntegrityMonitoring x),
                shi_EnableSecureBoot := LateInitializeBool (shi_EnableSecureBoot s) (csi_EnableSecureBoot x)\<rparr>)
       (and_ShieldedInstanceConfig s) (knd_ShieldedInstanceConfig x),
     and_UpgradeSettings := late_block \<lparr>ups_MaxSurge = None, ups_MaxUnavailable = None\<rparr>
       (\<lambda>s x. s\<lparr>ups_MaxSurge := LateInitializeInt64 (ups_MaxSurge s) (cus_MaxSurge x),
                ups_MaxUnavailable := LateInitializeInt64 (ups_MaxUnavailable s) (cus_MaxUnavailable x)\<rparr>)
       (and_UpgradeSettings s) (knd_UpgradeSettings x)\<rparr>"

definition late_limit :: "container_ResourceLimit \<Rightarrow> ResourceLimit" where
  "late_limit l = \<lparr>rlm_Maximum = Some (krl_Maximum l), rlm_Minimum = Some (krl_Minimum l),
     rlm_ResourceType = Some (krl_ResourceType l)\<rparr>"

definition late_cluster_autoscaling ::
  "ClusterAutoscaling option \<Rightarrow> container_ClusterAutoscaling option \<Rightarrow> ClusterAutoscaling option option" where
  "late_cluster_autoscaling spec in' =
     (case in' of None \<Rightarrow> Some spec
      | Some c \<Rightarrow>
          let s = (case spec of None \<Rightarrow> ClusterAutoscaling0 | Some s \<Rightarrow> s) in do {
          limits \<leftarrow> late_slice (deref_elem late_limit) (cas_ResourceLimits s) (kas_ResourceLimits c);
          Some (Some (s\<lparr>
            cas_AutoprovisioningLocations := LateInitializeStringSlice (cas_AutoprovisioningLocations s) (kas_AutoprovisioningLocations c),
            cas_AutoprovisioningNodePoolDefaults := late_block AutoprovisioningNodePoolDefaults0 late_pool_defaults
              (cas_AutoprovisioningNodePoolDefaults s) (kas_AutoprovisioningNodePoolDefaults c),
            cas_EnableNodeAutoprovisioning := LateInitializeBool (cas_EnableNodeAutoprovisioning s) (kas_EnableNodeAutoprovisioning c),
            cas_ResourceLimits := limits\<rparr>)) })"

definition late_allocation :: "IPAllocationPolicy \<Rightarrow> container_IPAllocationPolicy \<Rightarrow> IPAllocationPolicy" where
  \<comment> \<open>the secondary range of the services and the use of routes are not late-initialised\<close>
  "late_allocation s x = s\<lparr>
     iap_ClusterIpv4CidrBlock := LateInitializeString (iap_ClusterIpv4CidrBlock s) (kip_ClusterIpv4CidrBlock x),
     iap_ClusterSecondaryRangeName := LateInitializeString (iap_ClusterSecondaryRangeName s) (kip_ClusterSecondaryRangeName x),
     iap_CreateSubnetwork := LateInitializeBool (iap_CreateSubnetwork s) (kip_CreateSubnetwork x),
     iap_NodeIpv4CidrBlock := LateInitializeString (iap_NodeIpv4CidrBlock s) (kip_NodeIpv4CidrBlock x),
     iap_ServicesIpv4CidrBlock := LateInitializeString (iap_ServicesIpv4CidrBlock s) (kip_ServicesIpv4CidrBlock x),
     iap_SubnetworkName := LateInitializeString (iap_SubnetworkName s) (kip_SubnetworkName x),
     iap_TpuIpv4CidrBlock := LateInitializeString (iap_TpuIpv4CidrBlock s) (kip_TpuIpv4CidrBlock x),
     iap_UseIPAliases := LateInitializeBool (iap_UseIPAliases s) (kip_UseIpAliases x)\<rparr>"

definition late_window :: "container_TimeWindow \<Rightarrow> TimeWindow" where
  "late_window v = \<lparr>tmw_EndTime = ktw_EndTime v, tmw_StartTime = ktw_StartTime v\<rparr>"

definition late_maintenance_policy ::
  "MaintenancePolicySpec option \<Rightarrow> container_MaintenancePolicy option \<Rightarrow> MaintenancePolicySpec option option" where
  \<comment> \<open>the block for the recurring window reads the window of the spec that it is about to create\<close>
  "late_maintenance_policy spec in' =
     (case (spec, Option.bind in' kmp_Window) of
        (None, Some w) \<Rightarrow>
          if kmw_RecurringWindow w \<noteq> None then None
          else Some (Some \<lparr>mps_Window = \<lparr>
             mws_DailyMaintenanceWindow = map_option (\<lambda>d. \<lparr>dmw_StartTime = kdm_StartTime d\<rparr>) (kmw_DailyMaintenanceWindow w),
             mws_MaintenanceExclusions = map_option (fmmap late_window) (kmw_MaintenanceExclusions w),
             mws_RecurringWindow = None\<rparr>\<rparr>)
      | _ \<Rightarrow> Some spec)"

definition late_master_auth :: "MasterAuth \<Rightarrow> container_MasterAuth \<Rightarrow> MasterAuth" where
  \<comment> \<open>the certificate setting of the spec is overwritten\<close>
  "late_master_auth s x = s\<lparr>
     mau_ClientCertificateConfig := (case kma_ClientCertificateConfig x of None \<Rightarrow> mau_ClientCertificateConfig s
        | Some c \<Rightarrow> Some \<lparr>cce_IssueClientCertificate = kce_IssueClientCertificate c\<rparr>),
     mau_Username := LateInitializeString (mau_Username s) (kma_Username x)\<rparr>"

definition late_cidr :: "container_CidrBlock \<Rightarrow> CidrBlock" where
  "late_cidr b = \<lparr>cib_CidrBlock = kcb_CidrBlock b, cib_DisplayName = Some (kcb_DisplayName b)\<rparr>"

definition late_authorized_networks ::
  "MasterAuthorizedNetworksConfig option \<Rightarrow> container_MasterAuthorizedNetworksConfig option
    \<Rightarrow> MasterAuthorizedNetworksConfig option option" where
  "late_authorized_networks spec in' =
     (case in' of None \<Rightarrow> Some spec
      | Some c \<Rightarrow>
          let s = (case spec of None \<Rightarrow> MasterAuthorizedNetworksConfig0 | Some s \<Rightarrow> s) in do {
          blocks \<leftarrow> late_slice (deref_elem late_cidr) (man_CidrBlocks s) (kmn_CidrBlocks c);
          Some (Some (s\<lparr>man_CidrBlocks := blocks, man_Enabled := LateInitializeBool (man_Enabled s) (kmn_Enabled c)\<rparr>)) })"

definition late_network_config :: "NetworkConfigSpec \<Rightarrow> container_NetworkConfig \<Rightarrow> NetworkConfigSpec" where
  "late_network_config s x = s\<lparr>
     ncs_EnableIntraNodeVisibility := LateInitializeBool (ncs_EnableIntraNodeVisibility s) (knc_EnableIntraNodeVisibility x),
     ncs_PrivateIpv6GoogleAccess := LateInitializeString (ncs_PrivateIpv6GoogleAccess s) (knc_PrivateIpv6GoogleAccess x),
     ncs_DatapathProvider := LateInitializeString (ncs_DatapathProvider s) (knc_DatapathProvider x),
     ncs_DefaultSnatStatus := late_ptr (ncs_DefaultSnatStatus s)
       (map_option (\<lambda>d. \<lparr>dss_Disabled = kds_Disabled d\<rparr>) (knc_DefaultSnatStatus x))\<rparr>"

definition late_private_cluster :: "PrivateClusterConfigSpec \<Rightarrow> container_PrivateClusterConfig \<Rightarrow> PrivateClusterConfigSpec" where
  "late_private_cluster s x = s\<lparr>
     pcs_EnablePrivateEndpoint := LateInitializeBool (pcs_EnablePrivateEndpoint s) (kpc_EnablePrivateEndpoint x),
     pcs_EnablePrivateNodes := LateInitializeBool (pcs_EnablePrivateNodes s) (kpc_EnablePrivateNodes x),
     pcs_MasterIpv4CidrBlock := LateInitializeString (pcs_MasterIpv4CidrBlock s) (kpc_MasterIpv4CidrBlock x),
     pcs_MasterGlobalAccessConfig := late_ptr (pcs_MasterGlobalAccessConfig s)
       (map_option (\<lambda>g. \<lparr>pga_Enabled = kpg_Enabled g\<rparr>) (kpc_MasterGlobalAccessConfig x))\<rparr>"

definition late_usage_export :: "ResourceUsageExportConfig \<Rightarrow> container_ResourceUsageExportConfig \<Rightarrow> ResourceUsageExportConfig" where
  "late_usage_export s x = s\<lparr>
     rue_BigqueryDestination := late_ptr (rue_BigqueryDestination s)
       (map_option (\<lambda>b. \<lparr>bqd_DatasetID = kbq_DatasetId b\<rparr>) (kru_BigqueryDestination x)),
     rue_ConsumptionMeteringConfig := late_ptr (rue_ConsumptionMeteringConfig s)
       (map_option (\<lambda>c. \<lparr>cmc_Enabled = kcm_Enabled c\<rparr>) (kru_ConsumptionMeteringConfig x)),
     rue_EnableNetworkEgressMetering := LateInitializeBool (rue_EnableNetworkEgressMetering s) (kru_EnableNetworkEgressMetering x)\<rparr>"

definition cluster_LateInitializeSpec :: "ClusterParameters \<Rightarrow> container_Cluster \<Rightarrow> ClusterParameters option" where
  "cluster_LateInitializeSpec spec in' = do {
     addons \<leftarrow> late_addons (ccp_AddonsConfig spec) (kc_AddonsConfig in');
     autoscaling \<leftarrow> late_cluster_autoscaling (ccp_Autoscaling spec) (kc_Autoscaling in');
     maintenance \<leftarrow> late_maintenance_policy (ccp_MaintenancePolicy spec) (kc_MaintenancePolicy in');
     networks \<leftarrow> late_authorized_networks (ccp_MasterAuthorizedNetworksConfig spec) (kc_MasterAuthorizedNetworksConfig in');
     Some (spec\<lparr>
       ccp_AddonsConfig := addons,
       ccp_AuthenticatorGroupsConfig := late_block AuthenticatorGroupsConfig0
         (\<lambda>s x. s\<lparr>agc_Enabled := LateInitializeBool (agc_Enabled s) (kag_Enabled x),
                  agc_SecurityGroup := LateInitializeString (agc_SecurityGroup s) (kag_SecurityGroup x)\<rparr>)
         (ccp_AuthenticatorGroupsConfig spec) (kc_AuthenticatorGroupsConfig in'),
       ccp_Autoscaling := autoscaling,
       ccp_BinaryAuthorization := late_ptr (ccp_BinaryAuthorization spec)
         (map_option (\<lambda>b. \<lparr>bau_Enabled = kba_Enabled b\<rparr>) (kc_BinaryAuthorization in')),
       ccp_ClusterIpv4Cidr := LateInitializeString (ccp_ClusterIpv4Cidr spec) (kc_ClusterIpv4Cidr in'),
       ccp_DatabaseEncryption := late_block DatabaseEncryption0
         (\<lambda>s x. s\<lparr>dbe_KeyName := LateInitializeString (dbe_KeyName s) (kde_KeyName x),
                  dbe_State := LateInitializeString (dbe_State s) (kde_State x)\<rparr>)
         (ccp_DatabaseEncryption spec) (kc_DatabaseEncryption in'),
       ccp_DefaultMaxPodsConstraint := late_ptr (ccp_DefaultMaxPodsConstraint spec)
         (map_option (\<lambda>m. \<lparr>mpc_MaxPodsPerNode = cmx_MaxPodsPerNode m\<rparr>) (kc_DefaultMaxPodsConstraint in')),
       ccp_Description := LateInitializeString (ccp_Description spec) (kc_Description in'),
       ccp_EnableKubernetesAlpha := LateInitializeBool (ccp_EnableKubernetesAlpha spec) (kc_EnableKubernetesAlpha in'),
       ccp_EnableTpu := LateInitializeBool (ccp_EnableTpu spec) (kc_EnableTpu in'),
       ccp_InitialClusterVersion := LateInitializeString (ccp_InitialClusterVersion spec) (kc_InitialClusterVersion in'),
       ccp_IPAllocationPolicy := late_block IPAllocationPolicy0 late_allocation
         (ccp_IPAllocationPolicy spec) (kc_IpAllocationPolicy in'),
       ccp_LabelFingerprint := LateInitializeString (ccp_LabelFingerprint spec) (kc_LabelFingerprint in'),
       ccp_LegacyAbac := late_ptr (ccp_LegacyAbac spec) (map_option (\<lambda>l. \<lparr>lab_Enabled = kla_Enabled l\<rparr>) (kc_LegacyAbac in')),
       ccp_Locations := LateInitializeStringSlice (ccp_Locations spec) (kc_Locations in'),
       ccp_LoggingService := LateInitializeString (ccp_LoggingService spec) (kc_LoggingService in'),
       ccp_MaintenancePolicy := maintenance,
       ccp_MasterAuth := late_block MasterAuth0 late_master_auth (ccp_MasterAuth spec) (kc_MasterAuth in'),
       ccp_MasterAuthorizedNetworksConfig := networks,
       ccp_MonitoringService := LateInitializeString (ccp_MonitoringService spec) (kc_MonitoringService in'),
       ccp_Network := LateInitializeString (ccp_Network spec) (kc_Network in'),
       ccp_NetworkConfig := late_block NetworkConfigSpec0 late_network_config (ccp_NetworkConfig spec) (kc_NetworkConfig in'),
       ccp_NetworkPolicy := late_block NetworkPolicy0
         (\<lambda>s x. s\<lparr>nwp_Enabled := LateInitializeBool (nwp_Enabled s) (knw_Enabled x),
                  nwp_Provider := LateInitializeString (nwp_Provider s) (knw_Provider x)\<rparr>)
         (ccp_NetworkPolicy spec) (kc_NetworkPolicy in'),
       ccp_PrivateClusterConfig := late_block PrivateClusterConfigSpec0 late_private_cluster
         (ccp_PrivateClusterConfig spec) (kc_PrivateClusterConfig in'),
       ccp_NotificationConfig := late_ptr (ccp_NotificationConfig spec)
         (map_option (\<lambda>q. \<lparr>nfc_Pubsub = \<lparr>psb_Enabled = kps_Enabled q, psb_Topic = kps_Topic q\<rparr>\<rparr>)
           (Option.bind (kc_NotificationConfig in') knf_Pubsub)),
       ccp_ReleaseChannel := late_ptr (ccp_ReleaseChannel spec)
         (map_option (\<lambda>r. \<lparr>rch_Channel = krc_Channel r\<rparr>) (kc_ReleaseChannel in')),
       ccp_ResourceLabels := LateInitializeStringMap (ccp_ResourceLabels spec) (kc_ResourceLabels in'),
       ccp_ResourceUsageExportConfig := late_block ResourceUsageExportConfig0 late_usage_export
         (ccp_ResourceUsageExportConfig spec) (kc_ResourceUsageExportConfig in'),
       ccp_Subnetwork := LateInitializeString (ccp_Subnetwork spec) (kc_Subnetwork in'),
       ccp_VerticalPodAutoscaling := late_ptr (ccp_VerticalPodAutoscaling spec)
         (map_option (\<lambda>v. \<lparr>vpa_Enabled = kvp_Enabled v\<rparr>) (kc_VerticalPodAutoscaling in')),
       ccp_WorkloadIdentityConfig := late_ptr (ccp_WorkloadIdentityConfig spec)
         (map_option (\<lambda>i. \<lparr>wic_WorkloadPool = kwi_WorkloadPool i\<rparr>) (kc_WorkloadIdentityConfig in'))\<rparr>) }"

end
