(* ===== verification/Gke_Cluster_Control.thy ===== *)
theory Gke_Cluster_Control
  imports Gke_Cluster
begin

text \<open>
  The second half of \<^verbatim>\<open>pkg/clients/cluster/cluster.go\<close>, the update functions, the comparison and the kubeconfig,
  and the controller \<^verbatim>\<open>pkg/controller/container/cluster.go\<close>.
\<close>

section \<open>Services\<close>

text \<open>
  The comparisons, one for every type that is compared: all equate nil with empty slices and maps,
  the one of the addons also ignores the fields \<open>ForceSendFields\<close>.
\<close>

record cluster_comparers =
  addons_cmp :: "container_AddonsConfig option comparer"
  autopilot_cmp :: "container_Autopilot option comparer"
  autoscaling_cmp :: "container_ClusterAutoscaling option comparer"
  binauthz_cmp :: "container_BinaryAuthorization option comparer"
  dbenc_cmp :: "container_DatabaseEncryption option comparer"
  abac_cmp :: "container_LegacyAbac option comparer"
  slice_cmp :: "string slice comparer"
  string_cmp :: "string comparer"
  maintenance_cmp :: "container_MaintenancePolicy option comparer"
  networks_cmp :: "container_MasterAuthorizedNetworksConfig option comparer"
  bool_cmp :: "bool comparer"
  netpolicy_cmp :: "container_NetworkPolicy option comparer"
  notification_cmp :: "container_NotificationConfig option comparer"
  private_cmp :: "container_PrivateClusterConfig option comparer"
  channel_cmp :: "container_ReleaseChannel option comparer"
  labels_cmp :: "strmap comparer"
  export_cmp :: "container_ResourceUsageExportConfig option comparer"
  vpa_cmp :: "container_VerticalPodAutoscaling option comparer"
  identity_cmp :: "container_WorkloadIdentityConfig option comparer"

text \<open>\<open>clusterExternal\<close> with the calls of the container service it makes; the operation that a call returns
  is dropped. \<open>base64_error\<close> is the error of the decoder, \<open>clientcmd_Write\<close> the kubeconfig writer.\<close>

record kube_cluster =
  kcl_Server :: string
  kcl_CertificateAuthorityData :: bytes

record kube_context =
  kcx_Cluster :: string
  kcx_AuthInfo :: string

record kube_auth_info =
  kai_Username :: string
  kai_Password :: string
  kai_ClientCertificateData :: bytes
  kai_ClientKeyData :: bytes

record clientcmdapi_Config =
  kcf_Clusters :: "(string, kube_cluster) fmap"
  kcf_Contexts :: "(string, kube_context) fmap"
  kcf_AuthInfos :: "(string, kube_auth_info) fmap"
  kcf_CurrentContext :: string

record ('w, 'e) clusterExternal =
  clx_runtime :: "'e runtime"
  clx_copy :: "(container_Cluster, 'e) copier"
  clx_cmp :: cluster_comparers
  clx_spec_cmp :: "ClusterParameters comparer"
  clx_base64_error :: "string \<Rightarrow> 'e"
  clientcmd_Write :: "clientcmdapi_Config \<Rightarrow> 'e + bytes"
  clx_kube_Update :: "('w, Cluster, 'e) kube_update"
  clx_projectID :: string
  Clusters_Get :: "string \<Rightarrow> ('w, container_Cluster, 'e) call"
  Clusters_Create :: "string \<Rightarrow> container_Cluster \<Rightarrow> ('w, unit, 'e) call"
  Clusters_Update :: "string \<Rightarrow> container_ClusterUpdate \<Rightarrow> ('w, unit, 'e) call"
  Clusters_SetLegacyAbac :: "string \<Rightarrow> bool \<Rightarrow> ('w, unit, 'e) call"
  Clusters_SetMaintenancePolicy :: "string \<Rightarrow> container_MaintenancePolicy option \<Rightarrow> ('w, unit, 'e) call"
  Clusters_SetNetworkPolicy :: "string \<Rightarrow> container_NetworkPolicy option \<Rightarrow> ('w, unit, 'e) call"
  Clusters_SetResourceLabels :: "string \<Rightarrow> strmap \<Rightarrow> ('w, unit, 'e) call"
  Clusters_Delete :: "string \<Rightarrow> ('w, unit, 'e) call"
  Clusters_NodePools_Delete :: "string \<Rightarrow> ('w, unit, 'e) call"

section \<open>Update functions\<close>

text \<open>An update function makes one call; it panics (\<open>None\<close>) if it dereferences a nil pointer.\<close>

type_synonym ('w, 'e) cluster_UpdateFn = "('w, 'e) clusterExternal \<Rightarrow> string \<Rightarrow> 'w \<Rightarrow> ('w \<times> ('e + unit)) option"

definition GetFullyQualifiedBNP :: "string \<Rightarrow> string" where
  "GetFullyQualifiedBNP clusterName = clusterName @ ''/nodePools/'' @ BootstrapNodePoolName"

definition newAddonsConfigUpdateFn :: "AddonsConfig option \<Rightarrow> ('w, 'e) cluster_UpdateFn" where
  "newAddonsConfigUpdateFn in' s name w =
     (let out = GenerateAddonsConfig in' container_Cluster0
      in Some (Clusters_Update s name (container_ClusterUpdate0\<lparr>kcu_DesiredAddonsConfig := kc_AddonsConfig out\<rparr>) w))"

definition cluster_newAutoscalingUpdateFn :: "ClusterAutoscaling option \<Rightarrow> ('w, 'e) cluster_UpdateFn" where
  "cluster_newAutoscalingUpdateFn in' s name w =
     (let out = cluster_GenerateAutoscaling in' container_Cluster0
      in Some (Clusters_Update s name (container_ClusterUpdate0\<lparr>kcu_DesiredClusterAutoscaling := kc_Autoscaling out\<rparr>) w))"

definition newBinaryAuthorizationUpdateFn :: "BinaryAuthorization option \<Rightarrow> ('w, 'e) cluster_UpdateFn" where
  "newBinaryAuthorizationUpdateFn in' s name w =
     (let out = GenerateBinaryAuthorization in' container_Cluster0
      in Some (Clusters_Update s name (container_ClusterUpdate0\<lparr>kcu_DesiredBinaryAuthorization := kc_BinaryAuthorization out\<rparr>) w))"

definition newAutopilotUpdateFn :: "Autopilot option \<Rightarrow> ('w, 'e) cluster_UpdateFn" where
  "newAutopilotUpdateFn in' s name w =
     (let out = GenerateAutopilot in' container_Cluster0
      in Some (Clusters_Update s name (container_ClusterUpdate0\<lparr>kcu_DesiredAutopilot := kc_Autopilot out\<rparr>) w))"

definition newDatabaseEncryptionUpdateFn :: "DatabaseEncryption option \<Rightarrow> ('w, 'e) cluster_UpdateFn" where
  "newDatabaseEncryptionUpdateFn in' s name w =
     (let out = GenerateDatabaseEncryption in' container_Cluster0
      in Some (Clusters_Update s name (container_ClusterUpdate0\<lparr>kcu_DesiredDatabaseEncryption := kc_DatabaseEncryption out\<rparr>) w))"

definition newLegacyAbacUpdateFn :: "LegacyAbac option \<Rightarrow> ('w, 'e) cluster_UpdateFn" where
  "newLegacyAbacUpdateFn in' s name w =
     (let out = GenerateLegacyAbac in' container_Cluster0 in do {
      l \<leftarrow> kc_LegacyAbac out;
      Some (Clusters_SetLegacyAbac s name (kla_Enabled l) w) })"

definition newLocationsUpdateFn :: "string slice \<Rightarrow> ('w, 'e) cluster_UpdateFn" where
  "newLocationsUpdateFn in' s name w =
     Some (Clusters_Update s name (container_ClusterUpdate0\<lparr>kcu_DesiredLocations := in'\<rparr>) w)"

definition newLoggingServiceUpdateFn :: "string option \<Rightarrow> ('w, 'e) cluster_UpdateFn" where
  "newLoggingServiceUpdateFn in' s name w =
     Some (Clusters_Update s name (container_ClusterUpdate0\<lparr>kcu_DesiredLoggingService := StringValue in'\<rparr>) w)"

definition newMaintenancePolicyUpdateFn :: "MaintenancePolicySpec option \<Rightarrow> ('w, 'e) cluster_UpdateFn" where
  "newMaintenancePolicyUpdateFn in' s name w =
     (let out = GenerateMaintenancePolicy in' container_Cluster0
      in Some (Clusters_SetMaintenancePolicy s name (kc_MaintenancePolicy out) w))"

definition newMasterAuthorizedNetworksConfigUpdateFn :: "MasterAuthorizedNetworksConfig option \<Rightarrow> ('w, 'e) cluster_UpdateFn" where
  "newMasterAuthorizedNetworksConfigUpdateFn in' s name w =
     (let out = GenerateMasterAuthorizedNetworksConfig in' container_Cluster0
      in Some (Clusters_Update s name (container_ClusterUpdate0\<lparr>kcu_DesiredMasterAuthorizedNetworksConfig := kc_MasterAuthorizedNetworksConfig out\<rparr>) w))"

definition newMonitoringServiceUpdateFn :: "string option \<Rightarrow> ('w, 'e) cluster_UpdateFn" where
  "newMonitoringServiceUpdateFn in' s name w =
     Some (Clusters_Update s name (container_ClusterUpdate0\<lparr>kcu_DesiredMonitoringService := StringValue in'\<rparr>) w)"

definition newDatapathProviderUpdateFn :: "string option \<Rightarrow> ('w, 'e) cluster_UpdateFn" where
  "newDatapathProviderUpdateFn in' s name w =
     Some (Clusters_Update s name (container_ClusterUpdate0\<lparr>kcu_DesiredDatapathProvider := StringValue in'\<rparr>) w)"

definition newIntraNodeVisibilityConfigUpdateFn :: "bool option \<Rightarrow> ('w, 'e) cluster_UpdateFn" where
  "newIntraNodeVisibilityConfigUpdateFn in' s name w =
     Some (Clusters_Update s name (container_ClusterUpdate0\<lparr>kcu_DesiredIntraNodeVisibilityConfig :=
       Some \<lparr>kiv_Enabled = BoolValue in'\<rparr>\<rparr>) w)"

definition newNetworkPolicyUpdateFn :: "NetworkPolicy option \<Rightarrow> ('w, 'e) cluster_UpdateFn" where
  "newNetworkPolicyUpdateFn in' s name w =
     (let out = GenerateNetworkPolicy in' container_Cluster0
      in Some (Clusters_SetNetworkPolicy s name (kc_NetworkPolicy out) w))"

definition newNotificationConfigUpdateFn :: "NotificationConfig option \<Rightarrow> ('w, 'e) cluster_UpdateFn" where
  "newNotificationConfigUpdateFn in' s name w =
     (let out = GenerateNotificationConfig in' container_Cluster0
      in Some (Clusters_Update s name (container_ClusterUpdate0\<lparr>kcu_DesiredNotificationConfig := kc_NotificationConfig out\<rparr>) w))"

definition newPrivateClusterConfigUpdateFn :: "PrivateClusterConfigSpec option \<Rightarrow> ('w, 'e) cluster_UpdateFn" where
  "newPrivateClusterConfigUpdateFn in' s name w =
     (let out = GeneratePrivateClusterConfig in' container_Cluster0
      in Some (Clusters_Update s name (container_ClusterUpdate0\<lparr>kcu_DesiredPrivateClusterConfig := kc_PrivateClusterConfig out\<rparr>) w))"

definition newReleaseChannelUpdateFn :: "ReleaseChannel option \<Rightarrow> ('w, 'e) cluster_UpdateFn" where
  "newReleaseChannelUpdateFn in' s name w =
     (let out = GenerateReleaseChannel in' container_Cluster0
      in Some (Clusters_Update s name (container_ClusterUpdate0\<lparr>kcu_DesiredReleaseChannel := kc_ReleaseChannel out\<rparr>) w))"

definition newResourceLabelsUpdateFn :: "strmap \<Rightarrow> ('w, 'e) cluster_UpdateFn" where
  "newResourceLabelsUpdateFn in' s name w = Some (Clusters_SetResourceLabels s name in' w)"

definition newResourceUsageExportConfigUpdateFn :: "ResourceUsageExportConfig option \<Rightarrow> ('w, 'e) cluster_UpdateFn" where
  "newResourceUsageExportConfigUpdateFn in' s name w =
     (let out = GenerateResourceUsageExportConfig in' container_Cluster0
      in Some (Clusters_Update s name (container_ClusterUpdate0\<lparr>kcu_DesiredResourceUsageExportConfig := kc_ResourceUsageExportConfig out\<rparr>) w))"

definition newVerticalPodAutoscalingUpdateFn :: "VerticalPodAutoscaling option \<Rightarrow> ('w, 'e) cluster_UpdateFn" where
  "newVerticalPodAutoscalingUpdateFn in' s name w =
     (let out = GenerateVerticalPodAutoscaling in' container_Cluster0
      in Some (Clusters_Update s name (container_ClusterUpdate0\<lparr>kcu_DesiredVerticalPodAutoscaling := kc_VerticalPodAutoscaling out\<rparr>) w))"

definition newWorkloadIdentityConfigUpdateFn :: "WorkloadIdentityConfig option \<Rightarrow> ('w, 'e) cluster_UpdateFn" where
  "newWorkloadIdentityConfigUpdateFn in' s name w =
     (let out = GenerateWorkloadIdentityConfig in' container_Cluster0
      in Some (Clusters_Update s name (container_ClusterUpdate0\<lparr>kcu_DesiredWorkloadIdentityConfig := kc_WorkloadIdentityConfig out\<rparr>) w))"

definition deleteBootstrapNodePoolFn :: "('w, 'e) cluster_UpdateFn" where
  "deleteBootstrapNodePoolFn s name w = Some (Clusters_NodePools_Delete s (GetFullyQualifiedBNP name) w)"

definition cluster_noOpUpdate :: "('w, 'e) cluster_UpdateFn" where
  "cluster_noOpUpdate s name w = Some (w, Inr ())"

section \<open>Comparison\<close>

fun bootstrap_loop :: "container_NodePool option list \<Rightarrow> bool" where
  "bootstrap_loop [] = False"
| "bootstrap_loop (pool # pools) = (case pool of
     None \<Rightarrow> bootstrap_loop pools
   | Some p \<Rightarrow> if cnp_Name p \<noteq> BootstrapNodePoolName then bootstrap_loop pools else True)"

definition checkForBootstrapNodePool :: "container_Cluster \<Rightarrow> bool" where
  "checkForBootstrapNodePool c = bootstrap_loop (elems (kc_NodePools c))"

text \<open>
  The comparison returns whether the cluster is up to date, the update function, the error, and the
  observed cluster, to which it may have added an empty network configuration. The checks are
  those of the source, in its order.
\<close>

definition cluster_checks_after_network ::
  "cluster_comparers \<Rightarrow> ClusterParameters \<Rightarrow> container_Cluster \<Rightarrow> container_Cluster
    \<Rightarrow> bool \<times> ('w, 'e) cluster_UpdateFn \<times> 'e option \<times> container_Cluster" where
  "cluster_checks_after_network c in' desired observed =
     (if \<not> netpolicy_cmp c (kc_NetworkPolicy desired) (kc_NetworkPolicy observed)
      then (False, newNetworkPolicyUpdateFn (ccp_NetworkPolicy in'), None, observed)
      else if \<not> notification_cmp c (kc_NotificationConfig desired) (kc_NotificationConfig observed)
      then (False, newNotificationConfigUpdateFn (ccp_NotificationConfig in'), None, observed)
      else if \<not> private_cmp c (kc_PrivateClusterConfig desired) (kc_PrivateClusterConfig observed)
      then (False, newPrivateClusterConfigUpdateFn (ccp_PrivateClusterConfig in'), None, observed)
      else if \<not> channel_cmp c (kc_ReleaseChannel desired) (kc_ReleaseChannel observed)
      then (False, newReleaseChannelUpdateFn (ccp_ReleaseChannel in'), None, observed)
      else if \<not> labels_cmp c (kc_ResourceLabels desired) (kc_ResourceLabels observed)
      then (False, newResourceLabelsUpdateFn (ccp_ResourceLabels in'), None, observed)
      else if \<not> export_cmp c (kc_ResourceUsageExportConfig desired) (kc_ResourceUsageExportConfig observed)
      then (False, newResourceUsageExportConfigUpdateFn (ccp_ResourceUsageExportConfig in'), None, observed)
      else if \<not> vpa_cmp c (kc_VerticalPodAutoscaling desired) (kc_VerticalPodAutoscaling observed)
      then (False, newVerticalPodAutoscalingUpdateFn (ccp_VerticalPodAutoscaling in'), None, observed)
      else if \<not> identity_cmp c (kc_WorkloadIdentityConfig desired) (kc_WorkloadIdentityConfig observed)
      then (False, newWorkloadIdentityConfigUpdateFn (ccp_WorkloadIdentityConfig in'), None, observed)
      else (True, cluster_noOpUpdate, None, observed))"

definition cluster_network_checks ::
  "cluster_comparers \<Rightarrow> ClusterParameters \<Rightarrow> container_Cluster \<Rightarrow> container_Cluster
    \<Rightarrow> (bool \<times> ('w, 'e) cluster_UpdateFn \<times> 'e option \<times> container_Cluster) option" where
  "cluster_network_checks c in' desired observed =
     (case kc_NetworkConfig desired of
        None \<Rightarrow> Some (cluster_checks_after_network c in' desired observed)
      | Some d \<Rightarrow>
          let n = (case kc_NetworkConfig observed of None \<Rightarrow> container_NetworkConfig0 | Some n \<Rightarrow> n);
              observed = observed\<lparr>kc_NetworkConfig := Some n\<rparr>
          in if \<not> bool_cmp c (knc_EnableIntraNodeVisibility d) (knc_EnableIntraNodeVisibility n)
             then do { s \<leftarrow> ccp_NetworkConfig in';
                       Some (False, newIntraNodeVisibilityConfigUpdateFn (ncs_EnableIntraNodeVisibility s), None, observed) }
             else if \<not> string_cmp c (knc_DatapathProvider d) (knc_DatapathProvider n)
             then do { s \<leftarrow> ccp_NetworkConfig in';
                       Some (False, newDatapathProviderUpdateFn (ncs_DatapathProvider s), None, observed) }
             else Some (cluster_checks_after_network c in' desired observed))"

definition cluster_IsUpToDate ::
  "('w, 'e) clusterExternal \<Rightarrow> string \<Rightarrow> ClusterParameters \<Rightarrow> container_Cluster
    \<Rightarrow> (bool \<times> ('w, 'e) cluster_UpdateFn \<times> 'e option \<times> container_Cluster) option" where
  "cluster_IsUpToDate e name in' observed =
     (let L = clx_runtime e; c = clx_cmp e in
      case clx_copy e observed of
        Inl err \<Rightarrow> Some (True, cluster_noOpUpdate, errors_Wrap L (Some err) cluster_client_errCheckUpToDate, observed)
      | Inr None \<Rightarrow> Some (True, cluster_noOpUpdate, Some (errors_New L cluster_client_errCheckUpToDate), observed)
      | Inr (Some desired) \<Rightarrow>
          let desired = GenerateCluster name in' desired in
          if checkForBootstrapNodePool observed
          then Some (False, deleteBootstrapNodePoolFn, None, observed)
          else if \<not> addons_cmp c (kc_AddonsConfig desired) (kc_AddonsConfig observed)
          then Some (False, newAddonsConfigUpdateFn (ccp_AddonsConfig in'), None, observed)
          else if \<not> autopilot_cmp c (kc_Autopilot desired) (kc_Autopilot observed)
          then Some (False, newAutopilotUpdateFn (ccp_Autopilot in'), None, observed)
          else if \<not> autoscaling_cmp c (kc_Autoscaling desired) (kc_Autoscaling observed)
          then Some (False, cluster_newAutoscalingUpdateFn (ccp_Autoscaling in'), None, observed)
          else if \<not> binauthz_cmp c (kc_BinaryAuthorization desired) (kc_BinaryAuthorization observed)
          then Some (False, newBinaryAuthorizationUpdateFn (ccp_BinaryAuthorization in'), None, observed)
          else if \<not> dbenc_cmp c (kc_DatabaseEncryption desired) (kc_DatabaseEncryption observed)
          then Some (False, newDatabaseEncryptionUpdateFn (ccp_DatabaseEncryption in'), None, observed)
          else if \<not> abac_cmp c (kc_LegacyAbac desired) (kc_LegacyAbac observed)
          then Some (False, newLegacyAbacUpdateFn (ccp_LegacyAbac in'), None, observed)
          else if \<not> slice_cmp c (kc_Locations desired) (kc_Locations observed)
          then Some (False, newLocationsUpdateFn (ccp_Locations in'), None, observed)
          else if \<not> string_cmp c (kc_LoggingService desired) (kc_LoggingService observed)
          then Some (False, newLoggingServiceUpdateFn (ccp_LoggingService in'), None, observed)
          else if \<not> maintenance_cmp c (kc_MaintenancePolicy desired) (kc_MaintenancePolicy observed)
          then Some (False, newMaintenancePolicyUpdateFn (ccp_MaintenancePolicy in'), None, observed)
          else if \<not> networks_cmp c (kc_MasterAuthorizedNetworksConfig desired) (kc_MasterAuthorizedNetworksConfig observed)
          then Some (False, newMasterAuthorizedNetworksConfigUpdateFn (ccp_MasterAuthorizedNetworksConfig in'), None, observed)
          else if \<not> string_cmp c (kc_MonitoringService desired) (kc_MonitoringService observed)
          then Some (False, newMonitoringServiceUpdateFn (ccp_MonitoringService in'), None, observed)
          else cluster_network_checks c in' desired observed)"

section \<open>Names and the kubeconfig\<close>

definition cluster_GetFullyQualifiedParent :: "string \<Rightarrow> ClusterParameters \<Rightarrow> string" where
  "cluster_GetFullyQualifiedParent project p = ''projects/'' @ project @ ''/locations/'' @ ccp_Location p"

definition cluster_GetFullyQualifiedName :: "string \<Rightarrow> ClusterParameters \<Rightarrow> string \<Rightarrow> string" where
  "cluster_GetFullyQualifiedName project p name =
     ''projects/'' @ project @ ''/locations/'' @ ccp_Location p @ ''/clusters/'' @ name"

definition GenerateClientConfig :: "('w, 'e) clusterExternal \<Rightarrow> container_Cluster \<Rightarrow> 'e + clientcmdapi_Config" where
  "GenerateClientConfig e cluster =
     (case kc_MasterAuth cluster of
        None \<Rightarrow> Inl (errors_New (clx_runtime e) errNoSecretInfo)
      | Some auth \<Rightarrow>
         (case DecodeString (kma_ClusterCaCertificate auth) of
            None \<Rightarrow> Inl (clx_base64_error e (kma_ClusterCaCertificate auth))
          | Some ca \<Rightarrow>
             (case DecodeString (kma_ClientCertificate auth) of
                None \<Rightarrow> Inl (clx_base64_error e (kma_ClientCertificate auth))
              | Some cert \<Rightarrow>
                 (case DecodeString (kma_ClientKey auth) of
                    None \<Rightarrow> Inl (clx_base64_error e (kma_ClientKey auth))
                  | Some key \<Rightarrow>
                      let name = kc_Name cluster in
                      Inr \<lparr>kcf_Clusters = fmupd name \<lparr>kcl_Server = ''https://'' @ kc_Endpoint cluster,
                                 kcl_CertificateAuthorityData = ca\<rparr> fmempty,
                           kcf_Contexts = fmupd name \<lparr>kcx_Cluster = name, kcx_AuthInfo = name\<rparr> fmempty,
                           kcf_AuthInfos = fmupd name \<lparr>kai_Username = kma_Username auth, kai_Password = kma_Password auth,
                                 kai_ClientCertificateData = cert, kai_ClientKeyData = key\<rparr> fmempty,
                           kcf_CurrentContext = name\<rparr>))))"

section \<open>Controller\<close>

definition errManagedUpdateFailed :: string where
  "errManagedUpdateFailed = ''cannot update Cluster custom resource''"
definition errNotCluster :: string where
  "errNotCluster = ''managed resource is not a Cluster''"
definition errGetCluster :: string where
  "errGetCluster = ''cannot get GKE cluster''"
definition errCreateCluster :: string where
  "errCreateCluster = ''cannot create GKE cluster''"
definition errUpdateCluster :: string where
  "errUpdateCluster = ''cannot update GKE cluster''"
definition errDeleteCluster :: string where
  "errDeleteCluster = ''cannot delete GKE cluster''"
definition errCheckClusterUpToDate :: string where
  "errCheckClusterUpToDate = ''cannot determine if GKE cluster is up to date''"

definition cluster_Connect ::
  "'e runtime \<Rightarrow> ('w, Cluster, 'src, 'sel, 'e) auth_api
    \<Rightarrow> (string \<Rightarrow> ClientOption option \<Rightarrow> ('w, ('w, 'e) clusterExternal, 'e) call)
    \<Rightarrow> Cluster \<Rightarrow> 'w \<Rightarrow> ('w \<times> ('w, 'e) clusterExternal option \<times> 'e option) option" where
  "cluster_Connect L c newService mg w = do {
     (w1, projectID, opts, err) \<leftarrow> GetAuthInfo L c mg w;
     if err \<noteq> None then Some (w1, None, err)
     else (case newService projectID opts w1 of
         (w2, Inl err) \<Rightarrow> Some (w2, None, errors_Wrap L (Some err) gke_errNewClient)
       | (w2, Inr s) \<Rightarrow> Some (w2, Some s, errors_Wrap L None gke_errNewClient)) }"

text \<open>The connection details; a map entry that is missing is a nil pointer.\<close>

definition cluster_connectionDetails ::
  "('w, 'e) clusterExternal \<Rightarrow> container_Cluster \<Rightarrow> ConnectionDetails option" where
  "cluster_connectionDetails e cluster =
     (case GenerateClientConfig e cluster of
        Inl _ \<Rightarrow> Some None
      | Inr config \<Rightarrow>
         (case clientcmd_Write e config of
            Inl _ \<Rightarrow> Some None
          | Inr rawConfig \<Rightarrow> do {
              c \<leftarrow> fmlookup (kcf_Clusters config) (kc_Name cluster);
              a \<leftarrow> fmlookup (kcf_AuthInfos config) (kc_Name cluster);
              Some (Some (fmap_of_list [
                (ResourceCredentialsSecretEndpointKey, kcl_Server c),
                (ResourceCredentialsSecretUserKey, kai_Username a),
                (ResourceCredentialsSecretPasswordKey, kai_Password a),
                (ResourceCredentialsSecretCAKey, kcl_CertificateAuthorityData c),
                (ResourceCredentialsSecretClientCertKey, kai_ClientCertificateData a),
                (ResourceCredentialsSecretClientKeyKey, kai_ClientKeyData a),
                (ResourceCredentialsSecretKubeconfigKey, rawConfig)])) }))"

definition cluster_conditions :: "string \<Rightarrow> Cluster \<Rightarrow> Cluster" where
  \<comment> \<open>the switch over the state; no condition is set for other states\<close>
  "cluster_conditions st cr =
     (if st = ClusterStateRunning \<or> st = ClusterStateReconciling then SetConditions Available cr
      else if st = ClusterStateProvisioning then SetConditions Creating cr
      else if st = ClusterStateUnspecified \<or> st = ClusterStateDegraded \<or> st = ClusterStateError
      then SetConditions Unavailable cr
      else cr)"

definition cluster_Observe ::
  "('w, 'e) clusterExternal \<Rightarrow> Cluster option \<Rightarrow> 'w \<Rightarrow> ('w, Cluster, ExternalObservation, 'e) outcome option" where
  "cluster_Observe e mg w =
     (let L = clx_runtime e in
      case mg of
        None \<Rightarrow> Some (w, None, ExternalObservation0, Some (errors_New L errNotCluster))
      | Some cr \<Rightarrow>
         (case Clusters_Get e (cluster_GetFullyQualifiedName (clx_projectID e) (ForProvider cr) (ExternalName cr)) w of
            (w1, Inl err) \<Rightarrow> Some (w1, Some cr, ExternalObservation0,
               errors_Wrap L (resource_Ignore L (IsErrorNotFound L) (Some err)) errGetCluster)
          | (w1, Inr existing) \<Rightarrow>
              let cr = cr\<lparr>AtProvider := cluster_GenerateObservation existing\<rparr>;
                  currentSpec = ForProvider cr in do {
              spec \<leftarrow> cluster_LateInitializeSpec (ForProvider cr) existing;
              let cr = cr\<lparr>ForProvider := spec\<rparr>;
              let (w2, cr, err) = (if \<not> clx_spec_cmp e currentSpec (ForProvider cr)
                                   then clx_kube_Update e cr w1 else (w1, cr, None));
              if err \<noteq> None
              then Some (w2, Some cr, ExternalObservation0, errors_Wrap L err errManagedUpdateFailed)
              else do {
                let cr = cluster_conditions (cob_Status (AtProvider cr)) cr;
                (u, fn, err, existing) \<leftarrow> cluster_IsUpToDate e (ExternalName cr) (ForProvider cr) existing;
                if err \<noteq> None
                then Some (w2, Some cr, ExternalObservation0, errors_Wrap L err errCheckClusterUpToDate)
                else do {
                  details \<leftarrow> cluster_connectionDetails e existing;
                  Some (w2, Some cr, ExternalObservation0\<lparr>ResourceExists := True, ResourceUpToDate := u,
                          ObservedDetails := details\<rparr>, None) } } }))"

definition cluster_Create ::
  "('w, 'e) clusterExternal \<Rightarrow> Cluster option \<Rightarrow> 'w \<Rightarrow> ('w, Cluster, ExternalCreation, 'e) outcome" where
  "cluster_Create e mg w =
     (let L = clx_runtime e in
      case mg of
        None \<Rightarrow> (w, None, ExternalCreation0, Some (errors_New L errNotCluster))
      | Some cr \<Rightarrow>
          let cr = SetConditions Creating cr in
          \<comment> \<open>wait until creation is complete if already provisioning\<close>
          if cob_Status (AtProvider cr) = ClusterStateProvisioning then (w, Some cr, ExternalCreation0, None)
          else let cluster = GenerateCluster (ExternalName cr) (ForProvider cr) container_Cluster0;
                   cluster = (case kc_Autopilot cluster of
                       None \<Rightarrow> AddNodePoolForCreate cluster
                     | Some a \<Rightarrow> if \<not> kap_Enabled a then AddNodePoolForCreate cluster else cluster);
                   r = Clusters_Create e (cluster_GetFullyQualifiedParent (clx_projectID e) (ForProvider cr)) cluster w
               in (fst r, Some cr, ExternalCreation0, errors_Wrap L (call_error r) errCreateCluster))"

definition cluster_Update ::
  "('w, 'e) clusterExternal \<Rightarrow> Cluster option \<Rightarrow> 'w \<Rightarrow> ('w, Cluster, ExternalUpdate, 'e) outcome option" where
  "cluster_Update e mg w =
     (let L = clx_runtime e in
      case mg of
        None \<Rightarrow> Some (w, None, ExternalUpdate0, Some (errors_New L errNotCluster))
      | Some cr \<Rightarrow>
          if cob_Status (AtProvider cr) = ClusterStateReconciling \<or> cob_Status (AtProvider cr) = ClusterStateProvisioning
          then Some (w, Some cr, ExternalUpdate0, None)
          else
            let fqn = cluster_GetFullyQualifiedName (clx_projectID e) (ForProvider cr) (ExternalName cr) in
            case Clusters_Get e fqn w of
              (w1, Inl err) \<Rightarrow> Some (w1, Some cr, ExternalUpdate0, errors_Wrap L (Some err) errGetCluster)
            | (w1, Inr existing) \<Rightarrow> do {
                (u, fn, err, existing) \<leftarrow> cluster_IsUpToDate e (ExternalName cr) (ForProvider cr) existing;
                if err \<noteq> None
                then Some (w1, Some cr, ExternalUpdate0, errors_Wrap L err errCheckClusterUpToDate)
                else if u then Some (w1, Some cr, ExternalUpdate0, None)
                else do {
                  r \<leftarrow> fn e fqn w1;
                  Some (fst r, Some cr, ExternalUpdate0, errors_Wrap L (call_error r) errUpdateCluster) } })"

definition cluster_Delete ::
  "('w, 'e) clusterExternal \<Rightarrow> Cluster option \<Rightarrow> 'w \<Rightarrow> ('w, Cluster, unit, 'e) outcome" where
  "cluster_Delete e mg w =
     (let L = clx_runtime e in
      case mg of
        None \<Rightarrow> (w, None, (), Some (errors_New L errNotCluster))
      | Some cr \<Rightarrow>
          let cr = SetConditions Deleting cr in
          \<comment> \<open>wait until deletion is complete if already deleting\<close>
          if cob_Status (AtProvider cr) = ClusterStateStopping then (w, Some cr, (), None)
          else let r = Clusters_Delete e (cluster_GetFullyQualifiedName (clx_projectID e) (ForProvider cr) (ExternalName cr)) w
               in (fst r, Some cr, (),
                   errors_Wrap L (resource_Ignore L (IsErrorNotFound L) (call_error r)) errDeleteCluster))"

end
