(* ===== verification/Gke_Cluster_Late.thy ===== *)
theory Gke_Cluster_Late
  imports Gke_Cluster_Control
begin

text \<open>
  The translation functions of the cluster client: the desired cluster field by field, and late
  initialisation, when it panics and that it settles.
\<close>

section \<open>The desired cluster, field by field\<close>

lemmas cluster_gen_defs =
  GenerateAddonsConfig_def GenerateAutopilot_def GenerateAuthenticatorGroupsConfig_def cluster_GenerateAutoscaling_def
  GenerateConfidentialNodes_def GenerateBinaryAuthorization_def GenerateDatabaseEncryption_def
  GenerateDefaultMaxPodsConstraint_def GenerateIPAllocationPolicy_def GenerateLegacyAbac_def GenerateMaintenancePolicy_def
  GenerateMasterAuth_def GenerateMasterAuthorizedNetworksConfig_def GenerateNetworkConfig_def GenerateNetworkPolicy_def
  GenerateNotificationConfig_def GeneratePrivateClusterConfig_def GenerateReleaseChannel_def
  GenerateResourceUsageExportConfig_def GenerateVerticalPodAutoscaling_def GenerateWorkloadIdentityConfig_def

lemma GenerateCluster_simps:
  "kc_AddonsConfig (GenerateCluster name p x) = kc_AddonsConfig (GenerateAddonsConfig (ccp_AddonsConfig p) x)"
  "kc_Autopilot (GenerateCluster name p x) = kc_Autopilot (GenerateAutopilot (ccp_Autopilot p) x)"
  "kc_Autoscaling (GenerateCluster name p x) = kc_Autoscaling (cluster_GenerateAutoscaling (ccp_Autoscaling p) x)"
  "kc_BinaryAuthorization (GenerateCluster name p x) = kc_BinaryAuthorization (GenerateBinaryAuthorization (ccp_BinaryAuthorization p) x)"
  "kc_DatabaseEncryption (GenerateCluster name p x) = kc_DatabaseEncryption (GenerateDatabaseEncryption (ccp_DatabaseEncryption p) x)"
  "kc_LegacyAbac (GenerateCluster name p x) = kc_LegacyAbac (GenerateLegacyAbac (ccp_LegacyAbac p) x)"
  "kc_Locations (GenerateCluster name p x) = ccp_Locations p"
  "kc_LoggingService (GenerateCluster name p x) = StringValue (ccp_LoggingService p)"
  "kc_MaintenancePolicy (GenerateCluster name p x) = kc_MaintenancePolicy (GenerateMaintenancePolicy (ccp_MaintenancePolicy p) x)"
  "kc_MasterAuthorizedNetworksConfig (GenerateCluster name p x)
     = kc_MasterAuthorizedNetworksConfig (GenerateMasterAuthorizedNetworksConfig (ccp_MasterAuthorizedNetworksConfig p) x)"
  "kc_MonitoringService (GenerateCluster name p x) = StringValue (ccp_MonitoringService p)"
  "kc_NetworkConfig (GenerateCluster name p x) = kc_NetworkConfig (GenerateNetworkConfig (ccp_NetworkConfig p) x)"
  "kc_NetworkPolicy (GenerateCluster name p x) = kc_NetworkPolicy (GenerateNetworkPolicy (ccp_NetworkPolicy p) x)"
  "kc_NotificationConfig (GenerateCluster name p x) = kc_NotificationConfig (GenerateNotificationConfig (ccp_NotificationConfig p) x)"
  "kc_PrivateClusterConfig (GenerateCluster name p x) = kc_PrivateClusterConfig (GeneratePrivateClusterConfig (ccp_PrivateClusterConfig p) x)"
  "kc_ReleaseChannel (GenerateCluster name p x) = kc_ReleaseChannel (GenerateReleaseChannel (ccp_ReleaseChannel p) x)"
  "kc_ResourceLabels (GenerateCluster name p x) = ccp_ResourceLabels p"
  "kc_ResourceUsageExportConfig (GenerateCluster name p x)
     = kc_ResourceUsageExportConfig (GenerateResourceUsageExportConfig (ccp_ResourceUsageExportConfig p) x)"
  "kc_VerticalPodAutoscaling (GenerateCluster name p x) = kc_VerticalPodAutoscaling (GenerateVerticalPodAutoscaling (ccp_VerticalPodAutoscaling p) x)"
  "kc_WorkloadIdentityConfig (GenerateCluster name p x) = kc_WorkloadIdentityConfig (GenerateWorkloadIdentityConfig (ccp_WorkloadIdentityConfig p) x)"
  "kc_NodePools (GenerateCluster name p x) = kc_NodePools x" "kc_Name (GenerateCluster name p x) = name"
  by (simp_all add: GenerateCluster_def Let_def cluster_gen_defs)

section \<open>Late initialisation\<close>

lemma cl_late_idems [simp]:
  "late_pool_defaults (late_pool_defaults d x) x = late_pool_defaults d x"
  "late_allocation (late_allocation a y) y = late_allocation a y"
  "late_master_auth (late_master_auth m z) z = late_master_auth m z"
  "late_network_config (late_network_config n u) u = late_network_config n u"
  "late_private_cluster (late_private_cluster q v) v = late_private_cluster q v"
  "late_usage_export (late_usage_export r w) w = late_usage_export r w"
  by (simp_all add: late_pool_defaults_def late_allocation_def late_master_auth_def late_network_config_def
      late_private_cluster_def late_usage_export_def late_block_settles split: option.split)

lemma late_addons_settles: "late_addons s x = Some s' \<Longrightarrow> late_addons s' x = Some s'"
  by (auto simp: late_addons_def Let_def bind_eq_Some_conv split: option.splits)

lemma late_cluster_autoscaling_settles:
  "late_cluster_autoscaling s x = Some s' \<Longrightarrow> late_cluster_autoscaling s' x = Some s'"
  by (auto simp: late_cluster_autoscaling_def Let_def bind_eq_Some_conv late_slice_settles late_block_settles split: option.splits)

lemma late_maintenance_policy_settles:
  "late_maintenance_policy s x = Some s' \<Longrightarrow> late_maintenance_policy s' x = Some s'"
  by (auto simp: late_maintenance_policy_def split: option.splits if_splits)

lemma late_authorized_networks_settles:
  "late_authorized_networks s x = Some s' \<Longrightarrow> late_authorized_networks s' x = Some s'"
  by (auto simp: late_authorized_networks_def Let_def bind_eq_Some_conv late_slice_settles split: option.splits)

lemma cluster_init_settles:
  "cluster_LateInitializeSpec s x = Some s' \<Longrightarrow> cluster_LateInitializeSpec s' x = Some s'"
  by (auto simp: cluster_LateInitializeSpec_def bind_eq_Some_conv late_addons_settles late_cluster_autoscaling_settles
      late_maintenance_policy_settles late_authorized_networks_settles late_block_settles)

interpretation cluster_init: settling_initializer cluster_LateInitializeSpec
  by unfold_locales (rule cluster_init_settles)

text \<open>When late initialisation panics.\<close>

lemma late_addons_None:
  "late_addons s x = None \<longleftrightarrow> Option.bind x kad_CloudRunConfig \<noteq> None \<and> Option.bind s adn_CloudRunConfig = None"
  by (cases s; cases x) (auto simp: late_addons_def Let_def AddonsConfig0_def bind_eq_None_conv split: option.splits)

lemma late_cluster_autoscaling_None:
  "late_cluster_autoscaling s x = None \<longleftrightarrow>
     len (Option.bind s cas_ResourceLimits) = 0 \<and> None \<in> set (elems (Option.bind x kas_ResourceLimits))"
  by (cases s; cases x) (auto simp: late_cluster_autoscaling_def Let_def ClusterAutoscaling0_def bind_eq_None_conv late_slice_None_iff)

lemma late_maintenance_policy_None:
  "late_maintenance_policy s x = None \<longleftrightarrow>
     s = None \<and> Option.bind (Option.bind x kmp_Window) kmw_RecurringWindow \<noteq> None"
  by (cases s; cases "Option.bind x kmp_Window") (auto simp: late_maintenance_policy_def)

lemma late_authorized_networks_None:
  "late_authorized_networks s x = None \<longleftrightarrow>
     len (Option.bind s man_CidrBlocks) = 0 \<and> None \<in> set (elems (Option.bind x kmn_CidrBlocks))"
  by (cases s; cases x) (auto simp: late_authorized_networks_def Let_def MasterAuthorizedNetworksConfig0_def bind_eq_None_conv late_slice_None_iff)

lemma cluster_init_None:
  "cluster_LateInitializeSpec s x = None \<longleftrightarrow>
     late_addons (ccp_AddonsConfig s) (kc_AddonsConfig x) = None
     \<or> late_cluster_autoscaling (ccp_Autoscaling s) (kc_Autoscaling x) = None
     \<or> late_maintenance_policy (ccp_MaintenancePolicy s) (kc_MaintenancePolicy x) = None
     \<or> late_authorized_networks (ccp_MasterAuthorizedNetworksConfig s) (kc_MasterAuthorizedNetworksConfig x) = None"
  by (auto simp: cluster_LateInitializeSpec_def bind_eq_None_conv)

end
