(* ===== verification/Gke_Cluster_Stages.thy ===== *)
theory Gke_Cluster_Stages
  imports Gke_Cluster_Late
begin

text \<open>
  The comparison of a cluster with its spec as a search for the first aspect that differs, and the
  effect that the requests have on the cluster, as the container service documents it.
\<close>

section \<open>Updates, one aspect at a time\<close>

text \<open>The aspects that are compared, in the order of the comparison.\<close>

datatype cl_stage = ClBootstrap
  | ClAddons | ClAutopilot | ClAutoscaling | ClBinaryAuthorization | ClDatabaseEncryption | ClLegacyAbac |
    ClLocations | ClLoggingService | ClMaintenancePolicy | ClAuthorizedNetworks | ClMonitoringService |
    ClIntraNodeVisibility | ClDatapathProvider | ClNetworkPolicy | ClNotification | ClPrivateCluster |
    ClReleaseChannel | ClResourceLabels | ClResourceUsageExport | ClVerticalPodAutoscaling | ClWorkloadIdentity

definition cl_stages_before :: "cl_stage list" where
  "cl_stages_before = [ClBootstrap, ClAddons, ClAutopilot, ClAutoscaling, ClBinaryAuthorization, ClDatabaseEncryption, ClLegacyAbac,
     ClLocations, ClLoggingService, ClMaintenancePolicy, ClAuthorizedNetworks, ClMonitoringService]"

definition cl_stages_after :: "cl_stage list" where
  "cl_stages_after = [ClNetworkPolicy, ClNotification, ClPrivateCluster, ClReleaseChannel, ClResourceLabels, ClResourceUsageExport,
     ClVerticalPodAutoscaling, ClWorkloadIdentity]"

definition cl_stages :: "cl_stage list" where
  "cl_stages = cl_stages_before @ [ClIntraNodeVisibility, ClDatapathProvider] @ cl_stages_after"

text \<open>The network configuration that is compared; a missing one counts as an empty one.\<close>

definition network_of :: "container_Cluster \<Rightarrow> container_NetworkConfig" where
  "network_of x = (case kc_NetworkConfig x of None \<Rightarrow> container_NetworkConfig0 | Some n \<Rightarrow> n)"

fun cl_pending :: "('w, 'e) clusterExternal \<Rightarrow> string \<Rightarrow> ClusterParameters \<Rightarrow> cl_stage \<Rightarrow> container_Cluster \<Rightarrow> bool" where
  "cl_pending e name p ClBootstrap x = checkForBootstrapNodePool x"
| "cl_pending e name p ClAddons x = (\<not> addons_cmp (clx_cmp e) (kc_AddonsConfig (GenerateCluster name p x)) (kc_AddonsConfig x))"
| "cl_pending e name p ClAutopilot x = (\<not> autopilot_cmp (clx_cmp e) (kc_Autopilot (GenerateCluster name p x)) (kc_Autopilot x))"
| "cl_pending e name p ClAutoscaling x = (\<not> autoscaling_cmp (clx_cmp e) (kc_Autoscaling (GenerateCluster name p x)) (kc_Autoscaling x))"
| "cl_pending e name p ClBinaryAuthorization x = (\<not> binauthz_cmp (clx_cmp e) (kc_BinaryAuthorization (GenerateCluster name p x)) (kc_BinaryAuthorization x))"
| "cl_pending e name p ClDatabaseEncryption x = (\<not> dbenc_cmp (clx_cmp e) (kc_DatabaseEncryption (GenerateCluster name p x)) (kc_DatabaseEncryption x))"
| "cl_pending e name p ClLegacyAbac x = (\<not> abac_cmp (clx_cmp e) (kc_LegacyAbac (GenerateCluster name p x)) (kc_LegacyAbac x))"
| "cl_pending e name p ClLocations x = (\<not> slice_cmp (clx_cmp e) (kc_Locations (GenerateCluster name p x)) (kc_Locations x))"
| "cl_pending e name p ClLoggingService x = (\<not> string_cmp (clx_cmp e) (kc_LoggingService (GenerateCluster name p x)) (kc_LoggingService x))"
| "cl_pending e name p ClMaintenancePolicy x = (\<not> maintenance_cmp (clx_cmp e) (kc_MaintenancePolicy (GenerateCluster name p x)) (kc_MaintenancePolicy x))"
| "cl_pending e name p ClAuthorizedNetworks x = (\<not> networks_cmp (clx_cmp e) (kc_MasterAuthorizedNetworksConfig (GenerateCluster name p x)) (kc_MasterAuthorizedNetworksConfig x))"
| "cl_pending e name p ClMonitoringService x = (\<not> string_cmp (clx_cmp e) (kc_MonitoringService (GenerateCluster name p x)) (kc_MonitoringService x))"
| "cl_pending e name p ClIntraNodeVisibility x = (case kc_NetworkConfig (GenerateCluster name p x) of None \<Rightarrow> False
     | Some d \<Rightarrow> \<not> bool_cmp (clx_cmp e) (knc_EnableIntraNodeVisibility d) (knc_EnableIntraNodeVisibility (network_of x)))"
| "cl_pending e name p ClDatapathProvider x = (case kc_NetworkConfig (GenerateCluster name p x) of None \<Rightarrow> False
     | Some d \<Rightarrow> \<not> string_cmp (clx_cmp e) (knc_DatapathProvider d) (knc_DatapathProvider (network_of x)))"
| "cl_pending e name p ClNetworkPolicy x = (\<not> netpolicy_cmp (clx_cmp e) (kc_NetworkPolicy (GenerateCluster name p x)) (kc_NetworkPolicy x))"
| "cl_pending e name p ClNotification x = (\<not> notification_cmp (clx_cmp e) (kc_NotificationConfig (GenerateCluster name p x)) (kc_NotificationConfig x))"
| "cl_pending e name p ClPrivateCluster x = (\<not> private_cmp (clx_cmp e) (kc_PrivateClusterConfig (GenerateCluster name p x)) (kc_PrivateClusterConfig x))"
| "cl_pending e name p ClReleaseChannel x = (\<not> channel_cmp (clx_cmp e) (kc_ReleaseChannel (GenerateCluster name p x)) (kc_ReleaseChannel x))"
| "cl_pending e name p ClResourceLabels x = (\<not> labels_cmp (clx_cmp e) (kc_ResourceLabels (GenerateCluster name p x)) (kc_ResourceLabels x))"
| "cl_pending e name p ClResourceUsageExport x = (\<not> export_cmp (clx_cmp e) (kc_ResourceUsageExportConfig (GenerateCluster name p x)) (kc_ResourceUsageExportConfig x))"
| "cl_pending e name p ClVerticalPodAutoscaling x = (\<not> vpa_cmp (clx_cmp e) (kc_VerticalPodAutoscaling (GenerateCluster name p x)) (kc_VerticalPodAutoscaling x))"
| "cl_pending e name p ClWorkloadIdentity x = (\<not> identity_cmp (clx_cmp e) (kc_WorkloadIdentityConfig (GenerateCluster name p x)) (kc_WorkloadIdentityConfig x))"

fun cl_update_of :: "ClusterParameters \<Rightarrow> cl_stage \<Rightarrow> ('w, 'e) cluster_UpdateFn" where
  "cl_update_of p ClBootstrap = deleteBootstrapNodePoolFn"
| "cl_update_of p ClAddons = newAddonsConfigUpdateFn (ccp_AddonsConfig p)"
| "cl_update_of p ClAutopilot = newAutopilotUpdateFn (ccp_Autopilot p)"
| "cl_update_of p ClAutoscaling = cluster_newAutoscalingUpdateFn (ccp_Autoscaling p)"
| "cl_update_of p ClBinaryAuthorization = newBinaryAuthorizationUpdateFn (ccp_BinaryAuthorization p)"
| "cl_update_of p ClDatabaseEncryption = newDatabaseEncryptionUpdateFn (ccp_DatabaseEncryption p)"
| "cl_update_of p ClLegacyAbac = newLegacyAbacUpdateFn (ccp_LegacyAbac p)"
| "cl_update_of p ClLocations = newLocationsUpdateFn (ccp_Locations p)"
| "cl_update_of p ClLoggingService = newLoggingServiceUpdateFn (ccp_LoggingService p)"
| "cl_update_of p ClMaintenancePolicy = newMaintenancePolicyUpdateFn (ccp_MaintenancePolicy p)"
| "cl_update_of p ClAuthorizedNetworks = newMasterAuthorizedNetworksConfigUpdateFn (ccp_MasterAuthorizedNetworksConfig p)"
| "cl_update_of p ClMonitoringService = newMonitoringServiceUpdateFn (ccp_MonitoringService p)"
| "cl_update_of p ClIntraNodeVisibility = newIntraNodeVisibilityConfigUpdateFn (Option.bind (ccp_NetworkConfig p) ncs_EnableIntraNodeVisibility)"
| "cl_update_of p ClDatapathProvider = newDatapathProviderUpdateFn (Option.bind (ccp_NetworkConfig p) ncs_DatapathProvider)"
| "cl_update_of p ClNetworkPolicy = newNetworkPolicyUpdateFn (ccp_NetworkPolicy p)"
| "cl_update_of p ClNotification = newNotificationConfigUpdateFn (ccp_NotificationConfig p)"
| "cl_update_of p ClPrivateCluster = newPrivateClusterConfigUpdateFn (ccp_PrivateClusterConfig p)"
| "cl_update_of p ClReleaseChannel = newReleaseChannelUpdateFn (ccp_ReleaseChannel p)"
| "cl_update_of p ClResourceLabels = newResourceLabelsUpdateFn (ccp_ResourceLabels p)"
| "cl_update_of p ClResourceUsageExport = newResourceUsageExportConfigUpdateFn (ccp_ResourceUsageExportConfig p)"
| "cl_update_of p ClVerticalPodAutoscaling = newVerticalPodAutoscalingUpdateFn (ccp_VerticalPodAutoscaling p)"
| "cl_update_of p ClWorkloadIdentity = newWorkloadIdentityConfigUpdateFn (ccp_WorkloadIdentityConfig p)"

text \<open>What the comparisons promise: \<open>cmp.Equal\<close> is reflexive, the one of the addons ignores the fields
  \<open>ForceSendFields\<close>, and the one of string slices equates nil with empty ones.\<close>

definition drop_force_send :: "container_AddonsConfig \<Rightarrow> container_AddonsConfig" where
  "drop_force_send c = c\<lparr>
     kad_CloudRunConfig := map_option (\<lambda>a. a\<lparr>kcr_ForceSendFields := None\<rparr>) (kad_CloudRunConfig c),
     kad_ConfigConnectorConfig := map_option (\<lambda>a. a\<lparr>kcc_ForceSendFields := None\<rparr>) (kad_ConfigConnectorConfig c),
     kad_DnsCacheConfig := map_option (\<lambda>a. a\<lparr>kdn_ForceSendFields := None\<rparr>) (kad_DnsCacheConfig c),
     kad_GcePersistentDiskCsiDriverConfig := map_option (\<lambda>a. a\<lparr>kpd_ForceSendFields := None\<rparr>) (kad_GcePersistentDiskCsiDriverConfig c),
     kad_HorizontalPodAutoscaling := map_option (\<lambda>a. a\<lparr>khp_ForceSendFields := None\<rparr>) (kad_HorizontalPodAutoscaling c),
     kad_HttpLoadBalancing := map_option (\<lambda>a. a\<lparr>khl_ForceSendFields := None\<rparr>) (kad_HttpLoadBalancing c),
     kad_KubernetesDashboard := map_option (\<lambda>a. a\<lparr>kkd_ForceSendFields := None\<rparr>) (kad_KubernetesDashboard c),
     kad_NetworkPolicyConfig := map_option (\<lambda>a. a\<lparr>knp_ForceSendFields := None\<rparr>) (kad_NetworkPolicyConfig c)\<rparr>"

definition cl_cmp_ok :: "cluster_comparers \<Rightarrow> bool" where
  "cl_cmp_ok c \<longleftrightarrow> cmp_refl (abac_cmp c) \<and> cmp_refl (addons_cmp c) \<and> cmp_refl (autopilot_cmp c) \<and> cmp_refl (autoscaling_cmp c) \<and> cmp_refl (binauthz_cmp c) \<and> cmp_refl (bool_cmp c)
     \<and> cmp_refl (channel_cmp c) \<and> cmp_refl (dbenc_cmp c) \<and> cmp_refl (export_cmp c) \<and> cmp_refl (identity_cmp c)
     \<and> cmp_refl (labels_cmp c) \<and> cmp_refl (maintenance_cmp c) \<and> cmp_refl (netpolicy_cmp c) \<and> cmp_refl (networks_cmp c) \<and> cmp_refl (notification_cmp c)
     \<and> cmp_refl (private_cmp c) \<and> cmp_refl (slice_cmp c) \<and> cmp_refl (string_cmp c) \<and> cmp_refl (vpa_cmp c)
     \<and> cmp_respects (map_option drop_force_send) (addons_cmp c) \<and> cmp_respects nil_slice (slice_cmp c)"

lemma first_pending_append:
  "first_pending P (xs @ ys) x = (case first_pending P xs x of None \<Rightarrow> first_pending P ys x | Some k \<Rightarrow> Some k)"
  by (induction xs) (auto simp: first_pending_def)

lemma first_pending_Cons: "first_pending P (k # ks) x = (if P k x then Some k else first_pending P ks x)"
  "first_pending P [] x = None"
  by (auto simp: first_pending_def)

lemma search_result:
  "(case (if b then Some k else o') of None \<Rightarrow> u | Some k \<Rightarrow> f k) = (if b then f k else (case o' of None \<Rightarrow> u | Some k \<Rightarrow> f k))"
  by simp

lemma cl_checks_after:
  "cluster_checks_after_network (clx_cmp e) p (GenerateCluster name p x) (x\<lparr>kc_NetworkConfig := n\<rparr>) =
     (case first_pending (cl_pending e name p) cl_stages_after x of
        None \<Rightarrow> (True, cluster_noOpUpdate, None, x\<lparr>kc_NetworkConfig := n\<rparr>)
      | Some k \<Rightarrow> (False, cl_update_of p k, None, x\<lparr>kc_NetworkConfig := n\<rparr>))"
  by (simp add: cluster_checks_after_network_def cl_stages_after_def first_pending_Cons search_result cong del: if_weak_cong split del: if_split)

lemma cl_checks_before:
  assumes "copy_ok (clx_copy e)"
  shows "cluster_IsUpToDate e name p x =
     (case first_pending (cl_pending e name p) cl_stages_before x of
        None \<Rightarrow> cluster_network_checks (clx_cmp e) p (GenerateCluster name p x) x
      | Some k \<Rightarrow> Some (False, cl_update_of p k, None, x))"
  using assms by (simp add: cluster_IsUpToDate_def copy_ok_def Let_def cl_stages_before_def first_pending_Cons search_result
      cong del: if_weak_cong split del: if_split)

lemma cl_checks_network:
  assumes "cmp_refl (bool_cmp (clx_cmp e))" and "cmp_refl (string_cmp (clx_cmp e))"
  shows "\<exists>n. cluster_network_checks (clx_cmp e) p (GenerateCluster name p x) x =
     Some (case first_pending (cl_pending e name p) ([ClIntraNodeVisibility, ClDatapathProvider] @ cl_stages_after) x of
        None \<Rightarrow> (True, cluster_noOpUpdate, None, x\<lparr>kc_NetworkConfig := n\<rparr>)
      | Some k \<Rightarrow> (False, cl_update_of p k, None, x\<lparr>kc_NetworkConfig := n\<rparr>))
     \<and> n \<in> {kc_NetworkConfig x, Some (network_of x)}"
proof (cases "kc_NetworkConfig (GenerateCluster name p x)")
  case None
  then show ?thesis
    using cl_checks_after [of e p name x "kc_NetworkConfig x"]
    by (intro exI [of _ "kc_NetworkConfig x"]) (simp add: cluster_network_checks_def first_pending_Cons)
next
  case (Some d)
  have spec: "d = network_of x" if "ccp_NetworkConfig p = None"
    using Some that by (simp add: GenerateCluster_simps GenerateNetworkConfig_def gen_block_def network_of_def)
  have "cluster_network_checks (clx_cmp e) p (GenerateCluster name p x) x =
     Some (case first_pending (cl_pending e name p) ([ClIntraNodeVisibility, ClDatapathProvider] @ cl_stages_after) x of
        None \<Rightarrow> (True, cluster_noOpUpdate, None, x\<lparr>kc_NetworkConfig := Some (network_of x)\<rparr>)
      | Some k \<Rightarrow> (False, cl_update_of p k, None, x\<lparr>kc_NetworkConfig := Some (network_of x)\<rparr>))"
  proof (cases "cl_pending e name p ClIntraNodeVisibility x \<or> cl_pending e name p ClDatapathProvider x")
    case True
    with Some have "\<not> bool_cmp (clx_cmp e) (knc_EnableIntraNodeVisibility d) (knc_EnableIntraNodeVisibility (network_of x))
      \<or> \<not> string_cmp (clx_cmp e) (knc_DatapathProvider d) (knc_DatapathProvider (network_of x))" by simp
    then obtain s where "ccp_NetworkConfig p = Some s" using spec assms by (cases "ccp_NetworkConfig p") (auto simp: cmp_refl_def)
    with Some True show ?thesis
      by (auto simp: cluster_network_checks_def first_pending_Cons network_of_def [symmetric] Let_def)
  next
    case False
    with Some show ?thesis
      by (simp add: cluster_network_checks_def first_pending_Cons cl_checks_after network_of_def [symmetric] Let_def)
  qed
  then show ?thesis by blast
qed

lemma cluster_IsUpToDate_search:
  assumes "copy_ok (clx_copy e)" and "cl_cmp_ok (clx_cmp e)"
  shows "\<exists>n. cluster_IsUpToDate e name p x =
     Some (case first_pending (cl_pending e name p) cl_stages x of
        None \<Rightarrow> (True, cluster_noOpUpdate, None, x\<lparr>kc_NetworkConfig := n\<rparr>)
      | Some k \<Rightarrow> (False, cl_update_of p k, None, x\<lparr>kc_NetworkConfig := n\<rparr>))
     \<and> n \<in> {kc_NetworkConfig x, Some (network_of x)}"
proof (cases "first_pending (cl_pending e name p) cl_stages_before x")
  case None
  with assms cl_checks_network [of e p name x] show ?thesis
    by (simp add: cl_checks_before cl_stages_def first_pending_append cl_cmp_ok_def)
next
  case (Some k)
  with assms(1) show ?thesis
    by (intro exI [of _ "kc_NetworkConfig x"]) (simp add: cl_checks_before cl_stages_def first_pending_append)
qed

section \<open>The effect of the requests\<close>

text \<open>
  As the service documents them: an update changes the parts of the cluster that are present in the
  request. The addons are switched one by one, and a private cluster keeps its endpoints; \<open>ForceSendFields\<close> is not
  part of the data. The other requests replace the aspect they are about.
\<close>

definition apply_addons :: "container_AddonsConfig option \<Rightarrow> container_AddonsConfig option \<Rightarrow> container_AddonsConfig option" where
  "apply_addons u x = (case u of None \<Rightarrow> x | Some a \<Rightarrow>
     let r = drop_force_send a; c = (case x of None \<Rightarrow> container_AddonsConfig0 | Some c \<Rightarrow> c)
     in Some (c\<lparr>kad_CloudRunConfig := late_ptr (kad_CloudRunConfig r) (kad_CloudRunConfig c),
       kad_ConfigConnectorConfig := late_ptr (kad_ConfigConnectorConfig r) (kad_ConfigConnectorConfig c),
       kad_DnsCacheConfig := late_ptr (kad_DnsCacheConfig r) (kad_DnsCacheConfig c),
       kad_GcePersistentDiskCsiDriverConfig := late_ptr (kad_GcePersistentDiskCsiDriverConfig r) (kad_GcePersistentDiskCsiDriverConfig c),
       kad_HorizontalPodAutoscaling := late_ptr (kad_HorizontalPodAutoscaling r) (kad_HorizontalPodAutoscaling c),
       kad_HttpLoadBalancing := late_ptr (kad_HttpLoadBalancing r) (kad_HttpLoadBalancing c),
       kad_KubernetesDashboard := late_ptr (kad_KubernetesDashboard r) (kad_KubernetesDashboard c),
       kad_NetworkPolicyConfig := late_ptr (kad_NetworkPolicyConfig r) (kad_NetworkPolicyConfig c)\<rparr>))"

definition apply_private :: "container_PrivateClusterConfig option \<Rightarrow> container_PrivateClusterConfig option
    \<Rightarrow> container_PrivateClusterConfig option" where
  "apply_private u x = (case u of None \<Rightarrow> x | Some r \<Rightarrow>
     Some ((case x of None \<Rightarrow> container_PrivateClusterConfig0 | Some c \<Rightarrow> c)\<lparr>
       kpc_EnablePrivateEndpoint := kpc_EnablePrivateEndpoint r, kpc_EnablePrivateNodes := kpc_EnablePrivateNodes r,
       kpc_MasterIpv4CidrBlock := kpc_MasterIpv4CidrBlock r,
       kpc_MasterGlobalAccessConfig := late_ptr (kpc_MasterGlobalAccessConfig r) (Option.bind x kpc_MasterGlobalAccessConfig)\<rparr>))"

definition apply_network :: "container_IntraNodeVisibilityConfig option \<Rightarrow> string \<Rightarrow> container_Cluster \<Rightarrow> container_NetworkConfig option" where
  "apply_network v d x = (if v = None \<and> d = '''' then kc_NetworkConfig x else
     Some ((network_of x)\<lparr>
       knc_EnableIntraNodeVisibility := (case v of None \<Rightarrow> knc_EnableIntraNodeVisibility (network_of x) | Some i \<Rightarrow> kiv_Enabled i),
       knc_DatapathProvider := (if d = '''' then knc_DatapathProvider (network_of x) else d)\<rparr>))"

definition apply_cluster_update :: "container_ClusterUpdate \<Rightarrow> container_Cluster \<Rightarrow> container_Cluster" where
  "apply_cluster_update u x = x\<lparr>
     kc_AddonsConfig := apply_addons (kcu_DesiredAddonsConfig u) (kc_AddonsConfig x),
     kc_Autopilot := late_ptr (kcu_DesiredAutopilot u) (kc_Autopilot x),
     kc_Autoscaling := late_ptr (kcu_DesiredClusterAutoscaling u) (kc_Autoscaling x),
     kc_BinaryAuthorization := late_ptr (kcu_DesiredBinaryAuthorization u) (kc_BinaryAuthorization x),
     kc_DatabaseEncryption := late_ptr (kcu_DesiredDatabaseEncryption u) (kc_DatabaseEncryption x),
     kc_Locations := (if len (kcu_DesiredLocations u) = 0 then kc_Locations x else kcu_DesiredLocations u),
     kc_LoggingService := late_str (kcu_DesiredLoggingService u) (kc_LoggingService x),
     kc_MasterAuthorizedNetworksConfig := late_ptr (kcu_DesiredMasterAuthorizedNetworksConfig u) (kc_MasterAuthorizedNetworksConfig x),
     kc_MonitoringService := late_str (kcu_DesiredMonitoringService u) (kc_MonitoringService x),
     kc_NetworkConfig := apply_network (kcu_DesiredIntraNodeVisibilityConfig u) (kcu_DesiredDatapathProvider u) x,
     kc_NotificationConfig := late_ptr (kcu_DesiredNotificationConfig u) (kc_NotificationConfig x),
     kc_PrivateClusterConfig := apply_private (kcu_DesiredPrivateClusterConfig u) (kc_PrivateClusterConfig x),
     kc_ReleaseChannel := late_ptr (kcu_DesiredReleaseChannel u) (kc_ReleaseChannel x),
     kc_ResourceUsageExportConfig := late_ptr (kcu_DesiredResourceUsageExportConfig u) (kc_ResourceUsageExportConfig x),
     kc_VerticalPodAutoscaling := late_ptr (kcu_DesiredVerticalPodAutoscaling u) (kc_VerticalPodAutoscaling x),
     kc_WorkloadIdentityConfig := late_ptr (kcu_DesiredWorkloadIdentityConfig u) (kc_WorkloadIdentityConfig x)\<rparr>"

definition apply_abac :: "bool \<Rightarrow> container_Cluster \<Rightarrow> container_Cluster" where
  "apply_abac b x = x\<lparr>kc_LegacyAbac := Some \<lparr>kla_Enabled = b\<rparr>\<rparr>"

definition apply_maintenance :: "container_MaintenancePolicy option \<Rightarrow> container_Cluster \<Rightarrow> container_Cluster" where
  "apply_maintenance m x = x\<lparr>kc_MaintenancePolicy := m\<rparr>"

definition apply_network_policy :: "container_NetworkPolicy option \<Rightarrow> container_Cluster \<Rightarrow> container_Cluster" where
  "apply_network_policy n x = x\<lparr>kc_NetworkPolicy := n\<rparr>"

definition apply_labels :: "strmap \<Rightarrow> container_Cluster \<Rightarrow> container_Cluster" where
  "apply_labels m x = x\<lparr>kc_ResourceLabels := m\<rparr>"

definition drop_bootstrap :: "container_Cluster \<Rightarrow> container_Cluster" where
  "drop_bootstrap x = x\<lparr>kc_NodePools := map_option (filter (\<lambda>q. map_option cnp_Name q \<noteq> Some BootstrapNodePoolName)) (kc_NodePools x)\<rparr>"

definition cl_service_ok :: "('w, 'e) clusterExternal \<Rightarrow> bool" where
  "cl_service_ok e \<longleftrightarrow> (\<forall>n w w1 w2 x. Clusters_Get e n w = (w1, Inr x) \<longrightarrow>
     (\<exists>w3. Clusters_Get e n w1 = (w3, Inr x))
     \<and> (Clusters_NodePools_Delete e (GetFullyQualifiedBNP n) w1 = (w2, Inr ()) \<longrightarrow> (\<exists>w3. Clusters_Get e n w2 = (w3, Inr (drop_bootstrap x))))
     \<and> (\<forall>u. Clusters_Update e n u w1 = (w2, Inr ()) \<longrightarrow> (\<exists>w3. Clusters_Get e n w2 = (w3, Inr (apply_cluster_update u x))))
     \<and> (\<forall>b. Clusters_SetLegacyAbac e n b w1 = (w2, Inr ()) \<longrightarrow> (\<exists>w3. Clusters_Get e n w2 = (w3, Inr (apply_abac b x))))
     \<and> (\<forall>m. Clusters_SetMaintenancePolicy e n m w1 = (w2, Inr ()) \<longrightarrow> (\<exists>w3. Clusters_Get e n w2 = (w3, Inr (apply_maintenance m x))))
     \<and> (\<forall>p. Clusters_SetNetworkPolicy e n p w1 = (w2, Inr ()) \<longrightarrow> (\<exists>w3. Clusters_Get e n w2 = (w3, Inr (apply_network_policy p x))))
     \<and> (\<forall>m. Clusters_SetResourceLabels e n m w1 = (w2, Inr ()) \<longrightarrow> (\<exists>w3. Clusters_Get e n w2 = (w3, Inr (apply_labels m x)))))"

text \<open>The effect of the update of a stage.\<close>

fun cl_effect :: "ClusterParameters \<Rightarrow> cl_stage \<Rightarrow> container_Cluster \<Rightarrow> container_Cluster" where
  "cl_effect p ClBootstrap = drop_bootstrap"
| "cl_effect p ClAddons = apply_cluster_update (container_ClusterUpdate0\<lparr>kcu_DesiredAddonsConfig := kc_AddonsConfig (GenerateAddonsConfig (ccp_AddonsConfig p) container_Cluster0)\<rparr>)"
| "cl_effect p ClAutopilot = apply_cluster_update (container_ClusterUpdate0\<lparr>kcu_DesiredAutopilot := kc_Autopilot (GenerateAutopilot (ccp_Autopilot p) container_Cluster0)\<rparr>)"
| "cl_effect p ClAutoscaling = apply_cluster_update (container_ClusterUpdate0\<lparr>kcu_DesiredClusterAutoscaling := kc_Autoscaling (cluster_GenerateAutoscaling (ccp_Autoscaling p) container_Cluster0)\<rparr>)"
| "cl_effect p ClBinaryAuthorization = apply_cluster_update (container_ClusterUpdate0\<lparr>kcu_DesiredBinaryAuthorization := kc_BinaryAuthorization (GenerateBinaryAuthorization (ccp_BinaryAuthorization p) container_Cluster0)\<rparr>)"
| "cl_effect p ClDatabaseEncryption = apply_cluster_update (container_ClusterUpdate0\<lparr>kcu_DesiredDatabaseEncryption := kc_DatabaseEncryption (GenerateDatabaseEncryption (ccp_DatabaseEncryption p) container_Cluster0)\<rparr>)"
| "cl_effect p ClLegacyAbac = apply_abac (\<exists>l. ccp_LegacyAbac p = Some l \<and> lab_Enabled l)"
| "cl_effect p ClLocations = apply_cluster_update (container_ClusterUpdate0\<lparr>kcu_DesiredLocations := ccp_Locations p\<rparr>)"
| "cl_effect p ClLoggingService = apply_cluster_update (container_ClusterUpdate0\<lparr>kcu_DesiredLoggingService := StringValue (ccp_LoggingService p)\<rparr>)"
| "cl_effect p ClMaintenancePolicy = apply_maintenance (kc_MaintenancePolicy (GenerateMaintenancePolicy (ccp_MaintenancePolicy p) container_Cluster0))"
| "cl_effect p ClAuthorizedNetworks = apply_cluster_update (container_ClusterUpdate0\<lparr>kcu_DesiredMasterAuthorizedNetworksConfig := kc_MasterAuthorizedNetworksConfig (GenerateMasterAuthorizedNetworksConfig (ccp_MasterAuthorizedNetworksConfig p) container_Cluster0)\<rparr>)"
| "cl_effect p ClMonitoringService = apply_cluster_update (container_ClusterUpdate0\<lparr>kcu_DesiredMonitoringService := StringValue (ccp_MonitoringService p)\<rparr>)"
| "cl_effect p ClIntraNodeVisibility = apply_cluster_update (container_ClusterUpdate0\<lparr>kcu_DesiredIntraNodeVisibilityConfig :=
     Some \<lparr>kiv_Enabled = BoolValue (Option.bind (ccp_NetworkConfig p) ncs_EnableIntraNodeVisibility)\<rparr>\<rparr>)"
| "cl_effect p ClDatapathProvider = apply_cluster_update (container_ClusterUpdate0\<lparr>kcu_DesiredDatapathProvider :=
     StringValue (Option.bind (ccp_NetworkConfig p) ncs_DatapathProvider)\<rparr>)"
| "cl_effect p ClNetworkPolicy = apply_network_policy (kc_NetworkPolicy (GenerateNetworkPolicy (ccp_NetworkPolicy p) container_Cluster0))"
| "cl_effect p ClNotification = apply_cluster_update (container_ClusterUpdate0\<lparr>kcu_DesiredNotificationConfig := kc_NotificationConfig (GenerateNotificationConfig (ccp_NotificationConfig p) container_Cluster0)\<rparr>)"
| "cl_effect p ClPrivateCluster = apply_cluster_update (container_ClusterUpdate0\<lparr>kcu_DesiredPrivateClusterConfig := kc_PrivateClusterConfig (GeneratePrivateClusterConfig (ccp_PrivateClusterConfig p) container_Cluster0)\<rparr>)"
| "cl_effect p ClReleaseChannel = apply_cluster_update (container_ClusterUpdate0\<lparr>kcu_DesiredReleaseChannel := kc_ReleaseChannel (GenerateReleaseChannel (ccp_ReleaseChannel p) container_Cluster0)\<rparr>)"
| "cl_effect p ClResourceLabels = apply_labels (ccp_ResourceLabels p)"
| "cl_effect p ClResourceUsageExport = apply_cluster_update (container_ClusterUpdate0\<lparr>kcu_DesiredResourceUsageExportConfig := kc_ResourceUsageExportConfig (GenerateResourceUsageExportConfig (ccp_ResourceUsageExportConfig p) container_Cluster0)\<rparr>)"
| "cl_effect p ClVerticalPodAutoscaling = apply_cluster_update (container_ClusterUpdate0\<lparr>kcu_DesiredVerticalPodAutoscaling := kc_VerticalPodAutoscaling (GenerateVerticalPodAutoscaling (ccp_VerticalPodAutoscaling p) container_Cluster0)\<rparr>)"
| "cl_effect p ClWorkloadIdentity = apply_cluster_update (container_ClusterUpdate0\<lparr>kcu_DesiredWorkloadIdentityConfig := kc_WorkloadIdentityConfig (GenerateWorkloadIdentityConfig (ccp_WorkloadIdentityConfig p) container_Cluster0)\<rparr>)"

end
