(* ===== verification/Gke_Cluster_Converge.thy ===== *)
theory Gke_Cluster_Converge
  imports Gke_Cluster_Stages
begin

text \<open>
  That the updates of a cluster come to an end: the update of an aspect makes it equal to the spec
  and touches no other aspect. The contract of staged updates is discharged here.
\<close>

section \<open>Late-initialised specs\<close>

text \<open>When late initialisation leaves a spec alone, field by field.\<close>

lemma cl_settled_iff:
  "cluster_LateInitializeSpec p x = Some p \<longleftrightarrow>
     late_addons (ccp_AddonsConfig p) (kc_AddonsConfig x) = Some (ccp_AddonsConfig p)
     \<and> late_cluster_autoscaling (ccp_Autoscaling p) (kc_Autoscaling x) = Some (ccp_Autoscaling p)
     \<and> late_maintenance_policy (ccp_MaintenancePolicy p) (kc_MaintenancePolicy x) = Some (ccp_MaintenancePolicy p)
     \<and> late_authorized_networks (ccp_MasterAuthorizedNetworksConfig p) (kc_MasterAuthorizedNetworksConfig x)
         = Some (ccp_MasterAuthorizedNetworksConfig p)
     \<and> late_block AuthenticatorGroupsConfig0 (\<lambda>s x. s\<lparr>agc_Enabled := LateInitializeBool (agc_Enabled s) (kag_Enabled x), agc_SecurityGroup := LateInitializeString (agc_SecurityGroup s) (kag_SecurityGroup x)\<rparr>) (ccp_AuthenticatorGroupsConfig p) (kc_AuthenticatorGroupsConfig x) = ccp_AuthenticatorGroupsConfig p
     \<and> late_ptr (ccp_BinaryAuthorization p) (map_option (\<lambda>b. \<lparr>bau_Enabled = kba_Enabled b\<rparr>) (kc_BinaryAuthorization x)) = ccp_BinaryAuthorization p
     \<and> LateInitializeString (ccp_ClusterIpv4Cidr p) (kc_ClusterIpv4Cidr x) = ccp_ClusterIpv4Cidr p
     \<and> late_block DatabaseEncryption0 (\<lambda>s x. s\<lparr>dbe_KeyName := LateInitializeString (dbe_KeyName s) (kde_KeyName x), dbe_State := LateInitializeString (dbe_State s) (kde_State x)\<rparr>) (ccp_DatabaseEncryption p) (kc_DatabaseEncryption x) = ccp_DatabaseEncryption p
     \<and> late_ptr (ccp_DefaultMaxPodsConstraint p) (map_option (\<lambda>m. \<lparr>mpc_MaxPodsPerNode = cmx_MaxPodsPerNode m\<rparr>) (kc_DefaultMaxPodsConstraint x)) = ccp_DefaultMaxPodsConstraint p
     \<and> LateInitializeString (ccp_Description p) (kc_Description x) = ccp_Description p
     \<and> LateInitializeBool (ccp_EnableKubernetesAlpha p) (kc_EnableKubernetesAlpha x) = ccp_EnableKubernetesAlpha p
     \<and> LateInitializeBool (ccp_EnableTpu p) (kc_EnableTpu x) = ccp_EnableTpu p
     \<and> LateInitializeString (ccp_InitialClusterVersion p) (kc_InitialClusterVersion x) = ccp_InitialClusterVersion p
     \<and> late_block IPAllocationPolicy0 late_allocation (ccp_IPAllocationPolicy p) (kc_IpAllocationPolicy x) = ccp_IPAllocationPolicy p
     \<and> LateInitializeString (ccp_LabelFingerprint p) (kc_LabelFingerprint x) = ccp_LabelFingerprint p
     \<and> late_ptr (ccp_LegacyAbac p) (map_option (\<lambda>l. \<lparr>lab_Enabled = kla_Enabled l\<rparr>) (kc_LegacyAbac x)) = ccp_LegacyAbac p
     \<and> LateInitializeStringSlice (ccp_Locations p) (kc_Locations x) = ccp_Locations p
     \<and> LateInitializeString (ccp_LoggingService p) (kc_LoggingService x) = ccp_LoggingService p
     \<and> late_block MasterAuth0 late_master_auth (ccp_MasterAuth p) (kc_MasterAuth x) = ccp_MasterAuth p
     \<and> LateInitializeString (ccp_MonitoringService p) (kc_MonitoringService x) = ccp_MonitoringService p
     \<and> LateInitializeString (ccp_Network p) (kc_Network x) = ccp_Network p
     \<and> late_block NetworkConfigSpec0 late_network_config (ccp_NetworkConfig p) (kc_NetworkConfig x) = ccp_NetworkConfig p
     \<and> late_block NetworkPolicy0 (\<lambda>s x. s\<lparr>nwp_Enabled := LateInitializeBool (nwp_Enabled s) (knw_Enabled x), nwp_Provider := LateInitializeString (nwp_Provider s) (knw_Provider x)\<rparr>) (ccp_NetworkPolicy p) (kc_NetworkPolicy x) = ccp_NetworkPolicy p
     \<and> late_block PrivateClusterConfigSpec0 late_private_cluster (ccp_PrivateClusterConfig p) (kc_PrivateClusterConfig x) = ccp_PrivateClusterConfig p
     \<and> late_ptr (ccp_NotificationConfig p) (map_option (\<lambda>q. \<lparr>nfc_Pubsub = \<lparr>psb_Enabled = kps_Enabled q, psb_Topic = kps_Topic q\<rparr>\<rparr>) (Option.bind (kc_NotificationConfig x) knf_Pubsub)) = ccp_NotificationConfig p
     \<and> late_ptr (ccp_ReleaseChannel p) (map_option (\<lambda>r. \<lparr>rch_Channel = krc_Channel r\<rparr>) (kc_ReleaseChannel x)) = ccp_ReleaseChannel p
     \<and> LateInitializeStringMap (ccp_ResourceLabels p) (kc_ResourceLabels x) = ccp_ResourceLabels p
     \<and> late_block ResourceUsageExportConfig0 late_usage_export (ccp_ResourceUsageExportConfig p) (kc_ResourceUsageExportConfig x) = ccp_ResourceUsageExportConfig p
     \<and> LateInitializeString (ccp_Subnetwork p) (kc_Subnetwork x) = ccp_Subnetwork p
     \<and> late_ptr (ccp_VerticalPodAutoscaling p) (map_option (\<lambda>v. \<lparr>vpa_Enabled = kvp_Enabled v\<rparr>) (kc_VerticalPodAutoscaling x)) = ccp_VerticalPodAutoscaling p
     \<and> late_ptr (ccp_WorkloadIdentityConfig p) (map_option (\<lambda>i. \<lparr>wic_WorkloadPool = kwi_WorkloadPool i\<rparr>) (kc_WorkloadIdentityConfig x)) = ccp_WorkloadIdentityConfig p"
  by (cases p) (auto simp: cluster_LateInitializeSpec_def bind_eq_Some_conv)

section \<open>Which aspect an update changes\<close>

lemma cl_requests [simp]:
  "kc_AddonsConfig (GenerateAddonsConfig s0 x) = gen_block container_AddonsConfig0 gen_addons s0 (kc_AddonsConfig x)"
  "kc_Autopilot (GenerateAutopilot s1 x) = gen_block container_Autopilot0 (\<lambda>a b. b\<lparr>kap_Enabled := apl_Enabled a\<rparr>) s1 (kc_Autopilot x)"
  "kc_Autoscaling (cluster_GenerateAutoscaling s2 x) = gen_block container_ClusterAutoscaling0 gen_cluster_autoscaling s2 (kc_Autoscaling x)"
  "kc_BinaryAuthorization (GenerateBinaryAuthorization s3 x) = gen_block container_BinaryAuthorization0 (\<lambda>a b. b\<lparr>kba_Enabled := bau_Enabled a\<rparr>) s3 (kc_BinaryAuthorization x)"
  "kc_DatabaseEncryption (GenerateDatabaseEncryption s4 x) = gen_block container_DatabaseEncryption0 (\<lambda>a b. b\<lparr>kde_KeyName := StringValue (dbe_KeyName a), kde_State := StringValue (dbe_State a)\<rparr>) s4 (kc_DatabaseEncryption x)"
  "kc_LegacyAbac (GenerateLegacyAbac s5 x) = gen_block container_LegacyAbac0 (\<lambda>a b. b\<lparr>kla_Enabled := lab_Enabled a\<rparr>) s5 (kc_LegacyAbac x)"
  "kc_MaintenancePolicy (GenerateMaintenancePolicy s6 x) = gen_block container_MaintenancePolicy0 gen_maintenance_policy s6 (kc_MaintenancePolicy x)"
  "kc_MasterAuthorizedNetworksConfig (GenerateMasterAuthorizedNetworksConfig s7 x) = gen_block container_MasterAuthorizedNetworksConfig0 (\<lambda>a b. b\<lparr>kmn_Enabled := BoolValue (man_Enabled a), kmn_CidrBlocks := gen_elems gen_cidr (man_CidrBlocks a) (kmn_CidrBlocks b)\<rparr>) s7 (kc_MasterAuthorizedNetworksConfig x)"
  "kc_NetworkConfig (GenerateNetworkConfig s8 x) = gen_block container_NetworkConfig0 (\<lambda>a b. b\<lparr>knc_EnableIntraNodeVisibility := BoolValue (ncs_EnableIntraNodeVisibility a), knc_PrivateIpv6GoogleAccess := StringValue (ncs_PrivateIpv6GoogleAccess a), knc_DatapathProvider := StringValue (ncs_DatapathProvider a), knc_DefaultSnatStatus := gen_block container_DefaultSnatStatus0 (\<lambda>a b. b\<lparr>kds_Disabled := dss_Disabled a\<rparr>) (ncs_DefaultSnatStatus a) (knc_DefaultSnatStatus b)\<rparr>) s8 (kc_NetworkConfig x)"
  "kc_NetworkPolicy (GenerateNetworkPolicy s9 x) = gen_block container_NetworkPolicy0 (\<lambda>a b. b\<lparr>knw_Enabled := BoolValue (nwp_Enabled a), knw_Provider := StringValue (nwp_Provider a)\<rparr>) s9 (kc_NetworkPolicy x)"
  "kc_NotificationConfig (GenerateNotificationConfig s10 x) = gen_block container_NotificationConfig0 (\<lambda>a b. b\<lparr>knf_Pubsub := (case knf_Pubsub b of None \<Rightarrow> Some \<lparr>kps_Enabled = psb_Enabled (nfc_Pubsub a), kps_Topic = psb_Topic (nfc_Pubsub a)\<rparr> | Some q \<Rightarrow> Some q)\<rparr>) s10 (kc_NotificationConfig x)"
  "kc_PrivateClusterConfig (GeneratePrivateClusterConfig s11 x) = gen_block container_PrivateClusterConfig0 (\<lambda>a b. b\<lparr>kpc_EnablePrivateEndpoint := BoolValue (pcs_EnablePrivateEndpoint a), kpc_EnablePrivateNodes := BoolValue (pcs_EnablePrivateNodes a), kpc_MasterIpv4CidrBlock := StringValue (pcs_MasterIpv4CidrBlock a), kpc_MasterGlobalAccessConfig := (case pcs_MasterGlobalAccessConfig a of None \<Rightarrow> kpc_MasterGlobalAccessConfig b | Some g \<Rightarrow> Some \<lparr>kpg_Enabled = pga_Enabled g\<rparr>)\<rparr>) s11 (kc_PrivateClusterConfig x)"
  "kc_ReleaseChannel (GenerateReleaseChannel s12 x) = gen_block container_ReleaseChannel0 (\<lambda>a b. b\<lparr>krc_Channel := rch_Channel a\<rparr>) s12 (kc_ReleaseChannel x)"
  "kc_ResourceUsageExportConfig (GenerateResourceUsageExportConfig s13 x) = gen_block container_ResourceUsageExportConfig0 (\<lambda>a b. b\<lparr>kru_EnableNetworkEgressMetering := BoolValue (rue_EnableNetworkEgressMetering a), kru_BigqueryDestination := gen_block container_BigQueryDestination0 (\<lambda>a b. b\<lparr>kbq_DatasetId := bqd_DatasetID a\<rparr>) (rue_BigqueryDestination a) (kru_BigqueryDestination b), kru_ConsumptionMeteringConfig := gen_block container_ConsumptionMeteringConfig0 (\<lambda>a b. b\<lparr>kcm_Enabled := cmc_Enabled a\<rparr>) (rue_ConsumptionMeteringConfig a) (kru_ConsumptionMeteringConfig b)\<rparr>) s13 (kc_ResourceUsageExportConfig x)"
  "kc_VerticalPodAutoscaling (GenerateVerticalPodAutoscaling s14 x) = gen_block container_VerticalPodAutoscaling0 (\<lambda>a b. b\<lparr>kvp_Enabled := vpa_Enabled a\<rparr>) s14 (kc_VerticalPodAutoscaling x)"
  "kc_WorkloadIdentityConfig (GenerateWorkloadIdentityConfig s15 x) = gen_block container_WorkloadIdentityConfig0 (\<lambda>a b. b\<lparr>kwi_WorkloadPool := wic_WorkloadPool a\<rparr>) s15 (kc_WorkloadIdentityConfig x)"
  by (simp_all add: cluster_gen_defs)

lemma cl_empty [simp]:
  "kc_AddonsConfig container_Cluster0 = None"
  "kc_Autopilot container_Cluster0 = None"
  "kc_Autoscaling container_Cluster0 = None"
  "kc_BinaryAuthorization container_Cluster0 = None"
  "kc_DatabaseEncryption container_Cluster0 = None"
  "kc_LegacyAbac container_Cluster0 = None"
  "kc_MaintenancePolicy container_Cluster0 = None"
  "kc_MasterAuthorizedNetworksConfig container_Cluster0 = None"
  "kc_NetworkConfig container_Cluster0 = None"
  "kc_NetworkPolicy container_Cluster0 = None"
  "kc_NotificationConfig container_Cluster0 = None"
  "kc_PrivateClusterConfig container_Cluster0 = None"
  "kc_ReleaseChannel container_Cluster0 = None"
  "kc_ResourceUsageExportConfig container_Cluster0 = None"
  "kc_VerticalPodAutoscaling container_Cluster0 = None"
  "kc_WorkloadIdentityConfig container_Cluster0 = None"
  by (simp_all add: container_Cluster0_def)

text \<open>Field by field, what an update leaves alone.\<close>

lemmas cl_apply_defs = drop_bootstrap_def apply_cluster_update_def apply_abac_def apply_maintenance_def
  apply_network_policy_def apply_labels_def container_ClusterUpdate0_def apply_addons_def apply_private_def apply_network_def

lemma cl_effect_frame:
  "k \<noteq> ClAddons \<Longrightarrow> kc_AddonsConfig (cl_effect p k x) = kc_AddonsConfig x"
  "k \<noteq> ClAutopilot \<Longrightarrow> kc_Autopilot (cl_effect p k x) = kc_Autopilot x"
  "k \<noteq> ClAutoscaling \<Longrightarrow> kc_Autoscaling (cl_effect p k x) = kc_Autoscaling x"
  "k \<noteq> ClBinaryAuthorization \<Longrightarrow> kc_BinaryAuthorization (cl_effect p k x) = kc_BinaryAuthorization x"
  "k \<noteq> ClDatabaseEncryption \<Longrightarrow> kc_DatabaseEncryption (cl_effect p k x) = kc_DatabaseEncryption x"
  "k \<noteq> ClLegacyAbac \<Longrightarrow> kc_LegacyAbac (cl_effect p k x) = kc_LegacyAbac x"
  "k \<noteq> ClLocations \<Longrightarrow> kc_Locations (cl_effect p k x) = kc_Locations x"
  "k \<noteq> ClLoggingService \<Longrightarrow> kc_LoggingService (cl_effect p k x) = kc_LoggingService x"
  "k \<noteq> ClMaintenancePolicy \<Longrightarrow> kc_MaintenancePolicy (cl_effect p k x) = kc_MaintenancePolicy x"
  "k \<noteq> ClAuthorizedNetworks \<Longrightarrow> kc_MasterAuthorizedNetworksConfig (cl_effect p k x) = kc_MasterAuthorizedNetworksConfig x"
  "k \<noteq> ClMonitoringService \<Longrightarrow> kc_MonitoringService (cl_effect p k x) = kc_MonitoringService x"
  "k \<noteq> ClNetworkPolicy \<Longrightarrow> kc_NetworkPolicy (cl_effect p k x) = kc_NetworkPolicy x"
  "k \<noteq> ClNotification \<Longrightarrow> kc_NotificationConfig (cl_effect p k x) = kc_NotificationConfig x"
  "k \<noteq> ClPrivateCluster \<Longrightarrow> kc_PrivateClusterConfig (cl_effect p k x) = kc_PrivateClusterConfig x"
  "k \<noteq> ClReleaseChannel \<Longrightarrow> kc_ReleaseChannel (cl_effect p k x) = kc_ReleaseChannel x"
  "k \<noteq> ClResourceLabels \<Longrightarrow> kc_ResourceLabels (cl_effect p k x) = kc_ResourceLabels x"
  "k \<noteq> ClResourceUsageExport \<Longrightarrow> kc_ResourceUsageExportConfig (cl_effect p k x) = kc_ResourceUsageExportConfig x"
  "k \<noteq> ClVerticalPodAutoscaling \<Longrightarrow> kc_VerticalPodAutoscaling (cl_effect p k x) = kc_VerticalPodAutoscaling x"
  "k \<noteq> ClWorkloadIdentity \<Longrightarrow> kc_WorkloadIdentityConfig (cl_effect p k x) = kc_WorkloadIdentityConfig x"
  "k \<noteq> ClBootstrap \<Longrightarrow> kc_NodePools (cl_effect p k x) = kc_NodePools x"
  "k \<noteq> ClIntraNodeVisibility \<Longrightarrow> k \<noteq> ClDatapathProvider \<Longrightarrow> kc_NetworkConfig (cl_effect p k x) = kc_NetworkConfig x"
  by (cases k; simp add: cl_apply_defs late_str_def; fail)+

lemma cl_effect_untouched [simp]:
  "kc_AuthenticatorGroupsConfig (cl_effect p k x) = kc_AuthenticatorGroupsConfig x"
  "kc_ClusterIpv4Cidr (cl_effect p k x) = kc_ClusterIpv4Cidr x"
  "kc_DefaultMaxPodsConstraint (cl_effect p k x) = kc_DefaultMaxPodsConstraint x"
  "kc_Description (cl_effect p k x) = kc_Description x"
  "kc_EnableKubernetesAlpha (cl_effect p k x) = kc_EnableKubernetesAlpha x"
  "kc_EnableTpu (cl_effect p k x) = kc_EnableTpu x"
  "kc_InitialClusterVersion (cl_effect p k x) = kc_InitialClusterVersion x"
  "kc_IpAllocationPolicy (cl_effect p k x) = kc_IpAllocationPolicy x"
  "kc_LabelFingerprint (cl_effect p k x) = kc_LabelFingerprint x"
  "kc_MasterAuth (cl_effect p k x) = kc_MasterAuth x"
  "kc_Network (cl_effect p k x) = kc_Network x"
  "kc_Subnetwork (cl_effect p k x) = kc_Subnetwork x"
  by (cases k; simp add: cl_apply_defs; fail)+

lemma cl_effect_other:
  "k \<noteq> j \<Longrightarrow> (j = ClIntraNodeVisibility \<longrightarrow> k \<noteq> ClDatapathProvider) \<Longrightarrow> (j = ClDatapathProvider \<longrightarrow> k \<noteq> ClIntraNodeVisibility) \<Longrightarrow>
   cl_pending e name p j (cl_effect p k x) = cl_pending e name p j x"
  by (cases j) (simp_all add: cl_effect_frame GenerateCluster_simps checkForBootstrapNodePool_def network_of_def cong: option.case_cong)

section \<open>An update settles its aspect\<close>

lemma gen_replaced:
  assumes "\<And>a. f a (f a z) = f a z"
  shows "gen_block z f s (late_ptr (gen_block z f s None) old) = late_ptr (gen_block z f s None) old"
  using assms by (simp add: gen_block_def late_ptr_def split: option.split)

lemma gen_set:
  assumes "\<And>a. f a (f a z) = f a z"
  shows "gen_block z f s (gen_block z f s None) = gen_block z f s None"
  using assms by (simp add: gen_block_def split: option.split)

lemma gen_idems [simp]:
  "gen_pool_defaults d (gen_pool_defaults d x1) = gen_pool_defaults d x1"
  "gen_cluster_autoscaling c (gen_cluster_autoscaling c x2) = gen_cluster_autoscaling c x2"
  "gen_recurring r (gen_recurring r x3) = gen_recurring r x3"
  "gen_maintenance_window m (gen_maintenance_window m x4) = gen_maintenance_window m x4"
  "gen_maintenance_policy q (gen_maintenance_policy q x5) = gen_maintenance_policy q x5"
proof -
  show d: "gen_pool_defaults d (gen_pool_defaults d x1) = gen_pool_defaults d x1" for d x1
    by (simp add: gen_pool_defaults_def gen_block_idem)
  show "gen_cluster_autoscaling c (gen_cluster_autoscaling c x2) = gen_cluster_autoscaling c x2"
    by (simp add: gen_cluster_autoscaling_def gen_block_idem d)
  show r: "gen_recurring r (gen_recurring r x3) = gen_recurring r x3" for r x3
    by (simp add: gen_recurring_def split: option.split)
  show m: "gen_maintenance_window m (gen_maintenance_window m x4) = gen_maintenance_window m x4" for m x4
    by (simp add: gen_maintenance_window_def gen_block_idem r split: option.split)
  show "gen_maintenance_policy q (gen_maintenance_policy q x5) = gen_maintenance_policy q x5"
    by (simp add: gen_maintenance_policy_def m)
qed

lemma cl_effect_own:
  "kc_Autopilot (GenerateCluster name p (cl_effect p ClAutopilot x)) = kc_Autopilot (cl_effect p ClAutopilot x)"
  "kc_Autoscaling (GenerateCluster name p (cl_effect p ClAutoscaling x)) = kc_Autoscaling (cl_effect p ClAutoscaling x)"
  "kc_BinaryAuthorization (GenerateCluster name p (cl_effect p ClBinaryAuthorization x))
     = kc_BinaryAuthorization (cl_effect p ClBinaryAuthorization x)"
  "kc_DatabaseEncryption (GenerateCluster name p (cl_effect p ClDatabaseEncryption x))
     = kc_DatabaseEncryption (cl_effect p ClDatabaseEncryption x)"
  "kc_MaintenancePolicy (GenerateCluster name p (cl_effect p ClMaintenancePolicy x))
     = kc_MaintenancePolicy (cl_effect p ClMaintenancePolicy x)"
  "kc_MasterAuthorizedNetworksConfig (GenerateCluster name p (cl_effect p ClAuthorizedNetworks x))
     = kc_MasterAuthorizedNetworksConfig (cl_effect p ClAuthorizedNetworks x)"
  "kc_NetworkPolicy (GenerateCluster name p (cl_effect p ClNetworkPolicy x)) = kc_NetworkPolicy (cl_effect p ClNetworkPolicy x)"
  "kc_ReleaseChannel (GenerateCluster name p (cl_effect p ClReleaseChannel x)) = kc_ReleaseChannel (cl_effect p ClReleaseChannel x)"
  "kc_ResourceLabels (GenerateCluster name p (cl_effect p ClResourceLabels x)) = kc_ResourceLabels (cl_effect p ClResourceLabels x)"
  "kc_ResourceUsageExportConfig (GenerateCluster name p (cl_effect p ClResourceUsageExport x))
     = kc_ResourceUsageExportConfig (cl_effect p ClResourceUsageExport x)"
  "kc_VerticalPodAutoscaling (GenerateCluster name p (cl_effect p ClVerticalPodAutoscaling x))
     = kc_VerticalPodAutoscaling (cl_effect p ClVerticalPodAutoscaling x)"
  "kc_WorkloadIdentityConfig (GenerateCluster name p (cl_effect p ClWorkloadIdentity x))
     = kc_WorkloadIdentityConfig (cl_effect p ClWorkloadIdentity x)"
  by (simp_all add: GenerateCluster_simps apply_cluster_update_def apply_maintenance_def apply_network_policy_def apply_labels_def
      container_ClusterUpdate0_def gen_replaced gen_set gen_block_idem)

lemma cl_notification_own:
  "kc_NotificationConfig (GenerateCluster name p (cl_effect p ClNotification x)) = kc_NotificationConfig (cl_effect p ClNotification x)"
  by (cases "ccp_NotificationConfig p")
    (simp_all add: GenerateCluster_simps apply_cluster_update_def container_ClusterUpdate0_def gen_block_def late_ptr_def split: option.split)

lemma cl_private_own:
  "kc_PrivateClusterConfig (GenerateCluster name p (cl_effect p ClPrivateCluster x)) = kc_PrivateClusterConfig (cl_effect p ClPrivateCluster x)"
proof (cases "ccp_PrivateClusterConfig p")
  case (Some s)
  then show ?thesis
    by (cases "pcs_MasterGlobalAccessConfig s"; cases "kc_PrivateClusterConfig x")
      (simp_all add: GenerateCluster_simps apply_cluster_update_def container_ClusterUpdate0_def apply_private_def gen_block_def
        late_ptr_def)
qed (simp add: GenerateCluster_simps gen_block_def)

lemma cl_abac_own:
  "ccp_LegacyAbac p \<noteq> None \<Longrightarrow>
   kc_LegacyAbac (GenerateCluster name p (cl_effect p ClLegacyAbac x)) = kc_LegacyAbac (cl_effect p ClLegacyAbac x)"
  by (auto simp: GenerateCluster_simps apply_abac_def gen_block_def)

lemma cl_service_own:
  "ccp_LoggingService p \<noteq> Some '''' \<Longrightarrow> LateInitializeString (ccp_LoggingService p) (kc_LoggingService x) = ccp_LoggingService p \<Longrightarrow>
   kc_LoggingService (cl_effect p ClLoggingService x) = StringValue (ccp_LoggingService p)"
  "ccp_MonitoringService p \<noteq> Some '''' \<Longrightarrow> LateInitializeString (ccp_MonitoringService p) (kc_MonitoringService x) = ccp_MonitoringService p \<Longrightarrow>
   kc_MonitoringService (cl_effect p ClMonitoringService x) = StringValue (ccp_MonitoringService p)"
  by (auto simp: apply_cluster_update_def container_ClusterUpdate0_def late_str_def LateInitializeString_def split: if_splits option.splits)

lemma cl_locations_own:
  "LateInitializeStringSlice (ccp_Locations p) (kc_Locations x) = ccp_Locations p \<Longrightarrow>
   nil_slice (kc_Locations (cl_effect p ClLocations x)) = nil_slice (ccp_Locations p)"
  by (auto simp: apply_cluster_update_def container_ClusterUpdate0_def LateInitializeStringSlice_def nil_slice_def split: if_splits)

lemma cl_bootstrap_own: "\<not> checkForBootstrapNodePool (drop_bootstrap x)"
proof -
  have "\<not> bootstrap_loop (filter (\<lambda>q. map_option cnp_Name q \<noteq> Some BootstrapNodePoolName) qs)" for qs
    by (induction qs) (auto split: option.splits)
  then show ?thesis by (cases "kc_NodePools x") (auto simp: checkForBootstrapNodePool_def drop_bootstrap_def)
qed

lemma strip_gen:
  assumes "\<And>a. strip (f a (strip (f a z))) = strip (strip (f a z))"
  shows "map_option strip (gen_block z f s (late_ptr (map_option strip (gen_block z f s None)) old))
    = map_option strip (late_ptr (map_option strip (gen_block z f s None)) old)"
  using assms by (simp add: gen_block_def late_ptr_def split: option.split)

lemma cl_addons_own:
  "map_option drop_force_send (kc_AddonsConfig (GenerateCluster name p (cl_effect p ClAddons x)))
     = map_option drop_force_send (kc_AddonsConfig (cl_effect p ClAddons x))"
proof (cases "ccp_AddonsConfig p")
  case (Some a)
  have "drop_force_send (gen_addons a m) = drop_force_send m"
    if "apply_addons (Some (gen_addons a container_AddonsConfig0)) c = Some m" for m c
    using that unfolding apply_addons_def Let_def option.simps container_AddonsConfig0_def
    by (auto simp: drop_force_send_def gen_addons_def strip_gen)
  with Some show ?thesis
    by (simp add: GenerateCluster_simps apply_cluster_update_def container_ClusterUpdate0_def gen_block_def)
      (simp add: apply_addons_def Let_def)
qed (simp add: GenerateCluster_simps gen_block_def)

section \<open>An update keeps the spec late-initialised\<close>

declare cl_effect.simps [simp del]

lemma late_ptr_cases [simp]: "late_ptr s None = s" "late_ptr (Some y) t = Some y"
  by (simp_all add: late_ptr_def)

lemma late_ptr_gen:
  "late_ptr s (map_option h c) = s \<Longrightarrow> late_ptr s (map_option h (late_ptr (map_option g (gen_block z f s None)) c)) = s"
  "late_ptr s (map_option h c) = s \<Longrightarrow> late_ptr s (map_option h (late_ptr (gen_block z f s None) c)) = s"
  "late_ptr s (map_option h (gen_block z f s None)) = s"
  by (cases s; simp add: gen_block_def late_ptr_def)+

lemma late_block_gen:
  assumes "\<And>a. f a (g a z) = a"
  shows "late_block y f s c = s \<Longrightarrow> late_block y f s (late_ptr (gen_block z g s None) c) = s"
    and "late_block y f s (gen_block z g s None) = s"
  using assms by (cases s; simp add: late_block_def gen_block_def late_ptr_def)+

lemma late_elems_gen: "late_slice (deref_elem f) s (gen_elems g s None) = Some s"
  by (cases s) (auto simp: late_slice_def gen_elems_def)

lemma late_addons_iff:
  "late_addons (Some a) (Some c) = Some (Some a) \<longleftrightarrow>
     (\<forall>r. kad_CloudRunConfig c = Some r \<longrightarrow> (\<exists>q. adn_CloudRunConfig a = Some q
        \<and> LateInitializeString (crc_LoadBalancerType q) (kcr_LoadBalancerType r) = crc_LoadBalancerType q))
     \<and> late_ptr (adn_ConfigConnectorConfig a) (map_option (\<lambda>a. \<lparr>ccc_Enabled = kcc_Enabled a\<rparr>) (kad_ConfigConnectorConfig c)) = adn_ConfigConnectorConfig a
     \<and> late_ptr (adn_DNSCacheConfig a) (map_option (\<lambda>a. \<lparr>dnc_Enabled = kdn_Enabled a\<rparr>) (kad_DnsCacheConfig c)) = adn_DNSCacheConfig a
     \<and> late_ptr (adn_GCEPersistentDiskCSIDriverConfig a) (map_option (\<lambda>a. \<lparr>pdc_Enabled = kpd_Enabled a\<rparr>) (kad_GcePersistentDiskCsiDriverConfig c))
         = adn_GCEPersistentDiskCSIDriverConfig a
     \<and> late_ptr (adn_HorizontalPodAutoscaling a) (map_option (\<lambda>a. \<lparr>hpa_Disabled = khp_Disabled a\<rparr>) (kad_HorizontalPodAutoscaling c))
         = adn_HorizontalPodAutoscaling a
     \<and> late_ptr (adn_HTTPLoadBalancing a) (map_option (\<lambda>a. \<lparr>hlb_Disabled = khl_Disabled a\<rparr>) (kad_HttpLoadBalancing c)) = adn_HTTPLoadBalancing a
     \<and> late_ptr (adn_KubernetesDashboard a) (map_option (\<lambda>a. \<lparr>kdb_Disabled = kkd_Disabled a\<rparr>) (kad_KubernetesDashboard c)) = adn_KubernetesDashboard a
     \<and> late_ptr (adn_NetworkPolicyConfig a) (map_option (\<lambda>a. \<lparr>npc_Disabled = knp_Disabled a\<rparr>) (kad_NetworkPolicyConfig c)) = adn_NetworkPolicyConfig a"
proof (cases "kad_CloudRunConfig c")
  case None
  then show ?thesis by (cases a) (simp add: late_addons_def)
next
  case (Some r)
  show ?thesis
  proof (cases "adn_CloudRunConfig a")
    case (Some q)
    with \<open>kad_CloudRunConfig c = Some r\<close> show ?thesis by (cases a; cases q) (simp add: late_addons_def)
  qed (use Some in \<open>simp add: late_addons_def\<close>)
qed

lemma late_addons_effect:
  assumes "late_addons s c = Some s"
  shows "late_addons s (apply_addons (gen_block container_AddonsConfig0 gen_addons s None) c) = Some s"
proof (cases s)
  case (Some a)
  define d where "d = (case c of None \<Rightarrow> container_AddonsConfig0 | Some c \<Rightarrow> c)"
  have "late_addons (Some a) (Some d) = Some (Some a)"
    using assms Some by (cases c) (simp_all add: d_def late_addons_iff container_AddonsConfig0_def)
  then show ?thesis
    unfolding Some apply_addons_def gen_block_def option.simps Let_def d_def [symmetric]
    by (simp add: late_addons_iff gen_addons_def drop_force_send_def container_AddonsConfig0_def late_ptr_gen)
      (cases "adn_CloudRunConfig a"; auto simp: gen_block_def late_ptr_def)
qed (use assms in \<open>simp add: apply_addons_def gen_block_def\<close>)

lemma late_autoscaling_effect:
  assumes "late_cluster_autoscaling s c = Some s"
  shows "late_cluster_autoscaling s (late_ptr (gen_block container_ClusterAutoscaling0 gen_cluster_autoscaling s None) c) = Some s"
proof (cases s)
  case (Some a)
  have d: "late_pool_defaults b (gen_pool_defaults b container_AutoprovisioningNodePoolDefaults0) = b" for b
    by (simp add: late_pool_defaults_def gen_pool_defaults_def container_AutoprovisioningNodePoolDefaults0_def late_block_gen
        LateInitializeStringSlice_def)
  show ?thesis unfolding Some
    by (simp add: gen_block_def late_ptr_def late_cluster_autoscaling_def gen_cluster_autoscaling_def
        container_ClusterAutoscaling0_def late_elems_gen LateInitializeStringSlice_def)
      (simp add: gen_block_def [symmetric] late_block_gen d)
qed (use assms in \<open>simp add: gen_block_def\<close>)

lemma late_networks_effect:
  assumes "late_authorized_networks s c = Some s"
  shows "late_authorized_networks s (late_ptr (gen_block container_MasterAuthorizedNetworksConfig0
     (\<lambda>a b. b\<lparr>kmn_Enabled := BoolValue (man_Enabled a), kmn_CidrBlocks := gen_elems gen_cidr (man_CidrBlocks a) (kmn_CidrBlocks b)\<rparr>) s None) c) = Some s"
  using assms by (cases s) (simp_all add: gen_block_def late_ptr_def late_authorized_networks_def
      container_MasterAuthorizedNetworksConfig0_def late_elems_gen)

lemma late_maintenance_effect: "late_maintenance_policy s (gen_block z f s None) = Some s"
  by (cases s) (simp_all add: late_maintenance_policy_def gen_block_def)

lemma late_private_effect:
  assumes "late_block PrivateClusterConfigSpec0 late_private_cluster s c = s"
  shows "late_block PrivateClusterConfigSpec0 late_private_cluster s
    (apply_private (kc_PrivateClusterConfig (GeneratePrivateClusterConfig s container_Cluster0)) c) = s"
proof (cases s)
  case (Some a)
  with assms show ?thesis
    by (cases c; cases "pcs_MasterGlobalAccessConfig a"; cases a)
      (auto simp: gen_block_def late_block_def late_private_cluster_def apply_private_def
        container_PrivateClusterConfig0_def late_ptr_def split: if_splits)
qed (use assms in \<open>simp add: gen_block_def apply_private_def\<close>)

lemma late_notification_effect:
  assumes "late_ptr s (map_option h (Option.bind c knf_Pubsub)) = s"
  shows "late_ptr s (map_option h (Option.bind (late_ptr (gen_block z f s None) c) knf_Pubsub)) = s"
  using assms by (cases s) (simp_all add: gen_block_def late_ptr_def)

lemma late_self [simp]: "LateInitializeStringMap m m = m" "LateInitializeStringSlice l l = l"
  by (simp_all add: LateInitializeStringMap_def LateInitializeStringSlice_def)

lemma late_str_effect:
  "LateInitializeString s c = s \<Longrightarrow> LateInitializeString s (late_str (StringValue s) c) = s"
  by (simp add: late_str_def)

lemma late_network_effect:
  assumes "late_block NetworkConfigSpec0 late_network_config (Some s) (kc_NetworkConfig x) = Some s"
  shows "late_block NetworkConfigSpec0 late_network_config (Some s)
      (Some ((network_of x)\<lparr>knc_EnableIntraNodeVisibility := BoolValue (ncs_EnableIntraNodeVisibility s)\<rparr>)) = Some s"
    "late_block NetworkConfigSpec0 late_network_config (Some s)
      (Some ((network_of x)\<lparr>knc_DatapathProvider := StringValue (ncs_DatapathProvider s)\<rparr>)) = Some s"
  using assms by (cases s; cases "kc_NetworkConfig x"; simp add: late_block_def late_network_config_def network_of_def container_NetworkConfig0_def)+

text \<open>The aspect that an update changes.\<close>

lemma cl_effect_at:
  "kc_AddonsConfig (cl_effect p ClAddons x) = apply_addons (kc_AddonsConfig (GenerateAddonsConfig (ccp_AddonsConfig p) container_Cluster0)) (kc_AddonsConfig x)"
  "kc_Autopilot (cl_effect p ClAutopilot x) = late_ptr (kc_Autopilot (GenerateAutopilot (ccp_Autopilot p) container_Cluster0)) (kc_Autopilot x)"
  "kc_Autoscaling (cl_effect p ClAutoscaling x) = late_ptr (kc_Autoscaling (cluster_GenerateAutoscaling (ccp_Autoscaling p) container_Cluster0)) (kc_Autoscaling x)"
  "kc_BinaryAuthorization (cl_effect p ClBinaryAuthorization x) = late_ptr (kc_BinaryAuthorization (GenerateBinaryAuthorization (ccp_BinaryAuthorization p) container_Cluster0)) (kc_BinaryAuthorization x)"
  "kc_DatabaseEncryption (cl_effect p ClDatabaseEncryption x) = late_ptr (kc_DatabaseEncryption (GenerateDatabaseEncryption (ccp_DatabaseEncryption p) container_Cluster0)) (kc_DatabaseEncryption x)"
  "kc_MaintenancePolicy (cl_effect p ClMaintenancePolicy x) = kc_MaintenancePolicy (GenerateMaintenancePolicy (ccp_MaintenancePolicy p) container_Cluster0)"
  "kc_MasterAuthorizedNetworksConfig (cl_effect p ClAuthorizedNetworks x) = late_ptr (kc_MasterAuthorizedNetworksConfig (GenerateMasterAuthorizedNetworksConfig (ccp_MasterAuthorizedNetworksConfig p) container_Cluster0)) (kc_MasterAuthorizedNetworksConfig x)"
  "kc_NetworkPolicy (cl_effect p ClNetworkPolicy x) = kc_NetworkPolicy (GenerateNetworkPolicy (ccp_NetworkPolicy p) container_Cluster0)"
  "kc_NotificationConfig (cl_effect p ClNotification x) = late_ptr (kc_NotificationConfig (GenerateNotificationConfig (ccp_NotificationConfig p) container_Cluster0)) (kc_NotificationConfig x)"
  "kc_PrivateClusterConfig (cl_effect p ClPrivateCluster x) = apply_private (kc_PrivateClusterConfig (GeneratePrivateClusterConfig (ccp_PrivateClusterConfig p) container_Cluster0)) (kc_PrivateClusterConfig x)"
  "kc_ReleaseChannel (cl_effect p ClReleaseChannel x) = late_ptr (kc_ReleaseChannel (GenerateReleaseChannel (ccp_ReleaseChannel p) container_Cluster0)) (kc_ReleaseChannel x)"
  "kc_ResourceUsageExportConfig (cl_effect p ClResourceUsageExport x) = late_ptr (kc_ResourceUsageExportConfig (GenerateResourceUsageExportConfig (ccp_ResourceUsageExportConfig p) container_Cluster0)) (kc_ResourceUsageExportConfig x)"
  "kc_VerticalPodAutoscaling (cl_effect p ClVerticalPodAutoscaling x) = late_ptr (kc_VerticalPodAutoscaling (GenerateVerticalPodAutoscaling (ccp_VerticalPodAutoscaling p) container_Cluster0)) (kc_VerticalPodAutoscaling x)"
  "kc_WorkloadIdentityConfig (cl_effect p ClWorkloadIdentity x) = late_ptr (kc_WorkloadIdentityConfig (GenerateWorkloadIdentityConfig (ccp_WorkloadIdentityConfig p) container_Cluster0)) (kc_WorkloadIdentityConfig x)"
  "kc_LegacyAbac (cl_effect p ClLegacyAbac x) = Some \<lparr>kla_Enabled = (\<exists>l. ccp_LegacyAbac p = Some l \<and> lab_Enabled l)\<rparr>"
  "kc_ResourceLabels (cl_effect p ClResourceLabels x) = ccp_ResourceLabels p"
  "kc_Locations (cl_effect p ClLocations x) = (if len (ccp_Locations p) = 0 then kc_Locations x else ccp_Locations p)"
  "kc_LoggingService (cl_effect p ClLoggingService x) = late_str (StringValue (ccp_LoggingService p)) (kc_LoggingService x)"
  "kc_MonitoringService (cl_effect p ClMonitoringService x) = late_str (StringValue (ccp_MonitoringService p)) (kc_MonitoringService x)"
  by (simp_all add: cl_effect.simps apply_cluster_update_def apply_abac_def apply_maintenance_def apply_network_policy_def
      apply_labels_def container_ClusterUpdate0_def)

lemma cl_network_at:
  "kc_NetworkConfig (cl_effect p ClIntraNodeVisibility x) = Some ((network_of x)\<lparr>knc_EnableIntraNodeVisibility :=
     BoolValue (Option.bind (ccp_NetworkConfig p) ncs_EnableIntraNodeVisibility)\<rparr>)"
  "StringValue (Option.bind (ccp_NetworkConfig p) ncs_DatapathProvider) \<noteq> '''' \<Longrightarrow>
   kc_NetworkConfig (cl_effect p ClDatapathProvider x) = Some ((network_of x)\<lparr>knc_DatapathProvider :=
     StringValue (Option.bind (ccp_NetworkConfig p) ncs_DatapathProvider)\<rparr>)"
  "StringValue (Option.bind (ccp_NetworkConfig p) ncs_DatapathProvider) = '''' \<Longrightarrow>
   kc_NetworkConfig (cl_effect p ClDatapathProvider x) = kc_NetworkConfig x"
  by (simp_all add: cl_effect.simps apply_cluster_update_def container_ClusterUpdate0_def apply_network_def)

lemma network_of_Some: "kc_NetworkConfig y = Some n \<Longrightarrow> network_of y = n"
  by (simp add: network_of_def)

text \<open>
  When the updates can achieve the desired cluster: the spec has been late-initialised, and it asks for
  no service name to be emptied, which an update request cannot express.
\<close>

definition cl_ready :: "ClusterParameters \<Rightarrow> container_Cluster \<Rightarrow> bool" where
  "cl_ready p x \<longleftrightarrow> cluster_LateInitializeSpec p x = Some p
     \<and> ccp_LoggingService p \<noteq> Some '''' \<and> ccp_MonitoringService p \<noteq> Some ''''
     \<and> (\<forall>n. ccp_NetworkConfig p = Some n \<longrightarrow> ncs_DatapathProvider n \<noteq> Some '''')"

lemma cl_pending_spec:
  assumes "cl_cmp_ok (clx_cmp e)" and "cl_pending e name p k x"
  shows "k = ClLegacyAbac \<Longrightarrow> ccp_LegacyAbac p \<noteq> None"
    and "k \<in> {ClIntraNodeVisibility, ClDatapathProvider} \<Longrightarrow> ccp_NetworkConfig p \<noteq> None"
  using assms by (auto simp: cl_cmp_ok_def cmp_refl_def GenerateCluster_simps gen_block_def network_of_def split: option.splits)

lemma cl_settled_effect:
  assumes "cluster_LateInitializeSpec p x = Some p"
    and "k = ClLegacyAbac \<Longrightarrow> ccp_LegacyAbac p \<noteq> None"
    and "k \<in> {ClIntraNodeVisibility, ClDatapathProvider} \<Longrightarrow> ccp_NetworkConfig p \<noteq> None"
  shows "cluster_LateInitializeSpec p (cl_effect p k x) = Some p"
proof (cases "k \<in> {ClIntraNodeVisibility, ClDatapathProvider}")
  case True
  with assms(3) obtain s where "ccp_NetworkConfig p = Some s" by blast
  with True assms(1) show ?thesis
    using late_network_effect [of s x]
    by (cases "StringValue (ncs_DatapathProvider s) = ''''")
      (auto simp: cl_settled_iff cl_effect_frame cl_network_at)
next
  case False
  with assms(1,2) show ?thesis
    by (cases k) (auto simp: cl_settled_iff cl_effect_frame cl_effect_at late_addons_effect late_autoscaling_effect
        late_networks_effect late_maintenance_effect late_private_effect [simplified] late_notification_effect late_str_effect
        late_ptr_gen late_block_gen late_usage_export_def container_ResourceUsageExportConfig0_def)
qed

section \<open>The contract of staged updates\<close>

lemma cl_network_settles:
  assumes "cl_cmp_ok (clx_cmp e)" and "cl_ready p x" and "cl_pending e name p k x"
  shows "k = ClIntraNodeVisibility \<Longrightarrow> \<not> cl_pending e name p ClIntraNodeVisibility (cl_effect p k x)"
    and "k = ClDatapathProvider \<Longrightarrow> \<not> cl_pending e name p ClDatapathProvider (cl_effect p k x)"
    and "k = ClDatapathProvider \<Longrightarrow> \<not> cl_pending e name p ClIntraNodeVisibility x \<Longrightarrow>
      \<not> cl_pending e name p ClIntraNodeVisibility (cl_effect p k x)"
proof -
  have refl: "cmp_refl (bool_cmp (clx_cmp e))" "cmp_refl (string_cmp (clx_cmp e))"
    using assms(1) by (simp_all add: cl_cmp_ok_def)
  show "\<not> cl_pending e name p ClIntraNodeVisibility (cl_effect p k x)" if "k = ClIntraNodeVisibility"
    using cl_pending_spec(2) [OF assms(1,3)] that refl
    by (auto simp: cmp_refl_def GenerateCluster_simps cl_network_at gen_block_def network_of_Some [OF cl_network_at(1)])
  assume k: "k = ClDatapathProvider"
  then obtain s where s: "ccp_NetworkConfig p = Some s" using cl_pending_spec(2) [OF assms(1,3)] by auto
  have d: "ncs_DatapathProvider s \<noteq> None"
  proof
    assume "ncs_DatapathProvider s = None"
    moreover from this have "knc_DatapathProvider (network_of x) = ''''"
      using assms(2) s by (cases s; cases "kc_NetworkConfig x")
        (auto simp: cl_ready_def cl_settled_iff late_block_def late_network_config_def network_of_def container_NetworkConfig0_def
          LateInitializeString_def split: if_splits)
    ultimately show False
      using assms(3) k s refl(2) by (simp add: cmp_refl_def GenerateCluster_simps gen_block_def)
  qed
  with assms(2) s have v: "StringValue (ncs_DatapathProvider s) \<noteq> ''''" by (auto simp: cl_ready_def)
  show "\<not> cl_pending e name p ClDatapathProvider (cl_effect p k x)"
    using k s v refl by (simp add: cmp_refl_def GenerateCluster_simps cl_network_at gen_block_def network_of_Some [OF cl_network_at(2)])
  show "\<not> cl_pending e name p ClIntraNodeVisibility (cl_effect p k x)" if "\<not> cl_pending e name p ClIntraNodeVisibility x"
    using k s v that by (simp add: GenerateCluster_simps cl_network_at gen_block_def network_of_Some [OF cl_network_at(2)])
qed

lemma cl_effect_settles:
  assumes "cl_cmp_ok (clx_cmp e)" and "cl_ready p x" and "cl_pending e name p k x"
  shows "\<not> cl_pending e name p k (cl_effect p k x)"
proof -
  have "LateInitializeStringSlice (ccp_Locations p) (kc_Locations x) = ccp_Locations p"
      "LateInitializeString (ccp_LoggingService p) (kc_LoggingService x) = ccp_LoggingService p"
      "LateInitializeString (ccp_MonitoringService p) (kc_MonitoringService x) = ccp_MonitoringService p"
    using assms(2) by (simp_all add: cl_ready_def cl_settled_iff)
  note own = cl_service_own(1) [OF _ this(2)] cl_service_own(2) [OF _ this(3)] cl_locations_own [OF this(1)]
    cl_effect_own cl_notification_own cl_private_own cl_addons_own
  show ?thesis
  proof (cases k)
    case ClLegacyAbac
    with assms(1) cl_pending_spec(1) [OF assms(1,3)] show ?thesis by (simp add: cl_abac_own cl_cmp_ok_def cmp_refl_def)
  next
    case ClLocations
    with assms(1) own show ?thesis by (auto simp: cl_cmp_ok_def cmp_respects_def GenerateCluster_simps)
  next
    case ClAddons
    with assms(1) own show ?thesis by (auto simp: cl_cmp_ok_def cmp_respects_def)
  next
    case ClLoggingService
    with assms own show ?thesis by (simp add: cl_cmp_ok_def cmp_refl_def cl_ready_def GenerateCluster_simps)
  next
    case ClMonitoringService
    with assms own show ?thesis by (simp add: cl_cmp_ok_def cmp_refl_def cl_ready_def GenerateCluster_simps)
  next
    case ClIntraNodeVisibility
    with cl_network_settles(1) [OF assms] show ?thesis by simp
  next
    case ClDatapathProvider
    with cl_network_settles(2) [OF assms] show ?thesis by simp
  qed (use assms(1) own in \<open>simp_all add: cl_cmp_ok_def cmp_refl_def cl_bootstrap_own cl_effect.simps(1)\<close>)
qed

lemma cl_effect_ready:
  assumes "cl_cmp_ok (clx_cmp e)" and "cl_ready p x" and "cl_pending e name p k x"
  shows "cl_ready p (cl_effect p k x)"
  using assms(2) cl_settled_effect [of p x k] cl_pending_spec [OF assms(1,3)] by (simp add: cl_ready_def)

text \<open>Datapath comes after the visibility, so that its update is the only one that meets an aspect
  of the same block that has been compared before.\<close>

lemma cl_stages_order: "cl_stages = pre @ ClIntraNodeVisibility # post \<Longrightarrow> ClDatapathProvider \<notin> set pre"
proof -
  assume "cl_stages = pre @ ClIntraNodeVisibility # post"
  moreover have "distinct cl_stages" "cl_stages = cl_stages_before @ ClIntraNodeVisibility # (ClDatapathProvider # cl_stages_after)"
    by (simp_all add: cl_stages_def cl_stages_before_def cl_stages_after_def)
  ultimately have "pre = cl_stages_before"
    by (metis append_Cons_eq_iff distinct_append not_distinct_conv_prefix distinct.simps(2) Un_iff set_append)
  then show ?thesis by (simp add: cl_stages_before_def)
qed

interpretation cl_staged: staged_update cl_stages "cl_pending e name p" "cl_effect p"
    "\<lambda>x. cl_cmp_ok (clx_cmp e) \<and> cl_ready p x" for e name p
proof (unfold_locales, goal_cases)
  case (1 x pre k post j)
  then have ok: "cl_cmp_ok (clx_cmp e)" "cl_ready p x" "cl_pending e name p k x" by simp_all
  show ?case
  proof (cases "j = k")
    case True
    with cl_effect_settles [OF ok] show ?thesis by simp
  next
    case False
    with 1 have j: "j \<in> set pre" "\<not> cl_pending e name p j x" by auto
    show ?thesis
    proof (cases "j = ClIntraNodeVisibility \<and> k = ClDatapathProvider")
      case True
      with j cl_network_settles(3) [OF ok] show ?thesis by simp
    next
      case no: False
      have "\<not> (j = ClDatapathProvider \<and> k = ClIntraNodeVisibility)"
        using cl_stages_order [of pre post] 1(2) j(1) by auto
      with no False j show ?thesis using cl_effect_other [of k j e name p x] by auto
    qed
  qed
next
  case (2 x pre k post)
  with cl_effect_ready show ?case by blast
qed

end
