(* ===== verification/Gke_Cluster_Correct.thy ===== *)
theory Gke_Cluster_Correct
  imports Gke_Cluster_Converge
begin

text \<open>
  Correctness of the cluster client and controller: what late initialisation keeps and when it
  panics, that the updates come to an end, and the connection details.
\<close>

section \<open>What late initialisation keeps\<close>

text \<open>Every field that is set, with one exception: the setting of the client certificate is not
  among the fields of \<open>master_auth_keeps\<close>, since it is overwritten.\<close>

definition cloud_run_keeps :: "CloudRunConfig \<Rightarrow> CloudRunConfig \<Rightarrow> bool" where
  "cloud_run_keeps a b \<longleftrightarrow> crc_Disabled b = crc_Disabled a \<and> keeps_ptr (crc_LoadBalancerType a) (crc_LoadBalancerType b)"

definition addons_keeps :: "AddonsConfig \<Rightarrow> AddonsConfig \<Rightarrow> bool" where
  "addons_keeps a b \<longleftrightarrow> keeps_struct cloud_run_keeps (adn_CloudRunConfig a) (adn_CloudRunConfig b)
     \<and> keeps_ptr (adn_ConfigConnectorConfig a) (adn_ConfigConnectorConfig b)
     \<and> keeps_ptr (adn_DNSCacheConfig a) (adn_DNSCacheConfig b)
     \<and> keeps_ptr (adn_GCEPersistentDiskCSIDriverConfig a) (adn_GCEPersistentDiskCSIDriverConfig b)
     \<and> keeps_ptr (adn_HorizontalPodAutoscaling a) (adn_HorizontalPodAutoscaling b)
     \<and> keeps_ptr (adn_HTTPLoadBalancing a) (adn_HTTPLoadBalancing b)
     \<and> keeps_ptr (adn_KubernetesDashboard a) (adn_KubernetesDashboard b)
     \<and> keeps_ptr (adn_NetworkPolicyConfig a) (adn_NetworkPolicyConfig b)"

definition groups_keeps :: "AuthenticatorGroupsConfig \<Rightarrow> AuthenticatorGroupsConfig \<Rightarrow> bool" where
  "groups_keeps a b \<longleftrightarrow> keeps_ptr (agc_Enabled a) (agc_Enabled b) \<and> keeps_ptr (agc_SecurityGroup a) (agc_SecurityGroup b)"

definition management_keeps :: "NodeManagement \<Rightarrow> NodeManagement \<Rightarrow> bool" where
  "management_keeps a b \<longleftrightarrow> keeps_ptr (nmg_AutoRepair a) (nmg_AutoRepair b) \<and> keeps_ptr (nmg_AutoUpgrade a) (nmg_AutoUpgrade b)"

definition shielded2_keeps :: "v1beta2_ShieldedInstanceConfig \<Rightarrow> v1beta2_ShieldedInstanceConfig \<Rightarrow> bool" where
  "shielded2_keeps a b \<longleftrightarrow> keeps_ptr (shi_EnableIntegrityMonitoring a) (shi_EnableIntegrityMonitoring b)
     \<and> keeps_ptr (shi_EnableSecureBoot a) (shi_EnableSecureBoot b)"

definition upgrade_keeps :: "UpgradeSettings \<Rightarrow> UpgradeSettings \<Rightarrow> bool" where
  "upgrade_keeps a b \<longleftrightarrow> keeps_ptr (ups_MaxSurge a) (ups_MaxSurge b) \<and> keeps_ptr (ups_MaxUnavailable a) (ups_MaxUnavailable b)"

definition pool_defaults_keeps :: "AutoprovisioningNodePoolDefaults \<Rightarrow> AutoprovisioningNodePoolDefaults \<Rightarrow> bool" where
  "pool_defaults_keeps a b \<longleftrightarrow> keeps_ptr (and_BootDiskKMSKey a) (and_BootDiskKMSKey b) \<and> keeps_ptr (and_DiskSizeGb a) (and_DiskSizeGb b)
     \<and> keeps_ptr (and_DiskType a) (and_DiskType b)
     \<and> keeps_struct management_keeps (and_Management a) (and_Management b)
     \<and> keeps_ptr (and_MinCPUPlatform a) (and_MinCPUPlatform b)
     \<and> keeps_slice (and_OauthScopes a) (and_OauthScopes b)
     \<and> keeps_ptr (and_ServiceAccount a) (and_ServiceAccount b)
     \<and> keeps_struct shielded2_keeps (and_ShieldedInstanceConfig a) (and_ShieldedInstanceConfig b)
     \<and> keeps_struct upgrade_keeps (and_UpgradeSettings a) (and_UpgradeSettings b)"

definition cluster_autoscaling_keeps :: "ClusterAutoscaling \<Rightarrow> ClusterAutoscaling \<Rightarrow> bool" where
  "cluster_autoscaling_keeps a b \<longleftrightarrow> keeps_slice (cas_AutoprovisioningLocations a) (cas_AutoprovisioningLocations b)
     \<and> keeps_struct pool_defaults_keeps (cas_AutoprovisioningNodePoolDefaults a) (cas_AutoprovisioningNodePoolDefaults b)
     \<and> keeps_ptr (cas_EnableNodeAutoprovisioning a) (cas_EnableNodeAutoprovisioning b)
     \<and> keeps_slice (cas_ResourceLimits a) (cas_ResourceLimits b)"

definition encryption_keeps :: "DatabaseEncryption \<Rightarrow> DatabaseEncryption \<Rightarrow> bool" where
  "encryption_keeps a b \<longleftrightarrow> keeps_ptr (dbe_KeyName a) (dbe_KeyName b) \<and> keeps_ptr (dbe_State a) (dbe_State b)"

definition allocation_keeps :: "IPAllocationPolicy \<Rightarrow> IPAllocationPolicy \<Rightarrow> bool" where
  "allocation_keeps a b \<longleftrightarrow> keeps_ptr (iap_ClusterIpv4CidrBlock a) (iap_ClusterIpv4CidrBlock b)
     \<and> keeps_ptr (iap_ClusterSecondaryRangeName a) (iap_ClusterSecondaryRangeName b)
     \<and> keeps_ptr (iap_CreateSubnetwork a) (iap_CreateSubnetwork b)
     \<and> keeps_ptr (iap_NodeIpv4CidrBlock a) (iap_NodeIpv4CidrBlock b)
     \<and> keeps_ptr (iap_ServicesIpv4CidrBlock a) (iap_ServicesIpv4CidrBlock b)
     \<and> keeps_ptr (iap_ServicesSecondaryRangeName a) (iap_ServicesSecondaryRangeName b)
     \<and> keeps_ptr (iap_SubnetworkName a) (iap_SubnetworkName b)
     \<and> keeps_ptr (iap_TpuIpv4CidrBlock a) (iap_TpuIpv4CidrBlock b)
     \<and> keeps_ptr (iap_UseIPAliases a) (iap_UseIPAliases b) \<and> keeps_ptr (iap_UseRoutes a) (iap_UseRoutes b)"

definition master_auth_keeps :: "MasterAuth \<Rightarrow> MasterAuth \<Rightarrow> bool" where
  "master_auth_keeps a b \<longleftrightarrow> keeps_ptr (mau_Username a) (mau_Username b)"

definition networks_keeps :: "MasterAuthorizedNetworksConfig \<Rightarrow> MasterAuthorizedNetworksConfig \<Rightarrow> bool" where
  "networks_keeps a b \<longleftrightarrow> keeps_slice (man_CidrBlocks a) (man_CidrBlocks b) \<and> keeps_ptr (man_Enabled a) (man_Enabled b)"

definition network_config_keeps :: "NetworkConfigSpec \<Rightarrow> NetworkConfigSpec \<Rightarrow> bool" where
  "network_config_keeps a b \<longleftrightarrow> keeps_ptr (ncs_DatapathProvider a) (ncs_DatapathProvider b)
     \<and> keeps_ptr (ncs_DefaultSnatStatus a) (ncs_DefaultSnatStatus b)
     \<and> keeps_ptr (ncs_EnableIntraNodeVisibility a) (ncs_EnableIntraNodeVisibility b)
     \<and> keeps_ptr (ncs_PrivateIpv6GoogleAccess a) (ncs_PrivateIpv6GoogleAccess b)"

definition network_policy_keeps :: "NetworkPolicy \<Rightarrow> NetworkPolicy \<Rightarrow> bool" where
  "network_policy_keeps a b \<longleftrightarrow> keeps_ptr (nwp_Enabled a) (nwp_Enabled b) \<and> keeps_ptr (nwp_Provider a) (nwp_Provider b)"

definition private_keeps :: "PrivateClusterConfigSpec \<Rightarrow> PrivateClusterConfigSpec \<Rightarrow> bool" where
  "private_keeps a b \<longleftrightarrow> keeps_ptr (pcs_EnablePrivateEndpoint a) (pcs_EnablePrivateEndpoint b)
     \<and> keeps_ptr (pcs_EnablePrivateNodes a) (pcs_EnablePrivateNodes b)
     \<and> keeps_ptr (pcs_MasterGlobalAccessConfig a) (pcs_MasterGlobalAccessConfig b)
     \<and> keeps_ptr (pcs_MasterIpv4CidrBlock a) (pcs_MasterIpv4CidrBlock b)"

definition export_keeps :: "ResourceUsageExportConfig \<Rightarrow> ResourceUsageExportConfig \<Rightarrow> bool" where
  "export_keeps a b \<longleftrightarrow> keeps_ptr (rue_BigqueryDestination a) (rue_BigqueryDestination b)
     \<and> keeps_ptr (rue_ConsumptionMeteringConfig a) (rue_ConsumptionMeteringConfig b)
     \<and> keeps_ptr (rue_EnableNetworkEgressMetering a) (rue_EnableNetworkEgressMetering b)"

definition cluster_keeps :: "ClusterParameters \<Rightarrow> ClusterParameters \<Rightarrow> bool" where
  "cluster_keeps a b \<longleftrightarrow> ccp_Location b = ccp_Location a \<and> keeps_struct addons_keeps (ccp_AddonsConfig a) (ccp_AddonsConfig b)
     \<and> keeps_struct groups_keeps (ccp_AuthenticatorGroupsConfig a) (ccp_AuthenticatorGroupsConfig b)
     \<and> keeps_ptr (ccp_Autopilot a) (ccp_Autopilot b)
     \<and> keeps_struct cluster_autoscaling_keeps (ccp_Autoscaling a) (ccp_Autoscaling b)
     \<and> keeps_ptr (ccp_BinaryAuthorization a) (ccp_BinaryAuthorization b)
     \<and> keeps_ptr (ccp_ClusterIpv4Cidr a) (ccp_ClusterIpv4Cidr b)
     \<and> keeps_ptr (ccp_ConfidentialNodes a) (ccp_ConfidentialNodes b)
     \<and> keeps_struct encryption_keeps (ccp_DatabaseEncryption a) (ccp_DatabaseEncryption b)
     \<and> keeps_ptr (ccp_DefaultMaxPodsConstraint a) (ccp_DefaultMaxPodsConstraint b)
     \<and> keeps_ptr (ccp_Description a) (ccp_Description b)
     \<and> keeps_ptr (ccp_EnableKubernetesAlpha a) (ccp_EnableKubernetesAlpha b)
     \<and> keeps_ptr (ccp_EnableTpu a) (ccp_EnableTpu b)
     \<and> keeps_ptr (ccp_InitialClusterVersion a) (ccp_InitialClusterVersion b)
     \<and> keeps_struct allocation_keeps (ccp_IPAllocationPolicy a) (ccp_IPAllocationPolicy b)
     \<and> keeps_ptr (ccp_LabelFingerprint a) (ccp_LabelFingerprint b)
     \<and> keeps_ptr (ccp_LegacyAbac a) (ccp_LegacyAbac b) \<and> keeps_slice (ccp_Locations a) (ccp_Locations b)
     \<and> keeps_ptr (ccp_LoggingService a) (ccp_LoggingService b)
     \<and> keeps_ptr (ccp_MaintenancePolicy a) (ccp_MaintenancePolicy b)
     \<and> keeps_struct master_auth_keeps (ccp_MasterAuth a) (ccp_MasterAuth b)
     \<and> keeps_struct networks_keeps (ccp_MasterAuthorizedNetworksConfig a) (ccp_MasterAuthorizedNetworksConfig b)
     \<and> keeps_ptr (ccp_MonitoringService a) (ccp_MonitoringService b)
     \<and> keeps_ptr (ccp_Network a) (ccp_Network b) \<and> ccp_NetworkRef b = ccp_NetworkRef a
     \<and> ccp_NetworkSelector b = ccp_NetworkSelector a
     \<and> keeps_struct network_config_keeps (ccp_NetworkConfig a) (ccp_NetworkConfig b)
     \<and> keeps_struct network_policy_keeps (ccp_NetworkPolicy a) (ccp_NetworkPolicy b)
     \<and> keeps_ptr (ccp_NotificationConfig a) (ccp_NotificationConfig b)
     \<and> keeps_struct private_keeps (ccp_PrivateClusterConfig a) (ccp_PrivateClusterConfig b)
     \<and> keeps_ptr (ccp_ReleaseChannel a) (ccp_ReleaseChannel b)
     \<and> keeps_map (ccp_ResourceLabels a) (ccp_ResourceLabels b)
     \<and> keeps_struct export_keeps (ccp_ResourceUsageExportConfig a) (ccp_ResourceUsageExportConfig b)
     \<and> keeps_ptr (ccp_Subnetwork a) (ccp_Subnetwork b) \<and> ccp_SubnetworkRef b = ccp_SubnetworkRef a
     \<and> ccp_SubnetworkSelector b = ccp_SubnetworkSelector a
     \<and> keeps_ptr (ccp_VerticalPodAutoscaling a) (ccp_VerticalPodAutoscaling b)
     \<and> keeps_ptr (ccp_WorkloadIdentityConfig a) (ccp_WorkloadIdentityConfig b)"

lemmas cl_keeps_defs = cloud_run_keeps_def groups_keeps_def management_keeps_def shielded2_keeps_def upgrade_keeps_def
  encryption_keeps_def allocation_keeps_def master_auth_keeps_def network_config_keeps_def network_policy_keeps_def
  private_keeps_def export_keeps_def networks_keeps_def

lemma cl_keeps_refl [simp]:
  "addons_keeps a1 a1" "cloud_run_keeps a2 a2" "groups_keeps a3 a3" "management_keeps a4 a4" "shielded2_keeps a5 a5"
  "upgrade_keeps a6 a6" "pool_defaults_keeps a7 a7" "cluster_autoscaling_keeps a8 a8" "encryption_keeps a9 a9"
  "allocation_keeps b1 b1" "master_auth_keeps b2 b2" "networks_keeps b3 b3" "network_config_keeps b4 b4"
  "network_policy_keeps b5 b5" "private_keeps b6 b6" "export_keeps b7 b7"
  by (simp_all add: cl_keeps_defs addons_keeps_def pool_defaults_keeps_def cluster_autoscaling_keeps_def keeps_struct_refl)

lemma cl_block_keeps [simp]:
  "allocation_keeps b1 (late_allocation b1 x1)" "master_auth_keeps b2 (late_master_auth b2 x2)"
  "network_config_keeps b4 (late_network_config b4 x3)" "private_keeps b6 (late_private_cluster b6 x4)"
  "export_keeps b7 (late_usage_export b7 x5)" "pool_defaults_keeps b8 (late_pool_defaults b8 x6)"
  by (simp_all add: cl_keeps_defs late_allocation_def late_master_auth_def late_network_config_def late_private_cluster_def
      late_usage_export_def pool_defaults_keeps_def late_pool_defaults_def late_block_keeps)

lemma late_addons_keeps: "late_addons s x = Some s' \<Longrightarrow> keeps_struct addons_keeps s s'"
  by (cases s; cases x)
    (auto simp: late_addons_def addons_keeps_def cloud_run_keeps_def keeps_struct_refl bind_eq_Some_conv split: option.splits)

lemma late_cluster_autoscaling_keeps: "late_cluster_autoscaling s x = Some s' \<Longrightarrow> keeps_struct cluster_autoscaling_keeps s s'"
  by (cases s; cases x) (auto simp: late_cluster_autoscaling_def cluster_autoscaling_keeps_def bind_eq_Some_conv keeps_struct_refl
      late_block_keeps late_slice_keeps)

lemma late_authorized_networks_keeps: "late_authorized_networks s x = Some s' \<Longrightarrow> keeps_struct networks_keeps s s'"
  by (cases s; cases x) (auto simp: late_authorized_networks_def networks_keeps_def bind_eq_Some_conv late_slice_keeps)

lemma late_maintenance_policy_keeps: "late_maintenance_policy s x = Some s' \<Longrightarrow> keeps_ptr s s'"
  by (cases s) (auto simp: late_maintenance_policy_def keeps_ptr_def)

interpretation cluster_late_init: late_initializer cluster_LateInitializeSpec cluster_keeps
proof
  show "cluster_keeps s s" for s by (simp add: cluster_keeps_def keeps_struct_refl)
  show "cluster_keeps s s'" if "cluster_LateInitializeSpec s x = Some s'" for s x s'
    using that
    by (auto simp: cluster_LateInitializeSpec_def cluster_keeps_def bind_eq_Some_conv late_addons_keeps late_cluster_autoscaling_keeps
        late_authorized_networks_keeps late_maintenance_policy_keeps late_block_keeps groups_keeps_def encryption_keeps_def network_policy_keeps_def)
qed

section \<open>Handlers\<close>

lemma cluster_connectionDetails_total: "\<exists>d. cluster_connectionDetails e x = Some d"
  by (auto simp: cluster_connectionDetails_def GenerateClientConfig_def Let_def split: option.split sum.split)

lemma cluster_conditions_simps [simp]:
  "ExternalName (cluster_conditions st cr) = ExternalName cr" "ForProvider (cluster_conditions st cr) = ForProvider cr"
  by (simp_all add: cluster_conditions_def)

lemma cluster_IsUpToDate_total:
  assumes "copy_ok (clx_copy e)" and "cl_cmp_ok (clx_cmp e)"
  shows "\<exists>u fn x'. cluster_IsUpToDate e name p x = Some (u, fn, None, x')"
  using cluster_IsUpToDate_search [OF assms, of name p x] by (auto split: option.splits)

text \<open>The update of a stage makes one call, whose effect is that of the stage.\<close>

lemmas cl_update_defs = deleteBootstrapNodePoolFn_def newAddonsConfigUpdateFn_def newAutopilotUpdateFn_def
  cluster_newAutoscalingUpdateFn_def newBinaryAuthorizationUpdateFn_def newDatabaseEncryptionUpdateFn_def newLegacyAbacUpdateFn_def
  newLocationsUpdateFn_def newLoggingServiceUpdateFn_def newMaintenancePolicyUpdateFn_def
  newMasterAuthorizedNetworksConfigUpdateFn_def newMonitoringServiceUpdateFn_def newIntraNodeVisibilityConfigUpdateFn_def
  newDatapathProviderUpdateFn_def newNetworkPolicyUpdateFn_def newNotificationConfigUpdateFn_def newPrivateClusterConfigUpdateFn_def
  newReleaseChannelUpdateFn_def newResourceLabelsUpdateFn_def newResourceUsageExportConfigUpdateFn_def
  newVerticalPodAutoscalingUpdateFn_def newWorkloadIdentityConfigUpdateFn_def

lemma cl_update_total:
  "k = ClLegacyAbac \<Longrightarrow> ccp_LegacyAbac p \<noteq> None \<Longrightarrow> \<exists>r. cl_update_of p k e n w = Some r"
  "k \<noteq> ClLegacyAbac \<Longrightarrow> \<exists>r. cl_update_of p k e n w = Some r"
  by (auto simp: cl_update_defs gen_block_def) (cases k; simp add: cl_update_defs)

lemma cl_update_effect:
  assumes "cl_service_ok e" and "k = ClLegacyAbac \<Longrightarrow> ccp_LegacyAbac p \<noteq> None"
    and "Clusters_Get e n w = (w1, Inr x)" and "cl_update_of p k e n w1 = Some (w2, Inr ())"
  shows "\<exists>w3. Clusters_Get e n w2 = (w3, Inr (cl_effect p k x))"
proof -
  note ok = assms(1) [unfolded cl_service_ok_def, rule_format, OF assms(3)]
  show ?thesis
  proof (cases "k = ClLegacyAbac")
    case True
    with assms(2) obtain l where "ccp_LegacyAbac p = Some l" by blast
    with True assms(4) ok show ?thesis by (auto simp: newLegacyAbacUpdateFn_def gen_block_def cl_effect.simps)
  next
    case False
    with assms(4) ok show ?thesis by (cases k) (auto simp: cl_update_defs cl_effect.simps simp del: cl_requests)
  qed
qed

lemma cluster_Update_step:
  assumes "wrap_ok (clx_runtime e)" and "copy_ok (clx_copy e)" and "cl_service_ok e" and "cl_cmp_ok (clx_cmp e)"
    and "cob_Status (AtProvider cr) \<notin> {ClusterStateReconciling, ClusterStateProvisioning}"
    and "\<exists>w1. Clusters_Get e (cluster_GetFullyQualifiedName (clx_projectID e) (ForProvider cr) (ExternalName cr)) w = (w1, Inr x)"
    and "succeeds (cluster_Update e (Some cr) w) = Some w'"
  shows "\<exists>w1. Clusters_Get e (cluster_GetFullyQualifiedName (clx_projectID e) (ForProvider cr) (ExternalName cr)) w' =
     (w1, Inr (stage_step (cl_pending e (ExternalName cr) (ForProvider cr)) (cl_effect (ForProvider cr)) cl_stages x))"
proof -
  let ?n = "cluster_GetFullyQualifiedName (clx_projectID e) (ForProvider cr) (ExternalName cr)" and ?p = "ForProvider cr"
  let ?pend = "cl_pending e (ExternalName cr) ?p"
  obtain w1 where get: "Clusters_Get e ?n w = (w1, Inr x)" using assms(6) by blast
  obtain n where search: "cluster_IsUpToDate e (ExternalName cr) ?p x = Some (case first_pending ?pend cl_stages x of
        None \<Rightarrow> (True, cluster_noOpUpdate, None, x\<lparr>kc_NetworkConfig := n\<rparr>)
      | Some k \<Rightarrow> (False, cl_update_of ?p k, None, x\<lparr>kc_NetworkConfig := n\<rparr>))"
    using cluster_IsUpToDate_search [OF assms(2,4)] by blast
  show ?thesis
  proof (cases "first_pending ?pend cl_stages x")
    case None
    with search assms(5,7) get have "w' = w1" by (auto simp: succeeds_Some cluster_Update_def Let_def)
    with assms(3) get None show ?thesis by (auto simp: cl_service_ok_def stage_step_def)
  next
    case (Some k)
    then have "?pend k x" using first_pending_Some by fast
    with search assms(1,5,7) get Some obtain r where r: "cl_update_of ?p k e ?n w1 = Some r" "call_error r = None" "w' = fst r"
      by (auto simp: succeeds_Some cluster_Update_def Let_def bind_eq_Some_conv)
    then have "cl_update_of ?p k e ?n w1 = Some (w', Inr ())" using call_error_None_unit by metis
    with cl_update_effect [OF assms(3) _ get] cl_pending_spec(1) [OF assms(4) \<open>?pend k x\<close>] Some show ?thesis
      by (auto simp: stage_step_def)
  qed
qed

section \<open>A sample service\<close>

text \<open>A service whose state is one cluster, and a cluster that differs from its spec in several aspects.\<close>

definition sample_comparers :: cluster_comparers where
  "sample_comparers = \<lparr>addons_cmp = (\<lambda>a b. map_option drop_force_send a = map_option drop_force_send b), autopilot_cmp = (=),
     autoscaling_cmp = (=), binauthz_cmp = (=), dbenc_cmp = (=), abac_cmp = (=), slice_cmp = (\<lambda>a b. nil_slice a = nil_slice b),
     string_cmp = (=), maintenance_cmp = (=), networks_cmp = (=), bool_cmp = (=), netpolicy_cmp = (=), notification_cmp = (=),
     private_cmp = (=), channel_cmp = (=), labels_cmp = (\<lambda>a b. nil_map a = nil_map b), export_cmp = (=), vpa_cmp = (=), identity_cmp = (=)\<rparr>"

definition sample_clusterExternal :: "(container_Cluster, sample_error) clusterExternal" where
  "sample_clusterExternal = \<lparr>clx_runtime = sample_runtime, clx_copy = (\<lambda>x. Inr (Some x)), clx_cmp = sample_comparers,
     clx_spec_cmp = (=), clx_base64_error = errors_New sample_runtime, clientcmd_Write = (\<lambda>c. Inr (kcf_CurrentContext c)),
     clx_kube_Update = (\<lambda>cr w. (w, cr, None)), clx_projectID = ''p'', Clusters_Get = (\<lambda>n w. (w, Inr w)),
     Clusters_Create = (\<lambda>n x w. (x, Inr ())), Clusters_Update = (\<lambda>n u w. (apply_cluster_update u w, Inr ())),
     Clusters_SetLegacyAbac = (\<lambda>n b w. (apply_abac b w, Inr ())),
     Clusters_SetMaintenancePolicy = (\<lambda>n m w. (apply_maintenance m w, Inr ())),
     Clusters_SetNetworkPolicy = (\<lambda>n q w. (apply_network_policy q w, Inr ())),
     Clusters_SetResourceLabels = (\<lambda>n m w. (apply_labels m w, Inr ())),
     Clusters_Delete = (\<lambda>n w. (w, Inr ())), Clusters_NodePools_Delete = (\<lambda>n w. (drop_bootstrap w, Inr ()))\<rparr>"

lemma sample_cluster_ok:
  "wrap_ok (clx_runtime sample_clusterExternal)" "copy_ok (clx_copy sample_clusterExternal)"
  "cl_service_ok sample_clusterExternal" "cl_cmp_ok (clx_cmp sample_clusterExternal)"
  "cmp_exact (clx_spec_cmp sample_clusterExternal)"
  by (auto simp: sample_clusterExternal_def sample_runtime_ok copy_ok_def cl_service_ok_def cl_cmp_ok_def cmp_exact_def
      cmp_refl_def cmp_respects_def sample_comparers_def)

lemma sample_cluster_calls:
  "Clusters_Get sample_clusterExternal n w = (w, Inr w)"
  "snd (Clusters_Update sample_clusterExternal n u w) = Inr ()"
  "snd (Clusters_SetLegacyAbac sample_clusterExternal n b w) = Inr ()"
  "snd (Clusters_SetMaintenancePolicy sample_clusterExternal n m w) = Inr ()"
  "snd (Clusters_SetNetworkPolicy sample_clusterExternal n q w) = Inr ()"
  "snd (Clusters_SetResourceLabels sample_clusterExternal n l w) = Inr ()"
  "snd (Clusters_NodePools_Delete sample_clusterExternal n w) = Inr ()"
  "errors_Wrap (clx_runtime sample_clusterExternal) None t = None"
  by (simp_all add: sample_clusterExternal_def sample_runtime_def)

lemma sample_cl_update: "cl_update_of p k sample_clusterExternal n w = Some r \<Longrightarrow> snd r = Inr ()"
  by (cases k) (auto simp: cl_update_defs sample_cluster_calls bind_eq_Some_conv simp del: cl_requests)

lemma sample_cluster_Update_succeeds: "\<exists>w'. succeeds (cluster_Update sample_clusterExternal (Some cr) w) = Some w'"
proof -
  let ?p = "ForProvider cr" and ?e = sample_clusterExternal
  let ?pend = "cl_pending ?e (ExternalName cr) ?p"
  obtain n where search: "cluster_IsUpToDate ?e (ExternalName cr) ?p w = Some (case first_pending ?pend cl_stages w of
        None \<Rightarrow> (True, cluster_noOpUpdate, None, w\<lparr>kc_NetworkConfig := n\<rparr>)
      | Some k \<Rightarrow> (False, cl_update_of ?p k, None, w\<lparr>kc_NetworkConfig := n\<rparr>))"
    using cluster_IsUpToDate_search [OF sample_cluster_ok(2,4)] by blast
  have get: "Clusters_Get ?e m w = (w, Inr w)" "errors_Wrap (clx_runtime ?e) None t = None" for m t
    by (simp_all add: sample_cluster_calls)
  show ?thesis
  proof (cases "first_pending ?pend cl_stages w")
    case (Some k)
    then have "?pend k w" using first_pending_Some by fast
    then obtain r where r: "cl_update_of ?p k ?e (cluster_GetFullyQualifiedName (clx_projectID ?e) ?p (ExternalName cr)) w = Some r"
      using cl_update_total [of k ?p ?e _ w] cl_pending_spec(1) [OF sample_cluster_ok(4) \<open>?pend k w\<close>] by metis
    then have "snd r = Inr ()" by (rule sample_cl_update)
    then have "errors_Wrap (clx_runtime ?e) (call_error r) m = None" for m using get(2) by (simp add: call_error_def)
    with search get Some r show ?thesis by (simp add: succeeds_Some cluster_Update_def Let_def)
  qed (use search get in \<open>auto simp: succeeds_Some cluster_Update_def Let_def\<close>)
qed

lemma sample_cluster_rounds: "\<exists>w'. rounds (\<lambda>w. succeeds (cluster_Update sample_clusterExternal (Some cr) w)) n w = Some w'"
proof (induction n arbitrary: w)
  case (Suc n)
  obtain w1 where "succeeds (cluster_Update sample_clusterExternal (Some cr) w) = Some w1"
    using sample_cluster_Update_succeeds by blast
  with Suc show ?case by simp
qed simp

definition ClusterParameters0 :: ClusterParameters where
  "ClusterParameters0 = \<lparr>ccp_Location = '''', ccp_AddonsConfig = None, ccp_AuthenticatorGroupsConfig = None, ccp_Autopilot = None,
     ccp_Autoscaling = None, ccp_BinaryAuthorization = None, ccp_ClusterIpv4Cidr = None, ccp_ConfidentialNodes = None,
     ccp_DatabaseEncryption = None, ccp_DefaultMaxPodsConstraint = None, ccp_Description = None, ccp_EnableKubernetesAlpha = None,
     ccp_EnableTpu = None, ccp_InitialClusterVersion = None, ccp_IPAllocationPolicy = None, ccp_LabelFingerprint = None,
     ccp_LegacyAbac = None, ccp_Locations = None, ccp_LoggingService = None, ccp_MaintenancePolicy = None, ccp_MasterAuth = None,
     ccp_MasterAuthorizedNetworksConfig = None, ccp_MonitoringService = None, ccp_Network = None, ccp_NetworkRef = None,
     ccp_NetworkSelector = None, ccp_NetworkConfig = None, ccp_NetworkPolicy = None, ccp_NotificationConfig = None,
     ccp_PrivateClusterConfig = None, ccp_ReleaseChannel = None, ccp_ResourceLabels = None, ccp_ResourceUsageExportConfig = None,
     ccp_Subnetwork = None, ccp_SubnetworkRef = None, ccp_SubnetworkSelector = None, ccp_VerticalPodAutoscaling = None,
     ccp_WorkloadIdentityConfig = None\<rparr>"

definition sample_cluster :: container_Cluster where
  "sample_cluster = AddNodePoolForCreate (container_Cluster0\<lparr>kc_Name := ''c'', kc_Status := ClusterStateRunning,
     kc_LoggingService := ''none'', kc_NetworkConfig := Some container_NetworkConfig0\<rparr>)"

definition sample_cluster_params :: ClusterParameters where
  "sample_cluster_params = ClusterParameters0\<lparr>ccp_Location := ''us'', ccp_LoggingService := Some ''stackdriver'',
     ccp_LegacyAbac := Some \<lparr>lab_Enabled = False\<rparr>, ccp_NetworkConfig := Some (NetworkConfigSpec0\<lparr>
       ncs_DatapathProvider := Some ''ADVANCED'', ncs_EnableIntraNodeVisibility := Some True\<rparr>)\<rparr>"

definition sample_cluster_cr :: Cluster where
  "sample_cluster_cr = (sample_managed sample_cluster_params (cluster_GenerateObservation sample_cluster))\<lparr>ExternalName := ''c''\<rparr>"

lemma sample_cluster_ready: "cl_ready sample_cluster_params sample_cluster"
  by (simp add: cl_ready_def cl_settled_iff sample_cluster_params_def ClusterParameters0_def sample_cluster_def AddNodePoolForCreate_def
      container_Cluster0_def NetworkConfigSpec0_def container_NetworkConfig0_def late_addons_def late_cluster_autoscaling_def
      late_maintenance_policy_def late_authorized_networks_def late_block_def late_network_config_def LateInitializeString_def)

section \<open>Properties\<close>

text \<open>C3: the updates of a cluster come to an end. If the spec has been late-initialised and does not ask for a
  service name to be emptied (\<open>cl_ready\<close>), then after twenty-two successful updates, one for every
  aspect that the client compares and chosen by the client one at a time, the next \<open>Observe\<close> reports the cluster as
  existing and up to date and leaves the spec alone. The service only has to apply the requests as documented.\<close>

theorem cluster_updates_converge:
  assumes "wrap_ok (clx_runtime e)" and "copy_ok (clx_copy e)" and "cl_service_ok e" and "cl_cmp_ok (clx_cmp e)"
    and "cmp_exact (clx_spec_cmp e)" and "cl_ready (ForProvider cr) x"
    and "cob_Status (AtProvider cr) \<notin> {ClusterStateReconciling, ClusterStateProvisioning}"
    and "Clusters_Get e (cluster_GetFullyQualifiedName (clx_projectID e) (ForProvider cr) (ExternalName cr)) w = (w1, Inr x)"
    and "rounds (\<lambda>w. succeeds (cluster_Update e (Some cr) w)) 22 w = Some w'"
  shows "\<exists>w2 cr2 ob. cluster_Observe e (Some cr) w' = Some (w2, Some cr2, ob, None)
    \<and> ResourceExists ob \<and> ResourceUpToDate ob \<and> ForProvider cr2 = ForProvider cr"
proof -
  let ?n = "cluster_GetFullyQualifiedName (clx_projectID e) (ForProvider cr) (ExternalName cr)" and ?p = "ForProvider cr"
  let ?pend = "cl_pending e (ExternalName cr) ?p"
  let ?y = "(stage_step ?pend (cl_effect ?p) cl_stages ^^ 22) x"
  have "\<exists>w1. Clusters_Get e ?n w' = (w1, Inr ?y)"
  proof (rule rounds_follow [where R = "\<lambda>w x. \<exists>w1. Clusters_Get e ?n w = (w1, Inr x)"
        and I = "\<lambda>x. cl_cmp_ok (clx_cmp e) \<and> cl_ready ?p x" and f = "\<lambda>w. succeeds (cluster_Update e (Some cr) w)"])
    show "\<exists>w1. Clusters_Get e ?n w' = (w1, Inr (stage_step ?pend (cl_effect ?p) cl_stages x))"
      if "\<exists>w1. Clusters_Get e ?n w = (w1, Inr x)" "cl_cmp_ok (clx_cmp e) \<and> cl_ready ?p x"
        "succeeds (cluster_Update e (Some cr) w) = Some w'" for w w' x
      using cluster_Update_step [OF assms(1-4,7) that(1,3)] .
  qed (use cl_staged.step_inv assms(4,6,8,9) in blast)+
  then obtain w2 where get: "Clusters_Get e ?n w' = (w2, Inr ?y)" by blast
  have r: "cluster_LateInitializeSpec ?p ?y = Some ?p"
    using cl_staged.steps_inv [of e ?p x 22] assms(4,6) by (simp add: cl_ready_def)
  have "length cl_stages = 22" by (simp add: cl_stages_def cl_stages_before_def cl_stages_after_def)
  then have "first_pending ?pend cl_stages ?y = None" using cl_staged.steps_settle [of e ?p x] assms(4,6) by metis
  then obtain y' where "cluster_IsUpToDate e (ExternalName cr) ?p ?y = Some (True, cluster_noOpUpdate, None, y')"
    using cluster_IsUpToDate_search [OF assms(2,4), of "ExternalName cr" ?p ?y] by auto
  moreover obtain d where "cluster_connectionDetails e y' = Some d" using cluster_connectionDetails_total by blast
  ultimately show ?thesis using get r assms(5) by (simp add: cluster_Observe_def cmp_exact_def Let_def)
qed

text \<open>Witness of C3: a new cluster, with its bootstrap node pool, whose logging and network settings differ from
  the spec.\<close>

lemma cluster_updates_converge_witness:
  "\<exists>w' w2 cr2 ob. rounds (\<lambda>w. succeeds (cluster_Update sample_clusterExternal (Some sample_cluster_cr) w)) 22 sample_cluster = Some w'
    \<and> w' \<noteq> sample_cluster \<and> cluster_Observe sample_clusterExternal (Some sample_cluster_cr) w' = Some (w2, Some cr2, ob, None)
    \<and> ResourceUpToDate ob"
proof -
  have cr: "ForProvider sample_cluster_cr = sample_cluster_params"
      "cob_Status (AtProvider sample_cluster_cr) \<notin> {ClusterStateReconciling, ClusterStateProvisioning}"
    by (simp_all add: sample_cluster_cr_def sample_managed_def cluster_GenerateObservation_def sample_cluster_def
        AddNodePoolForCreate_def ClusterStateReconciling_def ClusterStateProvisioning_def ClusterStateRunning_def)
  obtain w' where w': "rounds (\<lambda>w. succeeds (cluster_Update sample_clusterExternal (Some sample_cluster_cr) w)) 22 sample_cluster = Some w'"
    using sample_cluster_rounds by blast
  have obs: "\<exists>w2 cr2 ob. cluster_Observe sample_clusterExternal (Some sample_cluster_cr) w' = Some (w2, Some cr2, ob, None)
    \<and> ResourceExists ob \<and> ResourceUpToDate ob \<and> ForProvider cr2 = ForProvider sample_cluster_cr"
    by (rule cluster_updates_converge [OF sample_cluster_ok _ cr(2) _ w', of sample_cluster sample_cluster])
      (simp_all add: cr sample_cluster_ready sample_cluster_calls)
  moreover have "w' \<noteq> sample_cluster"
  proof
    assume "w' = sample_cluster"
    moreover have "checkForBootstrapNodePool sample_cluster"
      by (simp add: checkForBootstrapNodePool_def sample_cluster_def AddNodePoolForCreate_def container_NodePool0_def Let_def)
    then have "cluster_IsUpToDate sample_clusterExternal n p sample_cluster = Some (False, deleteBootstrapNodePoolFn, None, sample_cluster)" for n p
      by (simp add: cluster_IsUpToDate_def sample_clusterExternal_def)
    ultimately show False
      using obs cr sample_cluster_ready cluster_connectionDetails_total [of sample_clusterExternal sample_cluster]
      by (auto simp: cluster_Observe_def sample_cluster_calls Let_def cl_ready_def sample_cluster_ok(5) [unfolded cmp_exact_def] )
  qed
  ultimately show ?thesis using w' by blast
qed

text \<open>C4: the comparison is equivalent to a search. Whatever the cluster looks like, \<open>IsUpToDate\<close> neither panics nor
  fails, it reports the cluster as up to date if and only if none of the twenty-two aspects is pending,
  and otherwise returns the update function of the first pending aspect in the list \<open>cl_stages\<close>. Of
  the observed cluster it changes at most the network configuration, which it fills in if it is missing.\<close>

theorem cluster_IsUpToDate_finds_first:
  assumes "copy_ok (clx_copy e)" and "cl_cmp_ok (clx_cmp e)"
  shows "\<exists>u fn x'. cluster_IsUpToDate e name p x = Some (u, fn, None, x')
    \<and> u = (\<forall>k. \<not> cl_pending e name p k x)
    \<and> (\<forall>k. List.find (\<lambda>k. cl_pending e name p k x) cl_stages = Some k \<longrightarrow> fn = cl_update_of p k)
    \<and> (x' = x \<or> x' = x\<lparr>kc_NetworkConfig := Some (network_of x)\<rparr>)"
proof -
  have all: "k \<in> set cl_stages" for k
    by (cases k) (simp_all add: cl_stages_def cl_stages_before_def cl_stages_after_def)
  obtain n where n: "n \<in> {kc_NetworkConfig x, Some (network_of x)}"
    and search: "cluster_IsUpToDate e name p x = Some (case first_pending (cl_pending e name p) cl_stages x of
        None \<Rightarrow> (True, cluster_noOpUpdate, None, x\<lparr>kc_NetworkConfig := n\<rparr>)
      | Some k \<Rightarrow> (False, cl_update_of p k, None, x\<lparr>kc_NetworkConfig := n\<rparr>))"
    using cluster_IsUpToDate_search [OF assms, of name p x] by blast
  then have x': "x\<lparr>kc_NetworkConfig := n\<rparr> = x \<or> x\<lparr>kc_NetworkConfig := n\<rparr> = x\<lparr>kc_NetworkConfig := Some (network_of x)\<rparr>" by auto
  show ?thesis
  proof (cases "first_pending (cl_pending e name p) cl_stages x")
    case None
    then have "\<forall>k. \<not> cl_pending e name p k x" using all by (simp add: first_pending_None)
    with search x' None show ?thesis by (auto simp: first_pending_def)
  next
    case (Some k)
    then have "cl_pending e name p k x" using first_pending_Some by fast
    with search x' Some show ?thesis by (auto simp: first_pending_def)
  qed
qed

text \<open>Witness of C4: the new cluster, for which the first step is to delete the bootstrap node pool.\<close>

lemma cluster_IsUpToDate_finds_first_witness:
  "\<exists>fn x'. cluster_IsUpToDate sample_clusterExternal ''c'' sample_cluster_params sample_cluster = Some (False, fn, None, x')
    \<and> fn = deleteBootstrapNodePoolFn"
proof -
  have b: "cl_pending sample_clusterExternal ''c'' sample_cluster_params ClBootstrap sample_cluster"
    by (simp add: checkForBootstrapNodePool_def sample_cluster_def AddNodePoolForCreate_def container_NodePool0_def Let_def)
  then have "List.find (\<lambda>k. cl_pending sample_clusterExternal ''c'' sample_cluster_params k sample_cluster) cl_stages = Some ClBootstrap"
    by (simp add: cl_stages_def cl_stages_before_def)
  moreover obtain u fn x' where "cluster_IsUpToDate sample_clusterExternal ''c'' sample_cluster_params sample_cluster = Some (u, fn, None, x')"
      "u = (\<forall>k. \<not> cl_pending sample_clusterExternal ''c'' sample_cluster_params k sample_cluster)"
      "\<forall>k. List.find (\<lambda>k. cl_pending sample_clusterExternal ''c'' sample_cluster_params k sample_cluster) cl_stages = Some k
        \<longrightarrow> fn = cl_update_of sample_cluster_params k"
    using cluster_IsUpToDate_finds_first [OF sample_cluster_ok(2,4), of "''c''" sample_cluster_params sample_cluster] by blast
  moreover from this(2) b have "\<not> u" by blast
  ultimately show ?thesis by simp
qed

text \<open>C26: when observing a cluster crashes the provider. \<open>Observe\<close> panics exactly if the cluster has the Cloud Run addon
  and the spec has no setting for it, or it has a recurring maintenance window and the spec no
  maintenance policy, or one of the two lists that are late-initialised has a nil element. Nothing
  else that a cluster or a spec contains can make it panic.\<close>

theorem cluster_Observe_panics_iff:
  assumes "copy_ok (clx_copy e)" and "cl_cmp_ok (clx_cmp e)"
    and "Clusters_Get e (cluster_GetFullyQualifiedName (clx_projectID e) (ForProvider cr) (ExternalName cr)) w = (w1, Inr x)"
  shows "cluster_Observe e (Some cr) w = None \<longleftrightarrow>
     (Option.bind (kc_AddonsConfig x) kad_CloudRunConfig \<noteq> None
        \<and> Option.bind (ccp_AddonsConfig (ForProvider cr)) adn_CloudRunConfig = None)
     \<or> (ccp_MaintenancePolicy (ForProvider cr) = None
        \<and> Option.bind (Option.bind (kc_MaintenancePolicy x) kmp_Window) kmw_RecurringWindow \<noteq> None)
     \<or> (len (Option.bind (ccp_Autoscaling (ForProvider cr)) cas_ResourceLimits) = 0
        \<and> None \<in> set (elems (Option.bind (kc_Autoscaling x) kas_ResourceLimits)))
     \<or> (len (Option.bind (ccp_MasterAuthorizedNetworksConfig (ForProvider cr)) man_CidrBlocks) = 0
        \<and> None \<in> set (elems (Option.bind (kc_MasterAuthorizedNetworksConfig x) kmn_CidrBlocks)))"
proof -
  have "cluster_Observe e (Some cr) w \<noteq> None" if "cluster_LateInitializeSpec (ForProvider cr) x = Some s" for s
  proof -
    obtain w2 cr2 err where upd: "(if \<not> clx_spec_cmp e (ForProvider cr) s
        then clx_kube_Update e (cr\<lparr>AtProvider := cluster_GenerateObservation x, ForProvider := s\<rparr>) w1
        else (w1, cr\<lparr>AtProvider := cluster_GenerateObservation x, ForProvider := s\<rparr>, None)) = (w2, cr2, err)"
      by (metis prod_cases3)
    obtain u fn x' where "cluster_IsUpToDate e (ExternalName cr2) (ForProvider cr2) x = Some (u, fn, None, x')"
      using cluster_IsUpToDate_total [OF assms(1,2)] by blast
    moreover obtain d where "cluster_connectionDetails e x' = Some d" using cluster_connectionDetails_total by blast
    ultimately show ?thesis using assms(3) that upd by (simp add: cluster_Observe_def Let_def)
  qed
  moreover have "cluster_Observe e (Some cr) w = None" if "cluster_LateInitializeSpec (ForProvider cr) x = None"
    using assms(3) that by (simp add: cluster_Observe_def Let_def)
  ultimately have "cluster_Observe e (Some cr) w = None \<longleftrightarrow> cluster_LateInitializeSpec (ForProvider cr) x = None" by force
  then show ?thesis
    by (simp add: cluster_init_None late_addons_None late_cluster_autoscaling_None late_maintenance_policy_None
        late_authorized_networks_None disj_ac)
qed

text \<open>Witness of C26: a cluster with the Cloud Run addon, which the spec does not mention.\<close>

lemma cluster_Observe_panics_iff_witness:
  "cluster_Observe sample_clusterExternal (Some sample_cluster_cr) (sample_cluster\<lparr>kc_AddonsConfig :=
     Some (container_AddonsConfig0\<lparr>kad_CloudRunConfig := Some container_CloudRunConfig0\<rparr>)\<rparr>) = None"
proof -
  let ?x = "sample_cluster\<lparr>kc_AddonsConfig := Some (container_AddonsConfig0\<lparr>kad_CloudRunConfig := Some container_CloudRunConfig0\<rparr>)\<rparr>"
  have "ccp_AddonsConfig (ForProvider sample_cluster_cr) = None"
    by (simp add: sample_cluster_cr_def sample_managed_def sample_cluster_params_def ClusterParameters0_def)
  with cluster_Observe_panics_iff [OF sample_cluster_ok(2,4) sample_cluster_calls(1), of sample_cluster_cr ?x] show ?thesis by simp
qed

text \<open>C25: what late initialisation of a cluster does to the spec. It keeps every field that the user has set
  (\<open>cluster_keeps\<close>), doing it again changes nothing, and there is one exception: if the cluster reports a setting
  for the client certificate, that setting replaces the one of the spec, so that a user who asks for
  the opposite sees the request disappear.\<close>

theorem cluster_late_init_contract:
  assumes "cluster_LateInitializeSpec s x = Some s'"
  shows "cluster_keeps s s' \<and> cluster_LateInitializeSpec s' x = Some s'
    \<and> (\<forall>m c. kc_MasterAuth x = Some m \<longrightarrow> kma_ClientCertificateConfig m = Some c \<longrightarrow>
        (\<exists>a. ccp_MasterAuth s' = Some a
           \<and> mau_ClientCertificateConfig a = Some \<lparr>cce_IssueClientCertificate = kce_IssueClientCertificate c\<rparr>))"
proof -
  have "\<exists>a. ccp_MasterAuth s' = Some a \<and> mau_ClientCertificateConfig a = Some \<lparr>cce_IssueClientCertificate = kce_IssueClientCertificate c\<rparr>"
    if "kc_MasterAuth x = Some m" "kma_ClientCertificateConfig m = Some c" for m c
    using assms that by (auto simp: cluster_LateInitializeSpec_def bind_eq_Some_conv late_block_def late_master_auth_def)
  with cluster_late_init.keeps_set [OF assms] cluster_init_settles [OF assms] show ?thesis by blast
qed

text \<open>Witness of C1: a spec that asks for a certificate, and a cluster that issues none.\<close>

definition certificate_spec :: ClusterParameters where
  "certificate_spec = sample_cluster_params\<lparr>ccp_MasterAuth :=
     Some \<lparr>mau_ClientCertificateConfig = Some \<lparr>cce_IssueClientCertificate = True\<rparr>, mau_Username = None\<rparr>\<rparr>"

definition certificate_cluster :: container_Cluster where
  "certificate_cluster = sample_cluster\<lparr>kc_MasterAuth := Some (container_MasterAuth0\<lparr>kma_ClientCertificateConfig :=
     Some container_ClientCertificateConfig0\<rparr>)\<rparr>"

lemma cluster_late_init_contract_witness:
  "\<exists>s' a. cluster_LateInitializeSpec certificate_spec certificate_cluster = Some s' \<and> cluster_keeps certificate_spec s'
    \<and> ccp_MasterAuth s' = Some a \<and> mau_ClientCertificateConfig a = Some \<lparr>cce_IssueClientCertificate = False\<rparr>"
proof -
  have "cluster_LateInitializeSpec certificate_spec certificate_cluster \<noteq> None"
    using sample_cluster_ready
    by (auto simp: cluster_init_None cl_ready_def cl_settled_iff certificate_spec_def certificate_cluster_def)
  then obtain s' where s': "cluster_LateInitializeSpec certificate_spec certificate_cluster = Some s'" by blast
  have "kc_MasterAuth certificate_cluster = Some (container_MasterAuth0\<lparr>kma_ClientCertificateConfig := Some container_ClientCertificateConfig0\<rparr>)"
    by (simp add: certificate_cluster_def)
  with cluster_late_init_contract [OF s'] s' show ?thesis by (auto simp: container_ClientCertificateConfig0_def)
qed

lemma notification_checks_after:
  assumes "cmp_refl (notification_cmp c)" and "kc_NotificationConfig d = kc_NotificationConfig x"
  shows "cluster_checks_after_network c (p\<lparr>ccp_NotificationConfig := n\<rparr>) d x = cluster_checks_after_network c p d x"
  using assms by (simp add: cluster_checks_after_network_def cmp_refl_def cong del: if_weak_cong split del: if_split)

lemma notification_checks:
  assumes "cmp_refl (notification_cmp c)" and "kc_NotificationConfig d = kc_NotificationConfig x"
  shows "cluster_network_checks c (p\<lparr>ccp_NotificationConfig := n\<rparr>) d x = cluster_network_checks c p d x"
  using assms by (cases "kc_NetworkConfig d") (simp_all add: cluster_network_checks_def Let_def notification_checks_after)

text \<open>C27: a change of the notification settings is never seen. Once the cluster has a Pub/Sub setting, the spec's
  notification settings make no difference to the comparison: a topic that the user changes is not
  updated, and the cluster is reported as up to date.\<close>

theorem cluster_notification_ignored:
  assumes "cmp_refl (notification_cmp (clx_cmp e))" and "copy_ok (clx_copy e)"
    and "kc_NotificationConfig x = Some c" and "knf_Pubsub c = Some q"
  shows "cluster_IsUpToDate e name (p\<lparr>ccp_NotificationConfig := n\<rparr>) x = cluster_IsUpToDate e name p x"
proof -
  have "GenerateNotificationConfig n y = y" if "kc_NotificationConfig y = Some c" for n y
    using that assms(4) by (cases n) (simp_all add: GenerateNotificationConfig_def gen_block_def)
  then have gen: "GenerateCluster name (p\<lparr>ccp_NotificationConfig := n\<rparr>) x = GenerateCluster name p x"
      "kc_NotificationConfig (GenerateCluster name p x) = kc_NotificationConfig x" for n
    using assms(3) by (simp_all add: GenerateCluster_def Let_def GenerateAddonsConfig_def GenerateAutopilot_def
        GenerateAuthenticatorGroupsConfig_def cluster_GenerateAutoscaling_def GenerateConfidentialNodes_def
        GenerateBinaryAuthorization_def GenerateDatabaseEncryption_def GenerateDefaultMaxPodsConstraint_def GenerateIPAllocationPolicy_def
        GenerateLegacyAbac_def GenerateMaintenancePolicy_def GenerateMasterAuth_def GenerateMasterAuthorizedNetworksConfig_def
        GenerateNetworkConfig_def GenerateNetworkPolicy_def GeneratePrivateClusterConfig_def GenerateReleaseChannel_def
        GenerateResourceUsageExportConfig_def GenerateVerticalPodAutoscaling_def GenerateWorkloadIdentityConfig_def)
  with assms(2) gen(1) show ?thesis
    by (simp add: cluster_IsUpToDate_def Let_def copy_ok_def notification_checks [OF assms(1) gen(2)] cong del: if_weak_cong split del: if_split)
qed

text \<open>Witness of C27: the spec names a new topic, and the answer is the same as without any notification settings.\<close>

lemma cluster_notification_ignored_witness:
  "cluster_IsUpToDate sample_clusterExternal ''c'' (sample_cluster_params\<lparr>ccp_NotificationConfig :=
      Some \<lparr>nfc_Pubsub = \<lparr>psb_Enabled = True, psb_Topic = ''new''\<rparr>\<rparr>\<rparr>)
     (sample_cluster\<lparr>kc_NotificationConfig := Some \<lparr>knf_Pubsub = Some \<lparr>kps_Enabled = True, kps_Topic = ''old''\<rparr>\<rparr>\<rparr>)
   = cluster_IsUpToDate sample_clusterExternal ''c'' sample_cluster_params
     (sample_cluster\<lparr>kc_NotificationConfig := Some \<lparr>knf_Pubsub = Some \<lparr>kps_Enabled = True, kps_Topic = ''old''\<rparr>\<rparr>\<rparr>)"
  using sample_cluster_ok(4) by (intro cluster_notification_ignored [OF _ sample_cluster_ok(2)]) (auto simp: cl_cmp_ok_def)

text \<open>C24: the connection details of a cluster are those of the cluster. If the service reports the certificates in base64,
  as it documents, the secret holds the endpoint with its scheme, the credentials and the decoded
  certificates, and a kubeconfig whose current context leads to the same endpoint and
  credentials; the deletion of the credentials on the side of the service only makes the secret empty.\<close>

theorem cluster_connection_details:
  assumes "kma_ClusterCaCertificate a = EncodeToString ca" and "kma_ClientCertificate a = EncodeToString cert"
    and "kma_ClientKey a = EncodeToString key" and "\<forall>c. clientcmd_Write e c = Inr (write c)"
  shows "\<exists>m cfg u k. cluster_connectionDetails e (x\<lparr>kc_MasterAuth := Some a\<rparr>) = Some (Some m)
    \<and> fmlookup m ''endpoint'' = Some (''https://'' @ kc_Endpoint x)
    \<and> fmlookup m ''username'' = Some (kma_Username a) \<and> fmlookup m ''password'' = Some (kma_Password a)
    \<and> fmlookup m ''clusterCA'' = Some ca \<and> fmlookup m ''clientCert'' = Some cert \<and> fmlookup m ''clientKey'' = Some key
    \<and> fmlookup m ''kubeconfig'' = Some (write cfg)
    \<and> fmlookup (kcf_Contexts cfg) (kcf_CurrentContext cfg) = Some k
    \<and> fmlookup (kcf_Clusters cfg) (kcx_Cluster k) = Some \<lparr>kcl_Server = ''https://'' @ kc_Endpoint x, kcl_CertificateAuthorityData = ca\<rparr>
    \<and> fmlookup (kcf_AuthInfos cfg) (kcx_AuthInfo k) = Some u
    \<and> kai_ClientCertificateData u = cert \<and> kai_ClientKeyData u = key
    \<and> cluster_connectionDetails e (x\<lparr>kc_MasterAuth := None\<rparr>) = Some None"
proof -
  let ?x = "x\<lparr>kc_MasterAuth := Some a\<rparr>"
  obtain cfg where cfg: "GenerateClientConfig e ?x = Inr cfg" using assms by (simp add: GenerateClientConfig_def Let_def)
  then have "cfg = \<lparr>kcf_Clusters = fmupd (kc_Name x) \<lparr>kcl_Server = ''https://'' @ kc_Endpoint x, kcl_CertificateAuthorityData = ca\<rparr> fmempty,
      kcf_Contexts = fmupd (kc_Name x) \<lparr>kcx_Cluster = kc_Name x, kcx_AuthInfo = kc_Name x\<rparr> fmempty,
      kcf_AuthInfos = fmupd (kc_Name x) \<lparr>kai_Username = kma_Username a, kai_Password = kma_Password a,
         kai_ClientCertificateData = cert, kai_ClientKeyData = key\<rparr> fmempty, kcf_CurrentContext = kc_Name x\<rparr>"
    using assms by (simp add: GenerateClientConfig_def Let_def)
  moreover have "cluster_connectionDetails e (x\<lparr>kc_MasterAuth := None\<rparr>) = Some None"
    by (simp add: cluster_connectionDetails_def GenerateClientConfig_def)
  ultimately show ?thesis
    using assms(4) by (intro exI [of _ cfg] exI conjI) (auto simp: cluster_connectionDetails_def cfg secret_key_defs fmap_of_list.rep_eq)
qed

text \<open>Witness of C24: the base64 of a few bytes.\<close>

lemma cluster_connection_details_witness:
  "\<exists>m. cluster_connectionDetails sample_clusterExternal (sample_cluster\<lparr>kc_MasterAuth := Some (container_MasterAuth0\<lparr>
       kma_ClusterCaCertificate := ''Y2E='', kma_ClientCertificate := ''Y2VydA=='', kma_ClientKey := ''a2V5''\<rparr>)\<rparr>) = Some (Some m)
    \<and> fmlookup m ''clusterCA'' = Some ''ca'' \<and> fmlookup m ''clientCert'' = Some ''cert'' \<and> fmlookup m ''clientKey'' = Some ''key''"
proof -
  let ?a = "container_MasterAuth0\<lparr>kma_ClusterCaCertificate := ''Y2E='', kma_ClientCertificate := ''Y2VydA=='', kma_ClientKey := ''a2V5''\<rparr>"
  have "''Y2E='' = EncodeToString ''ca''" "''Y2VydA=='' = EncodeToString ''cert''" "''a2V5'' = EncodeToString ''key''"
    by code_simp+
  then have "kma_ClusterCaCertificate ?a = EncodeToString ''ca''" "kma_ClientCertificate ?a = EncodeToString ''cert''"
      "kma_ClientKey ?a = EncodeToString ''key''" by simp_all
  from cluster_connection_details [OF this, of sample_clusterExternal kcf_CurrentContext sample_cluster] show ?thesis
    by (auto simp: sample_clusterExternal_def)
qed

text \<open>C23: the life of the bootstrap node pool. The request that creates a cluster has exactly one node pool, the bootstrap
  pool with no nodes, unless the cluster is an autopilot cluster, which gets none. And as soon as a cluster
  with such a pool is neither reconciling nor provisioning, the next update deletes that pool and does
  nothing else, whatever else differs from the spec.\<close>

theorem cluster_bootstrap_pool:
  assumes "copy_ok (clx_copy e)" and "cob_Status (AtProvider cr) \<notin> {ClusterStateReconciling, ClusterStateProvisioning}"
  shows "cluster_Create e (Some cr) w =
      (let c = (GenerateCluster (ExternalName cr) (ForProvider cr) container_Cluster0)\<lparr>kc_NodePools :=
             (if \<exists>a. ccp_Autopilot (ForProvider cr) = Some a \<and> apl_Enabled a then None
              else Some [Some (container_NodePool0\<lparr>cnp_Name := ''crossplane-bootstrap''\<rparr>)])\<rparr>;
           r = Clusters_Create e (''projects/'' @ clx_projectID e @ ''/locations/'' @ ccp_Location (ForProvider cr)) c w
       in (fst r, Some (SetConditions Creating cr), ExternalCreation0, errors_Wrap (clx_runtime e) (call_error r) errCreateCluster))
    \<and> (\<forall>w1 x q. Clusters_Get e (cluster_GetFullyQualifiedName (clx_projectID e) (ForProvider cr) (ExternalName cr)) w = (w1, Inr x)
        \<longrightarrow> Some q \<in> set (elems (kc_NodePools x)) \<longrightarrow> cnp_Name q = ''crossplane-bootstrap'' \<longrightarrow>
        cluster_Update e (Some cr) w =
          (let r = Clusters_NodePools_Delete e (cluster_GetFullyQualifiedName (clx_projectID e) (ForProvider cr) (ExternalName cr)
                @ ''/nodePools/crossplane-bootstrap'') w1
           in Some (fst r, Some cr, ExternalUpdate0, errors_Wrap (clx_runtime e) (call_error r) errUpdateCluster)))"
proof -
  have found: "bootstrap_loop qs" if "Some q \<in> set qs" "cnp_Name q = BootstrapNodePoolName" for q qs
    using that by (induction qs) (auto split: option.split)
  have pools: "kc_NodePools (GenerateCluster n p container_Cluster0) = None"
      "kc_Autopilot (GenerateCluster n p container_Cluster0) = map_option (\<lambda>a. \<lparr>kap_Enabled = apl_Enabled a\<rparr>) (ccp_Autopilot p)" for n p
    by (simp_all add: GenerateCluster_simps container_Cluster0_def GenerateAutopilot_def gen_block_def container_Autopilot0_def
        split: option.split)
  have same: "c\<lparr>kc_NodePools := None\<rparr> = c" if "kc_NodePools c = None" for c :: container_Cluster
    using that by (cases c) simp
  have "AddNodePoolForCreate c = c\<lparr>kc_NodePools := Some [Some (container_NodePool0\<lparr>cnp_Name := ''crossplane-bootstrap''\<rparr>)]\<rparr>" for c
    by (simp add: AddNodePoolForCreate_def BootstrapNodePoolName_def container_NodePool0_def)
  with assms(2) pools have "cluster_Create e (Some cr) w =
      (let c = (GenerateCluster (ExternalName cr) (ForProvider cr) container_Cluster0)\<lparr>kc_NodePools :=
             (if \<exists>a. ccp_Autopilot (ForProvider cr) = Some a \<and> apl_Enabled a then None
              else Some [Some (container_NodePool0\<lparr>cnp_Name := ''crossplane-bootstrap''\<rparr>)])\<rparr>;
           r = Clusters_Create e (''projects/'' @ clx_projectID e @ ''/locations/'' @ ccp_Location (ForProvider cr)) c w
       in (fst r, Some (SetConditions Creating cr), ExternalCreation0, errors_Wrap (clx_runtime e) (call_error r) errCreateCluster))"
    by (cases "ccp_Autopilot (ForProvider cr)") (auto simp: cluster_Create_def cluster_GetFullyQualifiedParent_def Let_def same)
  moreover have "cluster_IsUpToDate e n p x = Some (False, deleteBootstrapNodePoolFn, None, x)"
    if "Some q \<in> set (elems (kc_NodePools x))" "cnp_Name q = ''crossplane-bootstrap''" for n p x q
    using found [OF that(1)] that(2) assms(1)
    by (simp add: cluster_IsUpToDate_def copy_ok_def checkForBootstrapNodePool_def BootstrapNodePoolName_def)
  ultimately show ?thesis
    using assms(2) by (auto simp: cluster_Update_def deleteBootstrapNodePoolFn_def GetFullyQualifiedBNP_def BootstrapNodePoolName_def Let_def)
qed

text \<open>Witness of C23: the new cluster loses its bootstrap pool in the first update.\<close>

lemma cluster_bootstrap_pool_witness:
  "cluster_Update sample_clusterExternal (Some sample_cluster_cr) sample_cluster
     = Some (drop_bootstrap sample_cluster, Some sample_cluster_cr, ExternalUpdate0, None)
   \<and> kc_NodePools (drop_bootstrap sample_cluster) = Some []"
proof -
  have status: "cob_Status (AtProvider sample_cluster_cr) \<notin> {ClusterStateReconciling, ClusterStateProvisioning}"
    by (simp add: sample_cluster_cr_def sample_managed_def cluster_GenerateObservation_def sample_cluster_def
        AddNodePoolForCreate_def ClusterStateReconciling_def ClusterStateProvisioning_def ClusterStateRunning_def)
  have pools: "kc_NodePools sample_cluster = Some [Some (container_NodePool0\<lparr>cnp_Name := ''crossplane-bootstrap''\<rparr>)]"
    by (simp add: sample_cluster_def AddNodePoolForCreate_def BootstrapNodePoolName_def container_NodePool0_def)
  have del: "Clusters_NodePools_Delete sample_clusterExternal n w = (drop_bootstrap w, Inr ())"
      "errors_Wrap (clx_runtime sample_clusterExternal) None t = None" for n w t
    by (simp_all add: sample_clusterExternal_def sample_runtime_def)
  have "cluster_Update sample_clusterExternal (Some sample_cluster_cr) sample_cluster
     = Some (drop_bootstrap sample_cluster, Some sample_cluster_cr, ExternalUpdate0, None)"
    using cluster_bootstrap_pool [OF sample_cluster_ok(2) status, of sample_cluster] pools sample_cluster_calls(1)
    by (simp add: del call_error_def Let_def)
  then show ?thesis by (simp add: drop_bootstrap_def pools BootstrapNodePoolName_def container_NodePool0_def)
qed

end
