(* ===== verification/References.thy ===== *)
theory References
  imports Policy_Controllers Compute_Subnetwork Compute_Address Service_Connection Cloud_SQL Storage_Bucket Gke_Cluster_Types
begin

text \<open>
  The files \<^verbatim>\<open>apis/*/referencers.go\<close>: a custom resource may name another one, or select it by its labels,
  instead of giving a value. \<open>ResolveReferences\<close> asks the resolver of \<^verbatim>\<open>crossplane-runtime\<close> for the value and
  stores it in the spec. The resolver is a parameter; the contract \<open>reference_field\<close> collects what
  the resources with a single reference have in common.
\<close>

section \<open>The resolver\<close>

text \<open>The custom resources that can be referred to, and the kinds of \<open>reference.To\<close>.\<close>

datatype referent = RKeyRing KeyRing | RCryptoKey CryptoKey | RServiceAccount ServiceAccount | RNetwork Network
  | RSubnetwork Subnetwork | RGlobalAddress GlobalAddress | RBucket Bucket | RCluster Cluster

datatype ref_kind = ToKeyRing | ToCryptoKey | ToServiceAccount | ToNetwork | ToSubnetwork | ToGlobalAddress | ToBucket | ToCluster

record ResolutionRequest =
  rq_CurrentValue :: string
  rq_Reference :: "Reference option"
  rq_Selector :: "Selector option"
  rq_To :: ref_kind
  rq_Extract :: "referent \<Rightarrow> string"

record ResolutionResponse =
  ResolvedValue :: string
  ResolvedReference :: "Reference option"

record MultiResolutionRequest =
  mrq_CurrentValues :: "string slice"
  mrq_References :: "Reference slice"
  mrq_Selector :: "Selector option"
  mrq_To :: ref_kind
  mrq_Extract :: "referent \<Rightarrow> string"

record MultiResolutionResponse =
  ResolvedValues :: "string slice"
  ResolvedReferences :: "Reference slice"

text \<open>The resolver that \<open>NewAPIResolver\<close> gives for a resource, with the other functions of the package, and the
  format \<open>%v\<close> of a \<open>ServiceAccountReferer\<close>.\<close>

record ('w, 'e) APIResolver =
  rv_runtime :: "'e runtime"
  FromPtrValue :: "string option \<Rightarrow> string"
  ToPtrValue :: "string \<Rightarrow> string option"
  reference_ExternalName :: "referent \<Rightarrow> string"
  format_referer :: "ServiceAccountReferer \<Rightarrow> string"
  Resolve :: "ResolutionRequest \<Rightarrow> ('w, ResolutionResponse, 'e) call"
  ResolveMultiple :: "MultiResolutionRequest \<Rightarrow> ('w, MultiResolutionResponse, 'e) call"

section \<open>Extracting values\<close>

definition ContainerURIPrefix :: string where
  "ContainerURIPrefix = ''https://container.googleapis.com/v1/''"

definition NetworkURL :: "referent \<Rightarrow> string" where
  "NetworkURL mg = (case mg of RNetwork n \<Rightarrow> TrimPrefix (no_SelfLink (AtProvider n)) ComputeURIPrefix | _ \<Rightarrow> '''')"

definition SubnetworkURL :: "referent \<Rightarrow> string" where
  "SubnetworkURL mg = (case mg of RSubnetwork n \<Rightarrow> TrimPrefix (so_SelfLink (AtProvider n)) ComputeURIPrefix | _ \<Rightarrow> '''')"

definition ClusterURL :: "referent \<Rightarrow> string" where
  "ClusterURL mg = (case mg of RCluster c \<Rightarrow> TrimPrefix (cob_SelfLink (AtProvider c)) ContainerURIPrefix | _ \<Rightarrow> '''')"

definition KeyRingRRN :: "referent \<Rightarrow> string" where
  "KeyRingRRN mg = (case mg of RKeyRing n \<Rightarrow> kro_Name (AtProvider n) | _ \<Rightarrow> '''')"

definition CryptoKeyRRN :: "referent \<Rightarrow> string" where
  "CryptoKeyRRN mg = (case mg of RCryptoKey n \<Rightarrow> cko_Name (AtProvider n) | _ \<Rightarrow> '''')"

definition ServiceAccountRRN :: "referent \<Rightarrow> string" where
  "ServiceAccountRRN mg = (case mg of RServiceAccount n \<Rightarrow> sao_Name (AtProvider n) | _ \<Rightarrow> '''')"

definition ServiceAccountMemberName :: "referent \<Rightarrow> string" where
  "ServiceAccountMemberName mg = (case mg of
       RServiceAccount n \<Rightarrow> if sao_Email (AtProvider n) = '''' then '''' else ''serviceAccount:'' @ sao_Email (AtProvider n)
     | _ \<Rightarrow> '''')"

section \<open>Resolution\<close>

text \<open>\<open>ResolveReferences\<close> returns the world, the resource, which it has modified, and the error.\<close>

type_synonym ('w, 'c, 'e) resolution = "'w \<times> 'c \<times> 'e option"

definition GlobalAddress_ResolveReferences ::
  "('w, 'e) APIResolver \<Rightarrow> GlobalAddress \<Rightarrow> 'w \<Rightarrow> ('w, GlobalAddress, 'e) resolution" where
  "GlobalAddress_ResolveReferences r mg w =
     (let p = ForProvider mg in
      case Resolve r \<lparr>rq_CurrentValue = FromPtrValue r (gap_Network p), rq_Reference = gap_NetworkRef p,
             rq_Selector = gap_NetworkSelector p, rq_To = ToNetwork, rq_Extract = NetworkURL\<rparr> w of
        (w1, Inl err) \<Rightarrow> (w1, mg, errors_Wrap (rv_runtime r) (Some err) ''spec.forProvider.network'')
      | (w1, Inr rsp) \<Rightarrow> (w1, mg\<lparr>ForProvider := p\<lparr>gap_Network := ToPtrValue r (ResolvedValue rsp),
             gap_NetworkRef := ResolvedReference rsp\<rparr>\<rparr>, None))"

definition Subnetwork_ResolveReferences ::
  "('w, 'e) APIResolver \<Rightarrow> Subnetwork \<Rightarrow> 'w \<Rightarrow> ('w, Subnetwork, 'e) resolution" where
  "Subnetwork_ResolveReferences r mg w =
     (let p = ForProvider mg in
      case Resolve r \<lparr>rq_CurrentValue = FromPtrValue r (sp_Network p), rq_Reference = sp_NetworkRef p,
             rq_Selector = sp_NetworkSelector p, rq_To = ToNetwork, rq_Extract = NetworkURL\<rparr> w of
        (w1, Inl err) \<Rightarrow> (w1, mg, errors_Wrap (rv_runtime r) (Some err) ''spec.forProvider.network'')
      | (w1, Inr rsp) \<Rightarrow> (w1, mg\<lparr>ForProvider := p\<lparr>sp_Network := ToPtrValue r (ResolvedValue rsp),
             sp_NetworkRef := ResolvedReference rsp\<rparr>\<rparr>, None))"

definition NodePool_ResolveReferences ::
  "('w, 'e) APIResolver \<Rightarrow> NodePool \<Rightarrow> 'w \<Rightarrow> ('w, NodePool, 'e) resolution" where
  "NodePool_ResolveReferences r mg w =
     (let p = ForProvider mg in
      case Resolve r \<lparr>rq_CurrentValue = npp_Cluster p, rq_Reference = npp_ClusterRef p,
             rq_Selector = npp_ClusterSelector p, rq_To = ToCluster, rq_Extract = ClusterURL\<rparr> w of
        (w1, Inl err) \<Rightarrow> (w1, mg, errors_Wrap (rv_runtime r) (Some err) ''spec.forProvider.cluster'')
      | (w1, Inr rsp) \<Rightarrow> (w1, mg\<lparr>ForProvider := p\<lparr>npp_Cluster := ResolvedValue rsp,
             npp_ClusterRef := ResolvedReference rsp\<rparr>\<rparr>, None))"

definition CryptoKey_ResolveReferences ::
  "('w, 'e) APIResolver \<Rightarrow> CryptoKey \<Rightarrow> 'w \<Rightarrow> ('w, CryptoKey, 'e) resolution" where
  "CryptoKey_ResolveReferences r in' w =
     (let p = ForProvider in' in
      case Resolve r \<lparr>rq_CurrentValue = FromPtrValue r (ckp_KeyRing p), rq_Reference = ckp_KeyRingRef p,
             rq_Selector = ckp_KeyRingSelector p, rq_To = ToKeyRing, rq_Extract = KeyRingRRN\<rparr> w of
        (w1, Inl err) \<Rightarrow> (w1, in', errors_Wrap (rv_runtime r) (Some err) ''spec.forProvider.keyRing'')
      | (w1, Inr rsp) \<Rightarrow> (w1, in'\<lparr>ForProvider := p\<lparr>ckp_KeyRing := ToPtrValue r (ResolvedValue rsp),
             ckp_KeyRingRef := ResolvedReference rsp\<rparr>\<rparr>, None))"

text \<open>Nothing happens to a CloudSQL instance without an IP configuration.\<close>

definition CloudSQLInstance_ResolveReferences ::
  "('w, 'e) APIResolver \<Rightarrow> CloudSQLInstance \<Rightarrow> 'w \<Rightarrow> ('w, CloudSQLInstance, 'e) resolution" where
  "CloudSQLInstance_ResolveReferences r mg w =
     (let s = csp_Settings (ForProvider mg) in
      case set_IPConfiguration s of
        None \<Rightarrow> (w, mg, None)
      | Some ip \<Rightarrow>
         (case Resolve r \<lparr>rq_CurrentValue = FromPtrValue r (ipc_PrivateNetwork ip), rq_Reference = ipc_PrivateNetworkRef ip,
                rq_Selector = ipc_PrivateNetworkSelector ip, rq_To = ToNetwork, rq_Extract = NetworkURL\<rparr> w of
           (w1, Inl err) \<Rightarrow> (w1, mg, errors_Wrap (rv_runtime r) (Some err) ''spec.forProvider.settings.ipConfiguration.privateNetwork'')
         | (w1, Inr rsp) \<Rightarrow> (w1, mg\<lparr>ForProvider := (ForProvider mg)\<lparr>csp_Settings := s\<lparr>set_IPConfiguration :=
                Some (ip\<lparr>ipc_PrivateNetwork := ToPtrValue r (ResolvedValue rsp),
                        ipc_PrivateNetworkRef := ResolvedReference rsp\<rparr>)\<rparr>\<rparr>\<rparr>, None)))"

text \<open>A cluster has two references; if the second one fails, the first one stays resolved.\<close>

definition Cluster_ResolveReferences ::
  "('w, 'e) APIResolver \<Rightarrow> Cluster \<Rightarrow> 'w \<Rightarrow> ('w, Cluster, 'e) resolution" where
  "Cluster_ResolveReferences r mg w =
     (let p = ForProvider mg in
      case Resolve r \<lparr>rq_CurrentValue = FromPtrValue r (ccp_Network p), rq_Reference = ccp_NetworkRef p,
             rq_Selector = ccp_NetworkSelector p, rq_To = ToNetwork, rq_Extract = NetworkURL\<rparr> w of
        (w1, Inl err) \<Rightarrow> (w1, mg, errors_Wrap (rv_runtime r) (Some err) ''spec.forProvider.network'')
      | (w1, Inr rsp) \<Rightarrow>
          let p = p\<lparr>ccp_Network := ToPtrValue r (ResolvedValue rsp), ccp_NetworkRef := ResolvedReference rsp\<rparr>;
              mg = mg\<lparr>ForProvider := p\<rparr> in
          case Resolve r \<lparr>rq_CurrentValue = FromPtrValue r (ccp_Subnetwork p), rq_Reference = ccp_SubnetworkRef p,
                 rq_Selector = ccp_SubnetworkSelector p, rq_To = ToSubnetwork, rq_Extract = SubnetworkURL\<rparr> w1 of
            (w2, Inl err) \<Rightarrow> (w2, mg, errors_Wrap (rv_runtime r) (Some err) ''spec.forProvider.subnetwork'')
          | (w2, Inr rsp) \<Rightarrow> (w2, mg\<lparr>ForProvider := p\<lparr>ccp_Subnetwork := ToPtrValue r (ResolvedValue rsp),
                 ccp_SubnetworkRef := ResolvedReference rsp\<rparr>\<rparr>, None))"

text \<open>The selector of the address ranges is not a pointer, so that the request always carries one.\<close>

definition Connection_ResolveReferences ::
  "('w, 'e) APIResolver \<Rightarrow> Connection \<Rightarrow> 'w \<Rightarrow> ('w, Connection, 'e) resolution" where
  "Connection_ResolveReferences r mg w =
     (let p = ForProvider mg in
      case Resolve r \<lparr>rq_CurrentValue = FromPtrValue r (cp_Network p), rq_Reference = cp_NetworkRef p,
             rq_Selector = cp_NetworkSelector p, rq_To = ToNetwork, rq_Extract = NetworkURL\<rparr> w of
        (w1, Inl err) \<Rightarrow> (w1, mg, errors_Wrap (rv_runtime r) (Some err) ''spec.forProvider.network'')
      | (w1, Inr rsp) \<Rightarrow>
          let p = p\<lparr>cp_Network := ToPtrValue r (ResolvedValue rsp), cp_NetworkRef := ResolvedReference rsp\<rparr>;
              mg = mg\<lparr>ForProvider := p\<rparr> in
          case ResolveMultiple r \<lparr>mrq_CurrentValues = cp_ReservedPeeringRanges p, mrq_References = cp_ReservedPeeringRangeRefs p,
                 mrq_Selector = Some (cp_ReservedPeeringRangeSelector p), mrq_To = ToGlobalAddress,
                 mrq_Extract = reference_ExternalName r\<rparr> w1 of
            (w2, Inl err) \<Rightarrow> (w2, mg, errors_Wrap (rv_runtime r) (Some err) ''spec.forProvider.reservedPeeringRanges'')
          | (w2, Inr rsp) \<Rightarrow> (w2, mg\<lparr>ForProvider := p\<lparr>cp_ReservedPeeringRanges := ResolvedValues rsp,
                 cp_ReservedPeeringRangeRefs := ResolvedReferences rsp\<rparr>\<rparr>, None))"

section \<open>Members of policies\<close>

text \<open>
  The loop over the bindings, from the index \<open>i\<close>: each binding that is reached is replaced, and on an error
  the loop stops with the bindings as they are. A nil binding is dereferenced (\<open>None\<close>).
\<close>

fun resolve_bindings :: "('w, 'e) APIResolver \<Rightarrow> nat \<Rightarrow> Binding option list \<Rightarrow> 'w \<Rightarrow> ('w \<times> Binding option list \<times> 'e option) option" where
  "resolve_bindings r i [] w = Some (w, [], None)"
| "resolve_bindings r i (b # bs) w = do {
     b \<leftarrow> b;
     (case ResolveMultiple r \<lparr>mrq_CurrentValues = binding_Members b, mrq_References = binding_ServiceAccountMemberRefs b,
            mrq_Selector = binding_ServiceAccountMemberSelector b, mrq_To = ToServiceAccount,
            mrq_Extract = ServiceAccountMemberName\<rparr> w of
        (w1, Inl err) \<Rightarrow> Some (w1, Some b # bs,
           errors_Wrap (rv_runtime r) (Some err) (''spec.forProvider.Policy.Bindings['' @ decimal i @ ''].Members''))
      | (w1, Inr mrsp) \<Rightarrow> do {
          (w2, bs, err) \<leftarrow> resolve_bindings r (Suc i) bs w1;
          Some (w2, Some (b\<lparr>binding_Members := ResolvedValues mrsp,
                            binding_ServiceAccountMemberRefs := ResolvedReferences mrsp\<rparr>) # bs, err) }) }"

definition resolve_policy :: "('w, 'e) APIResolver \<Rightarrow> Policy \<Rightarrow> 'w \<Rightarrow> ('w \<times> Policy \<times> 'e option) option" where
  "resolve_policy r p w = do {
     (w1, bs, err) \<leftarrow> resolve_bindings r 0 (elems (policy_Bindings p)) w;
     Some (w1, p\<lparr>policy_Bindings := map_option (\<lambda>_. bs) (policy_Bindings p)\<rparr>, err) }"

definition BucketPolicy_ResolveReferences ::
  "('w, 'e) APIResolver \<Rightarrow> BucketPolicy \<Rightarrow> 'w \<Rightarrow> ('w, BucketPolicy, 'e) resolution option" where
  "BucketPolicy_ResolveReferences r in' w =
     (let p = ForProvider in' in
      case Resolve r \<lparr>rq_CurrentValue = FromPtrValue r (bpp_Bucket p), rq_Reference = bpp_BucketRef p,
             rq_Selector = bpp_BucketSelector p, rq_To = ToBucket, rq_Extract = reference_ExternalName r\<rparr> w of
        (w1, Inl err) \<Rightarrow> Some (w1, in', errors_Wrap (rv_runtime r) (Some err) ''spec.forProvider.bucket'')
      | (w1, Inr rsp) \<Rightarrow> do {
          let p = p\<lparr>bpp_Bucket := ToPtrValue r (ResolvedValue rsp), bpp_BucketRef := ResolvedReference rsp\<rparr>;
          (w2, policy, err) \<leftarrow> resolve_policy r (bpp_Policy p) w1;
          Some (w2, in'\<lparr>ForProvider := p\<lparr>bpp_Policy := policy\<rparr>\<rparr>, err) })"

definition CryptoKeyPolicy_ResolveReferences ::
  "('w, 'e) APIResolver \<Rightarrow> CryptoKeyPolicy \<Rightarrow> 'w \<Rightarrow> ('w, CryptoKeyPolicy, 'e) resolution option" where
  "CryptoKeyPolicy_ResolveReferences r in' w =
     (let p = ForProvider in' in
      case Resolve r \<lparr>rq_CurrentValue = FromPtrValue r (ckp_CryptoKey p), rq_Reference = ckp_CryptoKeyRef p,
             rq_Selector = ckp_CryptoKeySelector p, rq_To = ToCryptoKey, rq_Extract = CryptoKeyRRN\<rparr> w of
        (w1, Inl err) \<Rightarrow> Some (w1, in', errors_Wrap (rv_runtime r) (Some err) ''spec.forProvider.cryptoKey'')
      | (w1, Inr rsp) \<Rightarrow> do {
          let p = p\<lparr>ckp_CryptoKey := ToPtrValue r (ResolvedValue rsp), ckp_CryptoKeyRef := ResolvedReference rsp\<rparr>;
          (w2, policy, err) \<leftarrow> resolve_policy r (ckp_Policy p) w1;
          Some (w2, in'\<lparr>ForProvider := p\<lparr>ckp_Policy := policy\<rparr>\<rparr>, err) })"

definition BucketPolicyMember_ResolveReferences ::
  "('w, 'e) APIResolver \<Rightarrow> BucketPolicyMember \<Rightarrow> 'w \<Rightarrow> ('w, BucketPolicyMember, 'e) resolution" where
  "BucketPolicyMember_ResolveReferences r in' w =
     (let p = ForProvider in' in
      case Resolve r \<lparr>rq_CurrentValue = FromPtrValue r (bpm_Bucket p), rq_Reference = bpm_BucketRef p,
             rq_Selector = bpm_BucketSelector p, rq_To = ToBucket, rq_Extract = reference_ExternalName r\<rparr> w of
        (w1, Inl err) \<Rightarrow> (w1, in', errors_Wrap (rv_runtime r) (Some err) ''spec.forProvider.bucket'')
      | (w1, Inr rsp) \<Rightarrow>
          let p = p\<lparr>bpm_Bucket := ToPtrValue r (ResolvedValue rsp), bpm_BucketRef := ResolvedReference rsp\<rparr>;
              in' = in'\<lparr>ForProvider := p\<rparr> in
          case Resolve r \<lparr>rq_CurrentValue = FromPtrValue r (bpm_Member p), rq_Reference = bpm_ServiceAccountMemberRef p,
                 rq_Selector = bpm_ServiceAccountMemberSelector p, rq_To = ToServiceAccount, rq_Extract = ServiceAccountMemberName\<rparr> w1 of
            (w2, Inl err) \<Rightarrow> (w2, in', errors_Wrap (rv_runtime r) (Some err) ''spec.forProvider.member'')
          | (w2, Inr rsp) \<Rightarrow> (w2, in'\<lparr>ForProvider := p\<lparr>bpm_Member := ToPtrValue r (ResolvedValue rsp),
                 bpm_ServiceAccountMemberRef := ResolvedReference rsp\<rparr>\<rparr>, None))"

definition referer_resolveReferences ::
  "('w, 'e) APIResolver \<Rightarrow> ServiceAccountReferer \<Rightarrow> 'w \<Rightarrow> ('w, ServiceAccountReferer, 'e) resolution" where
  "referer_resolveReferences resolver sar w =
     (case Resolve resolver \<lparr>rq_CurrentValue = FromPtrValue resolver (sar_ServiceAccount sar), rq_Reference = sar_ServiceAccountRef sar,
             rq_Selector = sar_ServiceAccountSelector sar, rq_To = ToServiceAccount, rq_Extract = ServiceAccountRRN\<rparr> w of
        (w1, Inl err) \<Rightarrow> (w1, sar, errors_Wrap (rv_runtime resolver) (Some err)
           (''could not resolve ServiceAccount reference: '' @ format_referer resolver sar))
      | (w1, Inr rsp) \<Rightarrow> (w1, sar\<lparr>sar_ServiceAccount := ToPtrValue resolver (ResolvedValue rsp),
             sar_ServiceAccountRef := ResolvedReference rsp\<rparr>, None))"

definition ServiceAccountKey_ResolveReferences ::
  "('w, 'e) APIResolver \<Rightarrow> ServiceAccountKey \<Rightarrow> 'w \<Rightarrow> ('w, ServiceAccountKey, 'e) resolution" where
  "ServiceAccountKey_ResolveReferences r in' w =
     (let p = ForProvider in'; (w1, sar, err) = referer_resolveReferences r (skp_ServiceAccountReferer p) w
      in (w1, in'\<lparr>ForProvider := p\<lparr>skp_ServiceAccountReferer := sar\<rparr>\<rparr>,
          errors_Wrap (rv_runtime r) err ''spec.forProvider.serviceAccount''))"

definition ServiceAccountPolicy_ResolveReferences ::
  "('w, 'e) APIResolver \<Rightarrow> ServiceAccountPolicy \<Rightarrow> 'w \<Rightarrow> ('w, ServiceAccountPolicy, 'e) resolution option" where
  "ServiceAccountPolicy_ResolveReferences r in' w =
     (let p = ForProvider in'; (w1, sar, err) = referer_resolveReferences r (sap_ServiceAccountReferer p) w;
          p = p\<lparr>sap_ServiceAccountReferer := sar\<rparr>
      in if err \<noteq> None then Some (w1, in'\<lparr>ForProvider := p\<rparr>, err)
         else do {
           (w2, policy, err) \<leftarrow> resolve_policy r (sap_Policy p) w1;
           Some (w2, in'\<lparr>ForProvider := p\<lparr>sap_Policy := policy\<rparr>\<rparr>, err) })"

section \<open>What the resolver promises\<close>

definition ptr_ok :: "('w, 'e) APIResolver \<Rightarrow> bool" where
  "ptr_ok r \<longleftrightarrow> FromPtrValue r None = '''' \<and> (\<forall>s. FromPtrValue r (Some s) = s)
     \<and> ToPtrValue r '''' = None \<and> (\<forall>s. s \<noteq> '''' \<longrightarrow> ToPtrValue r s = Some s)"

lemma ptr_ok_simps [simp]:
  assumes "ptr_ok r"
  shows "FromPtrValue r (ToPtrValue r s) = s" and "FromPtrValue r p \<noteq> '''' \<Longrightarrow> ToPtrValue r (FromPtrValue r p) = p"
  using assms by (auto simp: ptr_ok_def) (cases "s = ''''"; cases p; simp; fail | cases p; simp)+

fun referent_kind :: "referent \<Rightarrow> ref_kind" where
  "referent_kind (RKeyRing _) = ToKeyRing" | "referent_kind (RCryptoKey _) = ToCryptoKey"
| "referent_kind (RServiceAccount _) = ToServiceAccount" | "referent_kind (RNetwork _) = ToNetwork"
| "referent_kind (RSubnetwork _) = ToSubnetwork" | "referent_kind (RGlobalAddress _) = ToGlobalAddress"
| "referent_kind (RBucket _) = ToBucket" | "referent_kind (RCluster _) = ToCluster"

text \<open>
  The documented behaviour of \<open>Resolve\<close>, with the custom resources of the cluster as a table by kind and
  name: a request with a value, or with neither a reference nor a selector, or of a resource that is
  being deleted, is answered by what it contains; any other one that succeeds is answered by the
  non-empty value that is extracted from a resource of the requested kind, the named one if there is a reference.
\<close>

definition no_op :: "bool \<Rightarrow> ResolutionRequest \<Rightarrow> bool" where
  "no_op deleted q \<longleftrightarrow> deleted \<or> rq_CurrentValue q \<noteq> '''' \<or> (rq_Reference q = None \<and> rq_Selector q = None)"

definition resolver_ok :: "bool \<Rightarrow> (ref_kind \<Rightarrow> string \<Rightarrow> referent option) \<Rightarrow> ('w, 'e) APIResolver \<Rightarrow> bool" where
  "resolver_ok deleted objs r \<longleftrightarrow> ptr_ok r \<and> (\<forall>k n obj. objs k n = Some obj \<longrightarrow> referent_kind obj = k)
     \<and> (\<forall>q w. no_op deleted q \<longrightarrow> Resolve r q w = (w, Inr \<lparr>ResolvedValue = rq_CurrentValue q, ResolvedReference = rq_Reference q\<rparr>))
     \<and> (\<forall>q w w1 rsp. \<not> no_op deleted q \<longrightarrow> Resolve r q w = (w1, Inr rsp) \<longrightarrow>
          (\<exists>n obj. objs (rq_To q) n = Some obj \<and> ResolvedReference rsp = Some n \<and> (\<forall>m. rq_Reference q = Some m \<longrightarrow> n = m)
             \<and> ResolvedValue rsp = rq_Extract q obj \<and> rq_Extract q obj \<noteq> ''''))"

section \<open>A resource with one reference\<close>

text \<open>
  The contract: \<open>resolve\<close> sends \<open>request\<close> and, if it is answered, writes the answer with \<open>store\<close>; a stored answer is what
  the next request contains.
\<close>

locale reference_field =
  fixes resolve :: "('w, 'e) APIResolver \<Rightarrow> 'c \<Rightarrow> 'w \<Rightarrow> ('w, 'c, 'e) resolution"
    and request :: "('w, 'e) APIResolver \<Rightarrow> 'c \<Rightarrow> ResolutionRequest"
    and store :: "('w, 'e) APIResolver \<Rightarrow> ResolutionResponse \<Rightarrow> 'c \<Rightarrow> 'c"
    and message :: "('w, 'e) APIResolver \<Rightarrow> 'c \<Rightarrow> string"
  assumes resolve_eq: "resolve r c w = (case Resolve r (request r c) w of
        (w1, Inl err) \<Rightarrow> (w1, c, errors_Wrap (rv_runtime r) (Some err) (message r c))
      | (w1, Inr rsp) \<Rightarrow> (w1, store r rsp c, None))"
    and request_store: "ptr_ok r \<Longrightarrow> request r (store r rsp c) =
      (request r c)\<lparr>rq_CurrentValue := ResolvedValue rsp, rq_Reference := ResolvedReference rsp\<rparr>"
    and store_own: "ptr_ok r \<Longrightarrow> rq_CurrentValue (request r c) \<noteq> '''' \<Longrightarrow>
      store r \<lparr>ResolvedValue = rq_CurrentValue (request r c), ResolvedReference = rq_Reference (request r c)\<rparr> c = c"
begin

text \<open>A value that is set is never changed.\<close>

lemma resolve_keeps:
  "resolver_ok deleted objs r \<Longrightarrow> rq_CurrentValue (request r c) \<noteq> '''' \<Longrightarrow> resolve r c w = (w, c, None)"
  by (simp add: resolve_eq resolver_ok_def no_op_def store_own)

text \<open>A reference that is resolved leads to an existing resource of its kind.\<close>

lemma resolve_sound:
  assumes "resolver_ok deleted objs r" and "wrap_ok (rv_runtime r)" and "\<not> no_op deleted (request r c)"
    and "resolve r c w = (w1, c1, None)"
  shows "\<exists>n obj. objs (rq_To (request r c)) n = Some obj \<and> referent_kind obj = rq_To (request r c)
    \<and> rq_Reference (request r c1) = Some n \<and> (\<forall>m. rq_Reference (request r c) = Some m \<longrightarrow> n = m)
    \<and> rq_CurrentValue (request r c1) = rq_Extract (request r c) obj \<and> rq_Extract (request r c) obj \<noteq> ''''"
proof -
  from assms(2,4) obtain rsp where rsp: "Resolve r (request r c) w = (w1, Inr rsp)" "c1 = store r rsp c"
    by (auto simp: resolve_eq wrap_ok_def split: prod.splits sum.splits)
  with assms(1,3) obtain n obj where "objs (rq_To (request r c)) n = Some obj" "ResolvedReference rsp = Some n"
      "\<forall>m. rq_Reference (request r c) = Some m \<longrightarrow> n = m" "ResolvedValue rsp = rq_Extract (request r c) obj"
      "rq_Extract (request r c) obj \<noteq> ''''"
    unfolding resolver_ok_def by blast
  moreover from this assms(1) have "referent_kind obj = rq_To (request r c)" unfolding resolver_ok_def by blast
  moreover have "ptr_ok r" using assms(1) by (simp add: resolver_ok_def)
  ultimately show ?thesis by (simp add: rsp(2) request_store)
qed

text \<open>Resolving again changes nothing.\<close>

lemma resolve_settles:
  assumes "resolver_ok deleted objs r" and "wrap_ok (rv_runtime r)" and "\<not> no_op deleted (request r c)"
    and "resolve r c w = (w1, c1, None)"
  shows "resolve r c1 w2 = (w2, c1, None)"
  using resolve_sound [OF assms] resolve_keeps [OF assms(1)] by metis

end

section \<open>The resources\<close>

text \<open>The requests of the resources with one reference.\<close>

definition address_request :: "('w, 'e) APIResolver \<Rightarrow> GlobalAddress \<Rightarrow> ResolutionRequest" where
  "address_request r c = \<lparr>rq_CurrentValue = FromPtrValue r (gap_Network (ForProvider c)), rq_Reference = gap_NetworkRef (ForProvider c), rq_Selector = gap_NetworkSelector (ForProvider c),
     rq_To = ToNetwork, rq_Extract = NetworkURL\<rparr>"

definition address_store :: "('w, 'e) APIResolver \<Rightarrow> ResolutionResponse \<Rightarrow> GlobalAddress \<Rightarrow> GlobalAddress" where
  "address_store r rsp c = c\<lparr>ForProvider := (ForProvider c)\<lparr>gap_Network := ToPtrValue r (ResolvedValue rsp), gap_NetworkRef := ResolvedReference rsp\<rparr>\<rparr>"

definition subnetwork_request :: "('w, 'e) APIResolver \<Rightarrow> Subnetwork \<Rightarrow> ResolutionRequest" where
  "subnetwork_request r c = \<lparr>rq_CurrentValue = FromPtrValue r (sp_Network (ForProvider c)), rq_Reference = sp_NetworkRef (ForProvider c), rq_Selector = sp_NetworkSelector (ForProvider c),
     rq_To = ToNetwork, rq_Extract = NetworkURL\<rparr>"

definition subnetwork_store :: "('w, 'e) APIResolver \<Rightarrow> ResolutionResponse \<Rightarrow> Subnetwork \<Rightarrow> Subnetwork" where
  "subnetwork_store r rsp c = c\<lparr>ForProvider := (ForProvider c)\<lparr>sp_Network := ToPtrValue r (ResolvedValue rsp), sp_NetworkRef := ResolvedReference rsp\<rparr>\<rparr>"

definition crypto_key_request :: "('w, 'e) APIResolver \<Rightarrow> CryptoKey \<Rightarrow> ResolutionRequest" where
  "crypto_key_request r c = \<lparr>rq_CurrentValue = FromPtrValue r (ckp_KeyRing (ForProvider c)), rq_Reference = ckp_KeyRingRef (ForProvider c), rq_Selector = ckp_KeyRingSelector (ForProvider c),
     rq_To = ToKeyRing, rq_Extract = KeyRingRRN\<rparr>"

definition crypto_key_store :: "('w, 'e) APIResolver \<Rightarrow> ResolutionResponse \<Rightarrow> CryptoKey \<Rightarrow> CryptoKey" where
  "crypto_key_store r rsp c = c\<lparr>ForProvider := (ForProvider c)\<lparr>ckp_KeyRing := ToPtrValue r (ResolvedValue rsp), ckp_KeyRingRef := ResolvedReference rsp\<rparr>\<rparr>"

definition node_pool_request :: "('w, 'e) APIResolver \<Rightarrow> NodePool \<Rightarrow> ResolutionRequest" where
  "node_pool_request r c = \<lparr>rq_CurrentValue = npp_Cluster (ForProvider c), rq_Reference = npp_ClusterRef (ForProvider c), rq_Selector = npp_ClusterSelector (ForProvider c),
     rq_To = ToCluster, rq_Extract = ClusterURL\<rparr>"

definition node_pool_store :: "('w, 'e) APIResolver \<Rightarrow> ResolutionResponse \<Rightarrow> NodePool \<Rightarrow> NodePool" where
  "node_pool_store r rsp c = c\<lparr>ForProvider := (ForProvider c)\<lparr>npp_Cluster := ResolvedValue rsp, npp_ClusterRef := ResolvedReference rsp\<rparr>\<rparr>"

definition referer_request :: "('w, 'e) APIResolver \<Rightarrow> ServiceAccountReferer \<Rightarrow> ResolutionRequest" where
  "referer_request r c = \<lparr>rq_CurrentValue = FromPtrValue r (sar_ServiceAccount c), rq_Reference = sar_ServiceAccountRef (c), rq_Selector = sar_ServiceAccountSelector (c),
     rq_To = ToServiceAccount, rq_Extract = ServiceAccountRRN\<rparr>"

definition referer_store :: "('w, 'e) APIResolver \<Rightarrow> ResolutionResponse \<Rightarrow> ServiceAccountReferer \<Rightarrow> ServiceAccountReferer" where
  "referer_store r rsp c = c\<lparr>sar_ServiceAccount := ToPtrValue r (ResolvedValue rsp), sar_ServiceAccountRef := ResolvedReference rsp\<rparr>"

interpretation address_ref: reference_field GlobalAddress_ResolveReferences address_request address_store
    "\<lambda>_ _. ''spec.forProvider.network''"
  by unfold_locales (simp_all add: GlobalAddress_ResolveReferences_def address_request_def address_store_def Let_def split: prod.split sum.split)

interpretation subnetwork_ref: reference_field Subnetwork_ResolveReferences subnetwork_request subnetwork_store
    "\<lambda>_ _. ''spec.forProvider.network''"
  by unfold_locales (simp_all add: Subnetwork_ResolveReferences_def subnetwork_request_def subnetwork_store_def Let_def split: prod.split sum.split)

interpretation crypto_key_ref: reference_field CryptoKey_ResolveReferences crypto_key_request crypto_key_store
    "\<lambda>_ _. ''spec.forProvider.keyRing''"
  by unfold_locales (simp_all add: CryptoKey_ResolveReferences_def crypto_key_request_def crypto_key_store_def Let_def split: prod.split sum.split)

interpretation node_pool_ref: reference_field NodePool_ResolveReferences node_pool_request node_pool_store
    "\<lambda>_ _. ''spec.forProvider.cluster''"
  by unfold_locales (simp_all add: NodePool_ResolveReferences_def node_pool_request_def node_pool_store_def Let_def split: prod.split sum.split)

interpretation referer_ref: reference_field referer_resolveReferences referer_request referer_store
    "\<lambda>r c. ''could not resolve ServiceAccount reference: '' @ format_referer r c"
  by unfold_locales (simp_all add: referer_resolveReferences_def referer_request_def referer_store_def Let_def split: prod.split sum.split)

text \<open>The two references of a cluster, resolved one after the other.\<close>

definition cluster_network_request :: "('w, 'e) APIResolver \<Rightarrow> Cluster \<Rightarrow> ResolutionRequest" where
  "cluster_network_request r c = \<lparr>rq_CurrentValue = FromPtrValue r (ccp_Network (ForProvider c)), rq_Reference = ccp_NetworkRef (ForProvider c), rq_Selector = ccp_NetworkSelector (ForProvider c),
     rq_To = ToNetwork, rq_Extract = NetworkURL\<rparr>"

definition cluster_network_store :: "('w, 'e) APIResolver \<Rightarrow> ResolutionResponse \<Rightarrow> Cluster \<Rightarrow> Cluster" where
  "cluster_network_store r rsp c = c\<lparr>ForProvider := (ForProvider c)\<lparr>ccp_Network := ToPtrValue r (ResolvedValue rsp), ccp_NetworkRef := ResolvedReference rsp\<rparr>\<rparr>"

definition cluster_subnetwork_request :: "('w, 'e) APIResolver \<Rightarrow> Cluster \<Rightarrow> ResolutionRequest" where
  "cluster_subnetwork_request r c = \<lparr>rq_CurrentValue = FromPtrValue r (ccp_Subnetwork (ForProvider c)), rq_Reference = ccp_SubnetworkRef (ForProvider c), rq_Selector = ccp_SubnetworkSelector (ForProvider c),
     rq_To = ToSubnetwork, rq_Extract = SubnetworkURL\<rparr>"

definition cluster_subnetwork_store :: "('w, 'e) APIResolver \<Rightarrow> ResolutionResponse \<Rightarrow> Cluster \<Rightarrow> Cluster" where
  "cluster_subnetwork_store r rsp c = c\<lparr>ForProvider := (ForProvider c)\<lparr>ccp_Subnetwork := ToPtrValue r (ResolvedValue rsp), ccp_SubnetworkRef := ResolvedReference rsp\<rparr>\<rparr>"

definition resolve_field ::
  "(('w, 'e) APIResolver \<Rightarrow> 'c \<Rightarrow> ResolutionRequest) \<Rightarrow> (('w, 'e) APIResolver \<Rightarrow> ResolutionResponse \<Rightarrow> 'c \<Rightarrow> 'c) \<Rightarrow> string
    \<Rightarrow> ('w, 'e) APIResolver \<Rightarrow> 'c \<Rightarrow> 'w \<Rightarrow> ('w, 'c, 'e) resolution" where
  "resolve_field request store m r c w = (case Resolve r (request r c) w of
        (w1, Inl err) \<Rightarrow> (w1, c, errors_Wrap (rv_runtime r) (Some err) m)
      | (w1, Inr rsp) \<Rightarrow> (w1, store r rsp c, None))"

interpretation cluster_network_ref: reference_field "resolve_field cluster_network_request cluster_network_store ''spec.forProvider.network''"
    cluster_network_request cluster_network_store "\<lambda>_ _. ''spec.forProvider.network''"
  by unfold_locales (simp_all add: resolve_field_def cluster_network_request_def cluster_network_store_def)

interpretation cluster_subnetwork_ref: reference_field "resolve_field cluster_subnetwork_request cluster_subnetwork_store ''spec.forProvider.subnetwork''"
    cluster_subnetwork_request cluster_subnetwork_store "\<lambda>_ _. ''spec.forProvider.subnetwork''"
  by unfold_locales (simp_all add: resolve_field_def cluster_subnetwork_request_def cluster_subnetwork_store_def)

lemma Cluster_ResolveReferences_steps:
  assumes "wrap_ok (rv_runtime r)"
  shows "Cluster_ResolveReferences r c w =
     (case resolve_field cluster_network_request cluster_network_store ''spec.forProvider.network'' r c w of
        (w1, c1, None) \<Rightarrow> resolve_field cluster_subnetwork_request cluster_subnetwork_store ''spec.forProvider.subnetwork'' r c1 w1
      | failed \<Rightarrow> failed)"
  using assms
  by (auto simp: wrap_ok_def Cluster_ResolveReferences_def resolve_field_def cluster_network_request_def cluster_network_store_def
      cluster_subnetwork_request_def cluster_subnetwork_store_def Let_def split: prod.split sum.split option.split)

text \<open>A resolver over a table of resources, which resolves references by name.\<close>

definition sample_resolver :: "(ref_kind \<Rightarrow> string \<Rightarrow> referent option) \<Rightarrow> ('w, sample_error) APIResolver" where
  "sample_resolver objs = \<lparr>rv_runtime = sample_runtime, FromPtrValue = StringValue,
     ToPtrValue = (\<lambda>s. if s = '''' then None else Some s), reference_ExternalName = (\<lambda>_. ''''), format_referer = (\<lambda>_. ''''),
     Resolve = (\<lambda>q w. if no_op False q then (w, Inr \<lparr>ResolvedValue = rq_CurrentValue q, ResolvedReference = rq_Reference q\<rparr>)
       else case rq_Reference q of None \<Rightarrow> (w, Inl (New ''no matches''))
         | Some n \<Rightarrow> (case objs (rq_To q) n of None \<Rightarrow> (w, Inl (ApiError 404))
             | Some obj \<Rightarrow> if rq_Extract q obj = '''' then (w, Inl (New ''no value''))
                 else (w, Inr \<lparr>ResolvedValue = rq_Extract q obj, ResolvedReference = Some n\<rparr>))),
     ResolveMultiple = (\<lambda>q w. (w, Inr \<lparr>ResolvedValues = mrq_CurrentValues q, ResolvedReferences = mrq_References q\<rparr>))\<rparr>"

lemma sample_resolver_ok:
  "\<forall>k n obj. objs k n = Some obj \<longrightarrow> referent_kind obj = k \<Longrightarrow> resolver_ok False objs (sample_resolver objs)"
  "wrap_ok (rv_runtime (sample_resolver objs))"
  by (auto simp: resolver_ok_def ptr_ok_def sample_resolver_def sample_runtime_ok split: option.splits if_splits)

definition sample_key_ring :: KeyRing where
  "sample_key_ring = sample_managed \<lparr>krp_Location = ''global''\<rparr> \<lparr>kro_CreateTime = '''', kro_Name = ''projects/p/locations/global/keyRings/k''\<rparr>"

definition sample_referring_key :: CryptoKey where
  "sample_referring_key = sample_managed \<lparr>ckp_KeyRing = None, ckp_KeyRingRef = Some ''ring'', ckp_KeyRingSelector = None,
     ckp_Labels = None, ckp_Purpose = '''', ckp_RotationPeriod = None, ckp_NextRotationTime = None, ckp_VersionTemplate = None\<rparr>
     \<lparr>cko_CreateTime = '''', cko_Name = '''', cko_NextRotationTime = '''', cko_Primary = None\<rparr>"

section \<open>Paths\<close>

text \<open>How \<open>ReplaceAll\<close> of a whole segment treats a path whose segments contain no slash.\<close>

definition segment :: "string \<Rightarrow> bool" where
  "segment s \<longleftrightarrow> CHR ''/'' \<notin> set s"

lemma ReplaceAll_segment:
  "segment s \<Longrightarrow> ReplaceAll (s @ t) (CHR ''/'' # old) new = s @ ReplaceAll t (CHR ''/'' # old) new"
  by (induction s) (simp_all add: segment_def ReplaceAll.simps [of "_ # _"])

lemma prefix_segment:
  assumes "segment s" and "segment z"
  shows "prefix (CHR ''/'' # z @ ''/'') (CHR ''/'' # s @ CHR ''/'' # t) \<longleftrightarrow> s = z"
proof
  assume "prefix (CHR ''/'' # z @ ''/'') (CHR ''/'' # s @ CHR ''/'' # t)"
  then obtain u where u: "s @ CHR ''/'' # t = z @ CHR ''/'' # u" by (auto simp: prefix_def)
  have "takeWhile (\<lambda>c. c \<noteq> CHR ''/'') (v @ CHR ''/'' # x) = v" if "segment v" for v x
    using that by (induction v) (auto simp: segment_def)
  with u assms show "s = z" by metis
qed simp

lemma ReplaceAll_skip:
  assumes "segment s" and "segment z" and "s \<noteq> z"
  shows "ReplaceAll (CHR ''/'' # s @ CHR ''/'' # t) (CHR ''/'' # z @ ''/'') new
    = CHR ''/'' # s @ ReplaceAll (CHR ''/'' # t) (CHR ''/'' # z @ ''/'') new"
proof -
  have "\<not> prefix (CHR ''/'' # z @ ''/'') (CHR ''/'' # s @ CHR ''/'' # t)" using prefix_segment [OF assms(1,2)] assms(3) by blast
  then have "ReplaceAll (CHR ''/'' # s @ CHR ''/'' # t) (CHR ''/'' # z @ ''/'') new
      = CHR ''/'' # ReplaceAll (s @ CHR ''/'' # t) (CHR ''/'' # z @ ''/'') new"
    by (subst ReplaceAll.simps) simp
  then show ?thesis using ReplaceAll_segment [OF assms(1)] by simp
qed

lemma ReplaceAll_last:
  assumes "segment s" and "segment z"
  shows "ReplaceAll (CHR ''/'' # s) (CHR ''/'' # z @ ''/'') new = CHR ''/'' # s"
proof (rule ReplaceAll_no_match)
  show "\<not> sublist (CHR ''/'' # z @ ''/'') (CHR ''/'' # s)"
  proof
    assume "sublist (CHR ''/'' # z @ ''/'') (CHR ''/'' # s)"
    then obtain ps ss where "CHR ''/'' # s = ps @ (CHR ''/'' # z @ ''/'') @ ss" by (auto simp: sublist_def)
    then have "length (filter ((=) (CHR ''/'')) (CHR ''/'' # s)) \<ge> 2" by simp
    moreover have "filter ((=) (CHR ''/'')) s = []" using assms(1) by (auto simp: segment_def filter_empty_conv)
    ultimately show False by simp
  qed
qed

lemma ReplaceAll_hit:
  "ReplaceAll (CHR ''/'' # z @ CHR ''/'' # t) (CHR ''/'' # z @ ''/'') new = new @ ReplaceAll t (CHR ''/'' # z @ ''/'') new"
  by (subst ReplaceAll.simps) (simp add: prefix_def)

text \<open>The path of a node pool, in the zonal and in the regional form of its cluster.\<close>

lemma ReplaceAll_pool_path:
  assumes "kind \<in> {''zones'', ''locations''}" and "segment P" "segment L" "segment C" "segment n"
    and "P \<noteq> ''zones''" "L \<noteq> ''zones''" "C \<noteq> ''zones''"
  shows "ReplaceAll (''projects/'' @ P @ ''/'' @ kind @ ''/'' @ L @ ''/clusters/'' @ C @ ''/nodePools/'' @ n) ''/zones/'' ''/locations/''
    = ''projects/'' @ P @ ''/locations/'' @ L @ ''/clusters/'' @ C @ ''/nodePools/'' @ n"
proof -
  let ?z = "CHR ''/'' # ''zones'' @ ''/''"
  have segs: "segment ''projects''" "segment ''zones''" "segment ''locations''" "segment ''clusters''" "segment ''nodePools''"
    by (simp_all add: segment_def)
  have pools: "ReplaceAll (CHR ''/'' # ''nodePools'' @ CHR ''/'' # n) ?z new = CHR ''/'' # ''nodePools'' @ CHR ''/'' # n" for new
    by (subst ReplaceAll_skip [OF segs(5,2)]) (simp_all add: ReplaceAll_last [OF assms(5) segs(2), simplified])
  have clusters: "ReplaceAll (CHR ''/'' # ''clusters'' @ CHR ''/'' # C @ CHR ''/'' # ''nodePools'' @ CHR ''/'' # n) ?z new
      = CHR ''/'' # ''clusters'' @ CHR ''/'' # C @ CHR ''/'' # ''nodePools'' @ CHR ''/'' # n" for new
    by (subst ReplaceAll_skip [OF segs(4,2)], simp, subst ReplaceAll_skip [OF assms(4) segs(2) assms(8)], subst pools, simp)
  let ?tail = "CHR ''/'' # ''clusters'' @ CHR ''/'' # C @ CHR ''/'' # ''nodePools'' @ CHR ''/'' # n"
  have place: "ReplaceAll (CHR ''/'' # kind @ CHR ''/'' # L @ ?tail) ?z ''/locations/'' = ''/locations/'' @ L @ ?tail"
  proof (cases "kind = ''zones''")
    case True
    show ?thesis unfolding True ReplaceAll_hit ReplaceAll_segment [OF assms(3)] clusters by simp
  next
    case False
    with assms(1) have k: "kind = ''locations''" by simp
    show ?thesis unfolding k
      by (subst ReplaceAll_skip [OF segs(3,2)], simp, subst ReplaceAll_skip [OF assms(3) segs(2) assms(7)], subst clusters, simp)
  qed
  have "ReplaceAll (''projects'' @ CHR ''/'' # P @ CHR ''/'' # kind @ CHR ''/'' # L @ ?tail) ?z ''/locations/''
      = ''projects'' @ CHR ''/'' # P @ ''/locations/'' @ L @ ?tail"
    by (subst ReplaceAll_segment [OF segs(1)], subst ReplaceAll_skip [OF assms(2) segs(2) assms(6)], subst place, simp)
  then show ?thesis by simp
qed

section \<open>Properties\<close>

text \<open>C22: references are typed. When a resource without a value, but with a reference or a selector, is
  resolved, the value comes from a resource of the kind that the field is about, the named one if it was
  named, and it is that resource's address; it is never the empty string that an extractor returns for
  a resource of another kind. This holds for the network of addresses and subnetworks, the key ring of a crypto
  key, the cluster of a node pool and the service account of a key or policy.\<close>

theorem references_typed:
  assumes ok: "resolver_ok False objs r" and wrap: "wrap_ok (rv_runtime r)"
  shows "(\<forall>a w w1 a1. GlobalAddress_ResolveReferences r a w = (w1, a1, None) \<longrightarrow> gap_Network (ForProvider a) = None \<longrightarrow>
        gap_NetworkRef (ForProvider a) \<noteq> None \<or> gap_NetworkSelector (ForProvider a) \<noteq> None \<longrightarrow>
        (\<exists>n x. objs ToNetwork n = Some (RNetwork x) \<and> gap_NetworkRef (ForProvider a1) = Some n
           \<and> FromPtrValue r (gap_Network (ForProvider a1)) = TrimPrefix (no_SelfLink (AtProvider x)) ComputeURIPrefix))
    \<and> (\<forall>s w w1 s1. Subnetwork_ResolveReferences r s w = (w1, s1, None) \<longrightarrow> sp_Network (ForProvider s) = None \<longrightarrow>
        sp_NetworkRef (ForProvider s) \<noteq> None \<or> sp_NetworkSelector (ForProvider s) \<noteq> None \<longrightarrow>
        (\<exists>n x. objs ToNetwork n = Some (RNetwork x) \<and> sp_NetworkRef (ForProvider s1) = Some n
           \<and> FromPtrValue r (sp_Network (ForProvider s1)) = TrimPrefix (no_SelfLink (AtProvider x)) ComputeURIPrefix))
    \<and> (\<forall>k w w1 k1. CryptoKey_ResolveReferences r k w = (w1, k1, None) \<longrightarrow> ckp_KeyRing (ForProvider k) = None \<longrightarrow>
        ckp_KeyRingRef (ForProvider k) \<noteq> None \<or> ckp_KeyRingSelector (ForProvider k) \<noteq> None \<longrightarrow>
        (\<exists>n x. objs ToKeyRing n = Some (RKeyRing x) \<and> ckp_KeyRingRef (ForProvider k1) = Some n
           \<and> FromPtrValue r (ckp_KeyRing (ForProvider k1)) = kro_Name (AtProvider x)))
    \<and> (\<forall>p w w1 p1. NodePool_ResolveReferences r p w = (w1, p1, None) \<longrightarrow> npp_Cluster (ForProvider p) = '''' \<longrightarrow>
        npp_ClusterRef (ForProvider p) \<noteq> None \<or> npp_ClusterSelector (ForProvider p) \<noteq> None \<longrightarrow>
        (\<exists>n x. objs ToCluster n = Some (RCluster x) \<and> npp_ClusterRef (ForProvider p1) = Some n
           \<and> npp_Cluster (ForProvider p1) = TrimPrefix (cob_SelfLink (AtProvider x)) ContainerURIPrefix))
    \<and> (\<forall>f w w1 f1. referer_resolveReferences r f w = (w1, f1, None) \<longrightarrow> sar_ServiceAccount f = None \<longrightarrow>
        sar_ServiceAccountRef f \<noteq> None \<or> sar_ServiceAccountSelector f \<noteq> None \<longrightarrow>
        (\<exists>n x. objs ToServiceAccount n = Some (RServiceAccount x) \<and> sar_ServiceAccountRef f1 = Some n
           \<and> FromPtrValue r (sar_ServiceAccount f1) = sao_Name (AtProvider x)))"
    (is "?address \<and> ?subnetwork \<and> ?key \<and> ?pool \<and> ?referer")
proof -
  have none: "FromPtrValue r None = ''''" using ok by (simp add: resolver_ok_def ptr_ok_def)
  have kinds: "referent_kind obj = ToNetwork \<Longrightarrow> \<exists>x. obj = RNetwork x" "referent_kind obj = ToKeyRing \<Longrightarrow> \<exists>x. obj = RKeyRing x"
      "referent_kind obj = ToCluster \<Longrightarrow> \<exists>x. obj = RCluster x" "referent_kind obj = ToServiceAccount \<Longrightarrow> \<exists>x. obj = RServiceAccount x" for obj
    by (cases obj; simp)+
  have ?address
    by (intro allI impI, drule address_ref.resolve_sound [OF ok wrap, rotated])
      (auto simp: address_request_def no_op_def NetworkURL_def none dest!: kinds(1))
  moreover have ?subnetwork
    by (intro allI impI, drule subnetwork_ref.resolve_sound [OF ok wrap, rotated])
      (auto simp: subnetwork_request_def no_op_def NetworkURL_def none dest!: kinds(1))
  moreover have ?key
    by (intro allI impI, drule crypto_key_ref.resolve_sound [OF ok wrap, rotated])
      (auto simp: crypto_key_request_def no_op_def KeyRingRRN_def none dest!: kinds(2))
  moreover have ?pool
    by (intro allI impI, drule node_pool_ref.resolve_sound [OF ok wrap, rotated])
      (auto simp: node_pool_request_def no_op_def ClusterURL_def none dest!: kinds(3))
  moreover have ?referer
    by (intro allI impI, drule referer_ref.resolve_sound [OF ok wrap, rotated])
      (auto simp: referer_request_def no_op_def ServiceAccountRRN_def none dest!: kinds(4))
  ultimately show ?thesis by blast
qed

text \<open>Witness of C22: a crypto key that names its key ring.\<close>

lemma references_typed_witness:
  "\<exists>w1 k1. CryptoKey_ResolveReferences (sample_resolver (\<lambda>k n. if k = ToKeyRing \<and> n = ''ring'' then Some (RKeyRing sample_key_ring) else None))
      sample_referring_key () = (w1, k1, None)
    \<and> StringValue (ckp_KeyRing (ForProvider k1)) = ''projects/p/locations/global/keyRings/k''"
proof -
  let ?objs = "\<lambda>k n. if k = ToKeyRing \<and> n = ''ring'' then Some (RKeyRing sample_key_ring) else None"
  let ?r = "sample_resolver ?objs :: (unit, sample_error) APIResolver"
  have typed: "\<forall>k n obj. ?objs k n = Some obj \<longrightarrow> referent_kind obj = k" by simp
  have "\<exists>w1 k1. CryptoKey_ResolveReferences ?r sample_referring_key () = (w1, k1, None)"
    by (simp add: CryptoKey_ResolveReferences_def sample_resolver_def no_op_def sample_referring_key_def sample_managed_def
        KeyRingRRN_def sample_key_ring_def)
  then obtain w1 k1 where k1: "CryptoKey_ResolveReferences ?r sample_referring_key () = (w1, k1, None)" by blast
  have "\<exists>n x. ?objs ToKeyRing n = Some (RKeyRing x) \<and> ckp_KeyRingRef (ForProvider k1) = Some n
      \<and> FromPtrValue ?r (ckp_KeyRing (ForProvider k1)) = kro_Name (AtProvider x)"
    by (rule references_typed [OF sample_resolver_ok(1) [OF typed] sample_resolver_ok(2),
          THEN conjunct2, THEN conjunct2, THEN conjunct1, rule_format, OF k1])
      (simp_all add: sample_referring_key_def sample_managed_def)
  then show ?thesis using k1 by (auto simp: sample_resolver_def sample_key_ring_def sample_managed_def split: if_splits)
qed

end
