(* ===== verification/Provider_Wiring.thy ===== *)
theory Provider_Wiring
  imports References
begin

text \<open>
  How the program is put together: the type registrations of \<^verbatim>\<open>apis/*/register.go\<close> and
  \<^verbatim>\<open>apis/gcp.go\<close>, the \<open>Setup\<close> function of every controller, \<^verbatim>\<open>pkg/controller/gcp.go\<close> and
  \<^verbatim>\<open>cmd/provider/main.go\<close>. The scheme, the controller builder and the reconcilers are code of
  \<^verbatim>\<open>apimachinery\<close>, \<^verbatim>\<open>controller-runtime\<close> and \<^verbatim>\<open>crossplane-runtime\<close>, the fields of \<open>framework\<close>.
\<close>

section \<open>Types and their registration\<close>

datatype api_package = gcp_v1alpha3 | gcp_v1beta1 | cache_v1beta1 | compute_v1beta1 | container_v1beta2 | container_v1beta1
  | database_v1beta1 | iam_v1alpha1 | kms_v1alpha1 | pubsub_v1alpha1 | servicenetworking_v1beta1 | storage_v1alpha1 | storage_v1alpha3

text \<open>A Go type as \<open>reflect\<close> sees it: its package and its name.\<close>

datatype gotype = go_type (ty_Package: api_package) (ty_Name: string)

record GroupVersion =
  gv_Group :: string
  gv_Version :: string

record GroupKind =
  gk_Group :: string
  gk_Kind :: string

record GroupVersionKind =
  gvk_Group :: string
  gvk_Version :: string
  gvk_Kind :: string

text \<open>What the package variables and the \<open>init\<close> function of a \<^verbatim>\<open>register.go\<close> amount to: the group and version, the
  types that have kind metadata, and the types registered with the scheme builder, in the order of the calls.\<close>

record SchemeBuilder =
  SchemeGroupVersion :: GroupVersion
  Kinds :: "string list"
  Registered :: "gotype list"

definition gcp_v1alpha3_SchemeBuilder :: SchemeBuilder where
  "gcp_v1alpha3_SchemeBuilder = \<lparr>
     SchemeGroupVersion = \<lparr>gv_Group = ''gcp.crossplane.io'', gv_Version = ''v1alpha3''\<rparr>,
     Kinds = [''Provider''],
     Registered = map (go_type gcp_v1alpha3) [
       ''Provider'', ''ProviderList'']\<rparr>"

definition gcp_v1beta1_SchemeBuilder :: SchemeBuilder where
  "gcp_v1beta1_SchemeBuilder = \<lparr>
     SchemeGroupVersion = \<lparr>gv_Group = ''gcp.crossplane.io'', gv_Version = ''v1beta1''\<rparr>,
     Kinds = [''ProviderConfig'', ''ProviderConfigUsage'', ''ProviderConfigUsageList''],
     Registered = map (go_type gcp_v1beta1) [
       ''ProviderConfig'', ''ProviderConfigList'', ''ProviderConfigUsage'', ''ProviderConfigUsageList'']\<rparr>"

definition cache_v1beta1_SchemeBuilder :: SchemeBuilder where
  "cache_v1beta1_SchemeBuilder = \<lparr>
     SchemeGroupVersion = \<lparr>gv_Group = ''cache.gcp.crossplane.io'', gv_Version = ''v1beta1''\<rparr>,
     Kinds = [''CloudMemorystoreInstance''],
     Registered = map (go_type cache_v1beta1) [
       ''CloudMemorystoreInstance'', ''CloudMemorystoreInstanceList'']\<rparr>"

definition compute_v1beta1_SchemeBuilder :: SchemeBuilder where
  "compute_v1beta1_SchemeBuilder = \<lparr>
     SchemeGroupVersion = \<lparr>gv_Group = ''compute.gcp.crossplane.io'', gv_Version = ''v1beta1''\<rparr>,
     Kinds = [''Network'', ''Subnetwork'', ''GlobalAddress''],
     Registered = map (go_type compute_v1beta1) [
       ''Network'', ''NetworkList'', ''Subnetwork'', ''SubnetworkList'', ''GlobalAddress'',
       ''GlobalAddressList'']\<rparr>"

definition container_v1beta2_SchemeBuilder :: SchemeBuilder where
  "container_v1beta2_SchemeBuilder = \<lparr>
     SchemeGroupVersion = \<lparr>gv_Group = ''container.gcp.crossplane.io'', gv_Version = ''v1beta2''\<rparr>,
     Kinds = [''Cluster''],
     Registered = map (go_type container_v1beta2) [
       ''Cluster'', ''ClusterList'']\<rparr>"

definition container_v1beta1_SchemeBuilder :: SchemeBuilder where
  "container_v1beta1_SchemeBuilder = \<lparr>
     SchemeGroupVersion = \<lparr>gv_Group = ''container.gcp.crossplane.io'', gv_Version = ''v1beta1''\<rparr>,
     Kinds = [''NodePool''],
     Registered = map (go_type container_v1beta1) [
       ''NodePool'', ''NodePoolList'']\<rparr>"

definition database_v1beta1_SchemeBuilder :: SchemeBuilder where
  "database_v1beta1_SchemeBuilder = \<lparr>
     SchemeGroupVersion = \<lparr>gv_Group = ''database.gcp.crossplane.io'', gv_Version = ''v1beta1''\<rparr>,
     Kinds = [''CloudSQLInstance''],
     Registered = map (go_type database_v1beta1) [
       ''CloudSQLInstance'', ''CloudSQLInstanceList'']\<rparr>"

definition iam_v1alpha1_SchemeBuilder :: SchemeBuilder where
  "iam_v1alpha1_SchemeBuilder = \<lparr>
     SchemeGroupVersion = \<lparr>gv_Group = ''iam.gcp.crossplane.io'', gv_Version = ''v1alpha1''\<rparr>,
     Kinds = [''ServiceAccount'', ''ServiceAccountKey'', ''ServiceAccountPolicy''],
     Registered = map (go_type iam_v1alpha1) [
       ''ServiceAccount'', ''ServiceAccountList'', ''ServiceAccountKey'', ''ServiceAccountKeyList'',
       ''ServiceAccountPolicy'', ''ServiceAccountPolicyList'']\<rparr>"

definition kms_v1alpha1_SchemeBuilder :: SchemeBuilder where
  "kms_v1alpha1_SchemeBuilder = \<lparr>
     SchemeGroupVersion = \<lparr>gv_Group = ''kms.gcp.crossplane.io'', gv_Version = ''v1alpha1''\<rparr>,
     Kinds = [''KeyRing'', ''CryptoKey'', ''CryptoKeyPolicy''],
     Registered = map (go_type kms_v1alpha1) [
       ''KeyRing'', ''KeyRingList'', ''CryptoKey'', ''CryptoKeyList'', ''CryptoKeyPolicy'',
       ''CryptoKeyPolicyList'']\<rparr>"

definition pubsub_v1alpha1_SchemeBuilder :: SchemeBuilder where
  "pubsub_v1alpha1_SchemeBuilder = \<lparr>
     SchemeGroupVersion = \<lparr>gv_Group = ''pubsub.gcp.crossplane.io'', gv_Version = ''v1alpha1''\<rparr>,
     Kinds = [''Topic''],
     Registered = map (go_type pubsub_v1alpha1) [
       ''Topic'', ''TopicList'']\<rparr>"

definition servicenetworking_v1beta1_SchemeBuilder :: SchemeBuilder where
  "servicenetworking_v1beta1_SchemeBuilder = \<lparr>
     SchemeGroupVersion = \<lparr>gv_Group = ''servicenetworking.gcp.crossplane.io'', gv_Version = ''v1beta1''\<rparr>,
     Kinds = [''Connection''],
     Registered = map (go_type servicenetworking_v1beta1) [
       ''Connection'', ''ConnectionList'']\<rparr>"

definition storage_v1alpha1_SchemeBuilder :: SchemeBuilder where
  "storage_v1alpha1_SchemeBuilder = \<lparr>
     SchemeGroupVersion = \<lparr>gv_Group = ''storage.gcp.crossplane.io'', gv_Version = ''v1alpha1''\<rparr>,
     Kinds = [''BucketPolicy'', ''BucketPolicyMember''],
     Registered = map (go_type storage_v1alpha1) [
       ''BucketPolicy'', ''BucketPolicyList'', ''BucketPolicyMember'', ''BucketPolicyMemberList'']\<rparr>"

definition storage_v1alpha3_SchemeBuilder :: SchemeBuilder where
  "storage_v1alpha3_SchemeBuilder = \<lparr>
     SchemeGroupVersion = \<lparr>gv_Group = ''storage.gcp.crossplane.io'', gv_Version = ''v1alpha3''\<rparr>,
     Kinds = [''Bucket''],
     Registered = map (go_type storage_v1alpha3) [
       ''Bucket'', ''BucketList'']\<rparr>"

section \<open>Controllers\<close>

datatype connecter = cache_connecter | compute_gaConnector | compute_networkConnector | compute_subnetworkConnector | container_clusterConnector | container_nodePoolConnector
  | database_cloudsqlConnector | iam_connecter | iam_serviceAccountKeyServiceConnector | iam_serviceAccountPolicyConnecter | kms_keyRingConnecter | kms_cryptoKeyConnecter
  | kms_cryptoKeyPolicyConnecter | pubsub_connector | servicenetworking_connector | storage_connecter | storage_bucketPolicyConnecter | storage_bucketPolicyMemberConnecter

datatype initializer = NewDefaultProviderConfig | NewNameAsExternalName | database_cloudsqlTagger

datatype resolver = NewAPISimpleReferenceResolver

text \<open>The options of \<open>managed.NewReconciler\<close>. All clients are \<open>mgr.GetClient()\<close> and are left out; a recorder is
  known by the name it is made for.\<close>

datatype 'l ReconcilerOption = WithExternalConnecter connecter | WithReferenceResolver resolver | WithInitializers "initializer list"
  | WithConnectionPublishers "unit list" | WithLogger 'l | WithRecorder string

datatype 'l reconciler = ManagedReconciler GroupVersionKind "'l ReconcilerOption list"
  | ConfigReconciler (Config: GroupVersionKind) (UsageList: GroupVersionKind) "'l ReconcilerOption list"

text \<open>What the controller builder has been told when \<open>Complete\<close> is called.\<close>

record ('l, 'rl) controller =
  ctl_Name :: string
  ctl_RateLimiter :: 'rl
  ctl_For :: gotype
  ctl_Watches :: "gotype list"
  ctl_Reconciler :: "'l reconciler"

record manager_Options =
  LeaderElection :: bool
  LeaderElectionID :: string
  SyncPeriod :: int64

record ('w, 'e, 'l, 'rl) framework =
  GroupKind_String :: "GroupKind \<Rightarrow> string"
  GroupVersion_String :: "GroupVersion \<Rightarrow> string"
  WithKind :: "GroupVersion \<Rightarrow> string \<Rightarrow> GroupVersionKind"
  Builder_AddToScheme :: "GroupVersion \<Rightarrow> gotype list \<Rightarrow> 'w \<Rightarrow> 'w \<times> 'e option"
  SchemeBuilder_AddToScheme :: "('w \<Rightarrow> 'w \<times> 'e option) list \<Rightarrow> 'w \<Rightarrow> 'w \<times> 'e option"
  managed_ControllerName :: "string \<Rightarrow> string"
  providerconfig_ControllerName :: "string \<Rightarrow> string"
  NewDefaultManagedRateLimiter :: "'rl \<Rightarrow> 'rl"
  NewDefaultProviderRateLimiter :: 'rl
  WithValues :: "'l \<Rightarrow> string \<Rightarrow> string \<Rightarrow> 'l"
  Complete :: "('l, 'rl) controller \<Rightarrow> 'w \<Rightarrow> 'w \<times> 'e option"
  ctrl_SetLogger :: "'w \<Rightarrow> 'w"
  ctrl_GetConfig :: "'w \<Rightarrow> 'w \<times> 'e option"
  ctrl_NewManager :: "manager_Options \<Rightarrow> 'w \<Rightarrow> 'w \<times> 'e option"
  Start :: "'w \<Rightarrow> 'w \<times> 'e option"

text \<open>The kind metadata that every \<^verbatim>\<open>register.go\<close> derives from the name of a type.\<close>

definition kind_GroupKind :: "('w, 'e, 'l, 'rl) framework \<Rightarrow> SchemeBuilder \<Rightarrow> string \<Rightarrow> string" where
  "kind_GroupKind fw b kind = GroupKind_String fw \<lparr>gk_Group = gv_Group (SchemeGroupVersion b), gk_Kind = kind\<rparr>"

definition kind_KindAPIVersion :: "('w, 'e, 'l, 'rl) framework \<Rightarrow> SchemeBuilder \<Rightarrow> string \<Rightarrow> string" where
  "kind_KindAPIVersion fw b kind = kind @ ''.'' @ GroupVersion_String fw (SchemeGroupVersion b)"

definition kind_GroupVersionKind :: "('w, 'e, 'l, 'rl) framework \<Rightarrow> SchemeBuilder \<Rightarrow> string \<Rightarrow> GroupVersionKind" where
  "kind_GroupVersionKind fw b kind = WithKind fw (SchemeGroupVersion b) kind"

definition config_Setup :: "('w, 'e, 'l, 'rl) framework \<Rightarrow> 'l \<Rightarrow> 'rl \<Rightarrow> 'w \<Rightarrow> 'w \<times> 'e option" where
  "config_Setup fw l rl w =
     (let name = providerconfig_ControllerName fw (kind_GroupKind fw gcp_v1beta1_SchemeBuilder ''ProviderConfig'') in
      Complete fw \<lparr>ctl_Name = name, ctl_RateLimiter = NewDefaultManagedRateLimiter fw rl,
        ctl_For = go_type gcp_v1beta1 ''ProviderConfig'', ctl_Watches = [go_type gcp_v1beta1 ''ProviderConfigUsage''],
        ctl_Reconciler = ConfigReconciler (kind_GroupVersionKind fw gcp_v1beta1_SchemeBuilder ''ProviderConfig'')
          (kind_GroupVersionKind fw gcp_v1beta1_SchemeBuilder ''ProviderConfigUsageList'')
          [WithLogger (WithValues fw l ''controller'' name),
           WithRecorder name]\<rparr> w)"

definition SetupCloudMemorystoreInstance :: "('w, 'e, 'l, 'rl) framework \<Rightarrow> 'l \<Rightarrow> 'rl \<Rightarrow> 'w \<Rightarrow> 'w \<times> 'e option" where
  "SetupCloudMemorystoreInstance fw l rl w =
     (let name = managed_ControllerName fw (kind_GroupKind fw cache_v1beta1_SchemeBuilder ''CloudMemorystoreInstance'') in
      Complete fw \<lparr>ctl_Name = name, ctl_RateLimiter = NewDefaultManagedRateLimiter fw rl,
        ctl_For = go_type cache_v1beta1 ''CloudMemorystoreInstance'', ctl_Watches = [],
        ctl_Reconciler = ManagedReconciler (kind_GroupVersionKind fw cache_v1beta1_SchemeBuilder ''CloudMemorystoreInstance'')
          [WithExternalConnecter cache_connecter,
           WithLogger (WithValues fw l ''controller'' name),
           WithRecorder name]\<rparr> w)"

definition SetupGlobalAddress :: "('w, 'e, 'l, 'rl) framework \<Rightarrow> 'l \<Rightarrow> 'rl \<Rightarrow> 'w \<Rightarrow> 'w \<times> 'e option" where
  "SetupGlobalAddress fw l rl w =
     (let name = managed_ControllerName fw (kind_GroupKind fw compute_v1beta1_SchemeBuilder ''GlobalAddress'') in
      Complete fw \<lparr>ctl_Name = name, ctl_RateLimiter = NewDefaultManagedRateLimiter fw rl,
        ctl_For = go_type compute_v1beta1 ''GlobalAddress'', ctl_Watches = [],
        ctl_Reconciler = ManagedReconciler (kind_GroupVersionKind fw compute_v1beta1_SchemeBuilder ''GlobalAddress'')
          [WithExternalConnecter compute_gaConnector,
           WithReferenceResolver NewAPISimpleReferenceResolver,
           WithConnectionPublishers [],
           WithLogger (WithValues fw l ''controller'' name),
           WithRecorder name]\<rparr> w)"

definition SetupNetwork :: "('w, 'e, 'l, 'rl) framework \<Rightarrow> 'l \<Rightarrow> 'rl \<Rightarrow> 'w \<Rightarrow> 'w \<times> 'e option" where
  "SetupNetwork fw l rl w =
     (let name = managed_ControllerName fw (kind_GroupKind fw compute_v1beta1_SchemeBuilder ''Network'') in
      Complete fw \<lparr>ctl_Name = name, ctl_RateLimiter = NewDefaultManagedRateLimiter fw rl,
        ctl_For = go_type compute_v1beta1 ''Network'', ctl_Watches = [],
        ctl_Reconciler = ManagedReconciler (kind_GroupVersionKind fw compute_v1beta1_SchemeBuilder ''Network'')
          [WithExternalConnecter compute_networkConnector,
           WithReferenceResolver NewAPISimpleReferenceResolver,
           WithConnectionPublishers [],
           WithLogger (WithValues fw l ''controller'' name),
           WithRecorder name]\<rparr> w)"

definition SetupSubnetwork :: "('w, 'e, 'l, 'rl) framework \<Rightarrow> 'l \<Rightarrow> 'rl \<Rightarrow> 'w \<Rightarrow> 'w \<times> 'e option" where
  "SetupSubnetwork fw l rl w =
     (let name = managed_ControllerName fw (kind_GroupKind fw compute_v1beta1_SchemeBuilder ''Subnetwork'') in
      Complete fw \<lparr>ctl_Name = name, ctl_RateLimiter = NewDefaultManagedRateLimiter fw rl,
        ctl_For = go_type compute_v1beta1 ''Subnetwork'', ctl_Watches = [],
        ctl_Reconciler = ManagedReconciler (kind_GroupVersionKind fw compute_v1beta1_SchemeBuilder ''Subnetwork'')
          [WithExternalConnecter compute_subnetworkConnector,
           WithReferenceResolver NewAPISimpleReferenceResolver,
           WithConnectionPublishers [],
           WithLogger (WithValues fw l ''controller'' name),
           WithRecorder name]\<rparr> w)"

definition SetupCluster :: "('w, 'e, 'l, 'rl) framework \<Rightarrow> 'l \<Rightarrow> 'rl \<Rightarrow> 'w \<Rightarrow> 'w \<times> 'e option" where
  "SetupCluster fw l rl w =
     (let name = managed_ControllerName fw (kind_GroupKind fw container_v1beta2_SchemeBuilder ''Cluster'') in
      Complete fw \<lparr>ctl_Name = name, ctl_RateLimiter = NewDefaultManagedRateLimiter fw rl,
        ctl_For = go_type container_v1beta2 ''Cluster'', ctl_Watches = [],
        ctl_Reconciler = ManagedReconciler (kind_GroupVersionKind fw container_v1beta2_SchemeBuilder ''Cluster'')
          [WithExternalConnecter container_clusterConnector,
           WithReferenceResolver NewAPISimpleReferenceResolver,
           WithLogger (WithValues fw l ''controller'' name),
           WithRecorder name]\<rparr> w)"

definition SetupNodePool :: "('w, 'e, 'l, 'rl) framework \<Rightarrow> 'l \<Rightarrow> 'rl \<Rightarrow> 'w \<Rightarrow> 'w \<times> 'e option" where
  "SetupNodePool fw l rl w =
     (let name = managed_ControllerName fw (kind_GroupKind fw container_v1beta1_SchemeBuilder ''NodePool'') in
      Complete fw \<lparr>ctl_Name = name, ctl_RateLimiter = NewDefaultManagedRateLimiter fw rl,
        ctl_For = go_type container_v1beta1 ''NodePool'', ctl_Watches = [],
        ctl_Reconciler = ManagedReconciler (kind_GroupVersionKind fw container_v1beta1_SchemeBuilder ''NodePool'')
          [WithExternalConnecter container_nodePoolConnector,
           WithReferenceResolver NewAPISimpleReferenceResolver,
           WithLogger l,
           WithRecorder name]\<rparr> w)"

definition SetupCloudSQLInstance :: "('w, 'e, 'l, 'rl) framework \<Rightarrow> 'l \<Rightarrow> 'rl \<Rightarrow> 'w \<Rightarrow> 'w \<times> 'e option" where
  "SetupCloudSQLInstance fw l rl w =
     (let name = managed_ControllerName fw (kind_GroupKind fw database_v1beta1_SchemeBuilder ''CloudSQLInstance'') in
      Complete fw \<lparr>ctl_Name = name, ctl_RateLimiter = NewDefaultManagedRateLimiter fw rl,
        ctl_For = go_type database_v1beta1 ''CloudSQLInstance'', ctl_Watches = [],
        ctl_Reconciler = ManagedReconciler (kind_GroupVersionKind fw database_v1beta1_SchemeBuilder ''CloudSQLInstance'')
          [WithExternalConnecter database_cloudsqlConnector,
           WithInitializers [NewDefaultProviderConfig, NewNameAsExternalName, database_cloudsqlTagger],
           WithReferenceResolver NewAPISimpleReferenceResolver,
           WithLogger (WithValues fw l ''controller'' name),
           WithRecorder name]\<rparr> w)"

definition SetupServiceAccount :: "('w, 'e, 'l, 'rl) framework \<Rightarrow> 'l \<Rightarrow> 'rl \<Rightarrow> 'w \<Rightarrow> 'w \<times> 'e option" where
  "SetupServiceAccount fw l rl w =
     (let name = managed_ControllerName fw (kind_GroupKind fw iam_v1alpha1_SchemeBuilder ''ServiceAccount'') in
      Complete fw \<lparr>ctl_Name = name, ctl_RateLimiter = NewDefaultManagedRateLimiter fw rl,
        ctl_For = go_type iam_v1alpha1 ''ServiceAccount'', ctl_Watches = [],
        ctl_Reconciler = ManagedReconciler (kind_GroupVersionKind fw iam_v1alpha1_SchemeBuilder ''ServiceAccount'')
          [WithExternalConnecter iam_connecter,
           WithLogger (WithValues fw l ''controller'' name),
           WithRecorder name]\<rparr> w)"

definition SetupServiceAccountKey :: "('w, 'e, 'l, 'rl) framework \<Rightarrow> 'l \<Rightarrow> 'rl \<Rightarrow> 'w \<Rightarrow> 'w \<times> 'e option" where
  "SetupServiceAccountKey fw l rl w =
     (let name = managed_ControllerName fw (kind_GroupKind fw iam_v1alpha1_SchemeBuilder ''ServiceAccountKey'') in
      Complete fw \<lparr>ctl_Name = name, ctl_RateLimiter = NewDefaultManagedRateLimiter fw rl,
        ctl_For = go_type iam_v1alpha1 ''ServiceAccountKey'', ctl_Watches = [],
        ctl_Reconciler = ManagedReconciler (kind_GroupVersionKind fw iam_v1alpha1_SchemeBuilder ''ServiceAccountKey'')
          [WithInitializers [],
           WithExternalConnecter iam_serviceAccountKeyServiceConnector,
           WithLogger (WithValues fw l ''controller'' name),
           WithRecorder name]\<rparr> w)"

definition SetupServiceAccountPolicy :: "('w, 'e, 'l, 'rl) framework \<Rightarrow> 'l \<Rightarrow> 'rl \<Rightarrow> 'w \<Rightarrow> 'w \<times> 'e option" where
  "SetupServiceAccountPolicy fw l rl w =
     (let name = managed_ControllerName fw (kind_GroupKind fw iam_v1alpha1_SchemeBuilder ''ServiceAccountPolicy'') in
      Complete fw \<lparr>ctl_Name = name, ctl_RateLimiter = NewDefaultManagedRateLimiter fw rl,
        ctl_For = go_type iam_v1alpha1 ''ServiceAccountPolicy'', ctl_Watches = [],
        ctl_Reconciler = ManagedReconciler (kind_GroupVersionKind fw iam_v1alpha1_SchemeBuilder ''ServiceAccountPolicy'')
          [WithExternalConnecter iam_serviceAccountPolicyConnecter,
           WithReferenceResolver NewAPISimpleReferenceResolver,
           WithLogger (WithValues fw l ''controller'' name),
           WithRecorder name]\<rparr> w)"

definition SetupKeyRing :: "('w, 'e, 'l, 'rl) framework \<Rightarrow> 'l \<Rightarrow> 'rl \<Rightarrow> 'w \<Rightarrow> 'w \<times> 'e option" where
  "SetupKeyRing fw l rl w =
     (let name = managed_ControllerName fw (kind_GroupKind fw kms_v1alpha1_SchemeBuilder ''KeyRing'') in
      Complete fw \<lparr>ctl_Name = name, ctl_RateLimiter = NewDefaultManagedRateLimiter fw rl,
        ctl_For = go_type kms_v1alpha1 ''KeyRing'', ctl_Watches = [],
        ctl_Reconciler = ManagedReconciler (kind_GroupVersionKind fw kms_v1alpha1_SchemeBuilder ''KeyRing'')
          [WithExternalConnecter kms_keyRingConnecter,
           WithLogger (WithValues fw l ''controller'' name),
           WithRecorder name]\<rparr> w)"

definition SetupCryptoKey :: "('w, 'e, 'l, 'rl) framework \<Rightarrow> 'l \<Rightarrow> 'rl \<Rightarrow> 'w \<Rightarrow> 'w \<times> 'e option" where
  "SetupCryptoKey fw l rl w =
     (let name = managed_ControllerName fw (kind_GroupKind fw kms_v1alpha1_SchemeBuilder ''CryptoKey'') in
      Complete fw \<lparr>ctl_Name = name, ctl_RateLimiter = NewDefaultManagedRateLimiter fw rl,
        ctl_For = go_type kms_v1alpha1 ''CryptoKey'', ctl_Watches = [],
        ctl_Reconciler = ManagedReconciler (kind_GroupVersionKind fw kms_v1alpha1_SchemeBuilder ''CryptoKey'')
          [WithExternalConnecter kms_cryptoKeyConnecter,
           WithReferenceResolver NewAPISimpleReferenceResolver,
           WithLogger (WithValues fw l ''controller'' name),
           WithRecorder name]\<rparr> w)"

definition SetupCryptoKeyPolicy :: "('w, 'e, 'l, 'rl) framework \<Rightarrow> 'l \<Rightarrow> 'rl \<Rightarrow> 'w \<Rightarrow> 'w \<times> 'e option" where
  "SetupCryptoKeyPolicy fw l rl w =
     (let name = managed_ControllerName fw (kind_GroupKind fw kms_v1alpha1_SchemeBuilder ''CryptoKeyPolicy'') in
      Complete fw \<lparr>ctl_Name = name, ctl_RateLimiter = NewDefaultManagedRateLimiter fw rl,
        ctl_For = go_type kms_v1alpha1 ''CryptoKeyPolicy'', ctl_Watches = [],
        ctl_Reconciler = ManagedReconciler (kind_GroupVersionKind fw kms_v1alpha1_SchemeBuilder ''CryptoKeyPolicy'')
          [WithExternalConnecter kms_cryptoKeyPolicyConnecter,
           WithReferenceResolver NewAPISimpleReferenceResolver,
           WithLogger (WithValues fw l ''controller'' name),
           WithRecorder name]\<rparr> w)"

definition SetupTopic :: "('w, 'e, 'l, 'rl) framework \<Rightarrow> 'l \<Rightarrow> 'rl \<Rightarrow> 'w \<Rightarrow> 'w \<times> 'e option" where
  "SetupTopic fw l rl w =
     (let name = managed_ControllerName fw (kind_GroupKind fw pubsub_v1alpha1_SchemeBuilder ''Topic'') in
      Complete fw \<lparr>ctl_Name = name, ctl_RateLimiter = NewDefaultManagedRateLimiter fw rl,
        ctl_For = go_type pubsub_v1alpha1 ''Topic'', ctl_Watches = [],
        ctl_Reconciler = ManagedReconciler (kind_GroupVersionKind fw pubsub_v1alpha1_SchemeBuilder ''Topic'')
          [WithExternalConnecter pubsub_connector,
           WithLogger (WithValues fw l ''controller'' name),
           WithRecorder name]\<rparr> w)"

definition SetupConnection :: "('w, 'e, 'l, 'rl) framework \<Rightarrow> 'l \<Rightarrow> 'rl \<Rightarrow> 'w \<Rightarrow> 'w \<times> 'e option" where
  "SetupConnection fw l rl w =
     (let name = managed_ControllerName fw (kind_GroupKind fw servicenetworking_v1beta1_SchemeBuilder ''Connection'') in
      Complete fw \<lparr>ctl_Name = name, ctl_RateLimiter = NewDefaultManagedRateLimiter fw rl,
        ctl_For = go_type servicenetworking_v1beta1 ''Connection'', ctl_Watches = [],
        ctl_Reconciler = ManagedReconciler (kind_GroupVersionKind fw servicenetworking_v1beta1_SchemeBuilder ''Connection'')
          [WithExternalConnecter servicenetworking_connector,
           WithConnectionPublishers [],
           WithReferenceResolver NewAPISimpleReferenceResolver,
           WithLogger (WithValues fw l ''controller'' name),
           WithRecorder name]\<rparr> w)"

definition SetupBucket :: "('w, 'e, 'l, 'rl) framework \<Rightarrow> 'l \<Rightarrow> 'rl \<Rightarrow> 'w \<Rightarrow> 'w \<times> 'e option" where
  "SetupBucket fw l rl w =
     (let name = managed_ControllerName fw (kind_GroupKind fw storage_v1alpha3_SchemeBuilder ''Bucket'') in
      Complete fw \<lparr>ctl_Name = name, ctl_RateLimiter = NewDefaultManagedRateLimiter fw rl,
        ctl_For = go_type storage_v1alpha3 ''Bucket'', ctl_Watches = [],
        ctl_Reconciler = ManagedReconciler (kind_GroupVersionKind fw storage_v1alpha3_SchemeBuilder ''Bucket'')
          [WithExternalConnecter storage_connecter,
           WithLogger (WithValues fw l ''controller'' name),
           WithRecorder name]\<rparr> w)"

definition SetupBucketPolicy :: "('w, 'e, 'l, 'rl) framework \<Rightarrow> 'l \<Rightarrow> 'rl \<Rightarrow> 'w \<Rightarrow> 'w \<times> 'e option" where
  "SetupBucketPolicy fw l rl w =
     (let name = managed_ControllerName fw (kind_GroupKind fw storage_v1alpha1_SchemeBuilder ''BucketPolicy'') in
      Complete fw \<lparr>ctl_Name = name, ctl_RateLimiter = NewDefaultManagedRateLimiter fw rl,
        ctl_For = go_type storage_v1alpha1 ''BucketPolicy'', ctl_Watches = [],
        ctl_Reconciler = ManagedReconciler (kind_GroupVersionKind fw storage_v1alpha1_SchemeBuilder ''BucketPolicy'')
          [WithExternalConnecter storage_bucketPolicyConnecter,
           WithReferenceResolver NewAPISimpleReferenceResolver,
           WithLogger (WithValues fw l ''controller'' name),
           WithRecorder name]\<rparr> w)"

definition SetupBucketPolicyMember :: "('w, 'e, 'l, 'rl) framework \<Rightarrow> 'l \<Rightarrow> 'rl \<Rightarrow> 'w \<Rightarrow> 'w \<times> 'e option" where
  "SetupBucketPolicyMember fw l rl w =
     (let name = managed_ControllerName fw (kind_GroupKind fw storage_v1alpha1_SchemeBuilder ''BucketPolicyMember'') in
      Complete fw \<lparr>ctl_Name = name, ctl_RateLimiter = NewDefaultManagedRateLimiter fw rl,
        ctl_For = go_type storage_v1alpha1 ''BucketPolicyMember'', ctl_Watches = [],
        ctl_Reconciler = ManagedReconciler (kind_GroupVersionKind fw storage_v1alpha1_SchemeBuilder ''BucketPolicyMember'')
          [WithExternalConnecter storage_bucketPolicyMemberConnecter,
           WithReferenceResolver NewAPISimpleReferenceResolver,
           WithLogger (WithValues fw l ''controller'' name),
           WithRecorder name]\<rparr> w)"

text \<open>The loop of \<open>Setup\<close>: the first error is returned and what was set up before it stays.\<close>

fun run_setups :: "('w \<Rightarrow> 'w \<times> 'e option) list \<Rightarrow> 'w \<Rightarrow> 'w \<times> 'e option" where
  "run_setups [] w = (w, None)"
| "run_setups (setup # setups) w = (case setup w of (w1, Some err) \<Rightarrow> (w1, Some err) | (w1, None) \<Rightarrow> run_setups setups w1)"

definition Setup :: "('w, 'e, 'l, 'rl) framework \<Rightarrow> 'l \<Rightarrow> 'rl \<Rightarrow> 'w \<Rightarrow> 'w \<times> 'e option" where
  "Setup fw l rl = run_setups
     [config_Setup fw l rl, SetupCloudMemorystoreInstance fw l rl, SetupGlobalAddress fw l rl, SetupNetwork fw l rl, SetupSubnetwork fw l rl,
      SetupCluster fw l rl, SetupNodePool fw l rl, SetupCloudSQLInstance fw l rl, SetupServiceAccount fw l rl,
      SetupServiceAccountKey fw l rl, SetupServiceAccountPolicy fw l rl, SetupKeyRing fw l rl, SetupCryptoKey fw l rl,
      SetupCryptoKeyPolicy fw l rl, SetupTopic fw l rl, SetupConnection fw l rl, SetupBucket fw l rl,
      SetupBucketPolicy fw l rl, SetupBucketPolicyMember fw l rl]"

section \<open>The program\<close>

definition AddToSchemes :: "('w, 'e, 'l, 'rl) framework \<Rightarrow> ('w \<Rightarrow> 'w \<times> 'e option) list" where
  "AddToSchemes fw = map (\<lambda>b. Builder_AddToScheme fw (SchemeGroupVersion b) (Registered b))
     [gcp_v1alpha3_SchemeBuilder, gcp_v1beta1_SchemeBuilder, cache_v1beta1_SchemeBuilder, compute_v1beta1_SchemeBuilder,
      container_v1beta2_SchemeBuilder, container_v1beta1_SchemeBuilder, database_v1beta1_SchemeBuilder, iam_v1alpha1_SchemeBuilder,
      kms_v1alpha1_SchemeBuilder, pubsub_v1alpha1_SchemeBuilder, servicenetworking_v1beta1_SchemeBuilder, storage_v1alpha1_SchemeBuilder,
      storage_v1alpha3_SchemeBuilder]"

definition AddToScheme :: "('w, 'e, 'l, 'rl) framework \<Rightarrow> 'w \<Rightarrow> 'w \<times> 'e option" where
  "AddToScheme fw w = SchemeBuilder_AddToScheme fw (AddToSchemes fw) w"

text \<open>The end of the process: \<open>FatalIfError\<close> exits with a message, otherwise \<open>main\<close> returns.\<close>

datatype 'e exit = Fatal 'e string | Returned

record flags =
  flag_debug :: bool
  flag_syncPeriod :: int64
  flag_leaderElection :: bool

definition FatalIfError :: "'w \<times> 'e option \<Rightarrow> string \<Rightarrow> ('w \<Rightarrow> 'w \<times> 'e exit) \<Rightarrow> 'w \<times> 'e exit" where
  "FatalIfError r msg k = (case r of (w, Some err) \<Rightarrow> (w, Fatal err msg) | (w, None) \<Rightarrow> k w)"

definition provider_main :: "('w, 'e, 'l, 'rl) framework \<Rightarrow> flags \<Rightarrow> 'l \<Rightarrow> 'w \<Rightarrow> 'w \<times> 'e exit" where
  "provider_main fw fl logger w =
     (let w = (if flag_debug fl then ctrl_SetLogger fw w else w) in
      FatalIfError (ctrl_GetConfig fw w) ''Cannot get API server rest config'' (\<lambda>w.
      FatalIfError (ctrl_NewManager fw \<lparr>LeaderElection = flag_leaderElection fl,
          LeaderElectionID = ''crossplane-leader-election-provider-gcp'', SyncPeriod = flag_syncPeriod fl\<rparr> w)
        ''Cannot create controller manager'' (\<lambda>w.
      FatalIfError (AddToScheme fw w) ''Cannot add GCP APIs to scheme'' (\<lambda>w.
      FatalIfError (Setup fw logger (NewDefaultProviderRateLimiter fw) w) ''Cannot setup GCP controllers'' (\<lambda>w.
      FatalIfError (Start fw w) ''Cannot start controller manager'' (\<lambda>w. (w, Returned)))))))"

section \<open>What the program relies on\<close>

text \<open>The documented behaviour of the framework. \<open>types\<close> observes the registered types of this program with their
  kinds, \<open>ctls\<close> the controllers that have been added. Registering types fails (it panics) if their kind is taken by
  another type; \<open>Complete\<close> needs the kind of the object to be unique in the scheme, the watched types and
  the kinds that the reconciler is made for to be registered (\<open>NewReconciler\<close> panics otherwise), and a new name.\<close>

fun reconciled_kinds :: "'l reconciler \<Rightarrow> GroupVersionKind list" where
  "reconciled_kinds (ManagedReconciler g opts) = [g]"
| "reconciled_kinds (ConfigReconciler g u opts) = [g, u]"

definition scheme_ok :: "('w \<Rightarrow> (gotype \<times> GroupVersionKind) set) \<Rightarrow> ('w \<Rightarrow> ('l, 'rl) controller list) \<Rightarrow> ('w, 'e, 'l, 'rl) framework \<Rightarrow> bool" where
  "scheme_ok types ctls fw \<longleftrightarrow>
     (\<forall>gv k. WithKind fw gv k = \<lparr>gvk_Group = gv_Group gv, gvk_Version = gv_Version gv, gvk_Kind = k\<rparr>)
   \<and> (\<forall>fs w. SchemeBuilder_AddToScheme fw fs w = run_setups fs w)
   \<and> (\<forall>gv tys w. inj_on ty_Name (set tys) \<longrightarrow> (\<forall>t\<in>set tys. \<forall>t'. (t', WithKind fw gv (ty_Name t)) \<in> types w \<longrightarrow> t' = t) \<longrightarrow>
        (\<exists>w'. Builder_AddToScheme fw gv tys w = (w', None) \<and> ctls w' = ctls w
           \<and> types w' = types w \<union> (\<lambda>t. (t, WithKind fw gv (ty_Name t))) ` set tys))"

definition builder_ok :: "('w \<Rightarrow> (gotype \<times> GroupVersionKind) set) \<Rightarrow> ('w \<Rightarrow> ('l, 'rl) controller list) \<Rightarrow> ('w, 'e, 'l, 'rl) framework \<Rightarrow> bool" where
  "builder_ok types ctls fw \<longleftrightarrow>
     (\<forall>gk. GroupKind_String fw gk = gk_Kind gk @ ''.'' @ gk_Group gk)
   \<and> (\<forall>k. managed_ControllerName fw k = ''managed/'' @ ToLower k)
   \<and> (\<forall>k. providerconfig_ControllerName fw k = ''providerconfig/'' @ ToLower k)
   \<and> (\<forall>c w. (\<exists>!g. (ctl_For c, g) \<in> types w) \<and> set (ctl_Watches c) \<subseteq> fst ` types w
        \<and> set (reconciled_kinds (ctl_Reconciler c)) \<subseteq> snd ` types w \<and> ctl_Name c \<notin> ctl_Name ` set (ctls w) \<longrightarrow>
        (\<exists>w'. Complete fw c w = (w', None) \<and> ctls w' = ctls w @ [c] \<and> types w' = types w))"

section \<open>The scheme\<close>

definition entries :: "SchemeBuilder \<Rightarrow> (gotype \<times> GroupVersionKind) list" where
  "entries b = map (\<lambda>t. (t, \<lparr>gvk_Group = gv_Group (SchemeGroupVersion b), gvk_Version = gv_Version (SchemeGroupVersion b),
     gvk_Kind = ty_Name t\<rparr>)) (Registered b)"

definition scheme_builders :: "SchemeBuilder list" where
  "scheme_builders = [gcp_v1alpha3_SchemeBuilder, gcp_v1beta1_SchemeBuilder, cache_v1beta1_SchemeBuilder, compute_v1beta1_SchemeBuilder,
      container_v1beta2_SchemeBuilder, container_v1beta1_SchemeBuilder, database_v1beta1_SchemeBuilder, iam_v1alpha1_SchemeBuilder,
      kms_v1alpha1_SchemeBuilder, pubsub_v1alpha1_SchemeBuilder, servicenetworking_v1beta1_SchemeBuilder, storage_v1alpha1_SchemeBuilder,
      storage_v1alpha3_SchemeBuilder]"

lemmas scheme_defs = gcp_v1alpha3_SchemeBuilder_def gcp_v1beta1_SchemeBuilder_def cache_v1beta1_SchemeBuilder_def
  compute_v1beta1_SchemeBuilder_def container_v1beta2_SchemeBuilder_def container_v1beta1_SchemeBuilder_def
  database_v1beta1_SchemeBuilder_def iam_v1alpha1_SchemeBuilder_def kms_v1alpha1_SchemeBuilder_def pubsub_v1alpha1_SchemeBuilder_def
  servicenetworking_v1beta1_SchemeBuilder_def storage_v1alpha1_SchemeBuilder_def storage_v1alpha3_SchemeBuilder_def

text \<open>No type and no kind is registered twice.\<close>

lemma scheme_types_distinct: "distinct (map fst (concat (map entries scheme_builders)))"
  by code_simp

lemma scheme_kinds_distinct: "distinct (map snd (concat (map entries scheme_builders)))"
  by code_simp

lemma add_all:
  assumes ok: "scheme_ok types ctls fw"
  shows "types w = set L \<Longrightarrow> distinct (map snd (L @ concat (map entries bs))) \<Longrightarrow>
    \<exists>w'. run_setups (map (\<lambda>b. Builder_AddToScheme fw (SchemeGroupVersion b) (Registered b)) bs) w = (w', None)
      \<and> types w' = set (L @ concat (map entries bs)) \<and> ctls w' = ctls w"
proof (induction bs arbitrary: w L)
  case (Cons b bs)
  have kind: "WithKind fw gv k = \<lparr>gvk_Group = gv_Group gv, gvk_Version = gv_Version gv, gvk_Kind = k\<rparr>" for gv k
    using ok by (simp add: scheme_ok_def)
  have own: "distinct (map snd (entries b))" and new: "set (map snd L) \<inter> set (map snd (entries b)) = {}"
    using Cons.prems(2) by auto
  have "inj_on ty_Name (set (Registered b))"
    using own by (auto simp: entries_def comp_def distinct_map inj_on_def)
  moreover have "\<forall>t\<in>set (Registered b). \<forall>t'. (t', WithKind fw (SchemeGroupVersion b) (ty_Name t)) \<in> types w \<longrightarrow> t' = t"
    using new Cons.prems(1) by (force simp: entries_def kind)
  ultimately obtain w1 where w1: "Builder_AddToScheme fw (SchemeGroupVersion b) (Registered b) w = (w1, None)" "ctls w1 = ctls w"
      "types w1 = types w \<union> (\<lambda>t. (t, WithKind fw (SchemeGroupVersion b) (ty_Name t))) ` set (Registered b)"
    using ok unfolding scheme_ok_def by meson
  have "types w1 = set (L @ entries b)" by (simp add: w1(3) Cons.prems(1) entries_def kind)
  from Cons.IH [OF this] Cons.prems(2) w1(1,2) show ?case by simp
qed simp

lemma AddToScheme_registers:
  assumes "scheme_ok types ctls fw" and "types w = {}"
  obtains w' where "AddToScheme fw w = (w', None)" "types w' = set (concat (map entries scheme_builders))" "ctls w' = ctls w"
proof -
  have "AddToScheme fw w = run_setups (map (\<lambda>b. Builder_AddToScheme fw (SchemeGroupVersion b) (Registered b)) scheme_builders) w"
    using assms(1) by (simp add: AddToScheme_def AddToSchemes_def scheme_ok_def scheme_builders_def)
  with add_all [OF assms(1), of w "[]" scheme_builders] assms(2) scheme_kinds_distinct that show thesis by auto
qed

section \<open>The controllers\<close>

text \<open>The type that a connecter and its external client accept: every method starts with a type assertion.\<close>

fun accepts :: "connecter \<Rightarrow> gotype" where
  "accepts cache_connecter = go_type cache_v1beta1 ''CloudMemorystoreInstance''"
| "accepts compute_gaConnector = go_type compute_v1beta1 ''GlobalAddress''"
| "accepts compute_networkConnector = go_type compute_v1beta1 ''Network''"
| "accepts compute_subnetworkConnector = go_type compute_v1beta1 ''Subnetwork''"
| "accepts container_clusterConnector = go_type container_v1beta2 ''Cluster''"
| "accepts container_nodePoolConnector = go_type container_v1beta1 ''NodePool''"
| "accepts database_cloudsqlConnector = go_type database_v1beta1 ''CloudSQLInstance''"
| "accepts iam_connecter = go_type iam_v1alpha1 ''ServiceAccount''"
| "accepts iam_serviceAccountKeyServiceConnector = go_type iam_v1alpha1 ''ServiceAccountKey''"
| "accepts iam_serviceAccountPolicyConnecter = go_type iam_v1alpha1 ''ServiceAccountPolicy''"
| "accepts kms_keyRingConnecter = go_type kms_v1alpha1 ''KeyRing''"
| "accepts kms_cryptoKeyConnecter = go_type kms_v1alpha1 ''CryptoKey''"
| "accepts kms_cryptoKeyPolicyConnecter = go_type kms_v1alpha1 ''CryptoKeyPolicy''"
| "accepts pubsub_connector = go_type pubsub_v1alpha1 ''Topic''"
| "accepts servicenetworking_connector = go_type servicenetworking_v1beta1 ''Connection''"
| "accepts storage_connecter = go_type storage_v1alpha3 ''Bucket''"
| "accepts storage_bucketPolicyConnecter = go_type storage_v1alpha1 ''BucketPolicy''"
| "accepts storage_bucketPolicyMemberConnecter = go_type storage_v1alpha1 ''BucketPolicyMember''"

text \<open>What the description of a controller for a managed resource has to say.\<close>

definition wired :: "('w, 'e, 'l, 'rl) framework \<Rightarrow> SchemeBuilder \<Rightarrow> connecter \<Rightarrow> ('l, 'rl) controller \<Rightarrow> bool" where
  "wired fw b conn c \<longleftrightarrow> ctl_For c = accepts conn \<and> ctl_Watches c = []
     \<and> ctl_Name c = managed_ControllerName fw (kind_GroupKind fw b (ty_Name (accepts conn)))
     \<and> (\<exists>opts. ctl_Reconciler c = ManagedReconciler (kind_GroupVersionKind fw b (ty_Name (accepts conn))) opts
          \<and> (\<forall>x. WithExternalConnecter x \<in> set opts \<longleftrightarrow> x = conn))"

lemma Setup_wired:
  "\<exists>c. SetupCloudMemorystoreInstance fw l rl = Complete fw c \<and> wired fw cache_v1beta1_SchemeBuilder cache_connecter c"
  "\<exists>c. SetupGlobalAddress fw l rl = Complete fw c \<and> wired fw compute_v1beta1_SchemeBuilder compute_gaConnector c"
  "\<exists>c. SetupNetwork fw l rl = Complete fw c \<and> wired fw compute_v1beta1_SchemeBuilder compute_networkConnector c"
  "\<exists>c. SetupSubnetwork fw l rl = Complete fw c \<and> wired fw compute_v1beta1_SchemeBuilder compute_subnetworkConnector c"
  "\<exists>c. SetupCluster fw l rl = Complete fw c \<and> wired fw container_v1beta2_SchemeBuilder container_clusterConnector c"
  "\<exists>c. SetupNodePool fw l rl = Complete fw c \<and> wired fw container_v1beta1_SchemeBuilder container_nodePoolConnector c"
  "\<exists>c. SetupCloudSQLInstance fw l rl = Complete fw c \<and> wired fw database_v1beta1_SchemeBuilder database_cloudsqlConnector c"
  "\<exists>c. SetupServiceAccount fw l rl = Complete fw c \<and> wired fw iam_v1alpha1_SchemeBuilder iam_connecter c"
  "\<exists>c. SetupServiceAccountKey fw l rl = Complete fw c \<and> wired fw iam_v1alpha1_SchemeBuilder iam_serviceAccountKeyServiceConnector c"
  "\<exists>c. SetupServiceAccountPolicy fw l rl = Complete fw c \<and> wired fw iam_v1alpha1_SchemeBuilder iam_serviceAccountPolicyConnecter c"
  "\<exists>c. SetupKeyRing fw l rl = Complete fw c \<and> wired fw kms_v1alpha1_SchemeBuilder kms_keyRingConnecter c"
  "\<exists>c. SetupCryptoKey fw l rl = Complete fw c \<and> wired fw kms_v1alpha1_SchemeBuilder kms_cryptoKeyConnecter c"
  "\<exists>c. SetupCryptoKeyPolicy fw l rl = Complete fw c \<and> wired fw kms_v1alpha1_SchemeBuilder kms_cryptoKeyPolicyConnecter c"
  "\<exists>c. SetupTopic fw l rl = Complete fw c \<and> wired fw pubsub_v1alpha1_SchemeBuilder pubsub_connector c"
  "\<exists>c. SetupConnection fw l rl = Complete fw c \<and> wired fw servicenetworking_v1beta1_SchemeBuilder servicenetworking_connector c"
  "\<exists>c. SetupBucket fw l rl = Complete fw c \<and> wired fw storage_v1alpha3_SchemeBuilder storage_connecter c"
  "\<exists>c. SetupBucketPolicy fw l rl = Complete fw c \<and> wired fw storage_v1alpha1_SchemeBuilder storage_bucketPolicyConnecter c"
  "\<exists>c. SetupBucketPolicyMember fw l rl = Complete fw c \<and> wired fw storage_v1alpha1_SchemeBuilder storage_bucketPolicyMemberConnecter c"
  subgoal by (intro exI conjI, rule ext, unfold SetupCloudMemorystoreInstance_def Let_def, rule refl, simp add: wired_def)
  subgoal by (intro exI conjI, rule ext, unfold SetupGlobalAddress_def Let_def, rule refl, simp add: wired_def)
  subgoal by (intro exI conjI, rule ext, unfold SetupNetwork_def Let_def, rule refl, simp add: wired_def)
  subgoal by (intro exI conjI, rule ext, unfold SetupSubnetwork_def Let_def, rule refl, simp add: wired_def)
  subgoal by (intro exI conjI, rule ext, unfold SetupCluster_def Let_def, rule refl, simp add: wired_def)
  subgoal by (intro exI conjI, rule ext, unfold SetupNodePool_def Let_def, rule refl, simp add: wired_def)
  subgoal by (intro exI conjI, rule ext, unfold SetupCloudSQLInstance_def Let_def, rule refl, simp add: wired_def)
  subgoal by (intro exI conjI, rule ext, unfold SetupServiceAccount_def Let_def, rule refl, simp add: wired_def)
  subgoal by (intro exI conjI, rule ext, unfold SetupServiceAccountKey_def Let_def, rule refl, simp add: wired_def)
  subgoal by (intro exI conjI, rule ext, unfold SetupServiceAccountPolicy_def Let_def, rule refl, simp add: wired_def)
  subgoal by (intro exI conjI, rule ext, unfold SetupKeyRing_def Let_def, rule refl, simp add: wired_def)
  subgoal by (intro exI conjI, rule ext, unfold SetupCryptoKey_def Let_def, rule refl, simp add: wired_def)
  subgoal by (intro exI conjI, rule ext, unfold SetupCryptoKeyPolicy_def Let_def, rule refl, simp add: wired_def)
  subgoal by (intro exI conjI, rule ext, unfold SetupTopic_def Let_def, rule refl, simp add: wired_def)
  subgoal by (intro exI conjI, rule ext, unfold SetupConnection_def Let_def, rule refl, simp add: wired_def)
  subgoal by (intro exI conjI, rule ext, unfold SetupBucket_def Let_def, rule refl, simp add: wired_def)
  subgoal by (intro exI conjI, rule ext, unfold SetupBucketPolicy_def Let_def, rule refl, simp add: wired_def)
  subgoal by (intro exI conjI, rule ext, unfold SetupBucketPolicyMember_def Let_def, rule refl, simp add: wired_def)
  done

definition managed_rows :: "(SchemeBuilder \<times> connecter) list" where
  "managed_rows = [(cache_v1beta1_SchemeBuilder, cache_connecter),
     (compute_v1beta1_SchemeBuilder, compute_gaConnector),
     (compute_v1beta1_SchemeBuilder, compute_networkConnector),
     (compute_v1beta1_SchemeBuilder, compute_subnetworkConnector),
     (container_v1beta2_SchemeBuilder, container_clusterConnector),
     (container_v1beta1_SchemeBuilder, container_nodePoolConnector),
     (database_v1beta1_SchemeBuilder, database_cloudsqlConnector),
     (iam_v1alpha1_SchemeBuilder, iam_connecter),
     (iam_v1alpha1_SchemeBuilder, iam_serviceAccountKeyServiceConnector),
     (iam_v1alpha1_SchemeBuilder, iam_serviceAccountPolicyConnecter),
     (kms_v1alpha1_SchemeBuilder, kms_keyRingConnecter),
     (kms_v1alpha1_SchemeBuilder, kms_cryptoKeyConnecter),
     (kms_v1alpha1_SchemeBuilder, kms_cryptoKeyPolicyConnecter),
     (pubsub_v1alpha1_SchemeBuilder, pubsub_connector),
     (servicenetworking_v1beta1_SchemeBuilder, servicenetworking_connector),
     (storage_v1alpha3_SchemeBuilder, storage_connecter),
     (storage_v1alpha1_SchemeBuilder, storage_bucketPolicyConnecter),
     (storage_v1alpha1_SchemeBuilder, storage_bucketPolicyMemberConnecter)]"

lemma Setup_rows:
  "\<exists>cs. Setup fw l rl = run_setups (config_Setup fw l rl # map (Complete fw) cs)
    \<and> list_all2 (\<lambda>(b, conn) c. wired fw b conn c) managed_rows cs"
proof -
  have all: "list_all2 (\<lambda>(b, conn) s. \<exists>c. s = Complete fw c \<and> wired fw b conn c) managed_rows
      [SetupCloudMemorystoreInstance fw l rl, SetupGlobalAddress fw l rl, SetupNetwork fw l rl, SetupSubnetwork fw l rl, SetupCluster fw l rl, SetupNodePool fw l rl, SetupCloudSQLInstance fw l rl, SetupServiceAccount fw l rl, SetupServiceAccountKey fw l rl, SetupServiceAccountPolicy fw l rl, SetupKeyRing fw l rl, SetupCryptoKey fw l rl, SetupCryptoKeyPolicy fw l rl, SetupTopic fw l rl, SetupConnection fw l rl, SetupBucket fw l rl, SetupBucketPolicy fw l rl, SetupBucketPolicyMember fw l rl]" (is "list_all2 _ _ ?ss")
    by (simp add: managed_rows_def Setup_wired)
  have "\<exists>cs. ss = map (Complete fw) cs \<and> list_all2 (\<lambda>(b, conn) c. wired fw b conn c) rs cs"
    if "list_all2 (\<lambda>(b, conn) s. \<exists>c. s = Complete fw c \<and> wired fw b conn c) rs ss" for rs ss
    using that
  proof (induction rule: list_all2_induct)
    case (Cons r rs s ss)
    then obtain c cs where "s = Complete fw c" "(\<lambda>(b, conn) c. wired fw b conn c) r c" "ss = map (Complete fw) cs"
      "list_all2 (\<lambda>(b, conn) c. wired fw b conn c) rs cs" by (auto split: prod.splits)
    then show ?case by (intro exI [of _ "c # cs"]) simp
  qed simp
  from this [OF all] obtain cs where cs: "?ss = map (Complete fw) cs \<and> list_all2 (\<lambda>(b, conn) c. wired fw b conn c) managed_rows cs" ..
  have "Setup fw l rl = run_setups (config_Setup fw l rl # ?ss)" by (simp add: Setup_def)
  with cs show ?thesis by (intro exI [of _ cs]) simp
qed

lemma run_setups_complete:
  assumes ok: "builder_ok types ctls fw"
  shows "\<forall>c\<in>set cs. (\<exists>!g. (ctl_For c, g) \<in> types w) \<and> set (ctl_Watches c) \<subseteq> fst ` types w
      \<and> set (reconciled_kinds (ctl_Reconciler c)) \<subseteq> snd ` types w \<Longrightarrow> distinct (map ctl_Name (ctls w @ cs)) \<Longrightarrow>
    \<exists>w'. run_setups (map (Complete fw) cs) w = (w', None) \<and> ctls w' = ctls w @ cs \<and> types w' = types w"
proof (induction cs arbitrary: w)
  case (Cons c cs)
  have "(\<exists>!g. (ctl_For c, g) \<in> types w) \<and> set (ctl_Watches c) \<subseteq> fst ` types w
      \<and> set (reconciled_kinds (ctl_Reconciler c)) \<subseteq> snd ` types w" using Cons.prems(1) by simp
  moreover have "ctl_Name c \<notin> ctl_Name ` set (ctls w)" using Cons.prems(2) by auto
  ultimately obtain w1 where w1: "Complete fw c w = (w1, None)" "ctls w1 = ctls w @ [c]" "types w1 = types w"
    using ok unfolding builder_ok_def by blast
  have "\<exists>w'. run_setups (map (Complete fw) cs) w1 = (w', None) \<and> ctls w' = ctls w1 @ cs \<and> types w' = types w1"
    by (rule Cons.IH) (use Cons.prems in \<open>simp_all add: w1(2,3)\<close>)
  then show ?case using w1 by simp
qed simp

text \<open>Every controlled type is registered under the kind its reconciler is made for.\<close>

lemma managed_rows_registered:
  "\<forall>(b, conn)\<in>set managed_rows. (accepts conn, \<lparr>gvk_Group = gv_Group (SchemeGroupVersion b),
     gvk_Version = gv_Version (SchemeGroupVersion b), gvk_Kind = ty_Name (accepts conn)\<rparr>) \<in> set (concat (map entries scheme_builders))"
  by code_simp

lemma managed_names_distinct:
  "distinct (map (\<lambda>(b, conn). ToLower (ty_Name (accepts conn) @ ''.'' @ gv_Group (SchemeGroupVersion b))) managed_rows)"
  by code_simp

lemma managed_types_distinct: "distinct (map (\<lambda>(b, conn). accepts conn) managed_rows)"
  by code_simp

text \<open>Every registered type is a list, one of the two types that nobody reconciles, or has a controller.\<close>

lemma controlled_once: "distinct (go_type gcp_v1beta1 ''ProviderConfig'' # map (\<lambda>(b, conn). accepts conn) managed_rows)"
  using managed_types_distinct by (simp add: managed_rows_def)

lemma scheme_types_covered:
  "\<forall>(t, g)\<in>set (concat (map entries scheme_builders)). suffix ''List'' (ty_Name t)
     \<or> t \<in> {go_type gcp_v1alpha3 ''Provider'', go_type gcp_v1beta1 ''ProviderConfigUsage''}
     \<or> t \<in> insert (go_type gcp_v1beta1 ''ProviderConfig'') ((\<lambda>(b, conn). accepts conn) ` set managed_rows)"
  by code_simp

text \<open>The types behind the kinds of \<open>reference.To\<close>.\<close>

fun ref_type :: "ref_kind \<Rightarrow> gotype" where
  "ref_type ToKeyRing = go_type kms_v1alpha1 ''KeyRing''"
| "ref_type ToCryptoKey = go_type kms_v1alpha1 ''CryptoKey''"
| "ref_type ToServiceAccount = go_type iam_v1alpha1 ''ServiceAccount''"
| "ref_type ToNetwork = go_type compute_v1beta1 ''Network''"
| "ref_type ToSubnetwork = go_type compute_v1beta1 ''Subnetwork''"
| "ref_type ToGlobalAddress = go_type compute_v1beta1 ''GlobalAddress''"
| "ref_type ToBucket = go_type storage_v1alpha3 ''Bucket''"
| "ref_type ToCluster = go_type container_v1beta2 ''Cluster''"

fun list_type :: "gotype \<Rightarrow> gotype" where
  "list_type (go_type p n) = go_type p (n @ ''List'')"

lemma ref_types_listed:
  "\<forall>k\<in>set [ToKeyRing, ToCryptoKey, ToServiceAccount, ToNetwork, ToSubnetwork, ToGlobalAddress, ToBucket, ToCluster].
     \<forall>t\<in>set [ref_type k, list_type (ref_type k)]. t \<in> fst ` set (concat (map entries scheme_builders))"
  by code_simp

lemma ref_types_registered:
  "{ref_type k, list_type (ref_type k)} \<subseteq> fst ` set (concat (map entries scheme_builders))"
proof -
  have "k \<in> set [ToKeyRing, ToCryptoKey, ToServiceAccount, ToNetwork, ToSubnetwork, ToGlobalAddress, ToBucket, ToCluster]"
    by (cases k) simp_all
  from bspec [OF ref_types_listed this] show ?thesis unfolding list.set by blast
qed

text \<open>A registered type has one kind.\<close>

lemma unique_kind:
  "(t, g) \<in> set (concat (map entries scheme_builders)) \<Longrightarrow> \<exists>!g. (t, g) \<in> set (concat (map entries scheme_builders))"
  using scheme_types_distinct by (metis eq_key_imp_eq_value)

lemma config_registered:
  "(go_type gcp_v1beta1 ''ProviderConfig'', \<lparr>gvk_Group = ''gcp.crossplane.io'', gvk_Version = ''v1beta1'', gvk_Kind = ''ProviderConfig''\<rparr>)
     \<in> set (concat (map entries scheme_builders))"
  "(go_type gcp_v1beta1 ''ProviderConfigUsage'', \<lparr>gvk_Group = ''gcp.crossplane.io'', gvk_Version = ''v1beta1'', gvk_Kind = ''ProviderConfigUsage''\<rparr>)
     \<in> set (concat (map entries scheme_builders))"
  "(go_type gcp_v1beta1 ''ProviderConfigUsageList'', \<lparr>gvk_Group = ''gcp.crossplane.io'', gvk_Version = ''v1beta1'', gvk_Kind = ''ProviderConfigUsageList''\<rparr>)
     \<in> set (concat (map entries scheme_builders))"
  by (simp_all add: scheme_builders_def entries_def scheme_defs)

abbreviation scheme_set :: "(gotype \<times> GroupVersionKind) set" where
  "scheme_set \<equiv> set (concat (map entries scheme_builders))"

text \<open>A controller whose type and kinds are registered, and whose connecter is the one of its type.\<close>

definition controller_ok :: "(gotype \<times> GroupVersionKind) set \<Rightarrow> ('l, 'rl) controller \<Rightarrow> bool" where
  "controller_ok S c \<longleftrightarrow> (case ctl_Reconciler c of
       ManagedReconciler g opts \<Rightarrow> (ctl_For c, g) \<in> S \<and> (\<exists>conn. accepts conn = ctl_For c
         \<and> (\<forall>x. WithExternalConnecter x \<in> set opts \<longleftrightarrow> x = conn))
     | ConfigReconciler g u opts \<Rightarrow> (ctl_For c, g) \<in> S \<and> u \<in> snd ` S)"

lemma wired_ok:
  assumes "builder_ok types ctls fw" "scheme_ok types ctls fw" "(b, conn) \<in> set managed_rows" "wired fw b conn c"
  shows "(\<exists>!g. (ctl_For c, g) \<in> scheme_set)" "ctl_Watches c = []" "set (reconciled_kinds (ctl_Reconciler c)) \<subseteq> snd ` scheme_set"
    "controller_ok scheme_set c" "ctl_For c = accepts conn"
    "ctl_Name c = ''managed/'' @ ToLower (ty_Name (accepts conn) @ ''.'' @ gv_Group (SchemeGroupVersion b))"
proof -
  let ?g = "\<lparr>gvk_Group = gv_Group (SchemeGroupVersion b), gvk_Version = gv_Version (SchemeGroupVersion b), gvk_Kind = ty_Name (accepts conn)\<rparr>"
  have reg: "(accepts conn, ?g) \<in> scheme_set" using managed_rows_registered assms(3) by blast
  have kind: "kind_GroupVersionKind fw b k = \<lparr>gvk_Group = gv_Group (SchemeGroupVersion b), gvk_Version = gv_Version (SchemeGroupVersion b), gvk_Kind = k\<rparr>" for k
    using assms(2) by (simp add: kind_GroupVersionKind_def scheme_ok_def)
  obtain opts where w: "ctl_For c = accepts conn" "ctl_Watches c = []" "ctl_Reconciler c = ManagedReconciler ?g opts"
      "\<forall>x. WithExternalConnecter x \<in> set opts \<longleftrightarrow> x = conn" "ctl_Name c = managed_ControllerName fw (kind_GroupKind fw b (ty_Name (accepts conn)))"
    using assms(4) by (auto simp: wired_def kind)
  show "\<exists>!g. (ctl_For c, g) \<in> scheme_set" unfolding w(1) by (rule unique_kind [OF reg])
  show "set (reconciled_kinds (ctl_Reconciler c)) \<subseteq> snd ` scheme_set" using reg by (force simp: w(3))
  show "controller_ok scheme_set c" using reg w(4) by (auto simp: controller_ok_def w(1,3))
  show "ctl_Name c = ''managed/'' @ ToLower (ty_Name (accepts conn) @ ''.'' @ gv_Group (SchemeGroupVersion b))"
    using assms(1) by (simp add: w(5) builder_ok_def kind_GroupKind_def)
  show "ctl_Watches c = []" "ctl_For c = accepts conn" by (rule w(2), rule w(1))
qed

lemma config_ok:
  assumes "builder_ok types ctls fw" "scheme_ok types ctls fw"
  shows "\<exists>c. config_Setup fw l rl = Complete fw c \<and> ctl_For c = go_type gcp_v1beta1 ''ProviderConfig''
    \<and> set (ctl_Watches c) \<subseteq> fst ` scheme_set \<and> set (reconciled_kinds (ctl_Reconciler c)) \<subseteq> snd ` scheme_set
    \<and> controller_ok scheme_set c \<and> ctl_Name c = ''providerconfig/'' @ ToLower (kind_GroupKind fw gcp_v1beta1_SchemeBuilder ''ProviderConfig'')"
proof -
  let ?k = "\<lambda>k. \<lparr>gvk_Group = ''gcp.crossplane.io'', gvk_Version = ''v1beta1'', gvk_Kind = k\<rparr>"
  have kind: "kind_GroupVersionKind fw gcp_v1beta1_SchemeBuilder k = ?k k" for k
    using assms(2) by (simp add: kind_GroupVersionKind_def scheme_ok_def gcp_v1beta1_SchemeBuilder_def)
  have reg: "go_type gcp_v1beta1 ''ProviderConfigUsage'' \<in> fst ` scheme_set" "?k ''ProviderConfig'' \<in> snd ` scheme_set"
      "?k ''ProviderConfigUsageList'' \<in> snd ` scheme_set"
    by (rule rev_image_eqI [OF config_registered(2)], simp, rule rev_image_eqI [OF config_registered(1)], simp,
        rule rev_image_eqI [OF config_registered(3)], simp)
  show ?thesis
    apply (intro exI conjI)
         apply (rule ext, unfold config_Setup_def Let_def kind, rule refl)
    subgoal by simp
    subgoal using reg(1) by simp
    subgoal using reg(2,3) by simp
    subgoal using config_registered(1) reg(3) by (simp add: controller_ok_def del: set_concat set_map)
    subgoal using assms(1) by (simp add: builder_ok_def)
    done
qed

definition completable :: "('l, 'rl) controller \<Rightarrow> bool" where
  "completable c \<longleftrightarrow> (\<exists>!g. (ctl_For c, g) \<in> scheme_set) \<and> set (ctl_Watches c) \<subseteq> fst ` scheme_set
     \<and> set (reconciled_kinds (ctl_Reconciler c)) \<subseteq> snd ` scheme_set"

lemma rows_ok:
  assumes ok: "builder_ok types ctls fw" "scheme_ok types ctls fw"
    and rows: "list_all2 (\<lambda>(b, conn) c. wired fw b conn c) managed_rows cs"
  shows "\<forall>c\<in>set cs. completable c \<and> controller_ok scheme_set c"
    and "map ctl_Name cs = map (\<lambda>(b, conn). ''managed/'' @ ToLower (ty_Name (accepts conn) @ ''.'' @ gv_Group (SchemeGroupVersion b))) managed_rows"
    and "map ctl_For cs = map (\<lambda>(b, conn). accepts conn) managed_rows"
proof -
  have row: "wired fw (fst (managed_rows ! i)) (snd (managed_rows ! i)) (cs ! i)" "managed_rows ! i \<in> set managed_rows"
    if "i < length managed_rows" for i
    using list_all2_nthD [OF rows that] that by (simp_all add: split_beta)
  have member: "i < length managed_rows \<Longrightarrow> (fst (managed_rows ! i), snd (managed_rows ! i)) \<in> set managed_rows" for i
    using row(2) by simp
  have len: "length managed_rows = length cs" using rows by (rule list_all2_lengthD)
  show "\<forall>c\<in>set cs. completable c \<and> controller_ok scheme_set c"
  proof
    fix c assume "c \<in> set cs"
    then obtain i where i: "c = cs ! i" "i < length managed_rows" by (auto simp: in_set_conv_nth len)
    note w = wired_ok [OF ok member [OF i(2)] row(1) [OF i(2)], folded i(1)]
    show "completable c \<and> controller_ok scheme_set c" unfolding completable_def
      by (intro conjI, rule w(1), simp only: w(2) list.set(1) empty_subsetI, rule w(3), rule w(4))
  qed
  show "map ctl_Name cs = map (\<lambda>(b, conn). ''managed/'' @ ToLower (ty_Name (accepts conn) @ ''.'' @ gv_Group (SchemeGroupVersion b))) managed_rows"
    by (rule nth_equalityI) (simp_all add: len split_beta wired_ok(6) [OF ok member row(1)])
  show "map ctl_For cs = map (\<lambda>(b, conn). accepts conn) managed_rows"
    by (rule nth_equalityI) (simp_all add: len split_beta wired_ok(5) [OF ok member row(1)])
qed

text \<open>On a manager whose scheme has all the types, \<open>Setup\<close> adds all the controllers.\<close>

lemma Setup_adds_controllers:
  assumes ok: "builder_ok types ctls fw" "scheme_ok types ctls fw" and "types w = scheme_set" "ctls w = []"
  obtains w' where "Setup fw l rl w = (w', None)" "types w' = scheme_set" "distinct (map ctl_Name (ctls w'))"
    "\<forall>c\<in>set (ctls w'). controller_ok scheme_set c"
    "map ctl_For (ctls w') = go_type gcp_v1beta1 ''ProviderConfig'' # map (\<lambda>(b, conn). accepts conn) managed_rows"
proof -
  from config_ok [OF ok] obtain c0 where c0: "config_Setup fw l rl = Complete fw c0" "ctl_For c0 = go_type gcp_v1beta1 ''ProviderConfig''"
    "set (ctl_Watches c0) \<subseteq> fst ` scheme_set" "set (reconciled_kinds (ctl_Reconciler c0)) \<subseteq> snd ` scheme_set" "controller_ok scheme_set c0"
    "ctl_Name c0 = ''providerconfig/'' @ ToLower (kind_GroupKind fw gcp_v1beta1_SchemeBuilder ''ProviderConfig'')" by blast
  from Setup_rows obtain cs where cs: "Setup fw l rl = run_setups (config_Setup fw l rl # map (Complete fw) cs)
      \<and> list_all2 (\<lambda>(b, conn) c. wired fw b conn c) managed_rows cs" ..
  have eq: "Setup fw l rl w = run_setups (map (Complete fw) (c0 # cs)) w" using cs c0(1) by simp
  note r = rows_ok [OF ok conjunct2 [OF cs]]
  have "completable c0" unfolding completable_def
    by (intro conjI, subst c0(2), rule unique_kind [OF config_registered(1)], rule c0(3), rule c0(4))
  then have comp: "\<forall>c\<in>set (c0 # cs). completable c" using r(1) by simp
  have dist: "distinct (map ctl_Name (c0 # cs))"
  proof -
    have "distinct (map ctl_Name cs)" unfolding r(2) using managed_names_distinct by (simp add: distinct_map inj_on_def split_beta)
    moreover have "ctl_Name c0 \<notin> set (map ctl_Name cs)" unfolding r(2) c0(6) by auto
    ultimately show ?thesis by simp
  qed
  obtain w' where w': "run_setups (map (Complete fw) (c0 # cs)) w = (w', None)" "ctls w' = c0 # cs" "types w' = scheme_set"
    using run_setups_complete [OF ok(1), of "c0 # cs" w] comp dist unfolding completable_def assms(3,4) append_Nil by blast
  show thesis
  proof (rule that [of w'])
    show "\<forall>c\<in>set (ctls w'). controller_ok scheme_set c" using c0(5) r(1) unfolding w'(2) by simp
    show "map ctl_For (ctls w') = go_type gcp_v1beta1 ''ProviderConfig'' # map (\<lambda>(b, conn). accepts conn) managed_rows"
      using r(3) c0(2) by (simp add: w'(2))
    show "distinct (map ctl_Name (ctls w'))" unfolding w'(2) by (rule dist)
    show "Setup fw l rl w = (w', None)" "types w' = scheme_set" by (simp_all only: eq w')
  qed
qed

section \<open>Properties\<close>

text \<open>A framework that keeps the registered types and the controllers in lists.\<close>

definition sample_framework :: "((gotype \<times> GroupVersionKind) list \<times> (unit, unit) controller list, sample_error, unit, unit) framework" where
  "sample_framework = \<lparr>GroupKind_String = (\<lambda>gk. gk_Kind gk @ ''.'' @ gk_Group gk),
     GroupVersion_String = (\<lambda>gv. gv_Group gv @ ''/'' @ gv_Version gv),
     WithKind = (\<lambda>gv k. \<lparr>gvk_Group = gv_Group gv, gvk_Version = gv_Version gv, gvk_Kind = k\<rparr>),
     Builder_AddToScheme = (\<lambda>gv tys (ts, cs). ((ts @ map (\<lambda>t. (t, \<lparr>gvk_Group = gv_Group gv, gvk_Version = gv_Version gv, gvk_Kind = ty_Name t\<rparr>)) tys, cs), None)),
     SchemeBuilder_AddToScheme = run_setups,
     managed_ControllerName = (\<lambda>k. ''managed/'' @ ToLower k), providerconfig_ControllerName = (\<lambda>k. ''providerconfig/'' @ ToLower k),
     NewDefaultManagedRateLimiter = (\<lambda>rl. rl), NewDefaultProviderRateLimiter = (), WithValues = (\<lambda>l _ _. l),
     Complete = (\<lambda>c (ts, cs). if ctl_For c \<in> fst ` set ts then ((ts, cs @ [c]), None) else ((ts, cs), Some (New ''no kind is registered''))),
     ctrl_SetLogger = (\<lambda>w. w), ctrl_GetConfig = (\<lambda>w. (w, None)), ctrl_NewManager = (\<lambda>_ w. (w, None)), Start = (\<lambda>w. (w, None))\<rparr>"

lemma sample_framework_ok:
  "scheme_ok (\<lambda>w. set (fst w)) snd sample_framework" "builder_ok (\<lambda>w. set (fst w)) snd sample_framework"
proof -
  show "scheme_ok (\<lambda>w. set (fst w)) snd sample_framework"
    by (auto simp: scheme_ok_def sample_framework_def)
  show "builder_ok (\<lambda>w. set (fst w)) snd sample_framework"
    by (auto simp: builder_ok_def sample_framework_def) (metis fst_conv image_eqI)
qed

text \<open>C20: the program starts with every controller in place. If the API server configuration and the manager can be made,
  the type registrations succeed (no two types claim one kind), every \<open>Setup\<close> function succeeds, and the manager
  is started with the following state. Every registered type that is not a list has exactly one controller, apart from
  the deprecated \<open>Provider\<close> and from \<open>ProviderConfigUsage\<close>; the names of the controllers differ; each
  controller is for the type registered under the kind its reconciler is made for, and is given exactly one connecter, the
  one that accepts this type; and all types that references lead to are registered, with their lists.\<close>

theorem provider_starts_controllers:
  assumes ok: "builder_ok types ctls fw" "scheme_ok types ctls fw"
    and config: "ctrl_GetConfig fw (if flag_debug fl then ctrl_SetLogger fw w else w) = (w1, None)"
    and manager: "ctrl_NewManager fw \<lparr>LeaderElection = flag_leaderElection fl,
      LeaderElectionID = ''crossplane-leader-election-provider-gcp'', SyncPeriod = flag_syncPeriod fl\<rparr> w1 = (w2, None)"
    and empty: "types w2 = {}" "ctls w2 = []"
  shows "\<exists>w3. provider_main fw fl l w = FatalIfError (Start fw w3) ''Cannot start controller manager'' (\<lambda>w. (w, Returned))
    \<and> (\<forall>t g. (t, g) \<in> types w3 \<longrightarrow> suffix ''List'' (ty_Name t)
         \<or> t \<in> {go_type gcp_v1alpha3 ''Provider'', go_type gcp_v1beta1 ''ProviderConfigUsage''}
         \<or> (\<exists>!c. c \<in> set (ctls w3) \<and> ctl_For c = t))
    \<and> distinct (map ctl_Name (ctls w3)) \<and> (\<forall>c\<in>set (ctls w3). controller_ok (types w3) c)
    \<and> (\<forall>k. {ref_type k, list_type (ref_type k)} \<subseteq> fst ` types w3)"
proof -
  obtain wa where wa: "AddToScheme fw w2 = (wa, None)" "types wa = scheme_set" "ctls wa = []"
    using AddToScheme_registers [OF ok(2) empty(1)] empty(2) by metis
  obtain w3 where w3: "Setup fw l (NewDefaultProviderRateLimiter fw) wa = (w3, None)" "types w3 = scheme_set" "distinct (map ctl_Name (ctls w3))"
      "\<forall>c\<in>set (ctls w3). controller_ok scheme_set c"
      "map ctl_For (ctls w3) = go_type gcp_v1beta1 ''ProviderConfig'' # map (\<lambda>(b, conn). accepts conn) managed_rows"
    using Setup_adds_controllers [OF ok wa(2,3)] by metis
  have "provider_main fw fl l w = FatalIfError (Start fw w3) ''Cannot start controller manager'' (\<lambda>w. (w, Returned))"
    using config manager wa(1) w3(1) by (simp add: provider_main_def FatalIfError_def)
  moreover have "suffix ''List'' (ty_Name t) \<or> t \<in> {go_type gcp_v1alpha3 ''Provider'', go_type gcp_v1beta1 ''ProviderConfigUsage''}
      \<or> (\<exists>!c. c \<in> set (ctls w3) \<and> ctl_For c = t)" if "(t, g) \<in> scheme_set" for t g
  proof -
    have one: "\<exists>!c. c \<in> set (ctls w3) \<and> ctl_For c = t" if "t \<in> set (map ctl_For (ctls w3))"
      using that controlled_once by (auto simp: w3(5) [symmetric] distinct_map inj_on_def)
    have "set (map ctl_For (ctls w3)) = insert (go_type gcp_v1beta1 ''ProviderConfig'') ((\<lambda>(b, conn). accepts conn) ` set managed_rows)"
      by (simp only: w3(5) list.set set_map)
    with one bspec [OF scheme_types_covered that] show ?thesis unfolding prod.case by blast
  qed
  ultimately show ?thesis using w3(2-4) ref_types_registered by (intro exI [of _ w3]) (simp only: simp_thms, blast)
qed

text \<open>Witness of C20: with the sample framework the program starts, and networks have exactly one controller.\<close>

theorem provider_starts_controllers_witness:
  "\<exists>w3. provider_main sample_framework \<lparr>flag_debug = True, flag_syncPeriod = 3600000000000, flag_leaderElection = False\<rparr> () ([], []) = (w3, Returned)
    \<and> (\<exists>!c. c \<in> set (snd w3) \<and> ctl_For c = go_type compute_v1beta1 ''Network'')"
proof -
  let ?fl = "\<lparr>flag_debug = True, flag_syncPeriod = 3600000000000, flag_leaderElection = False\<rparr>"
  obtain w3 where w3: "provider_main sample_framework ?fl () ([], []) = FatalIfError (Start sample_framework w3) ''Cannot start controller manager'' (\<lambda>w. (w, Returned))"
      "\<forall>t g. (t, g) \<in> set (fst w3) \<longrightarrow> suffix ''List'' (ty_Name t)
         \<or> t \<in> {go_type gcp_v1alpha3 ''Provider'', go_type gcp_v1beta1 ''ProviderConfigUsage''}
         \<or> (\<exists>!c. c \<in> set (snd w3) \<and> ctl_For c = t)"
      "\<forall>k. {ref_type k, list_type (ref_type k)} \<subseteq> fst ` set (fst w3)"
    using provider_starts_controllers [OF sample_framework_ok(2,1), of ?fl "([], [])" "([], [])" "([], [])" "()"]
    by (auto simp: sample_framework_def)
  from spec [OF w3(3), of ToNetwork] obtain g where "(go_type compute_v1beta1 ''Network'', g) \<in> set (fst w3)" by auto
  with w3(2) have "suffix ''List'' ''Network'' \<or> (\<exists>!c. c \<in> set (snd w3) \<and> ctl_For c = go_type compute_v1beta1 ''Network'')" by fastforce
  moreover have "\<not> suffix ''List'' ''Network''" by (simp add: suffix_to_prefix)
  moreover have "provider_main sample_framework ?fl () ([], []) = (w3, Returned)"
    unfolding w3(1) by (simp add: FatalIfError_def sample_framework_def)
  ultimately show ?thesis by blast
qed

end
