(* ===== verification/Spec2Isabelle.thy ===== *)
theory Spec2Isabelle
  imports Policy_Controllers Policy_Concurrency Compute_Network Compute_Subnetwork Compute_Address Service_Connection
    Cloud_SQL_Correct Storage_Bucket_Correct
    Kms_Correct PubSub_Topic Memorystore Gke_NodePool_Correct Gke_Cluster_Correct References Provider_Wiring
begin

text \<open>
  A verification development for the Crossplane provider of the Google Cloud Platform.

  \<^bold>\<open>The program.\<close> The provider runs one controller for each kind of custom resource. A controller is called by the
  reconciler of \<^verbatim>\<open>crossplane-runtime\<close>, which has resolved the references of the resource to other resources. It
  connects to a Google API with the credentials of a provider configuration (\<open>Connect\<close>), compares the resource with what
  the API reports and fills unset fields of its spec from there (\<open>Observe\<close>), and, as needed, creates, updates or
  deletes the external resource (\<open>Create\<close>, \<open>Update\<close>, \<open>Delete\<close>). The sources are in three layers, which call each other in this
  order: \<^verbatim>\<open>src/pkg/controller\<close> (the five operations), \<^verbatim>\<open>src/pkg/clients\<close> (pure translations between spec and API:
  \<open>Generate*\<close>, \<open>LateInitializeSpec\<close>, \<open>GenerateObservation\<close>, \<open>IsUpToDate\<close>) and \<^verbatim>\<open>src/apis\<close> (the types, the conversions of
  the bucket attributes, and \<open>ResolveReferences\<close>). \<^verbatim>\<open>src/cmd/provider/main.go\<close> registers the types and sets up the
  controllers.

  \<^bold>\<open>How Go is written in HOL\<close> (theory \<open>Go_Prelude\<close>). A struct is a record with the fields of the source, prefixed to keep
  them apart; a pointer is an option; a slice is \<open>'a slice\<close>, where \<open>None\<close> is nil; a map is a finite map or nil; \<open>int64\<close> is
  a 64-bit word; a string is a list of characters. A function that changes its argument returns the new value. A
  function that may panic returns an option, with \<open>None\<close> for the panic; an error is an optional value of a type \<open>'e\<close>. An
  operation of a controller takes the state \<open>'w\<close> of the outside world and returns it with the resource as it is left
  behind, the result and the error (\<open>outcome\<close>). Code that is not in the repository is a parameter: the Google
  APIs and the Kubernetes client are fields of the record of the controller (\<open>networkExternal\<close>, \<open>clusterExternal\<close> and so
  on, after the Go type of that name), the error functions are \<open>'e runtime\<close>, each call of \<open>cmp.Equal\<close> is a comparer, and
  a deep copy by \<open>copystructure\<close> is a copier. What the program relies on is a named predicate: \<open>wrap_ok\<close>, \<open>ignore_ok\<close>, \<open>copy_ok\<close>,
  \<open>cmp_exact\<close>, \<open>cmp_respects\<close>, \<open>kube_echo\<close>, \<open>resolver_ok\<close>, \<open>etag_service\<close>, \<open>scheme_ok\<close>, \<open>builder_ok\<close>, and for the services predicates such as
  \<open>cl_service_ok\<close>. The witnesses instantiate them with concrete functions.

  \<^bold>\<open>Contracts.\<close> The interfaces that several components share are locales, and each is interpreted on the definitions that
  model the code.
  \<^item> \<open>settling_initializer\<close> and \<open>late_initializer\<close> (\<open>Go_Prelude\<close>): late initialisation keeps what is set and a second run
    changes nothing; then a sequence of observations updates the resource at most once. Interpreted for networks,
    subnetworks, addresses, Cloud SQL, Memorystore, topics, node pools and clusters, the weaker one for crypto keys.
  \<^item> \<open>desired_state\<close> (\<open>Go_Prelude\<close>): generating the desired state over an observed one is idempotent, so that a resource to
    which it has been applied matches. Interpreted for networks, subnetworks, addresses, crypto keys, Memorystore and
    node pools.
  \<^item> \<open>grant_table\<close> and \<open>policy_client\<close> (\<open>Iam_Policy\<close>), \<open>policy_controller\<close> (\<open>Policy_Controllers\<close>): binding and unbinding refine
    insertion into and deletion from a set of grants; a generated policy has the content of the spec; the controllers of
    the three kinds of policy share their proofs of convergence.
  \<^item> \<open>staged_update\<close> (\<open>Staged_Updates\<close>): updates that settle one aspect at a time come to an end. Interpreted for the 3
    stages of node pools and the 22 stages of clusters.
  \<^item> \<open>reference_field\<close> (\<open>References\<close>): a resource with one reference to another.

  \<^bold>\<open>Components.\<close>
  \<^item> \<open>Gcp_Client\<close>: \<^verbatim>\<open>pkg/clients/gcp.go\<close>. \<open>GetAuthInfo\<close> never panics and gives credentials or an error; the comparison of compute
    URLs is reflexive and symmetric, not transitive, and equates whatever has the same last segment.
  \<^item> \<open>Go_Encoding\<close>: what is used of \<open>strconv\<close>, \<open>encoding/base64\<close>, \<open>time\<close> (RFC 3339) and \<open>net/url\<close>, with the round trip of base64
    that the connection details need.
  \<^item> \<open>Iam_Policy\<close>, \<open>Policy_Controllers\<close>: \<^verbatim>\<open>apis/iam/v1alpha1/policy.go\<close>, the clients \<^verbatim>\<open>bucketpolicy\<close>, \<^verbatim>\<open>cryptokeypolicy\<close>,
    \<^verbatim>\<open>serviceaccountpolicy\<close> and the controllers of policies and policy members. Any interleaving of member operations
    refines operations on a set of grants; a created or updated policy is observed up to date; an up-to-date policy grants
    what the spec says.
  \<^item> \<open>Policy_Concurrency\<close>: the handlers of bucket policy members run at the same time, as an inductive relation on the states that
    the bucket goes through. Thanks to the etag no grant is lost.
  \<^item> \<open>Iam_Accounts\<close>: service accounts and their keys. What an update writes and erases; a created key is addressable by the
    identifier that is stored.
  \<^item> \<open>Kms\<close>, \<open>Kms_Correct\<close>: key rings and crypto keys. The update mask, convergence of updates, the panics of \<open>IsUpToDate\<close>, and the
    overwritten labels.
  \<^item> \<open>Compute_Network\<close>, \<open>Compute_Subnetwork\<close>, \<open>Compute_Address\<close>: VPC resources. An existing resource is adopted without a change,
    observations settle, generation inverts late initialisation, and when \<open>Update\<close> of a subnetwork panics.
  \<^item> \<open>Service_Connection\<close>: peering connections. What \<open>Observe\<close> reports, with the comparison of ranges up to order.
  \<^item> \<open>Cloud_SQL\<close>, \<open>Cloud_SQL_Correct\<close>: adoption, the contract of late initialisation, the password, and the endpoint in the
    connection secret.
  \<^item> \<open>Storage_Bucket\<close>, \<open>Storage_Bucket_Correct\<close>: \<^verbatim>\<open>apis/storage/v1alpha3/types.go\<close> and the bucket controller. The conversions are
    inverse up to an explicit normal form; labels after an update; the range in which the retention period is exact.
  \<^item> \<open>PubSub_Topic\<close>, \<open>Memorystore\<close>: topics and Redis instances, with what an update achieves and what an observation reports.
  \<^item> \<open>Gke_NodePool\<close>, \<open>Gke_NodePool_Correct\<close>: node pools. The staged updates end with the pool up to date; the version that is set back
    although it is ignored by the comparison.
  \<^item> \<open>Gke_Cluster_Types\<close>, \<open>Gke_Cluster\<close>, \<open>Gke_Cluster_Control\<close> (model), \<open>Gke_Cluster_Late\<close>, \<open>Gke_Cluster_Stages\<close>, \<open>Gke_Cluster_Converge\<close>,
    \<open>Gke_Cluster_Correct\<close> (proofs): clusters. \<open>IsUpToDate\<close> finds the first aspect that differs in a table of 22; the updates
    come to an end; exactly when \<open>Observe\<close> panics; what late initialisation keeps; the bootstrap node pool; the kubeconfig.
  \<^item> \<open>References\<close>: every \<^verbatim>\<open>referencers.go\<close>. A resolved reference leads to an existing resource of the right kind and stores the
    value that this resource reports. This theory connects it with the names that the node pool controller uses.
  \<^item> \<open>Provider_Wiring\<close>: every \<^verbatim>\<open>register.go\<close>, \<^verbatim>\<open>apis/gcp.go\<close>, the \<open>Setup\<close> functions and \<^verbatim>\<open>main.go\<close>. The program starts with one
    controller for each managed kind, made for the kind it is registered under and with the connecter that accepts it.

  \<^bold>\<open>Bounds.\<close> All loops of the program are over finite lists and are structural recursions; \<open>ReplaceAll\<close> and \<open>decimal\<close> have
  termination proofs. Fuel occurs in one place: the search of the binary exponent in \<open>float64\<close> (\<open>Storage_Bucket\<close>) has 1074
  steps, which covers every exponent of a double. The convergence theorems count rounds of
  \<open>Update\<close>: 3 for node pools and 22 for clusters, the number of stages, since every round settles one.
  Integers keep their width where it matters (\<open>retention_period_exact\<close> gives the first value that wraps around).

  \<^bold>\<open>Not modelled.\<close>
  \<^item> The generated files \<^verbatim>\<open>zz_generated.*.go\<close>. Resources are values here, on which \<open>DeepCopy\<close> is the identity, and the
    accessors are the fields of the record \<open>managed\<close>; a fault of aliasing inside a generated copy is out of reach.
  \<^item> The reconciler, the reference resolver, the scheme and the builder of the libraries, the Google clients and the
    services behind them: parameters with the documented behaviour as hypotheses. Contexts and cancellation are left
    out with them, as are the fields of the API structs that carry HTTP response data.
  \<^item> The list types and the types \<open>ProviderConfigUsage\<close>, \<open>ProviderConfigStatus\<close>: no function of the program reads them.
  \<^item> Flag parsing and the construction of the logger in \<open>main\<close>, tests, the CRD manifests and the build files.
  \<^item> Conditions are the list of those that were set; how they are merged into the status is code of \<^verbatim>\<open>crossplane-runtime\<close>.
\<close>

section \<open>Properties that span components\<close>

text \<open>A node pool in the cluster that the resource \<open>cluster\<close> names.\<close>

definition pool_of_sample_cluster :: NodePool where
  "pool_of_sample_cluster = sample_pool_cr\<lparr>ForProvider := sample_pool_params\<lparr>npp_Cluster := '''', npp_ClusterRef := Some ''cluster''\<rparr>\<rparr>"

definition linked_sample_cluster :: Cluster where
  "linked_sample_cluster = sample_cluster_cr\<lparr>AtProvider := (AtProvider sample_cluster_cr)\<lparr>cob_SelfLink :=
     ''https://container.googleapis.com/v1/projects/p/zones/us/clusters/c''\<rparr>\<rparr>"



end
